theory Spec2Isabelle
  imports Main
begin

unbundle bit_operations_syntax

section \<open>The keycode registry and codec of keycodes/keycodes.py\<close>

text \<open>
  Python strings are modelled as \<^typ>\<open>string\<close>, the list of the bytes of their UTF-8
  encoding. The string operations the module uses (\<open>replace\<close>, \<open>find\<close>, \<open>in\<close>,
  \<open>endswith\<close>, \<open>isascii\<close>) are applied with ASCII patterns only, and the slices
  \<open>s[:i]\<close> and \<open>s[i + 1:]\<close> are taken at the position \<open>i\<close> of an ASCII character, for
  which the byte-wise and the code-point-wise reading agree: \<open>find\<close> counts bytes here and
  code points in Python, and both slices cut the string at the same place. The slice
  \<open>s[i + 1:-1]\<close> of \<open>find_inner_keycode\<close> drops the last code point of the string, which
  may be several bytes long; \<open>drop_last_char\<close> below removes that whole code point.
  Python integers are \<^typ>\<open>int\<close>; \<open>&\<close> is \<open>AND\<close> on \<^typ>\<open>int\<close>.
\<close>

subsection \<open>String primitives\<close>

fun startswith :: "string \<Rightarrow> string \<Rightarrow> bool" where
  "startswith s [] = True"
| "startswith [] (p # ps) = False"
| "startswith (c # cs) (p # ps) = (c = p \<and> startswith cs ps)"

definition endswith :: "string \<Rightarrow> string \<Rightarrow> bool" where
  "endswith s suffix = startswith (rev s) (rev suffix)"

text \<open>\<open>s.replace(old, new)\<close>: every non-overlapping occurrence, scanning from the left.\<close>

function replace :: "string \<Rightarrow> string \<Rightarrow> string \<Rightarrow> string" where
  "replace [] old new = (if old = [] then new else [])"
| "replace (c # cs) old new =
     (if old = [] then new @ c # replace cs old new
      else if startswith (c # cs) old then new @ replace (drop (length old) (c # cs)) old new
      else c # replace cs old new)"
  by pat_completeness auto
termination
  by (relation "measure (\<lambda>(s, old, new). length s)") auto

text \<open>\<open>s.find(sub)\<close>: the index of the first occurrence, or \<open>-1\<close>.\<close>

fun find_from :: "string \<Rightarrow> string \<Rightarrow> nat \<Rightarrow> int" where
  "find_from [] sub i = (if sub = [] then int i else - 1)"
| "find_from (c # cs) sub i = (if startswith (c # cs) sub then int i else find_from cs sub (Suc i))"

definition str_find :: "string \<Rightarrow> string \<Rightarrow> int" where
  "str_find s sub = find_from s sub 0"

definition contains :: "string \<Rightarrow> string \<Rightarrow> bool" where
  \<comment> \<open>\<open>sub in s\<close>\<close>
  "contains s sub = (0 \<le> str_find s sub)"

text \<open>\<open>s[i:j]\<close> with Python's reading of negative and out-of-range bounds.\<close>

definition slice_bound :: "nat \<Rightarrow> int \<Rightarrow> nat" where
  "slice_bound n i = (if i < 0 then nat (max 0 (int n + i)) else min n (nat i))"

definition slice :: "string \<Rightarrow> int \<Rightarrow> int \<Rightarrow> string" where
  "slice s i j = drop (slice_bound (length s) i) (take (slice_bound (length s) j) s)"

text \<open>
  \<open>s[:-1]\<close>: the string without its last code point. In UTF-8 the bytes \<open>0x80\<close> to
  \<open>0xBF\<close> continue a code point and every other byte starts one, so the last code point
  is the last byte that is no continuation byte, with the continuation bytes after it.
\<close>

definition is_continuation :: "char \<Rightarrow> bool" where
  "is_continuation c = (128 \<le> (of_char c :: nat) \<and> (of_char c :: nat) < 192)"

definition drop_last_char :: "string \<Rightarrow> string" where
  "drop_last_char s = rev (tl (dropWhile is_continuation (rev s)))"

definition isascii :: "string \<Rightarrow> bool" where
  "isascii s = list_all (\<lambda>c. (of_char c :: nat) < 128) s"

definition digit_char :: "nat \<Rightarrow> char" where
  "digit_char d = ''0123456789abcdef'' ! d"

text \<open>\<open>"{}".format(n)\<close> for a non-negative integer: its decimal digits.\<close>

function str_nat :: "nat \<Rightarrow> string" where
  "str_nat n = (if n < 10 then [digit_char n] else str_nat (n div 10) @ [digit_char (n mod 10)])"
  by pat_completeness auto
termination
  by (relation "measure (\<lambda>n. n)") auto

declare str_nat.simps [simp del]

definition format_02 :: "nat \<Rightarrow> string" where
  \<comment> \<open>\<open>"{:02}".format(n)\<close>: at least two digits, padded with zeros\<close>
  "format_02 n = (if n < 10 then ''0'' @ str_nat n else str_nat n)"




subsection \<open>Descriptors, errors and what the module takes from outside\<close>

text \<open>An instance of class \<open>Keycode\<close> with the attributes \<open>__init__\<close> sets.\<close>

record keycode =
  qmk_id :: string
  label :: string
  tooltip :: "string option"
  masked :: bool
  printable :: "string option"
  alias_ids :: "string list"

text \<open>
  The arguments of one call \<open>K(qmk_id, label, tooltip=None, masked=False, printable=None,
  recorder_alias=None, alias=None)\<close>. In the module \<open>K\<close> is the class itself, so that writing
  the call runs the constructor; here \<open>K\<close> only records the arguments, in the order of the
  signature, and \<open>construct\<close> below runs the constructor on them.
\<close>

record kargs =
  a_qmk_id :: string
  a_label :: string
  a_tooltip :: "string option"
  a_masked :: bool
  a_printable :: "string option"
  a_recorder_alias :: "string list option"
  a_alias :: "string list option"

definition K :: "string \<Rightarrow> string \<Rightarrow> string option \<Rightarrow> bool \<Rightarrow> string option \<Rightarrow>
    string list option \<Rightarrow> string list option \<Rightarrow> kargs" where
  "K i l t m p r a = \<lparr>a_qmk_id = i, a_label = l, a_tooltip = t, a_masked = m, a_printable = p,
      a_recorder_alias = r, a_alias = a\<rparr>"

datatype error =
    Misconfigured string
      \<comment> \<open>\<open>RuntimeError("Misconfigured: two keycodes claim the same alias ...")\<close>\<close>
  | UnableToResolve string
      \<comment> \<open>\<open>RuntimeError("unable to resolve qmk_id=...")\<close>\<close>
  | AssertionError
  | DecodeError string
      \<comment> \<open>an exception raised by the expression fallback\<close>

text \<open>
  What keycodes.py imports and the sources do not contain: the two protocol tables
  \<open>keycodes_v5\<close> and \<open>keycodes_v6\<close> (each a dictionary \<open>kc\<close> and a set \<open>masked\<close>), the
  method \<open>AnyKeycode().decode\<close> of module \<open>any_keycode\<close>, and \<open>sys.platform\<close>. They are
  parameters of the model.

  Modelled from the spec: the Expression Fallback \<open>AnyKeycode().decode\<close> is missing from the
  sources; the spec gives its call contract only ("called with the raw input text; returns
  an integer or fails"), so it is a function from the text to an error or an integer.
\<close>

record env =
  kc_v5 :: "string \<rightharpoonup> int"
  masked_v5 :: "int set"
  kc_v6 :: "string \<rightharpoonup> int"
  masked_v6 :: "int set"
  anykc_decode :: "string \<Rightarrow> error + int"
  platform :: string

text \<open>
  The class attributes of \<open>Keycode\<close> and the module's global lists and dictionaries that are
  assigned or mutated after the import. The lists built once at import
  (\<open>KEYCODES_SPECIAL\<close>, \<open>KEYCODES_BASIC\<close>, ...) are never mutated afterwards and are constants
  below.
\<close>

record state =
  masked_keycodes :: "string set"
  recorder_alias_to_keycode :: "string \<rightharpoonup> keycode"
  qmk_id_to_keycode :: "string \<rightharpoonup> keycode"
  protocol :: int
  KEYCODES_LAYERS :: "keycode list"
  KEYCODES_TAP_DANCE :: "keycode list"
  KEYCODES_USER :: "keycode list"
  KEYCODES_MACRO :: "keycode list"
  KEYCODES_MIDI :: "keycode list"
  KEYCODES :: "keycode list"
  KEYCODES_MAP :: "string \<rightharpoonup> keycode"
  RAWCODES_MAP :: "int \<rightharpoonup> keycode"

text \<open>
  A statement that may raise returns the error or its result together with the state
  it leaves behind: an exception does not undo the mutations made before it.
\<close>

type_synonym 'a action = "state \<Rightarrow> (error + 'a) \<times> state"

definition returnM :: "'a \<Rightarrow> 'a action" where
  "returnM x s = (Inr x, s)"

definition bindM :: "'a action \<Rightarrow> ('a \<Rightarrow> 'b action) \<Rightarrow> 'b action" where
  "bindM m f s = (case m s of (Inl e, s') \<Rightarrow> (Inl e, s') | (Inr x, s') \<Rightarrow> f x s')"

definition modify :: "(state \<Rightarrow> state) \<Rightarrow> unit action" where
  "modify f s = (Inr (), f s)"

subsection \<open>Class \<open>Keycode\<close>\<close>

text \<open>The object \<open>__init__\<close> builds from its arguments.\<close>

definition mk_keycode :: "env \<Rightarrow> kargs \<Rightarrow> keycode" where
  "mk_keycode env a =
     \<lparr>qmk_id = a_qmk_id a,
      label = (if platform env = ''emscripten'' \<and> \<not> isascii (a_label a) \<and> a_qmk_id a \<noteq> ''KC_TRNS''
               then replace (a_qmk_id a) ''KC_'' '''' else a_label a),
      tooltip = a_tooltip a,
      masked = a_masked a,
      printable = a_printable a,
      alias_ids = a_qmk_id a # (case a_alias a of None \<Rightarrow> [] | Some al \<Rightarrow> al)\<rparr>"

text \<open>The loop over \<open>recorder_alias\<close>: the first alias already claimed raises.\<close>

fun claim_recorder_aliases :: "keycode \<Rightarrow> string list \<Rightarrow> unit action" where
  "claim_recorder_aliases self [] s = (Inr (), s)"
| "claim_recorder_aliases self (a # as) s =
     (if recorder_alias_to_keycode s a \<noteq> None then (Inl (Misconfigured a), s)
      else claim_recorder_aliases self as
             (s\<lparr>recorder_alias_to_keycode := (recorder_alias_to_keycode s)(a \<mapsto> self)\<rparr>))"

text \<open>
  \<open>Keycode.__init__\<close>. The dictionaries hold the object by reference; since no attribute
  is assigned after \<open>__init__\<close> returns, the model stores the finished object.
\<close>

definition Keycode_init :: "env \<Rightarrow> kargs \<Rightarrow> keycode action" where
  "Keycode_init env a =
     (let self = mk_keycode env a in
      bindM (modify (\<lambda>s. s\<lparr>qmk_id_to_keycode := (qmk_id_to_keycode s)(a_qmk_id a \<mapsto> self)\<rparr>)) (\<lambda>_.
      bindM (case a_recorder_alias a of None \<Rightarrow> returnM ()
             | Some ras \<Rightarrow> claim_recorder_aliases self ras) (\<lambda>_.
      bindM (if a_masked a then
               (if endswith (a_qmk_id a) ''(kc)''
                then modify (\<lambda>s. s\<lparr>masked_keycodes :=
                       insert (replace (a_qmk_id a) ''(kc)'' '''') (masked_keycodes s)\<rparr>)
                else (\<lambda>s. (Inl AssertionError, s)))
             else returnM ()) (\<lambda>_.
      returnM self))))"

text \<open>A list display \<open>[K(...), K(...), ...]\<close>: the constructor calls run from left to right.\<close>

fun construct :: "env \<Rightarrow> kargs list \<Rightarrow> keycode list action" where
  "construct env [] = returnM []"
| "construct env (a # as) =
     bindM (Keycode_init env a) (\<lambda>k. bindM (construct env as) (\<lambda>ks. returnM (k # ks)))"

text \<open>A loop \<open>for ...: LIST.append(Keycode(...))\<close>, \<open>app\<close> being the append to the list.\<close>

fun construct_into :: "env \<Rightarrow> (keycode \<Rightarrow> state \<Rightarrow> state) \<Rightarrow> kargs list \<Rightarrow> unit action" where
  "construct_into env app [] = returnM ()"
| "construct_into env app (a # as) =
     bindM (Keycode_init env a) (\<lambda>k. bindM (modify (app k)) (\<lambda>_. construct_into env app as))"

definition kc_table :: "env \<Rightarrow> state \<Rightarrow> (string \<rightharpoonup> int)" where
  "kc_table env s = (if protocol s = 6 then kc_v6 env else kc_v5 env)"

definition masked_table :: "env \<Rightarrow> state \<Rightarrow> int set" where
  "masked_table env s = (if protocol s = 6 then masked_v6 env else masked_v5 env)"

definition find_keycode :: "state \<Rightarrow> string \<Rightarrow> keycode option" where
  \<comment> \<open>\<open>Keycode.find\<close>\<close>
  "find_keycode s i = KEYCODES_MAP s (if i = ''kc'' then ''KC_NO'' else i)"

definition is_mask :: "state \<Rightarrow> string \<Rightarrow> bool" where
  "is_mask s i = (contains i ''('' \<and> slice i 0 (str_find i ''('') \<in> masked_keycodes s)"

definition find_outer_keycode :: "state \<Rightarrow> string \<Rightarrow> keycode option" where
  "find_outer_keycode s i =
     find_keycode s (if is_mask s i then slice i 0 (str_find i ''('') else i)"

definition find_inner_keycode :: "state \<Rightarrow> string \<Rightarrow> keycode option" where
  "find_inner_keycode s i =
     find_keycode s
       (if is_mask s i then drop_last_char (drop (nat (str_find i ''('' + 1)) i) else i)"

definition find_by_recorder_alias :: "state \<Rightarrow> string \<Rightarrow> keycode option" where
  "find_by_recorder_alias s a = recorder_alias_to_keycode s a"

definition find_by_qmk_id :: "state \<Rightarrow> string \<Rightarrow> keycode option" where
  "find_by_qmk_id s i = qmk_id_to_keycode s i"

definition Keycode_label :: "state \<Rightarrow> string \<Rightarrow> string" where
  \<comment> \<open>\<open>Keycode.label\<close>\<close>
  "Keycode_label s i = (case find_outer_keycode s i of None \<Rightarrow> i | Some k \<Rightarrow> label k)"

definition Keycode_tooltip :: "state \<Rightarrow> string \<Rightarrow> string option" where
  \<comment> \<open>\<open>Keycode.tooltip\<close>\<close>
  "Keycode_tooltip s i =
     (case find_outer_keycode s i of None \<Rightarrow> None
      | Some k \<Rightarrow> (case tooltip k of None \<Rightarrow> Some (qmk_id k)
                   | Some t \<Rightarrow> if t = [] then Some (qmk_id k) else Some (qmk_id k @ '': '' @ t)))"


definition resolve :: "env \<Rightarrow> state \<Rightarrow> string \<Rightarrow> error + int" where
  "resolve env s qmk_constant =
     (case kc_table env s qmk_constant of
        None \<Rightarrow> Inl (UnableToResolve qmk_constant)
      | Some v \<Rightarrow> Inr v)"

text \<open>The argument of \<open>deserialize\<close> is an integer or a string.\<close>

datatype pyval = PyInt int | PyStr string

definition deserialize :: "env \<Rightarrow> state \<Rightarrow> pyval \<Rightarrow> bool \<Rightarrow> error + int" where
  "deserialize env s val reraise =
     (case val of
        PyInt i \<Rightarrow> Inr i
      | PyStr v \<Rightarrow>
          (case qmk_id_to_keycode s v of
             Some k \<Rightarrow> resolve env s (qmk_id k)
           | None \<Rightarrow>
               (case anykc_decode env v of
                  Inr r \<Rightarrow> Inr r
                | Inl e \<Rightarrow> if reraise then Inl e else Inr 0)))"

definition is_basic :: "env \<Rightarrow> state \<Rightarrow> string \<Rightarrow> error + bool" where
  "is_basic env s i =
     (case deserialize env s (PyStr i) False of Inl e \<Rightarrow> Inl e | Inr v \<Rightarrow> Inr (v < 0x00FF))"


subsection \<open>The lists built at import\<close>

text \<open>
  The constructor arguments of the static lists follow, in the order of the module.
  Line 434 of keycodes.py, \<open>K("MAGIC_UNNO_GUI", ...)\<close>, lacks the closing quote of its
  tooltip; the entry is read with the quote in place (tooltip, then \<open>alias=["GUI_ON"]\<close>),
  as the entries around it are written.
\<close>

definition KEYCODES_SPECIAL_args :: "kargs list" where
  "KEYCODES_SPECIAL_args = [
    K ''KC_NO'' '''' None False None None None,
    K ''KC_TRNS'' [CHR 0xE2, CHR 0x96, CHR 0xBD] None False None None (Some [''KC_TRANSPARENT''])]"

definition KEYCODES_BASIC_NUMPAD_args :: "kargs list" where
  "KEYCODES_BASIC_NUMPAD_args = [
    K ''KC_NUMLOCK'' ''Num\<newline>Lock'' None False None (Some [''num lock'']) (Some [''KC_NLCK'']),
    K ''KC_KP_SLASH'' ''/'' None False None None (Some [''KC_PSLS'']),
    K ''KC_KP_ASTERISK'' ''*'' None False None None (Some [''KC_PAST'']),
    K ''KC_KP_MINUS'' ''-'' None False None None (Some [''KC_PMNS'']),
    K ''KC_KP_PLUS'' ''+'' None False None None (Some [''KC_PPLS'']),
    K ''KC_KP_ENTER'' ''Num\<newline>Enter'' None False None None (Some [''KC_PENT'']),
    K ''KC_KP_1'' ''1'' None False None None (Some [''KC_P1'']),
    K ''KC_KP_2'' ''2'' None False None None (Some [''KC_P2'']),
    K ''KC_KP_3'' ''3'' None False None None (Some [''KC_P3'']),
    K ''KC_KP_4'' ''4'' None False None None (Some [''KC_P4'']),
    K ''KC_KP_5'' ''5'' None False None None (Some [''KC_P5'']),
    K ''KC_KP_6'' ''6'' None False None None (Some [''KC_P6'']),
    K ''KC_KP_7'' ''7'' None False None None (Some [''KC_P7'']),
    K ''KC_KP_8'' ''8'' None False None None (Some [''KC_P8'']),
    K ''KC_KP_9'' ''9'' None False None None (Some [''KC_P9'']),
    K ''KC_KP_0'' ''0'' None False None None (Some [''KC_P0'']),
    K ''KC_KP_DOT'' ''.'' None False None None (Some [''KC_PDOT'']),
    K ''KC_KP_EQUAL'' ''='' None False None None (Some [''KC_PEQL'']),
    K ''KC_KP_COMMA'' '','' None False None None (Some [''KC_PCMM''])]"

definition KEYCODES_BASIC_NAV_args :: "kargs list" where
  "KEYCODES_BASIC_NAV_args = [
    K ''KC_PSCREEN'' ''Print\<newline>Screen'' None False None None (Some [''KC_PSCR'']),
    K ''KC_SCROLLLOCK'' ''Scroll\<newline>Lock'' None False None (Some [''scroll lock'']) (Some [''KC_SLCK'', ''KC_BRMD'']),
    K ''KC_PAUSE'' ''Pause'' None False None (Some [''pause'', ''break'']) (Some [''KC_PAUS'', ''KC_BRK'', ''KC_BRMU'']),
    K ''KC_INSERT'' ''Insert'' None False None (Some [''insert'']) (Some [''KC_INS'']),
    K ''KC_HOME'' ''Home'' None False None (Some [''home'']) None,
    K ''KC_PGUP'' ''Page\<newline>Up'' None False None (Some [''page up'']) None,
    K ''KC_DELETE'' ''Del'' None False None (Some [''delete'']) (Some [''KC_DEL'']),
    K ''KC_END'' ''End'' None False None (Some [''end'']) None,
    K ''KC_PGDOWN'' ''Page\<newline>Down'' None False None (Some [''page down'']) (Some [''KC_PGDN'']),
    K ''KC_RIGHT'' ''Right'' None False None (Some [''right'']) (Some [''KC_RGHT'']),
    K ''KC_LEFT'' ''Left'' None False None (Some [''left'']) None,
    K ''KC_DOWN'' ''Down'' None False None (Some [''down'']) None,
    K ''KC_UP'' ''Up'' None False None (Some [''up'']) None]"

definition KEYCODES_BASIC_args :: "kargs list" where
  "KEYCODES_BASIC_args = [
    K ''KC_A'' ''A'' None False (Some ''a'') (Some [''a'']) None,
    K ''KC_B'' ''B'' None False (Some ''b'') (Some [''b'']) None,
    K ''KC_C'' ''C'' None False (Some ''c'') (Some [''c'']) None,
    K ''KC_D'' ''D'' None False (Some ''d'') (Some [''d'']) None,
    K ''KC_E'' ''E'' None False (Some ''e'') (Some [''e'']) None,
    K ''KC_F'' ''F'' None False (Some ''f'') (Some [''f'']) None,
    K ''KC_G'' ''G'' None False (Some ''g'') (Some [''g'']) None,
    K ''KC_H'' ''H'' None False (Some ''h'') (Some [''h'']) None,
    K ''KC_I'' ''I'' None False (Some ''i'') (Some [''i'']) None,
    K ''KC_J'' ''J'' None False (Some ''j'') (Some [''j'']) None,
    K ''KC_K'' ''K'' None False (Some ''k'') (Some [''k'']) None,
    K ''KC_L'' ''L'' None False (Some ''l'') (Some [''l'']) None,
    K ''KC_M'' ''M'' None False (Some ''m'') (Some [''m'']) None,
    K ''KC_N'' ''N'' None False (Some ''n'') (Some [''n'']) None,
    K ''KC_O'' ''O'' None False (Some ''o'') (Some [''o'']) None,
    K ''KC_P'' ''P'' None False (Some ''p'') (Some [''p'']) None,
    K ''KC_Q'' ''Q'' None False (Some ''q'') (Some [''q'']) None,
    K ''KC_R'' ''R'' None False (Some ''r'') (Some [''r'']) None,
    K ''KC_S'' ''S'' None False (Some ''s'') (Some [''s'']) None,
    K ''KC_T'' ''T'' None False (Some ''t'') (Some [''t'']) None,
    K ''KC_U'' ''U'' None False (Some ''u'') (Some [''u'']) None,
    K ''KC_V'' ''V'' None False (Some ''v'') (Some [''v'']) None,
    K ''KC_W'' ''W'' None False (Some ''w'') (Some [''w'']) None,
    K ''KC_X'' ''X'' None False (Some ''x'') (Some [''x'']) None,
    K ''KC_Y'' ''Y'' None False (Some ''y'') (Some [''y'']) None,
    K ''KC_Z'' ''Z'' None False (Some ''z'') (Some [''z'']) None,
    K ''KC_1'' ''!\<newline>1'' None False (Some ''1'') (Some [''1'']) None,
    K ''KC_2'' ''@\<newline>2'' None False (Some ''2'') (Some [''2'']) None,
    K ''KC_3'' ''#\<newline>3'' None False (Some ''3'') (Some [''3'']) None,
    K ''KC_4'' ''$\<newline>4'' None False (Some ''4'') (Some [''4'']) None,
    K ''KC_5'' ''%\<newline>5'' None False (Some ''5'') (Some [''5'']) None,
    K ''KC_6'' ''^\<newline>6'' None False (Some ''6'') (Some [''6'']) None,
    K ''KC_7'' ''&\<newline>7'' None False (Some ''7'') (Some [''7'']) None,
    K ''KC_8'' ''*\<newline>8'' None False (Some ''8'') (Some [''8'']) None,
    K ''KC_9'' ''(\<newline>9'' None False (Some ''9'') (Some [''9'']) None,
    K ''KC_0'' '')\<newline>0'' None False (Some ''0'') (Some [''0'']) None,
    K ''KC_ENTER'' ''Enter'' None False None (Some [''enter'']) (Some [''KC_ENT'']),
    K ''KC_ESCAPE'' ''Esc'' None False None (Some [''esc'']) (Some [''KC_ESC'']),
    K ''KC_BSPACE'' ''Bksp'' None False None (Some [''backspace'']) (Some [''KC_BSPC'']),
    K ''KC_TAB'' ''Tab'' None False None (Some [''tab'']) None,
    K ''KC_SPACE'' ''Space'' None False None (Some [''space'']) (Some [''KC_SPC'']),
    K ''KC_MINUS'' ''_\<newline>-'' None False (Some ''-'') (Some [''-'']) (Some [''KC_MINS'']),
    K ''KC_EQUAL'' ''+\<newline>='' None False (Some ''='') (Some [''='']) (Some [''KC_EQL'']),
    K ''KC_LBRACKET'' ''{\<newline>['' None False (Some ''['') (Some [''['']) (Some [''KC_LBRC'']),
    K ''KC_RBRACKET'' ''}\<newline>]'' None False (Some '']'') (Some ['']'']) (Some [''KC_RBRC'']),
    K ''KC_BSLASH'' (''|\<newline>'' @ [CHR 0x5C]) None False (Some [CHR 0x5C]) (Some [[CHR 0x5C]]) (Some [''KC_BSLS'']),
    K ''KC_SCOLON'' '':\<newline>;'' None False (Some '';'') (Some ['';'']) (Some [''KC_SCLN'']),
    K ''KC_QUOTE'' ([CHR 0x22] @ ''\<newline>'' @ [CHR 0x27]) None False (Some [CHR 0x27]) (Some [[CHR 0x27]]) (Some [''KC_QUOT'']),
    K ''KC_GRAVE'' (''~\<newline>'' @ [CHR 0x60]) None False (Some [CHR 0x60]) (Some [[CHR 0x60]]) (Some [''KC_GRV'', ''KC_ZKHK'']),
    K ''KC_COMMA'' ''<\<newline>,'' None False (Some '','') (Some ['','']) (Some [''KC_COMM'']),
    K ''KC_DOT'' ''>\<newline>.'' None False (Some ''.'') (Some [''.'']) None,
    K ''KC_SLASH'' ''?\<newline>/'' None False (Some ''/'') (Some [''/'']) (Some [''KC_SLSH'']),
    K ''KC_CAPSLOCK'' ''Caps\<newline>Lock'' None False None (Some [''caps lock'']) (Some [''KC_CLCK'', ''KC_CAPS'']),
    K ''KC_F1'' ''F1'' None False None (Some [''f1'']) None,
    K ''KC_F2'' ''F2'' None False None (Some [''f2'']) None,
    K ''KC_F3'' ''F3'' None False None (Some [''f3'']) None,
    K ''KC_F4'' ''F4'' None False None (Some [''f4'']) None,
    K ''KC_F5'' ''F5'' None False None (Some [''f5'']) None,
    K ''KC_F6'' ''F6'' None False None (Some [''f6'']) None,
    K ''KC_F7'' ''F7'' None False None (Some [''f7'']) None,
    K ''KC_F8'' ''F8'' None False None (Some [''f8'']) None,
    K ''KC_F9'' ''F9'' None False None (Some [''f9'']) None,
    K ''KC_F10'' ''F10'' None False None (Some [''f10'']) None,
    K ''KC_F11'' ''F11'' None False None (Some [''f11'']) None,
    K ''KC_F12'' ''F12'' None False None (Some [''f12'']) None,
    K ''KC_APPLICATION'' ''Menu'' None False None (Some [''menu'', ''left menu'', ''right menu'']) (Some [''KC_APP'']),
    K ''KC_LCTRL'' ''LCtrl'' None False None (Some [''left ctrl'', ''ctrl'']) (Some [''KC_LCTL'']),
    K ''KC_LSHIFT'' ''LShift'' None False None (Some [''left shift'', ''shift'']) (Some [''KC_LSFT'']),
    K ''KC_LALT'' ''LAlt'' None False None (Some [''alt'']) (Some [''KC_LOPT'']),
    K ''KC_LGUI'' ''LGui'' None False None (Some [''left windows'', ''windows'']) (Some [''KC_LCMD'', ''KC_LWIN'']),
    K ''KC_RCTRL'' ''RCtrl'' None False None (Some [''right ctrl'']) (Some [''KC_RCTL'']),
    K ''KC_RSHIFT'' ''RShift'' None False None (Some [''right shift'']) (Some [''KC_RSFT'']),
    K ''KC_RALT'' ''RAlt'' None False None None (Some [''KC_ALGR'', ''KC_ROPT'']),
    K ''KC_RGUI'' ''RGui'' None False None (Some [''right windows'']) (Some [''KC_RCMD'', ''KC_RWIN''])]"

definition KEYCODES_SHIFTED_args :: "kargs list" where
  "KEYCODES_SHIFTED_args = [
    K ''KC_TILD'' ''~'' None False None None None,
    K ''KC_EXLM'' ''!'' None False None None None,
    K ''KC_AT'' ''@'' None False None None None,
    K ''KC_HASH'' ''#'' None False None None None,
    K ''KC_DLR'' ''$'' None False None None None,
    K ''KC_PERC'' ''%'' None False None None None,
    K ''KC_CIRC'' ''^'' None False None None None,
    K ''KC_AMPR'' ''&'' None False None None None,
    K ''KC_ASTR'' ''*'' None False None None None,
    K ''KC_LPRN'' ''('' None False None None None,
    K ''KC_RPRN'' '')'' None False None None None,
    K ''KC_UNDS'' ''_'' None False None None None,
    K ''KC_PLUS'' ''+'' None False None None None,
    K ''KC_LCBR'' ''{'' None False None None None,
    K ''KC_RCBR'' ''}'' None False None None None,
    K ''KC_LT'' ''<'' None False None None None,
    K ''KC_GT'' ''>'' None False None None None,
    K ''KC_COLN'' '':'' None False None None None,
    K ''KC_PIPE'' ''|'' None False None None None,
    K ''KC_QUES'' ''?'' None False None None None,
    K ''KC_DQUO'' [CHR 0x22] None False None None None]"

definition KEYCODES_ISO_args :: "kargs list" where
  "KEYCODES_ISO_args = [
    K ''KC_NONUS_HASH'' ''~\<newline>#'' (Some ''Non-US # and ~'') False None None (Some [''KC_NUHS'']),
    K ''KC_NONUS_BSLASH'' (''|\<newline>'' @ [CHR 0x5C]) (Some (''Non-US '' @ [CHR 0x5C] @ '' and |'')) False None None (Some [''KC_NUBS'']),
    K ''KC_RO'' (''_\<newline>'' @ [CHR 0x5C]) (Some (''JIS '' @ [CHR 0x5C] @ '' and _'')) False None None (Some [''KC_INT1'']),
    K ''KC_KANA'' ([CHR 0xE3, CHR 0x82, CHR 0xAB, CHR 0xE3, CHR 0x82, CHR 0xBF, CHR 0xE3, CHR 0x82, CHR 0xAB, CHR 0xE3, CHR 0x83, CHR 0x8A] @ ''\<newline>'' @ [CHR 0xE3, CHR 0x81, CHR 0xB2, CHR 0xE3, CHR 0x82, CHR 0x89, CHR 0xE3, CHR 0x81, CHR 0x8C, CHR 0xE3, CHR 0x81, CHR 0xAA]) (Some ''JIS Katakana/Hiragana'') False None None (Some [''KC_INT2'']),
    K ''KC_JYEN'' (''|\<newline>'' @ [CHR 0xC2, CHR 0xA5]) None False None None (Some [''KC_INT3'']),
    K ''KC_HENK'' [CHR 0xE5, CHR 0xA4, CHR 0x89, CHR 0xE6, CHR 0x8F, CHR 0x9B] (Some ''JIS Henkan'') False None None (Some [''KC_INT4'']),
    K ''KC_MHEN'' [CHR 0xE7, CHR 0x84, CHR 0xA1, CHR 0xE5, CHR 0xA4, CHR 0x89, CHR 0xE6, CHR 0x8F, CHR 0x9B] (Some ''JIS Muhenkan'') False None None (Some [''KC_INT5''])]"

definition KEYCODES_ISO_KR_args :: "kargs list" where
  "KEYCODES_ISO_KR_args = [
    K ''KC_LANG1'' ([CHR 0xED, CHR 0x95, CHR 0x9C, CHR 0xEC, CHR 0x98, CHR 0x81] @ ''\<newline>'' @ [CHR 0xE3, CHR 0x81, CHR 0x8B, CHR 0xE3, CHR 0x81, CHR 0xAA]) (Some ''Korean Han/Yeong / JP Mac Kana'') False None None (Some [''KC_HAEN'']),
    K ''KC_LANG2'' ([CHR 0xE6, CHR 0xBC, CHR 0xA2, CHR 0xE5, CHR 0xAD, CHR 0x97] @ ''\<newline>'' @ [CHR 0xE8, CHR 0x8B, CHR 0xB1, CHR 0xE6, CHR 0x95, CHR 0xB0]) (Some ''Korean Hanja / JP Mac Eisu'') False None None (Some [''KC_HANJ''])]"

definition KEYCODES_BOOT_args :: "kargs list" where
  "KEYCODES_BOOT_args = [
    K ''RESET'' ''Reset'' (Some ''Reboot to bootloader'') False None None None]"

definition KEYCODES_MODIFIERS_args :: "kargs list" where
  "KEYCODES_MODIFIERS_args = [
    K ''OSM(MOD_LSFT)'' ''OSM\<newline>LSft'' (Some ([CHR 0xE6, CHR 0x8C, CHR 0x89, CHR 0xE4, CHR 0xB8, CHR 0x8B, CHR 0xE6, CHR 0x97, CHR 0xB6, CHR 0xE6, CHR 0xBF, CHR 0x80, CHR 0xE6, CHR 0xB4, CHR 0xBB, CHR 0xE5, CHR 0xB7, CHR 0xA6] @ ''Shift'' @ [CHR 0xE9, CHR 0x94, CHR 0xAE])) False None None None,
    K ''OSM(MOD_LCTL)'' ''OSM\<newline>LCtl'' (Some ([CHR 0xE6, CHR 0x8C, CHR 0x89, CHR 0xE4, CHR 0xB8, CHR 0x8B, CHR 0xE6, CHR 0x97, CHR 0xB6, CHR 0xE6, CHR 0xBF, CHR 0x80, CHR 0xE6, CHR 0xB4, CHR 0xBB, CHR 0xE5, CHR 0xB7, CHR 0xA6] @ ''Ctl'' @ [CHR 0xE9, CHR 0x94, CHR 0xAE])) False None None None,
    K ''OSM(MOD_LALT)'' ''OSM\<newline>LAlt'' (Some ([CHR 0xE6, CHR 0x8C, CHR 0x89, CHR 0xE4, CHR 0xB8, CHR 0x8B, CHR 0xE6, CHR 0x97, CHR 0xB6, CHR 0xE6, CHR 0xBF, CHR 0x80, CHR 0xE6, CHR 0xB4, CHR 0xBB, CHR 0xE5, CHR 0xB7, CHR 0xA6] @ ''Alt'' @ [CHR 0xE9, CHR 0x94, CHR 0xAE])) False None None None,
    K ''OSM(MOD_LGUI)'' ''OSM\<newline>LGUI'' (Some ([CHR 0xE6, CHR 0x8C, CHR 0x89, CHR 0xE4, CHR 0xB8, CHR 0x8B, CHR 0xE6, CHR 0x97, CHR 0xB6, CHR 0xE6, CHR 0xBF, CHR 0x80, CHR 0xE6, CHR 0xB4, CHR 0xBB, CHR 0xE5, CHR 0xB7, CHR 0xA6] @ ''GUI'' @ [CHR 0xE9, CHR 0x94, CHR 0xAE])) False None None None,
    K ''OSM(MOD_RSFT)'' ''OSM\<newline>RSft'' (Some ([CHR 0xE6, CHR 0x8C, CHR 0x89, CHR 0xE4, CHR 0xB8, CHR 0x8B, CHR 0xE6, CHR 0x97, CHR 0xB6, CHR 0xE6, CHR 0xBF, CHR 0x80, CHR 0xE6, CHR 0xB4, CHR 0xBB, CHR 0xE5, CHR 0x8F, CHR 0xB3] @ ''Shift'' @ [CHR 0xE9, CHR 0x94, CHR 0xAE])) False None None None,
    K ''OSM(MOD_RCTL)'' ''OSM\<newline>RCtl'' (Some ([CHR 0xE6, CHR 0x8C, CHR 0x89, CHR 0xE4, CHR 0xB8, CHR 0x8B, CHR 0xE6, CHR 0x97, CHR 0xB6, CHR 0xE6, CHR 0xBF, CHR 0x80, CHR 0xE6, CHR 0xB4, CHR 0xBB, CHR 0xE5, CHR 0x8F, CHR 0xB3] @ ''Shift'' @ [CHR 0xE9, CHR 0x94, CHR 0xAE])) False None None None,
    K ''OSM(MOD_RALT)'' ''OSM\<newline>RAlt'' (Some ([CHR 0xE6, CHR 0x8C, CHR 0x89, CHR 0xE4, CHR 0xB8, CHR 0x8B, CHR 0xE6, CHR 0x97, CHR 0xB6, CHR 0xE6, CHR 0xBF, CHR 0x80, CHR 0xE6, CHR 0xB4, CHR 0xBB, CHR 0xE5, CHR 0x8F, CHR 0xB3] @ ''Shift'' @ [CHR 0xE9, CHR 0x94, CHR 0xAE])) False None None None,
    K ''OSM(MOD_RGUI)'' ''OSM\<newline>RGUI'' (Some ([CHR 0xE6, CHR 0x8C, CHR 0x89, CHR 0xE4, CHR 0xB8, CHR 0x8B, CHR 0xE6, CHR 0x97, CHR 0xB6, CHR 0xE6, CHR 0xBF, CHR 0x80, CHR 0xE6, CHR 0xB4, CHR 0xBB, CHR 0xE5, CHR 0x8F, CHR 0xB3] @ ''Shift'' @ [CHR 0xE9, CHR 0x94, CHR 0xAE])) False None None None,
    K ''OSM(MOD_LCTL|MOD_LSFT)'' ''OSM\<newline>CS'' (Some ([CHR 0xE6, CHR 0x8C, CHR 0x89, CHR 0xE4, CHR 0xB8, CHR 0x8B, CHR 0xE6, CHR 0xBF, CHR 0x80, CHR 0xE6, CHR 0xB4, CHR 0xBB, CHR 0xE5, CHR 0xB7, CHR 0xA6] @ ''Ctl'' @ [CHR 0xE9, CHR 0x94, CHR 0xAE, CHR 0xE5, CHR 0x92, CHR 0x8C, CHR 0xE5, CHR 0xB7, CHR 0xA6] @ ''Shift'' @ [CHR 0xE9, CHR 0x94, CHR 0xAE])) False None None None,
    K ''OSM(MOD_LCTL|MOD_LALT)'' ''OSM\<newline>CA'' (Some ([CHR 0xE6, CHR 0x8C, CHR 0x89, CHR 0xE4, CHR 0xB8, CHR 0x8B, CHR 0xE6, CHR 0xBF, CHR 0x80, CHR 0xE6, CHR 0xB4, CHR 0xBB, CHR 0xE5, CHR 0xB7, CHR 0xA6] @ ''Ctl'' @ [CHR 0xE9, CHR 0x94, CHR 0xAE, CHR 0xE5, CHR 0x92, CHR 0x8C, CHR 0xE5, CHR 0xB7, CHR 0xA6] @ ''Alt'' @ [CHR 0xE9, CHR 0x94, CHR 0xAE])) False None None None,
    K ''OSM(MOD_LCTL|MOD_LGUI)'' ''OSM\<newline>CG'' (Some ([CHR 0xE6, CHR 0x8C, CHR 0x89, CHR 0xE4, CHR 0xB8, CHR 0x8B, CHR 0xE6, CHR 0xBF, CHR 0x80, CHR 0xE6, CHR 0xB4, CHR 0xBB, CHR 0xE5, CHR 0xB7, CHR 0xA6] @ ''Ctl'' @ [CHR 0xE9, CHR 0x94, CHR 0xAE, CHR 0xE5, CHR 0x92, CHR 0x8C, CHR 0xE5, CHR 0xB7, CHR 0xA6] @ ''GUI'' @ [CHR 0xE9, CHR 0x94, CHR 0xAE])) False None None None,
    K ''OSM(MOD_LSFT|MOD_LALT)'' ''OSM\<newline>SA'' (Some ([CHR 0xE6, CHR 0x8C, CHR 0x89, CHR 0xE4, CHR 0xB8, CHR 0x8B, CHR 0xE6, CHR 0xBF, CHR 0x80, CHR 0xE6, CHR 0xB4, CHR 0xBB, CHR 0xE5, CHR 0xB7, CHR 0xA6] @ ''Shift'' @ [CHR 0xE9, CHR 0x94, CHR 0xAE, CHR 0xE5, CHR 0x92, CHR 0x8C, CHR 0xE5, CHR 0xB7, CHR 0xA6] @ ''Alt'' @ [CHR 0xE9, CHR 0x94, CHR 0xAE])) False None None None,
    K ''OSM(MOD_LSFT|MOD_LGUI)'' ''OSM\<newline>SG'' (Some ([CHR 0xE6, CHR 0x8C, CHR 0x89, CHR 0xE4, CHR 0xB8, CHR 0x8B, CHR 0xE6, CHR 0xBF, CHR 0x80, CHR 0xE6, CHR 0xB4, CHR 0xBB, CHR 0xE5, CHR 0xB7, CHR 0xA6] @ ''Shift'' @ [CHR 0xE9, CHR 0x94, CHR 0xAE, CHR 0xE5, CHR 0x92, CHR 0x8C, CHR 0xE5, CHR 0xB7, CHR 0xA6] @ ''GUI'' @ [CHR 0xE9, CHR 0x94, CHR 0xAE])) False None None None,
    K ''OSM(MOD_LALT|MOD_LGUI)'' ''OSM\<newline>AG'' (Some ([CHR 0xE6, CHR 0x8C, CHR 0x89, CHR 0xE4, CHR 0xB8, CHR 0x8B, CHR 0xE6, CHR 0xBF, CHR 0x80, CHR 0xE6, CHR 0xB4, CHR 0xBB, CHR 0xE5, CHR 0xB7, CHR 0xA6] @ ''Alt'' @ [CHR 0xE9, CHR 0x94, CHR 0xAE, CHR 0xE5, CHR 0x92, CHR 0x8C, CHR 0xE5, CHR 0xB7, CHR 0xA6] @ ''Shift'' @ [CHR 0xE9, CHR 0x94, CHR 0xAE])) False None None None,
    K ''OSM(MOD_RCTL|MOD_RSFT)'' ''OSM\<newline>RCS'' (Some ([CHR 0xE6, CHR 0x8C, CHR 0x89, CHR 0xE4, CHR 0xB8, CHR 0x8B, CHR 0xE6, CHR 0xBF, CHR 0x80, CHR 0xE6, CHR 0xB4, CHR 0xBB, CHR 0xE5, CHR 0x8F, CHR 0xB3] @ ''Ctl'' @ [CHR 0xE9, CHR 0x94, CHR 0xAE, CHR 0xE5, CHR 0x92, CHR 0x8C, CHR 0xE5, CHR 0x8F, CHR 0xB3] @ ''Shift'' @ [CHR 0xE9, CHR 0x94, CHR 0xAE])) False None None None,
    K ''OSM(MOD_RCTL|MOD_RALT)'' ''OSM\<newline>RCA'' (Some ([CHR 0xE6, CHR 0x8C, CHR 0x89, CHR 0xE4, CHR 0xB8, CHR 0x8B, CHR 0xE6, CHR 0xBF, CHR 0x80, CHR 0xE6, CHR 0xB4, CHR 0xBB, CHR 0xE5, CHR 0x8F, CHR 0xB3] @ ''Ctl'' @ [CHR 0xE9, CHR 0x94, CHR 0xAE, CHR 0xE5, CHR 0x92, CHR 0x8C, CHR 0xE5, CHR 0x8F, CHR 0xB3] @ ''Alt'' @ [CHR 0xE9, CHR 0x94, CHR 0xAE])) False None None None,
    K ''OSM(MOD_RCTL|MOD_RGUI)'' ''OSM\<newline>RCG'' (Some ([CHR 0xE6, CHR 0x8C, CHR 0x89, CHR 0xE4, CHR 0xB8, CHR 0x8B, CHR 0xE6, CHR 0xBF, CHR 0x80, CHR 0xE6, CHR 0xB4, CHR 0xBB, CHR 0xE5, CHR 0x8F, CHR 0xB3] @ ''Ctl'' @ [CHR 0xE9, CHR 0x94, CHR 0xAE, CHR 0xE5, CHR 0x92, CHR 0x8C, CHR 0xE5, CHR 0x8F, CHR 0xB3] @ ''GUI'' @ [CHR 0xE9, CHR 0x94, CHR 0xAE])) False None None None,
    K ''OSM(MOD_RSFT|MOD_RALT)'' ''OSM\<newline>RSA'' (Some ([CHR 0xE6, CHR 0x8C, CHR 0x89, CHR 0xE4, CHR 0xB8, CHR 0x8B, CHR 0xE6, CHR 0xBF, CHR 0x80, CHR 0xE6, CHR 0xB4, CHR 0xBB, CHR 0xE5, CHR 0x8F, CHR 0xB3] @ ''Shift'' @ [CHR 0xE9, CHR 0x94, CHR 0xAE, CHR 0xE5, CHR 0x92, CHR 0x8C, CHR 0xE5, CHR 0x8F, CHR 0xB3] @ ''Alt'' @ [CHR 0xE9, CHR 0x94, CHR 0xAE])) False None None None,
    K ''OSM(MOD_RSFT|MOD_RGUI)'' ''OSM\<newline>RSG'' (Some ([CHR 0xE6, CHR 0x8C, CHR 0x89, CHR 0xE4, CHR 0xB8, CHR 0x8B, CHR 0xE6, CHR 0xBF, CHR 0x80, CHR 0xE6, CHR 0xB4, CHR 0xBB, CHR 0xE5, CHR 0x8F, CHR 0xB3] @ ''Alt'' @ [CHR 0xE9, CHR 0x94, CHR 0xAE, CHR 0xE5, CHR 0x92, CHR 0x8C, CHR 0xE5, CHR 0x8F, CHR 0xB3] @ ''Shift'' @ [CHR 0xE9, CHR 0x94, CHR 0xAE])) False None None None,
    K ''OSM(MOD_RALT|MOD_RGUI)'' ''OSM\<newline>RAG'' (Some ([CHR 0xE6, CHR 0x8C, CHR 0x89, CHR 0xE4, CHR 0xB8, CHR 0x8B, CHR 0xE6, CHR 0xBF, CHR 0x80, CHR 0xE6, CHR 0xB4, CHR 0xBB, CHR 0xE5, CHR 0x8F, CHR 0xB3] @ ''Alt'' @ [CHR 0xE9, CHR 0x94, CHR 0xAE, CHR 0xE5, CHR 0x92, CHR 0x8C, CHR 0xE5, CHR 0x8F, CHR 0xB3] @ ''GUI'' @ [CHR 0xE9, CHR 0x94, CHR 0xAE])) False None None None,
    K ''OSM(MOD_LCTL|MOD_LSFT|MOD_LGUI)'' ''OSM\<newline>CSG'' (Some ([CHR 0xE6, CHR 0x8C, CHR 0x89, CHR 0xE4, CHR 0xB8, CHR 0x8B, CHR 0xE6, CHR 0xBF, CHR 0x80, CHR 0xE6, CHR 0xB4, CHR 0xBB, CHR 0xE5, CHR 0xB7, CHR 0xA6] @ ''Ctl'' @ [CHR 0xE9, CHR 0x94, CHR 0xAE, CHR 0xEF, CHR 0xBC, CHR 0x8C, CHR 0xE5, CHR 0xB7, CHR 0xA6] @ ''Shift, '' @ [CHR 0xE5, CHR 0xB7, CHR 0xA6] @ ''GUI'' @ [CHR 0xE9, CHR 0x94, CHR 0xAE])) False None None None,
    K ''OSM(MOD_LCTL|MOD_LALT|MOD_LGUI)'' ''OSM\<newline>CAG'' (Some ([CHR 0xE6, CHR 0x8C, CHR 0x89, CHR 0xE4, CHR 0xB8, CHR 0x8B, CHR 0xE6, CHR 0xBF, CHR 0x80, CHR 0xE6, CHR 0xB4, CHR 0xBB, CHR 0xE5, CHR 0xB7, CHR 0xA6] @ ''Ctl'' @ [CHR 0xE9, CHR 0x94, CHR 0xAE, CHR 0xEF, CHR 0xBC, CHR 0x8C, CHR 0xE5, CHR 0xB7, CHR 0xA6] @ ''Alt, '' @ [CHR 0xE5, CHR 0xB7, CHR 0xA6] @ ''GUI'' @ [CHR 0xE9, CHR 0x94, CHR 0xAE])) False None None None,
    K ''OSM(MOD_LSFT|MOD_LALT|MOD_LGUI)'' ''OSM\<newline>SAG'' (Some ([CHR 0xE6, CHR 0x8C, CHR 0x89, CHR 0xE4, CHR 0xB8, CHR 0x8B, CHR 0xE6, CHR 0xBF, CHR 0x80, CHR 0xE6, CHR 0xB4, CHR 0xBB, CHR 0xE5, CHR 0xB7, CHR 0xA6] @ ''Shift'' @ [CHR 0xE9, CHR 0x94, CHR 0xAE, CHR 0xEF, CHR 0xBC, CHR 0x8C, CHR 0xE5, CHR 0xB7, CHR 0xA6] @ ''Alt, '' @ [CHR 0xE5, CHR 0xB7, CHR 0xA6] @ ''GUI'' @ [CHR 0xE9, CHR 0x94, CHR 0xAE])) False None None None,
    K ''OSM(MOD_RCTL|MOD_RSFT|MOD_RGUI)'' ''OSM\<newline>RCSG'' (Some ([CHR 0xE6, CHR 0x8C, CHR 0x89, CHR 0xE4, CHR 0xB8, CHR 0x8B, CHR 0xE6, CHR 0xBF, CHR 0x80, CHR 0xE6, CHR 0xB4, CHR 0xBB, CHR 0xE5, CHR 0x8F, CHR 0xB3] @ ''Ctl'' @ [CHR 0xE9, CHR 0x94, CHR 0xAE, CHR 0xEF, CHR 0xBC, CHR 0x8C, CHR 0xE5, CHR 0x8F, CHR 0xB3] @ ''Shift, '' @ [CHR 0xE5, CHR 0x8F, CHR 0xB3] @ ''GUI'' @ [CHR 0xE9, CHR 0x94, CHR 0xAE])) False None None None,
    K ''OSM(MOD_RCTL|MOD_RALT|MOD_RGUI)'' ''OSM\<newline>RCAG'' (Some ([CHR 0xE6, CHR 0x8C, CHR 0x89, CHR 0xE4, CHR 0xB8, CHR 0x8B, CHR 0xE6, CHR 0xBF, CHR 0x80, CHR 0xE6, CHR 0xB4, CHR 0xBB, CHR 0xE5, CHR 0x8F, CHR 0xB3] @ ''Ctl'' @ [CHR 0xE9, CHR 0x94, CHR 0xAE, CHR 0xEF, CHR 0xBC, CHR 0x8C, CHR 0xE5, CHR 0x8F, CHR 0xB3] @ ''Alt, '' @ [CHR 0xE5, CHR 0x8F, CHR 0xB3] @ ''GUI'' @ [CHR 0xE9, CHR 0x94, CHR 0xAE])) False None None None,
    K ''OSM(MOD_RSFT|MOD_RALT|MOD_RGUI)'' ''OSM\<newline>RSAG'' (Some ([CHR 0xE6, CHR 0x8C, CHR 0x89, CHR 0xE4, CHR 0xB8, CHR 0x8B, CHR 0xE6, CHR 0xBF, CHR 0x80, CHR 0xE6, CHR 0xB4, CHR 0xBB, CHR 0xE5, CHR 0x8F, CHR 0xB3] @ ''Shift'' @ [CHR 0xE9, CHR 0x94, CHR 0xAE, CHR 0xEF, CHR 0xBC, CHR 0x8C, CHR 0xE5, CHR 0x8F, CHR 0xB3] @ ''Alt, '' @ [CHR 0xE5, CHR 0x8F, CHR 0xB3] @ ''GUI'' @ [CHR 0xE9, CHR 0x94, CHR 0xAE])) False None None None,
    K ''OSM(MOD_MEH)'' ''OSM\<newline>Meh'' (Some ([CHR 0xE6, CHR 0x8C, CHR 0x89, CHR 0xE4, CHR 0xB8, CHR 0x8B, CHR 0xE6, CHR 0xBF, CHR 0x80, CHR 0xE6, CHR 0xB4, CHR 0xBB, CHR 0xE5, CHR 0xB7, CHR 0xA6] @ ''Ctl'' @ [CHR 0xE9, CHR 0x94, CHR 0xAE, CHR 0xEF, CHR 0xBC, CHR 0x8C, CHR 0xE5, CHR 0xB7, CHR 0xA6] @ ''Shift, '' @ [CHR 0xE5, CHR 0xB7, CHR 0xA6] @ ''Alt'' @ [CHR 0xE9, CHR 0x94, CHR 0xAE])) False None None None,
    K ''OSM(MOD_HYPR)'' ''OSM\<newline>Hyper'' (Some ([CHR 0xE6, CHR 0x8C, CHR 0x89, CHR 0xE4, CHR 0xB8, CHR 0x8B, CHR 0xE6, CHR 0xBF, CHR 0x80, CHR 0xE6, CHR 0xB4, CHR 0xBB, CHR 0xE5, CHR 0xB7, CHR 0xA6] @ ''Ctl'' @ [CHR 0xE9, CHR 0x94, CHR 0xAE, CHR 0xEF, CHR 0xBC, CHR 0x8C, CHR 0xE5, CHR 0xB7, CHR 0xA6] @ ''Shift, '' @ [CHR 0xE5, CHR 0xB7, CHR 0xA6] @ ''Alt'' @ [CHR 0xE9, CHR 0x94, CHR 0xAE] @ '', '' @ [CHR 0xE5, CHR 0xB7, CHR 0xA6] @ ''GUI'' @ [CHR 0xE9, CHR 0x94, CHR 0xAE])) False None None None,
    K ''OSM(MOD_RCTL|MOD_RSFT|MOD_RALT)'' ''OSM\<newline>RMeh'' (Some ([CHR 0xE6, CHR 0x8C, CHR 0x89, CHR 0xE4, CHR 0xB8, CHR 0x8B, CHR 0xE6, CHR 0xBF, CHR 0x80, CHR 0xE6, CHR 0xB4, CHR 0xBB, CHR 0xE5, CHR 0x8F, CHR 0xB3] @ ''Ctl'' @ [CHR 0xE9, CHR 0x94, CHR 0xAE, CHR 0xEF, CHR 0xBC, CHR 0x8C, CHR 0xE5, CHR 0x8F, CHR 0xB3] @ ''Shift, '' @ [CHR 0xE5, CHR 0x8F, CHR 0xB3] @ ''Alt'' @ [CHR 0xE9, CHR 0x94, CHR 0xAE])) False None None None,
    K ''OSM(MOD_RCTL|MOD_RSFT|MOD_RALT|MOD_RGUI)'' ''OSM\<newline>RHyp'' (Some ([CHR 0xE6, CHR 0x8C, CHR 0x89, CHR 0xE4, CHR 0xB8, CHR 0x8B, CHR 0xE6, CHR 0xBF, CHR 0x80, CHR 0xE6, CHR 0xB4, CHR 0xBB, CHR 0xE5, CHR 0x8F, CHR 0xB3] @ ''Ctl'' @ [CHR 0xE9, CHR 0x94, CHR 0xAE, CHR 0xEF, CHR 0xBC, CHR 0x8C, CHR 0xE5, CHR 0x8F, CHR 0xB3] @ ''Shift, '' @ [CHR 0xE5, CHR 0x8F, CHR 0xB3] @ ''Alt'' @ [CHR 0xE9, CHR 0x94, CHR 0xAE] @ '', '' @ [CHR 0xE5, CHR 0x8F, CHR 0xB3] @ ''GUI'' @ [CHR 0xE9, CHR 0x94, CHR 0xAE])) False None None None,
    K ''LSFT(kc)'' ''LSft\<newline>(kc)'' None True None None None,
    K ''LCTL(kc)'' ''LCtl\<newline>(kc)'' None True None None None,
    K ''LALT(kc)'' ''LAlt\<newline>(kc)'' None True None None None,
    K ''LGUI(kc)'' ''LGui\<newline>(kc)'' None True None None None,
    K ''RSFT(kc)'' ''RSft\<newline>(kc)'' None True None None None,
    K ''RCTL(kc)'' ''RCtl\<newline>(kc)'' None True None None None,
    K ''RALT(kc)'' ''RAlt\<newline>(kc)'' None True None None None,
    K ''RGUI(kc)'' ''RGui\<newline>(kc)'' None True None None None,
    K ''C_S(kc)'' ''LCS\<newline>(kc)'' (Some ''LCTL + LSFT'') True None None (Some [''LCS(kc)'']),
    K ''LCA(kc)'' ''LCA\<newline>(kc)'' (Some ''LCTL + LALT'') True None None None,
    K ''LCG(kc)'' ''LCG\<newline>(kc)'' (Some ''LCTL + LGUI'') True None None None,
    K ''LSA(kc)'' ''LSA\<newline>(kc)'' (Some ''LSFT + LALT'') True None None None,
    K ''SGUI(kc)'' ''LSG\<newline>(kc)'' (Some ''LGUI + LSFT'') True None None (Some [''LSG(kc)'']),
    K ''LCAG(kc)'' ''LCAG\<newline>(kc)'' (Some ''LCTL + LALT + LGUI'') True None None None,
    K ''RCG(kc)'' ''RCG\<newline>(kc)'' (Some ''RCTL + RGUI'') True None None None,
    K ''MEH(kc)'' ''Meh\<newline>(kc)'' (Some ''LCTL + LSFT + LALT'') True None None None,
    K ''HYPR(kc)'' ''Hyper\<newline>(kc)'' (Some ''LCTL + LSFT + LALT + LGUI'') True None None None,
    K ''LSFT_T(kc)'' ''LSft_T\<newline>(kc)'' (Some ([CHR 0xE9, CHR 0x95, CHR 0xBF, CHR 0xE6, CHR 0x8C, CHR 0x89, CHR 0xE8, CHR 0xA7, CHR 0xA6, CHR 0xE5, CHR 0x8F, CHR 0x91, CHR 0xE5, CHR 0xB7, CHR 0xA6] @ ''Shift'' @ [CHR 0xE9, CHR 0x94, CHR 0xAE] @ '', '' @ [CHR 0xE5, CHR 0x8D, CHR 0x95, CHR 0xE5, CHR 0x87, CHR 0xBB, CHR 0xE8, CHR 0xA7, CHR 0xA6, CHR 0xE5, CHR 0x8F, CHR 0x91] @ ''kc'' @ [CHR 0xE9, CHR 0x94, CHR 0xAE])) True None None None,
    K ''LCTL_T(kc)'' ''LCtl_T\<newline>(kc)'' (Some ([CHR 0xE9, CHR 0x95, CHR 0xBF, CHR 0xE6, CHR 0x8C, CHR 0x89, CHR 0xE8, CHR 0xA7, CHR 0xA6, CHR 0xE5, CHR 0x8F, CHR 0x91, CHR 0xE5, CHR 0xB7, CHR 0xA6] @ ''Ctl'' @ [CHR 0xE9, CHR 0x94, CHR 0xAE] @ '', '' @ [CHR 0xE5, CHR 0x8D, CHR 0x95, CHR 0xE5, CHR 0x87, CHR 0xBB, CHR 0xE8, CHR 0xA7, CHR 0xA6, CHR 0xE5, CHR 0x8F, CHR 0x91] @ ''kc'' @ [CHR 0xE9, CHR 0x94, CHR 0xAE])) True None None None,
    K ''LALT_T(kc)'' ''LAlt_T\<newline>(kc)'' (Some ([CHR 0xE9, CHR 0x95, CHR 0xBF, CHR 0xE6, CHR 0x8C, CHR 0x89, CHR 0xE8, CHR 0xA7, CHR 0xA6, CHR 0xE5, CHR 0x8F, CHR 0x91, CHR 0xE5, CHR 0xB7, CHR 0xA6] @ ''Alt'' @ [CHR 0xE9, CHR 0x94, CHR 0xAE] @ '', '' @ [CHR 0xE5, CHR 0x8D, CHR 0x95, CHR 0xE5, CHR 0x87, CHR 0xBB, CHR 0xE8, CHR 0xA7, CHR 0xA6, CHR 0xE5, CHR 0x8F, CHR 0x91] @ ''kc'' @ [CHR 0xE9, CHR 0x94, CHR 0xAE])) True None None None,
    K ''LGUI_T(kc)'' ''LGui_T\<newline>(kc)'' (Some ([CHR 0xE9, CHR 0x95, CHR 0xBF, CHR 0xE6, CHR 0x8C, CHR 0x89, CHR 0xE8, CHR 0xA7, CHR 0xA6, CHR 0xE5, CHR 0x8F, CHR 0x91, CHR 0xE5, CHR 0xB7, CHR 0xA6] @ ''Gui'' @ [CHR 0xE9, CHR 0x94, CHR 0xAE] @ '', '' @ [CHR 0xE5, CHR 0x8D, CHR 0x95, CHR 0xE5, CHR 0x87, CHR 0xBB, CHR 0xE8, CHR 0xA7, CHR 0xA6, CHR 0xE5, CHR 0x8F, CHR 0x91] @ ''kc'' @ [CHR 0xE9, CHR 0x94, CHR 0xAE])) True None None None,
    K ''RSFT_T(kc)'' ''RSft_T\<newline>(kc)'' (Some ([CHR 0xE9, CHR 0x95, CHR 0xBF, CHR 0xE6, CHR 0x8C, CHR 0x89, CHR 0xE8, CHR 0xA7, CHR 0xA6, CHR 0xE5, CHR 0x8F, CHR 0x91, CHR 0xE5, CHR 0x8F, CHR 0xB3] @ ''Shift'' @ [CHR 0xE9, CHR 0x94, CHR 0xAE] @ '', '' @ [CHR 0xE5, CHR 0x8D, CHR 0x95, CHR 0xE5, CHR 0x87, CHR 0xBB, CHR 0xE8, CHR 0xA7, CHR 0xA6, CHR 0xE5, CHR 0x8F, CHR 0x91] @ ''kc'' @ [CHR 0xE9, CHR 0x94, CHR 0xAE])) True None None None,
    K ''RCTL_T(kc)'' ''RCtl_T\<newline>(kc)'' (Some ([CHR 0xE9, CHR 0x95, CHR 0xBF, CHR 0xE6, CHR 0x8C, CHR 0x89, CHR 0xE8, CHR 0xA7, CHR 0xA6, CHR 0xE5, CHR 0x8F, CHR 0x91, CHR 0xE5, CHR 0x8F, CHR 0xB3] @ ''Ctl'' @ [CHR 0xE9, CHR 0x94, CHR 0xAE] @ '', '' @ [CHR 0xE5, CHR 0x8D, CHR 0x95, CHR 0xE5, CHR 0x87, CHR 0xBB, CHR 0xE8, CHR 0xA7, CHR 0xA6, CHR 0xE5, CHR 0x8F, CHR 0x91] @ ''kc'' @ [CHR 0xE9, CHR 0x94, CHR 0xAE])) True None None None,
    K ''RALT_T(kc)'' ''RAlt_T\<newline>(kc)'' (Some ([CHR 0xE9, CHR 0x95, CHR 0xBF, CHR 0xE6, CHR 0x8C, CHR 0x89, CHR 0xE8, CHR 0xA7, CHR 0xA6, CHR 0xE5, CHR 0x8F, CHR 0x91, CHR 0xE5, CHR 0x8F, CHR 0xB3] @ ''Alt'' @ [CHR 0xE9, CHR 0x94, CHR 0xAE] @ '', '' @ [CHR 0xE5, CHR 0x8D, CHR 0x95, CHR 0xE5, CHR 0x87, CHR 0xBB, CHR 0xE8, CHR 0xA7, CHR 0xA6, CHR 0xE5, CHR 0x8F, CHR 0x91] @ ''kc'' @ [CHR 0xE9, CHR 0x94, CHR 0xAE])) True None None None,
    K ''RGUI_T(kc)'' ''RGui_T\<newline>(kc)'' (Some ([CHR 0xE9, CHR 0x95, CHR 0xBF, CHR 0xE6, CHR 0x8C, CHR 0x89, CHR 0xE8, CHR 0xA7, CHR 0xA6, CHR 0xE5, CHR 0x8F, CHR 0x91, CHR 0xE5, CHR 0x8F, CHR 0xB3] @ ''Gui'' @ [CHR 0xE9, CHR 0x94, CHR 0xAE] @ '', '' @ [CHR 0xE5, CHR 0x8D, CHR 0x95, CHR 0xE5, CHR 0x87, CHR 0xBB, CHR 0xE8, CHR 0xA7, CHR 0xA6, CHR 0xE5, CHR 0x8F, CHR 0x91] @ ''kc'' @ [CHR 0xE9, CHR 0x94, CHR 0xAE])) True None None None,
    K ''C_S_T(kc)'' ''LCS_T\<newline>(kc)'' (Some ([CHR 0xE9, CHR 0x95, CHR 0xBF, CHR 0xE6, CHR 0x8C, CHR 0x89, CHR 0xE8, CHR 0xA7, CHR 0xA6, CHR 0xE5, CHR 0x8F, CHR 0x91, CHR 0xE5, CHR 0xB7, CHR 0xA6] @ ''Ctl'' @ [CHR 0xE9, CHR 0x94, CHR 0xAE, CHR 0xE5, CHR 0x92, CHR 0x8C, CHR 0xE5, CHR 0xB7, CHR 0xA6] @ ''Shift'' @ [CHR 0xE9, CHR 0x94, CHR 0xAE] @ '', '' @ [CHR 0xE5, CHR 0x8D, CHR 0x95, CHR 0xE5, CHR 0x87, CHR 0xBB, CHR 0xE8, CHR 0xA7, CHR 0xA6, CHR 0xE5, CHR 0x8F, CHR 0x91] @ ''kc'' @ [CHR 0xE9, CHR 0x94, CHR 0xAE])) True None None (Some [''LCS_T(kc)'']),
    K ''LCA_T(kc)'' ''LCA_T\<newline>(kc)'' (Some ([CHR 0xE9, CHR 0x95, CHR 0xBF, CHR 0xE6, CHR 0x8C, CHR 0x89, CHR 0xE8, CHR 0xA7, CHR 0xA6, CHR 0xE5, CHR 0x8F, CHR 0x91, CHR 0xE5, CHR 0xB7, CHR 0xA6] @ ''Ctl'' @ [CHR 0xE9, CHR 0x94, CHR 0xAE, CHR 0xE5, CHR 0x92, CHR 0x8C, CHR 0xE5, CHR 0xB7, CHR 0xA6] @ ''Alt'' @ [CHR 0xE9, CHR 0x94, CHR 0xAE] @ '', '' @ [CHR 0xE5, CHR 0x8D, CHR 0x95, CHR 0xE5, CHR 0x87, CHR 0xBB, CHR 0xE8, CHR 0xA7, CHR 0xA6, CHR 0xE5, CHR 0x8F, CHR 0x91] @ ''kc'' @ [CHR 0xE9, CHR 0x94, CHR 0xAE])) True None None None,
    K ''LCG_T(kc)'' ''LCG_T\<newline>(kc)'' (Some ([CHR 0xE9, CHR 0x95, CHR 0xBF, CHR 0xE6, CHR 0x8C, CHR 0x89, CHR 0xE8, CHR 0xA7, CHR 0xA6, CHR 0xE5, CHR 0x8F, CHR 0x91, CHR 0xE5, CHR 0xB7, CHR 0xA6] @ ''Ctl'' @ [CHR 0xE9, CHR 0x94, CHR 0xAE, CHR 0xE5, CHR 0x92, CHR 0x8C, CHR 0xE5, CHR 0xB7, CHR 0xA6] @ ''Gui'' @ [CHR 0xE9, CHR 0x94, CHR 0xAE] @ '', '' @ [CHR 0xE5, CHR 0x8D, CHR 0x95, CHR 0xE5, CHR 0x87, CHR 0xBB, CHR 0xE8, CHR 0xA7, CHR 0xA6, CHR 0xE5, CHR 0x8F, CHR 0x91] @ ''kc'' @ [CHR 0xE9, CHR 0x94, CHR 0xAE])) True None None None,
    K ''LSA_T(kc)'' ''LSA_T\<newline>(kc)'' (Some ([CHR 0xE9, CHR 0x95, CHR 0xBF, CHR 0xE6, CHR 0x8C, CHR 0x89, CHR 0xE8, CHR 0xA7, CHR 0xA6, CHR 0xE5, CHR 0x8F, CHR 0x91, CHR 0xE5, CHR 0xB7, CHR 0xA6] @ ''Shift'' @ [CHR 0xE9, CHR 0x94, CHR 0xAE, CHR 0xE5, CHR 0x92, CHR 0x8C, CHR 0xE5, CHR 0xB7, CHR 0xA6] @ ''Alt'' @ [CHR 0xE9, CHR 0x94, CHR 0xAE] @ '', '' @ [CHR 0xE5, CHR 0x8D, CHR 0x95, CHR 0xE5, CHR 0x87, CHR 0xBB, CHR 0xE8, CHR 0xA7, CHR 0xA6, CHR 0xE5, CHR 0x8F, CHR 0x91] @ ''kc'' @ [CHR 0xE9, CHR 0x94, CHR 0xAE])) True None None None,
    K ''SGUI_T(kc)'' ''LSG_T\<newline>(kc)'' (Some ([CHR 0xE6, CHR 0x8C, CHR 0x89, CHR 0xE8, CHR 0xA7, CHR 0xA6, CHR 0xE5, CHR 0x8F, CHR 0x91, CHR 0xE5, CHR 0xB7, CHR 0xA6] @ ''Shift'' @ [CHR 0xE9, CHR 0x94, CHR 0xAE, CHR 0xE5, CHR 0x92, CHR 0x8C, CHR 0xE5, CHR 0xB7, CHR 0xA6] @ ''Gui'' @ [CHR 0xE9, CHR 0x94, CHR 0xAE] @ '', '' @ [CHR 0xE5, CHR 0x8D, CHR 0x95, CHR 0xE5, CHR 0x87, CHR 0xBB, CHR 0xE8, CHR 0xA7, CHR 0xA6, CHR 0xE5, CHR 0x8F, CHR 0x91] @ ''kc'' @ [CHR 0xE9, CHR 0x94, CHR 0xAE])) True None None (Some [''LSG_T(kc)'']),
    K ''LCAG_T(kc)'' ''LCAG_T\<newline>(kc)'' (Some ([CHR 0xE9, CHR 0x95, CHR 0xBF, CHR 0xE6, CHR 0x8C, CHR 0x89, CHR 0xE8, CHR 0xA7, CHR 0xA6, CHR 0xE5, CHR 0x8F, CHR 0x91, CHR 0xE5, CHR 0xB7, CHR 0xA6] @ ''Ctl'' @ [CHR 0xE9, CHR 0x94, CHR 0xAE, CHR 0xE3, CHR 0x80, CHR 0x81, CHR 0xE5, CHR 0xB7, CHR 0xA6] @ ''Alt'' @ [CHR 0xE9, CHR 0x94, CHR 0xAE, CHR 0xE5, CHR 0x92, CHR 0x8C, CHR 0xE5, CHR 0xB7, CHR 0xA6] @ ''Gui'' @ [CHR 0xE9, CHR 0x94, CHR 0xAE] @ '', '' @ [CHR 0xE5, CHR 0x8D, CHR 0x95, CHR 0xE5, CHR 0x87, CHR 0xBB, CHR 0xE8, CHR 0xA7, CHR 0xA6, CHR 0xE5, CHR 0x8F, CHR 0x91] @ ''kc'' @ [CHR 0xE9, CHR 0x94, CHR 0xAE])) True None None None,
    K ''RCG_T(kc)'' ''RCG_T\<newline>(kc)'' (Some ([CHR 0xE9, CHR 0x95, CHR 0xBF, CHR 0xE6, CHR 0x8C, CHR 0x89, CHR 0xE8, CHR 0xA7, CHR 0xA6, CHR 0xE5, CHR 0x8F, CHR 0x91, CHR 0xE5, CHR 0x8F, CHR 0xB3] @ ''Ctl'' @ [CHR 0xE9, CHR 0x94, CHR 0xAE, CHR 0xE5, CHR 0x92, CHR 0x8C, CHR 0xE5, CHR 0x8F, CHR 0xB3] @ ''Gui'' @ [CHR 0xE9, CHR 0x94, CHR 0xAE] @ '', '' @ [CHR 0xE5, CHR 0x8D, CHR 0x95, CHR 0xE5, CHR 0x87, CHR 0xBB, CHR 0xE8, CHR 0xA7, CHR 0xA6, CHR 0xE5, CHR 0x8F, CHR 0x91] @ ''kc'' @ [CHR 0xE9, CHR 0x94, CHR 0xAE])) True None None None,
    K ''RCAG_T(kc)'' ''RCAG_T\<newline>(kc)'' (Some ([CHR 0xE6, CHR 0x8C, CHR 0x89, CHR 0xE8, CHR 0xA7, CHR 0xA6, CHR 0xE5, CHR 0x8F, CHR 0x91, CHR 0xE5, CHR 0x8F, CHR 0xB3] @ ''Ctl'' @ [CHR 0xE9, CHR 0x94, CHR 0xAE, CHR 0xE3, CHR 0x80, CHR 0x81, CHR 0xE5, CHR 0x8F, CHR 0xB3] @ ''Alt'' @ [CHR 0xE9, CHR 0x94, CHR 0xAE, CHR 0xE5, CHR 0x92, CHR 0x8C, CHR 0xE5, CHR 0x8F, CHR 0xB3] @ ''Gui'' @ [CHR 0xE9, CHR 0x94, CHR 0xAE] @ '', '' @ [CHR 0xE5, CHR 0x8D, CHR 0x95, CHR 0xE5, CHR 0x87, CHR 0xBB, CHR 0xE8, CHR 0xA7, CHR 0xA6, CHR 0xE5, CHR 0x8F, CHR 0x91] @ ''kc'' @ [CHR 0xE9, CHR 0x94, CHR 0xAE])) True None None None,
    K ''MEH_T(kc)'' ''Meh_T\<newline>(kc)'' (Some ([CHR 0xE9, CHR 0x95, CHR 0xBF, CHR 0xE6, CHR 0x8C, CHR 0x89, CHR 0xE8, CHR 0xA7, CHR 0xA6, CHR 0xE5, CHR 0x8F, CHR 0x91, CHR 0xE5, CHR 0xB7, CHR 0xA6] @ ''Ctl'' @ [CHR 0xE9, CHR 0x94, CHR 0xAE, CHR 0xE3, CHR 0x80, CHR 0x81, CHR 0xE5, CHR 0xB7, CHR 0xA6] @ ''Shift'' @ [CHR 0xE9, CHR 0x94, CHR 0xAE, CHR 0xE5, CHR 0x92, CHR 0x8C, CHR 0xE5, CHR 0xB7, CHR 0xA6] @ ''Alt'' @ [CHR 0xE9, CHR 0x94, CHR 0xAE] @ '', '' @ [CHR 0xE5, CHR 0x8D, CHR 0x95, CHR 0xE5, CHR 0x87, CHR 0xBB, CHR 0xE8, CHR 0xA7, CHR 0xA6, CHR 0xE5, CHR 0x8F, CHR 0x91] @ ''kc'' @ [CHR 0xE9, CHR 0x94, CHR 0xAE])) True None None None,
    K ''ALL_T(kc)'' ''ALL_T\<newline>(kc)'' (Some ([CHR 0xE9, CHR 0x95, CHR 0xBF, CHR 0xE6, CHR 0x8C, CHR 0x89, CHR 0xE8, CHR 0xA7, CHR 0xA6, CHR 0xE5, CHR 0x8F, CHR 0x91, CHR 0xE5, CHR 0xB7, CHR 0xA6] @ ''Ctl'' @ [CHR 0xE9, CHR 0x94, CHR 0xAE, CHR 0xE3, CHR 0x80, CHR 0x81, CHR 0xE5, CHR 0xB7, CHR 0xA6] @ ''Shift'' @ [CHR 0xE9, CHR 0x94, CHR 0xAE, CHR 0xE3, CHR 0x80, CHR 0x81, CHR 0xE5, CHR 0xB7, CHR 0xA6] @ ''Alt'' @ [CHR 0xE9, CHR 0x94, CHR 0xAE, CHR 0xE5, CHR 0x92, CHR 0x8C, CHR 0xE5, CHR 0xB7, CHR 0xA6] @ ''Gui'' @ [CHR 0xE9, CHR 0x94, CHR 0xAE] @ '', '' @ [CHR 0xE5, CHR 0x8D, CHR 0x95, CHR 0xE5, CHR 0x87, CHR 0xBB, CHR 0xE8, CHR 0xA7, CHR 0xA6, CHR 0xE5, CHR 0x8F, CHR 0x91] @ ''kc'' @ [CHR 0xE9, CHR 0x94, CHR 0xAE])) True None None None,
    K ''KC_GESC'' ''~\<newline>Esc'' (Some ([CHR 0xE5, CHR 0x9C, CHR 0xA8, CHR 0xE6, CHR 0xAD, CHR 0xA3, CHR 0xE5, CHR 0xB8, CHR 0xB8, CHR 0xE6, CHR 0x83, CHR 0x85, CHR 0xE5, CHR 0x86, CHR 0xB5, CHR 0xE4, CHR 0xB8, CHR 0x8B, CHR 0xE4, CHR 0xBD, CHR 0x9C, CHR 0xE4, CHR 0xB8, CHR 0xBA] @ ''Esc'' @ [CHR 0xE9, CHR 0x94, CHR 0xAE, CHR 0xE4, CHR 0xBD, CHR 0xBF, CHR 0xE7, CHR 0x94, CHR 0xA8, CHR 0xEF, CHR 0xBC, CHR 0x8C, CHR 0xE4, CHR 0xBD, CHR 0x86, CHR 0xE5, CHR 0xBD, CHR 0x93] @ ''Shift'' @ [CHR 0xE9, CHR 0x94, CHR 0xAE, CHR 0xE6, CHR 0x88, CHR 0x96] @ ''GUI'' @ [CHR 0xE9, CHR 0x94, CHR 0xAE, CHR 0xE8, CHR 0xA2, CHR 0xAB, CHR 0xE6, CHR 0x8C, CHR 0x89, CHR 0xE4, CHR 0xB8, CHR 0x8B, CHR 0xE6, CHR 0x97, CHR 0xB6, CHR 0xE4, CHR 0xBD, CHR 0x9C, CHR 0xE4, CHR 0xB8, CHR 0xBA] @ ''~'' @ [CHR 0xE9, CHR 0x94, CHR 0xAE, CHR 0xE4, CHR 0xBD, CHR 0xBF, CHR 0xE7, CHR 0x94, CHR 0xA8])) False None None None,
    K ''KC_LSPO'' ''LS\<newline>('' (Some ([CHR 0xE9, CHR 0x95, CHR 0xBF, CHR 0xE6, CHR 0x8C, CHR 0x89, CHR 0xE8, CHR 0xA7, CHR 0xA6, CHR 0xE5, CHR 0x8F, CHR 0x91, CHR 0xE5, CHR 0xB7, CHR 0xA6] @ ''Shift'' @ [CHR 0xEF, CHR 0xBC, CHR 0x8C, CHR 0xE5, CHR 0x8D, CHR 0x95, CHR 0xE5, CHR 0x87, CHR 0xBB, CHR 0xE8, CHR 0xA7, CHR 0xA6, CHR 0xE5, CHR 0x8F, CHR 0x91] @ ''('')) False None None None,
    K ''KC_RSPC'' ''RS\<newline>)'' (Some ([CHR 0xE9, CHR 0x95, CHR 0xBF, CHR 0xE6, CHR 0x8C, CHR 0x89, CHR 0xE8, CHR 0xA7, CHR 0xA6, CHR 0xE5, CHR 0x8F, CHR 0x91, CHR 0xE5, CHR 0x8F, CHR 0xB3] @ ''Shift'' @ [CHR 0xEF, CHR 0xBC, CHR 0x8C, CHR 0xE5, CHR 0x8D, CHR 0x95, CHR 0xE5, CHR 0x87, CHR 0xBB, CHR 0xE8, CHR 0xA7, CHR 0xA6, CHR 0xE5, CHR 0x8F, CHR 0x91] @ '')'')) False None None None,
    K ''KC_LCPO'' ''LC\<newline>('' (Some ([CHR 0xE9, CHR 0x95, CHR 0xBF, CHR 0xE6, CHR 0x8C, CHR 0x89, CHR 0xE8, CHR 0xA7, CHR 0xA6, CHR 0xE5, CHR 0x8F, CHR 0x91, CHR 0xE5, CHR 0xB7, CHR 0xA6] @ ''Ctl'' @ [CHR 0xEF, CHR 0xBC, CHR 0x8C, CHR 0xE5, CHR 0x8D, CHR 0x95, CHR 0xE5, CHR 0x87, CHR 0xBB, CHR 0xE8, CHR 0xA7, CHR 0xA6, CHR 0xE5, CHR 0x8F, CHR 0x91] @ ''('')) False None None None,
    K ''KC_RCPC'' ''RC\<newline>)'' (Some ([CHR 0xE9, CHR 0x95, CHR 0xBF, CHR 0xE6, CHR 0x8C, CHR 0x89, CHR 0xE8, CHR 0xA7, CHR 0xA6, CHR 0xE5, CHR 0x8F, CHR 0x91, CHR 0xE5, CHR 0x8F, CHR 0xB3] @ ''Ctl'' @ [CHR 0xEF, CHR 0xBC, CHR 0x8C, CHR 0xE5, CHR 0x8D, CHR 0x95, CHR 0xE5, CHR 0x87, CHR 0xBB, CHR 0xE8, CHR 0xA7, CHR 0xA6, CHR 0xE5, CHR 0x8F, CHR 0x91] @ '')'')) False None None None,
    K ''KC_LAPO'' ''LA\<newline>('' (Some ([CHR 0xE9, CHR 0x95, CHR 0xBF, CHR 0xE6, CHR 0x8C, CHR 0x89, CHR 0xE8, CHR 0xA7, CHR 0xA6, CHR 0xE5, CHR 0x8F, CHR 0x91, CHR 0xE5, CHR 0xB7, CHR 0xA6] @ ''Alt'' @ [CHR 0xEF, CHR 0xBC, CHR 0x8C, CHR 0xE5, CHR 0x8D, CHR 0x95, CHR 0xE5, CHR 0x87, CHR 0xBB, CHR 0xE8, CHR 0xA7, CHR 0xA6, CHR 0xE5, CHR 0x8F, CHR 0x91] @ ''('')) False None None None,
    K ''KC_RAPC'' ''RA\<newline>)'' (Some ([CHR 0xE9, CHR 0x95, CHR 0xBF, CHR 0xE6, CHR 0x8C, CHR 0x89, CHR 0xE8, CHR 0xA7, CHR 0xA6, CHR 0xE5, CHR 0x8F, CHR 0x91, CHR 0xE5, CHR 0x8F, CHR 0xB3] @ ''Alt'' @ [CHR 0xEF, CHR 0xBC, CHR 0x8C, CHR 0xE5, CHR 0x8D, CHR 0x95, CHR 0xE5, CHR 0x87, CHR 0xBB, CHR 0xE8, CHR 0xA7, CHR 0xA6, CHR 0xE5, CHR 0x8F, CHR 0x91] @ '')'')) False None None None,
    K ''KC_SFTENT'' ''RS\<newline>Enter'' (Some ([CHR 0xE9, CHR 0x95, CHR 0xBF, CHR 0xE6, CHR 0x8C, CHR 0x89, CHR 0xE8, CHR 0xA7, CHR 0xA6, CHR 0xE5, CHR 0x8F, CHR 0x91, CHR 0xE5, CHR 0x8F, CHR 0xB3] @ ''Shift'' @ [CHR 0xEF, CHR 0xBC, CHR 0x8C, CHR 0xE5, CHR 0x8D, CHR 0x95, CHR 0xE5, CHR 0x87, CHR 0xBB, CHR 0xE8, CHR 0xA7, CHR 0xA6, CHR 0xE5, CHR 0x8F, CHR 0x91] @ ''Enter'')) False None None None]"

definition KEYCODES_QUANTUM_args :: "kargs list" where
  "KEYCODES_QUANTUM_args = [
    K ''MAGIC_SWAP_CONTROL_CAPSLOCK'' ''Swap\<newline>Ctrl\<newline>Caps'' (Some ([CHR 0xE4, CHR 0xBA, CHR 0xA4, CHR 0xE6, CHR 0x8D, CHR 0xA2] @ ''Caps Lock'' @ [CHR 0xE9, CHR 0x94, CHR 0xAE, CHR 0xE5, CHR 0x92, CHR 0x8C, CHR 0xE5, CHR 0xB7, CHR 0xA6] @ ''Control'' @ [CHR 0xE9, CHR 0x94, CHR 0xAE, CHR 0xE7, CHR 0x9A, CHR 0x84, CHR 0xE4, CHR 0xBD, CHR 0x8D, CHR 0xE7, CHR 0xBD, CHR 0xAE])) False None None (Some [''CL_SWAP'']),
    K ''MAGIC_UNSWAP_CONTROL_CAPSLOCK'' ''Unswap\<newline>Ctrl\<newline>Caps'' (Some ([CHR 0xE4, CHR 0xBA, CHR 0xA4, CHR 0xE6, CHR 0x8D, CHR 0xA2, CHR 0xE5, CHR 0xA4, CHR 0xA7, CHR 0xE5, CHR 0x86, CHR 0x99, CHR 0xE9, CHR 0x94, CHR 0x81, CHR 0xE5, CHR 0xAE, CHR 0x9A, CHR 0xE9, CHR 0x94, CHR 0xAE, CHR 0xEF, CHR 0xBC, CHR 0x88] @ ''Caps Lock'' @ [CHR 0xEF, CHR 0xBC, CHR 0x89, CHR 0xE5, CHR 0x92, CHR 0x8C, CHR 0xE5, CHR 0xB7, CHR 0xA6, CHR 0xE6, CHR 0x8E, CHR 0xA7, CHR 0xE5, CHR 0x88, CHR 0xB6, CHR 0xE9, CHR 0x94, CHR 0xAE, CHR 0xEF, CHR 0xBC, CHR 0x88] @ ''Left Control'' @ [CHR 0xEF, CHR 0xBC, CHR 0x89, CHR 0xE7, CHR 0x9A, CHR 0x84, CHR 0xE4, CHR 0xBD, CHR 0x8D, CHR 0xE7, CHR 0xBD, CHR 0xAE])) False None None (Some [''CL_NORM'']),
    K ''MAGIC_CAPSLOCK_TO_CONTROL'' ''Caps\<newline>to\<newline>Ctrl'' (Some ([CHR 0xE5, CHR 0xB0, CHR 0x86, CHR 0xE5, CHR 0xA4, CHR 0xA7, CHR 0xE5, CHR 0x86, CHR 0x99, CHR 0xE9, CHR 0x94, CHR 0x81, CHR 0xE5, CHR 0xAE, CHR 0x9A, CHR 0xE9, CHR 0x94, CHR 0xAE, CHR 0xEF, CHR 0xBC, CHR 0x88] @ ''Caps Lock'' @ [CHR 0xEF, CHR 0xBC, CHR 0x89, CHR 0xE8, CHR 0xA7, CHR 0x86, CHR 0xE4, CHR 0xB8, CHR 0xBA, CHR 0xE6, CHR 0x8E, CHR 0xA7, CHR 0xE5, CHR 0x88, CHR 0xB6, CHR 0xE9, CHR 0x94, CHR 0xAE, CHR 0xEF, CHR 0xBC, CHR 0x88] @ ''Control'' @ [CHR 0xEF, CHR 0xBC, CHR 0x89, CHR 0xE4, CHR 0xBD, CHR 0xBF, CHR 0xE7, CHR 0x94, CHR 0xA8])) False None None (Some [''CL_CTRL'']),
    K ''MAGIC_UNCAPSLOCK_TO_CONTROL'' ''Caps\<newline>not to\<newline>Ctrl'' (Some ([CHR 0xE5, CHR 0x81, CHR 0x9C, CHR 0xE6, CHR 0xAD, CHR 0xA2, CHR 0xE5, CHR 0xB0, CHR 0x86, CHR 0xE5, CHR 0xA4, CHR 0xA7, CHR 0xE5, CHR 0x86, CHR 0x99, CHR 0xE9, CHR 0x94, CHR 0x81, CHR 0xE5, CHR 0xAE, CHR 0x9A, CHR 0xE9, CHR 0x94, CHR 0xAE, CHR 0xEF, CHR 0xBC, CHR 0x88] @ ''Caps Lock'' @ [CHR 0xEF, CHR 0xBC, CHR 0x89, CHR 0xE4, CHR 0xBD, CHR 0x9C, CHR 0xE4, CHR 0xB8, CHR 0xBA, CHR 0xE6, CHR 0x8E, CHR 0xA7, CHR 0xE5, CHR 0x88, CHR 0xB6, CHR 0xE9, CHR 0x94, CHR 0xAE, CHR 0xEF, CHR 0xBC, CHR 0x88] @ ''Control'' @ [CHR 0xEF, CHR 0xBC, CHR 0x89, CHR 0xE4, CHR 0xBD, CHR 0xBF, CHR 0xE7, CHR 0x94, CHR 0xA8])) False None None (Some [''CL_CAPS'']),
    K ''MAGIC_SWAP_LCTL_LGUI'' ''Swap\<newline>LCtl\<newline>LGui'' (Some ([CHR 0xE4, CHR 0xBA, CHR 0xA4, CHR 0xE6, CHR 0x8D, CHR 0xA2, CHR 0xE5, CHR 0xB7, CHR 0xA6, CHR 0xE6, CHR 0x8E, CHR 0xA7, CHR 0xE5, CHR 0x88, CHR 0xB6, CHR 0xE9, CHR 0x94, CHR 0xAE, CHR 0xEF, CHR 0xBC, CHR 0x88] @ ''Left Control'' @ [CHR 0xEF, CHR 0xBC, CHR 0x89, CHR 0xE5, CHR 0x92, CHR 0x8C] @ ''GUI'' @ [CHR 0xE9, CHR 0x94, CHR 0xAE])) False None None (Some [''LCG_SWP'']),
    K ''MAGIC_UNSWAP_LCTL_LGUI'' ''Unswap\<newline>LCtl\<newline>LGui'' (Some ([CHR 0xE5, CHR 0x8F, CHR 0x96, CHR 0xE6, CHR 0xB6, CHR 0x88, CHR 0xE4, CHR 0xBA, CHR 0xA4, CHR 0xE6, CHR 0x8D, CHR 0xA2, CHR 0xE5, CHR 0xB7, CHR 0xA6, CHR 0xE6, CHR 0x8E, CHR 0xA7, CHR 0xE5, CHR 0x88, CHR 0xB6, CHR 0xE9, CHR 0x94, CHR 0xAE, CHR 0xEF, CHR 0xBC, CHR 0x88] @ ''Left Control'' @ [CHR 0xEF, CHR 0xBC, CHR 0x89, CHR 0xE5, CHR 0x92, CHR 0x8C] @ ''GUI'' @ [CHR 0xE9, CHR 0x94, CHR 0xAE])) False None None (Some [''LCG_NRM'']),
    K ''MAGIC_SWAP_RCTL_RGUI'' ''Swap\<newline>RCtl\<newline>RGui'' (Some ([CHR 0xE4, CHR 0xBA, CHR 0xA4, CHR 0xE6, CHR 0x8D, CHR 0xA2, CHR 0xE5, CHR 0x8F, CHR 0xB3, CHR 0xE6, CHR 0x8E, CHR 0xA7, CHR 0xE5, CHR 0x88, CHR 0xB6, CHR 0xE9, CHR 0x94, CHR 0xAE, CHR 0xEF, CHR 0xBC, CHR 0x88] @ ''Right Control'' @ [CHR 0xEF, CHR 0xBC, CHR 0x89, CHR 0xE5, CHR 0x92, CHR 0x8C] @ ''GUI'' @ [CHR 0xE9, CHR 0x94, CHR 0xAE])) False None None (Some [''RCG_SWP'']),
    K ''MAGIC_UNSWAP_RCTL_RGUI'' ''Unswap\<newline>RCtl\<newline>RGui'' (Some ([CHR 0xE5, CHR 0x8F, CHR 0x96, CHR 0xE6, CHR 0xB6, CHR 0x88, CHR 0xE4, CHR 0xBA, CHR 0xA4, CHR 0xE6, CHR 0x8D, CHR 0xA2, CHR 0xE5, CHR 0x8F, CHR 0xB3, CHR 0xE6, CHR 0x8E, CHR 0xA7, CHR 0xE5, CHR 0x88, CHR 0xB6, CHR 0xE9, CHR 0x94, CHR 0xAE, CHR 0xEF, CHR 0xBC, CHR 0x88] @ ''Right Control'' @ [CHR 0xEF, CHR 0xBC, CHR 0x89, CHR 0xE5, CHR 0x92, CHR 0x8C] @ ''GUI'' @ [CHR 0xE9, CHR 0x94, CHR 0xAE])) False None None (Some [''RCG_NRM'']),
    K ''MAGIC_SWAP_CTL_GUI'' ''Swap\<newline>Ctl\<newline>Gui'' (Some ([CHR 0xE5, CHR 0x9C, CHR 0xA8, CHR 0xE4, CHR 0xB8, CHR 0xA4, CHR 0xE4, CHR 0xBE, CHR 0xA7, CHR 0xEF, CHR 0xBC, CHR 0x88, CHR 0xE5, CHR 0x8D, CHR 0xB3, CHR 0xE5, CHR 0xB7, CHR 0xA6, CHR 0xE4, CHR 0xBE, CHR 0xA7, CHR 0xE5, CHR 0x92, CHR 0x8C, CHR 0xE5, CHR 0x8F, CHR 0xB3, CHR 0xE4, CHR 0xBE, CHR 0xA7, CHR 0xEF, CHR 0xBC, CHR 0x89, CHR 0xE9, CHR 0x83, CHR 0xBD, CHR 0xE4, CHR 0xBA, CHR 0xA4, CHR 0xE6, CHR 0x8D, CHR 0xA2, CHR 0xE6, CHR 0x8E, CHR 0xA7, CHR 0xE5, CHR 0x88, CHR 0xB6, CHR 0xE9, CHR 0x94, CHR 0xAE, CHR 0xEF, CHR 0xBC, CHR 0x88] @ ''Control'' @ [CHR 0xEF, CHR 0xBC, CHR 0x89, CHR 0xE5, CHR 0x92, CHR 0x8C] @ ''GUI'' @ [CHR 0xE9, CHR 0x94, CHR 0xAE])) False None None (Some [''CG_SWAP'']),
    K ''MAGIC_UNSWAP_CTL_GUI'' ''Unswap\<newline>Ctl\<newline>Gui'' (Some ([CHR 0xE5, CHR 0x8F, CHR 0x96, CHR 0xE6, CHR 0xB6, CHR 0x88, CHR 0xE5, CHR 0x9C, CHR 0xA8, CHR 0xE4, CHR 0xB8, CHR 0xA4, CHR 0xE4, CHR 0xBE, CHR 0xA7, CHR 0xEF, CHR 0xBC, CHR 0x88, CHR 0xE5, CHR 0xB7, CHR 0xA6, CHR 0xE4, CHR 0xBE, CHR 0xA7, CHR 0xE5, CHR 0x92, CHR 0x8C, CHR 0xE5, CHR 0x8F, CHR 0xB3, CHR 0xE4, CHR 0xBE, CHR 0xA7, CHR 0xEF, CHR 0xBC, CHR 0x89, CHR 0xE6, CHR 0x8E, CHR 0xA7, CHR 0xE5, CHR 0x88, CHR 0xB6, CHR 0xE9, CHR 0x94, CHR 0xAE, CHR 0xEF, CHR 0xBC, CHR 0x88] @ ''Control'' @ [CHR 0xEF, CHR 0xBC, CHR 0x89, CHR 0xE5, CHR 0x92, CHR 0x8C] @ ''GUI'' @ [CHR 0xE9, CHR 0x94, CHR 0xAE])) False None None (Some [''CG_NORM'']),
    K ''MAGIC_TOGGLE_CTL_GUI'' ''Toggle\<newline>Ctl\<newline>Gui'' (Some ([CHR 0xE5, CHR 0x88, CHR 0x87, CHR 0xE6, CHR 0x8D, CHR 0xA2, CHR 0xE4, CHR 0xB8, CHR 0xA4, CHR 0xE4, CHR 0xBE, CHR 0xA7, CHR 0xEF, CHR 0xBC, CHR 0x88, CHR 0xE5, CHR 0xB7, CHR 0xA6, CHR 0xE4, CHR 0xBE, CHR 0xA7, CHR 0xE5, CHR 0x92, CHR 0x8C, CHR 0xE5, CHR 0x8F, CHR 0xB3, CHR 0xE4, CHR 0xBE, CHR 0xA7, CHR 0xEF, CHR 0xBC, CHR 0x89, CHR 0xE6, CHR 0x8E, CHR 0xA7, CHR 0xE5, CHR 0x88, CHR 0xB6, CHR 0xE9, CHR 0x94, CHR 0xAE, CHR 0xEF, CHR 0xBC, CHR 0x88] @ ''Control'' @ [CHR 0xEF, CHR 0xBC, CHR 0x89, CHR 0xE5, CHR 0x92, CHR 0x8C] @ ''GUI'' @ [CHR 0xE9, CHR 0x94, CHR 0xAE])) False None None (Some [''CG_TOGG'']),
    K ''MAGIC_SWAP_LALT_LGUI'' ''Swap\<newline>LAlt\<newline>LGui'' (Some ([CHR 0xE4, CHR 0xBA, CHR 0xA4, CHR 0xE6, CHR 0x8D, CHR 0xA2, CHR 0xE5, CHR 0xB7, CHR 0xA6] @ ''Alt'' @ [CHR 0xE9, CHR 0x94, CHR 0xAE, CHR 0xE5, CHR 0x92, CHR 0x8C] @ ''GUI'' @ [CHR 0xE9, CHR 0x94, CHR 0xAE, CHR 0xE7, CHR 0x9A, CHR 0x84, CHR 0xE4, CHR 0xBD, CHR 0x8D, CHR 0xE7, CHR 0xBD, CHR 0xAE])) False None None (Some [''LAG_SWP'']),
    K ''MAGIC_UNSWAP_LALT_LGUI'' ''Unswap\<newline>LAlt\<newline>LGui'' (Some ([CHR 0xE5, CHR 0x8F, CHR 0x96, CHR 0xE6, CHR 0xB6, CHR 0x88, CHR 0xE4, CHR 0xBA, CHR 0xA4, CHR 0xE6, CHR 0x8D, CHR 0xA2, CHR 0xE5, CHR 0xB7, CHR 0xA6] @ ''Alt'' @ [CHR 0xE9, CHR 0x94, CHR 0xAE, CHR 0xE5, CHR 0x92, CHR 0x8C] @ ''GUI'' @ [CHR 0xE9, CHR 0x94, CHR 0xAE, CHR 0xE7, CHR 0x9A, CHR 0x84, CHR 0xE4, CHR 0xBD, CHR 0x8D, CHR 0xE7, CHR 0xBD, CHR 0xAE])) False None None (Some [''LAG_NRM'']),
    K ''MAGIC_SWAP_RALT_RGUI'' ''Swap\<newline>RAlt\<newline>RGui'' (Some ([CHR 0xE4, CHR 0xBA, CHR 0xA4, CHR 0xE6, CHR 0x8D, CHR 0xA2, CHR 0xE5, CHR 0x8F, CHR 0xB3] @ ''Alt'' @ [CHR 0xE9, CHR 0x94, CHR 0xAE, CHR 0xE5, CHR 0x92, CHR 0x8C] @ ''GUI'' @ [CHR 0xE9, CHR 0x94, CHR 0xAE, CHR 0xE7, CHR 0x9A, CHR 0x84, CHR 0xE4, CHR 0xBD, CHR 0x8D, CHR 0xE7, CHR 0xBD, CHR 0xAE])) False None None (Some [''RAG_SWP'']),
    K ''MAGIC_UNSWAP_RALT_RGUI'' ''Unswap\<newline>RAlt\<newline>RGui'' (Some ([CHR 0xE5, CHR 0x8F, CHR 0x96, CHR 0xE6, CHR 0xB6, CHR 0x88, CHR 0xE4, CHR 0xBA, CHR 0xA4, CHR 0xE6, CHR 0x8D, CHR 0xA2, CHR 0xE5, CHR 0x8F, CHR 0xB3] @ ''Alt'' @ [CHR 0xE9, CHR 0x94, CHR 0xAE, CHR 0xE5, CHR 0x92, CHR 0x8C] @ ''GUI'' @ [CHR 0xE9, CHR 0x94, CHR 0xAE, CHR 0xE7, CHR 0x9A, CHR 0x84, CHR 0xE4, CHR 0xBD, CHR 0x8D, CHR 0xE7, CHR 0xBD, CHR 0xAE])) False None None (Some [''RAG_NRM'']),
    K ''MAGIC_SWAP_ALT_GUI'' ''Swap\<newline>Alt\<newline>Gui'' (Some ([CHR 0xE5, CHR 0x9C, CHR 0xA8, CHR 0xE9, CHR 0x94, CHR 0xAE, CHR 0xE7, CHR 0x9B, CHR 0x98, CHR 0xE7, CHR 0x9A, CHR 0x84, CHR 0xE4, CHR 0xB8, CHR 0xA4, CHR 0xE4, CHR 0xBE, CHR 0xA7, CHR 0xEF, CHR 0xBC, CHR 0x88, CHR 0xE5, CHR 0xB7, CHR 0xA6, CHR 0xE4, CHR 0xBE, CHR 0xA7, CHR 0xE5, CHR 0x92, CHR 0x8C, CHR 0xE5, CHR 0x8F, CHR 0xB3, CHR 0xE4, CHR 0xBE, CHR 0xA7, CHR 0xEF, CHR 0xBC, CHR 0x89, CHR 0xE9, CHR 0x83, CHR 0xBD, CHR 0xE4, CHR 0xBA, CHR 0xA4, CHR 0xE6, CHR 0x8D, CHR 0xA2] @ ''Alt'' @ [CHR 0xE9, CHR 0x94, CHR 0xAE, CHR 0xE5, CHR 0x92, CHR 0x8C] @ ''GUI'' @ [CHR 0xE9, CHR 0x94, CHR 0xAE, CHR 0xE7, CHR 0x9A, CHR 0x84, CHR 0xE4, CHR 0xBD, CHR 0x8D, CHR 0xE7, CHR 0xBD, CHR 0xAE])) False None None (Some [''AG_SWAP'']),
    K ''MAGIC_UNSWAP_ALT_GUI'' ''Unswap\<newline>Alt\<newline>Gui'' (Some ([CHR 0xE5, CHR 0x8F, CHR 0x96, CHR 0xE6, CHR 0xB6, CHR 0x88, CHR 0xE5, CHR 0x9C, CHR 0xA8, CHR 0xE9, CHR 0x94, CHR 0xAE, CHR 0xE7, CHR 0x9B, CHR 0x98, CHR 0xE7, CHR 0x9A, CHR 0x84, CHR 0xE4, CHR 0xB8, CHR 0xA4, CHR 0xE4, CHR 0xBE, CHR 0xA7, CHR 0xEF, CHR 0xBC, CHR 0x88, CHR 0xE5, CHR 0xB7, CHR 0xA6, CHR 0xE4, CHR 0xBE, CHR 0xA7, CHR 0xE5, CHR 0x92, CHR 0x8C, CHR 0xE5, CHR 0x8F, CHR 0xB3, CHR 0xE4, CHR 0xBE, CHR 0xA7, CHR 0xEF, CHR 0xBC, CHR 0x89, CHR 0xE9, CHR 0x83, CHR 0xBD, CHR 0xE4, CHR 0xBA, CHR 0xA4, CHR 0xE6, CHR 0x8D, CHR 0xA2] @ ''Alt'' @ [CHR 0xE9, CHR 0x94, CHR 0xAE, CHR 0xE5, CHR 0x92, CHR 0x8C] @ ''GUI'' @ [CHR 0xE9, CHR 0x94, CHR 0xAE, CHR 0xE7, CHR 0x9A, CHR 0x84, CHR 0xE4, CHR 0xBD, CHR 0x8D, CHR 0xE7, CHR 0xBD, CHR 0xAE])) False None None (Some [''AG_NORM'']),
    K ''MAGIC_TOGGLE_ALT_GUI'' ''Toggle\<newline>Alt\<newline>Gui'' (Some ([CHR 0xE5, CHR 0x88, CHR 0x87, CHR 0xE6, CHR 0x8D, CHR 0xA2, CHR 0xE4, CHR 0xB8, CHR 0xA4, CHR 0xE4, CHR 0xBE, CHR 0xA7, CHR 0xEF, CHR 0xBC, CHR 0x88, CHR 0xE5, CHR 0xB7, CHR 0xA6, CHR 0xE4, CHR 0xBE, CHR 0xA7, CHR 0xE5, CHR 0x92, CHR 0x8C, CHR 0xE5, CHR 0x8F, CHR 0xB3, CHR 0xE4, CHR 0xBE, CHR 0xA7, CHR 0xEF, CHR 0xBC, CHR 0x89] @ ''Alt'' @ [CHR 0xE9, CHR 0x94, CHR 0xAE, CHR 0xE5, CHR 0x92, CHR 0x8C] @ ''GUI'' @ [CHR 0xE9, CHR 0x94, CHR 0xAE, CHR 0xE7, CHR 0x9A, CHR 0x84, CHR 0xE4, CHR 0xBA, CHR 0xA4, CHR 0xE6, CHR 0x8D, CHR 0xA2, CHR 0xE7, CHR 0x8A, CHR 0xB6, CHR 0xE6, CHR 0x80, CHR 0x81])) False None None (Some [''AG_TOGG'']),
    K ''MAGIC_NO_GUI'' ''GUI\<newline>Off'' (Some ([CHR 0xE7, CHR 0xA6, CHR 0x81, CHR 0xE7, CHR 0x94, CHR 0xA8] @ ''GUI'' @ [CHR 0xE9, CHR 0x94, CHR 0xAE])) False None None (Some [''GUI_OFF'']),
    K ''MAGIC_UNNO_GUI'' ''GUI\<newline>On'' (Some ([CHR 0xE5, CHR 0xBC, CHR 0x80, CHR 0xE5, CHR 0x90, CHR 0xAF] @ ''GUI'' @ [CHR 0xE9, CHR 0x94, CHR 0xAE])) False None None (Some [''GUI_ON'']),
    K ''MAGIC_SWAP_GRAVE_ESC'' (''Swap\<newline>'' @ [CHR 0x60] @ ''\<newline>Esc'') (Some (''Swap '' @ [CHR 0x60] @ '' and Escape'')) False None None (Some [''GE_SWAP'']),
    K ''MAGIC_UNSWAP_GRAVE_ESC'' (''Unswap\<newline>'' @ [CHR 0x60] @ ''\<newline>Esc'') (Some (''Unswap '' @ [CHR 0x60] @ '' and Escape'')) False None None (Some [''GE_NORM'']),
    K ''MAGIC_SWAP_BACKSLASH_BACKSPACE'' (''Swap\<newline>'' @ [CHR 0x5C] @ ''\<newline>BS'') (Some (''Swap '' @ [CHR 0x5C] @ '' and Backspace'')) False None None (Some [''BS_SWAP'']),
    K ''MAGIC_UNSWAP_BACKSLASH_BACKSPACE'' (''Unswap\<newline>'' @ [CHR 0x5C] @ ''\<newline>BS'') (Some (''Unswap '' @ [CHR 0x5C] @ '' and Backspace'')) False None None (Some [''BS_NORM'']),
    K ''MAGIC_HOST_NKRO'' ''NKRO\<newline>On'' (Some [CHR 0xE5, CHR 0x90, CHR 0xAF, CHR 0xE7, CHR 0x94, CHR 0xA8, CHR 0xE5, CHR 0x85, CHR 0xA8, CHR 0xE9, CHR 0x94, CHR 0xAE, CHR 0xE6, CHR 0x97, CHR 0xA0, CHR 0xE5, CHR 0x86, CHR 0xB2]) False None None (Some [''NK_ON'']),
    K ''MAGIC_UNHOST_NKRO'' ''NKRO\<newline>Off'' (Some [CHR 0xE7, CHR 0xA6, CHR 0x81, CHR 0xE7, CHR 0x94, CHR 0xA8, CHR 0xE5, CHR 0x85, CHR 0xA8, CHR 0xE9, CHR 0x94, CHR 0xAE, CHR 0xE6, CHR 0x97, CHR 0xA0, CHR 0xE5, CHR 0x86, CHR 0xB2]) False None None (Some [''NK_OFF'']),
    K ''MAGIC_TOGGLE_NKRO'' ''NKRO\<newline>Toggle'' (Some [CHR 0xE5, CHR 0x88, CHR 0x87, CHR 0xE6, CHR 0x8D, CHR 0xA2, CHR 0xE5, CHR 0x88, CHR 0xB0, CHR 0xE5, CHR 0x85, CHR 0xA8, CHR 0xE9, CHR 0x94, CHR 0xAE, CHR 0xE6, CHR 0x97, CHR 0xA0, CHR 0xE5, CHR 0x86, CHR 0xB2]) False None None (Some [''NK_TOGG'']),
    K ''MAGIC_EE_HANDS_LEFT'' ''EEH\<newline>Left'' (Some ([CHR 0xE5, CHR 0xB0, CHR 0x86, CHR 0xE5, CHR 0x88, CHR 0x86, CHR 0xE4, CHR 0xBD, CHR 0x93, CHR 0xE9, CHR 0x94, CHR 0xAE, CHR 0xE7, CHR 0x9B, CHR 0x98, CHR 0xE7, CHR 0x9A, CHR 0x84, CHR 0xE4, CHR 0xB8, CHR 0xBB, CHR 0xE5, CHR 0x8D, CHR 0x8A, CHR 0xE9, CHR 0x83, CHR 0xA8, CHR 0xE5, CHR 0x88, CHR 0x86, CHR 0xE8, CHR 0xAE, CHR 0xBE, CHR 0xE7, CHR 0xBD, CHR 0xAE, CHR 0xE4, CHR 0xB8, CHR 0xBA, CHR 0xE5, CHR 0xB7, CHR 0xA6, CHR 0xE6, CHR 0x89, CHR 0x8B, CHR 0xE4, CHR 0xBE, CHR 0xA7, CHR 0xEF, CHR 0xBC, CHR 0x88, CHR 0xE5, CHR 0xAF, CHR 0xB9, CHR 0xE4, CHR 0xBA, CHR 0x8E] @ ''EE_HANDS'')) False None None (Some [''EH_LEFT'']),
    K ''MAGIC_EE_HANDS_RIGHT'' ''EEH\<newline>Right'' (Some ([CHR 0xE5, CHR 0xB0, CHR 0x86, CHR 0xE5, CHR 0x88, CHR 0x86, CHR 0xE4, CHR 0xBD, CHR 0x93, CHR 0xE9, CHR 0x94, CHR 0xAE, CHR 0xE7, CHR 0x9B, CHR 0x98, CHR 0xE7, CHR 0x9A, CHR 0x84, CHR 0xE4, CHR 0xB8, CHR 0xBB, CHR 0xE5, CHR 0x8D, CHR 0x8A, CHR 0xE9, CHR 0x83, CHR 0xA8, CHR 0xE5, CHR 0x88, CHR 0x86, CHR 0xE8, CHR 0xAE, CHR 0xBE, CHR 0xE7, CHR 0xBD, CHR 0xAE, CHR 0xE4, CHR 0xB8, CHR 0xBA, CHR 0xE5, CHR 0x8F, CHR 0xB3, CHR 0xE6, CHR 0x89, CHR 0x8B, CHR 0xE4, CHR 0xBE, CHR 0xA7, CHR 0xEF, CHR 0xBC, CHR 0x88, CHR 0xE5, CHR 0xAF, CHR 0xB9, CHR 0xE4, CHR 0xBA, CHR 0x8E] @ ''EE_HANDS)'')) False None None (Some [''EH_RGHT'']),
    K ''AU_ON'' ''Audio\<newline>ON'' (Some [CHR 0xE6, CHR 0x89, CHR 0x93, CHR 0xE5, CHR 0xBC, CHR 0x80, CHR 0xE9, CHR 0x9F, CHR 0xB3, CHR 0xE9, CHR 0xA2, CHR 0x91, CHR 0xE5, CHR 0x8A, CHR 0x9F, CHR 0xE8, CHR 0x83, CHR 0xBD]) False None None None,
    K ''AU_OFF'' ''Audio\<newline>OFF'' (Some [CHR 0xE5, CHR 0x85, CHR 0xB3, CHR 0xE9, CHR 0x97, CHR 0xAD, CHR 0xE9, CHR 0x9F, CHR 0xB3, CHR 0xE9, CHR 0xA2, CHR 0x91, CHR 0xE5, CHR 0x8A, CHR 0x9F, CHR 0xE8, CHR 0x83, CHR 0xBD]) False None None None,
    K ''AU_TOG'' ''Audio\<newline>Toggle'' (Some [CHR 0xE5, CHR 0x88, CHR 0x87, CHR 0xE6, CHR 0x8D, CHR 0xA2, CHR 0xE9, CHR 0x9F, CHR 0xB3, CHR 0xE9, CHR 0xA2, CHR 0x91, CHR 0xE5, CHR 0x8A, CHR 0x9F, CHR 0xE8, CHR 0x83, CHR 0xBD]) False None None None,
    K ''CLICKY_TOGGLE'' ''Clicky\<newline>Toggle'' (Some [CHR 0xE5, CHR 0x88, CHR 0x87, CHR 0xE6, CHR 0x8D, CHR 0xA2, CHR 0xE9, CHR 0x9F, CHR 0xB3, CHR 0xE9, CHR 0xA2, CHR 0x91, CHR 0xE6, CHR 0xBB, CHR 0xB4, CHR 0xE7, CHR 0xAD, CHR 0x94, CHR 0xE6, CHR 0xA8, CHR 0xA1, CHR 0xE5, CHR 0xBC, CHR 0x8F]) False None None (Some [''CK_TOGG'']),
    K ''CLICKY_UP'' ''Clicky\<newline>Up'' (Some [CHR 0xE5, CHR 0xA2, CHR 0x9E, CHR 0xE5, CHR 0x8A, CHR 0xA0, CHR 0xE6, CHR 0xBB, CHR 0xB4, CHR 0xE7, CHR 0xAD, CHR 0x94, CHR 0xE9, CHR 0xA2, CHR 0x91, CHR 0xE7, CHR 0x8E, CHR 0x87]) False None None (Some [''CK_UP'']),
    K ''CLICKY_DOWN'' ''Clicky\<newline>Down'' (Some [CHR 0xE5, CHR 0x87, CHR 0x8F, CHR 0xE5, CHR 0xB0, CHR 0x91, CHR 0xE6, CHR 0xBB, CHR 0xB4, CHR 0xE7, CHR 0xAD, CHR 0x94, CHR 0xE9, CHR 0xA2, CHR 0x91, CHR 0xE7, CHR 0x8E, CHR 0x87]) False None None (Some [''CK_DOWN'']),
    K ''CLICKY_RESET'' ''Clicky\<newline>Reset'' (Some [CHR 0xE5, CHR 0xB0, CHR 0x86, CHR 0xE9, CHR 0xA2, CHR 0x91, CHR 0xE7, CHR 0x8E, CHR 0x87, CHR 0xE9, CHR 0x87, CHR 0x8D, CHR 0xE7, CHR 0xBD, CHR 0xAE, CHR 0xE4, CHR 0xB8, CHR 0xBA, CHR 0xE9, CHR 0xBB, CHR 0x98, CHR 0xE8, CHR 0xAE, CHR 0xA4, CHR 0xE5, CHR 0x80, CHR 0xBC]) False None None (Some [''CK_RST'']),
    K ''MU_ON'' ''Music\<newline>On'' (Some [CHR 0xE5, CHR 0xBC, CHR 0x80, CHR 0xE5, CHR 0x90, CHR 0xAF, CHR 0xE9, CHR 0x9F, CHR 0xB3, CHR 0xE4, CHR 0xB9, CHR 0x90, CHR 0xE6, CHR 0xA8, CHR 0xA1, CHR 0xE5, CHR 0xBC, CHR 0x8F]) False None None None,
    K ''MU_OFF'' ''Music\<newline>Off'' (Some [CHR 0xE5, CHR 0x85, CHR 0xB3, CHR 0xE9, CHR 0x97, CHR 0xAD, CHR 0xE9, CHR 0x9F, CHR 0xB3, CHR 0xE4, CHR 0xB9, CHR 0x90, CHR 0xE6, CHR 0xA8, CHR 0xA1, CHR 0xE5, CHR 0xBC, CHR 0x8F]) False None None None,
    K ''MU_TOG'' ''Music\<newline>Toggle'' (Some [CHR 0xE5, CHR 0x88, CHR 0x87, CHR 0xE6, CHR 0x8D, CHR 0xA2, CHR 0xE9, CHR 0x9F, CHR 0xB3, CHR 0xE4, CHR 0xB9, CHR 0x90, CHR 0xE6, CHR 0xA8, CHR 0xA1, CHR 0xE5, CHR 0xBC, CHR 0x8F]) False None None None,
    K ''MU_MOD'' ''Music\<newline>Cycle'' (Some [CHR 0xE6, CHR 0x8C, CHR 0x89, CHR 0xE9, CHR 0xA1, CHR 0xBA, CHR 0xE5, CHR 0xBA, CHR 0x8F, CHR 0xE5, CHR 0xBE, CHR 0xAA, CHR 0xE7, CHR 0x8E, CHR 0xAF, CHR 0xE5, CHR 0x88, CHR 0x87, CHR 0xE6, CHR 0x8D, CHR 0xA2, CHR 0xE4, CHR 0xB8, CHR 0x8D, CHR 0xE5, CHR 0x90, CHR 0x8C, CHR 0xE7, CHR 0x9A, CHR 0x84, CHR 0xE9, CHR 0x9F, CHR 0xB3, CHR 0xE4, CHR 0xB9, CHR 0x90, CHR 0xE6, CHR 0xA8, CHR 0xA1, CHR 0xE5, CHR 0xBC, CHR 0x8F]) False None None None,
    K ''HPT_ON'' ''Haptic\<newline>On'' (Some [CHR 0xE5, CHR 0xBC, CHR 0x80, CHR 0xE5, CHR 0x90, CHR 0xAF, CHR 0xE8, CHR 0xA7, CHR 0xA6, CHR 0xE8, CHR 0xA7, CHR 0x89, CHR 0xE5, CHR 0x8F, CHR 0x8D, CHR 0xE9, CHR 0xA6, CHR 0x88]) False None None None,
    K ''HPT_OFF'' ''Haptic\<newline>Off'' (Some [CHR 0xE5, CHR 0x85, CHR 0xB3, CHR 0xE9, CHR 0x97, CHR 0xAD, CHR 0xE8, CHR 0xA7, CHR 0xA6, CHR 0xE8, CHR 0xA7, CHR 0x89, CHR 0xE5, CHR 0x8F, CHR 0x8D, CHR 0xE9, CHR 0xA6, CHR 0x88]) False None None None,
    K ''HPT_TOG'' ''Haptic\<newline>Toggle'' (Some ([CHR 0xE5, CHR 0x88, CHR 0x87, CHR 0xE6, CHR 0x8D, CHR 0xA2, CHR 0xE8, CHR 0xA7, CHR 0xA6, CHR 0xE8, CHR 0xA7, CHR 0x89, CHR 0xE5, CHR 0x8F, CHR 0x8D, CHR 0xE9, CHR 0xA6, CHR 0x88, CHR 0xE7, CHR 0x9A, CHR 0x84, CHR 0xE5, CHR 0xBC, CHR 0x80, CHR 0xE5, CHR 0x90, CHR 0xAF] @ ''/'' @ [CHR 0xE5, CHR 0x85, CHR 0xB3, CHR 0xE9, CHR 0x97, CHR 0xAD, CHR 0xE7, CHR 0x8A, CHR 0xB6, CHR 0xE6, CHR 0x80, CHR 0x81])) False None None None,
    K ''HPT_RST'' ''Haptic\<newline>Reset'' (Some [CHR 0xE5, CHR 0xB0, CHR 0x86, CHR 0xE8, CHR 0xA7, CHR 0xA6, CHR 0xE8, CHR 0xA7, CHR 0x89, CHR 0xE5, CHR 0x8F, CHR 0x8D, CHR 0xE9, CHR 0xA6, CHR 0x88, CHR 0xE9, CHR 0x85, CHR 0x8D, CHR 0xE7, CHR 0xBD, CHR 0xAE, CHR 0xE9, CHR 0x87, CHR 0x8D, CHR 0xE7, CHR 0xBD, CHR 0xAE, CHR 0xE4, CHR 0xB8, CHR 0xBA, CHR 0xE9, CHR 0xBB, CHR 0x98, CHR 0xE8, CHR 0xAE, CHR 0xA4, CHR 0xE8, CHR 0xAE, CHR 0xBE, CHR 0xE7, CHR 0xBD, CHR 0xAE]) False None None None,
    K ''HPT_FBK'' ''Haptic\<newline>Feed\<newline>back'' (Some [CHR 0xE5, CHR 0x88, CHR 0x87, CHR 0xE6, CHR 0x8D, CHR 0xA2, CHR 0xE6, CHR 0x8C, CHR 0x89, CHR 0xE9, CHR 0x94, CHR 0xAE, CHR 0xE5, CHR 0x8F, CHR 0x8D, CHR 0xE9, CHR 0xA6, CHR 0x88, CHR 0xE5, CHR 0x8F, CHR 0x91, CHR 0xE7, CHR 0x94, CHR 0x9F, CHR 0xE5, CHR 0x9C, CHR 0xA8, CHR 0xE6, CHR 0x8C, CHR 0x89, CHR 0xE4, CHR 0xB8, CHR 0x8B, CHR 0xE3, CHR 0x80, CHR 0x81, CHR 0xE9, CHR 0x87, CHR 0x8A, CHR 0xE6, CHR 0x94, CHR 0xBE, CHR 0xE6, CHR 0x88, CHR 0x96, CHR 0xE4, CHR 0xB8, CHR 0xA4, CHR 0xE8, CHR 0x80, CHR 0x85, CHR 0xE9, CHR 0x83, CHR 0xBD, CHR 0xE5, CHR 0x8F, CHR 0x91, CHR 0xE7, CHR 0x94, CHR 0x9F, CHR 0xE6, CHR 0x97, CHR 0xB6]) False None None None,
    K ''HPT_BUZ'' ''Haptic\<newline>Buzz'' (Some ([CHR 0xE5, CHR 0x88, CHR 0x87, CHR 0xE6, CHR 0x8D, CHR 0xA2, CHR 0xE7, CHR 0x94, CHR 0xB5, CHR 0xE7, CHR 0xA3, CHR 0x81, CHR 0xE9, CHR 0x98, CHR 0x80, CHR 0xE5, CHR 0x97, CHR 0xA1, CHR 0xE5, CHR 0x97, CHR 0xA1, CHR 0xE5, CHR 0xA3, CHR 0xB0, CHR 0xE7, CHR 0x9A, CHR 0x84, CHR 0xE5, CHR 0xBC, CHR 0x80, CHR 0xE5, CHR 0x90, CHR 0xAF] @ ''/'' @ [CHR 0xE5, CHR 0x85, CHR 0xB3, CHR 0xE9, CHR 0x97, CHR 0xAD, CHR 0xE7, CHR 0x8A, CHR 0xB6, CHR 0xE6, CHR 0x80, CHR 0x81])) False None None None,
    K ''HPT_MODI'' ''Haptic\<newline>Next'' (Some ([CHR 0xE5, CHR 0x88, CHR 0x87, CHR 0xE6, CHR 0x8D, CHR 0xA2, CHR 0xE5, CHR 0x88, CHR 0xB0, CHR 0xE4, CHR 0xB8, CHR 0x8B, CHR 0xE4, CHR 0xB8, CHR 0x80, CHR 0xE4, CHR 0xB8, CHR 0xAA] @ ''DRV2605L'' @ [CHR 0xE6, CHR 0xB3, CHR 0xA2, CHR 0xE5, CHR 0xBD, CHR 0xA2])) False None None None,
    K ''HPT_MODD'' ''Haptic\<newline>Prev'' (Some ([CHR 0xE5, CHR 0x88, CHR 0x87, CHR 0xE6, CHR 0x8D, CHR 0xA2, CHR 0xE5, CHR 0x88, CHR 0xB0, CHR 0xE4, CHR 0xB8, CHR 0x8A, CHR 0xE4, CHR 0xB8, CHR 0x80, CHR 0xE4, CHR 0xB8, CHR 0xAA] @ ''DRV2605L'' @ [CHR 0xE6, CHR 0xB3, CHR 0xA2, CHR 0xE5, CHR 0xBD, CHR 0xA2])) False None None None,
    K ''HPT_CONT'' ''Haptic\<newline>Cont.'' (Some ''Toggle continuous haptic mode on/off'') False None None None,
    K ''HPT_CONI'' ''Haptic\<newline>+'' (Some ''Increase DRV2605L continous haptic strength'') False None None None,
    K ''HPT_COND'' ''Haptic\<newline>-'' (Some ''Decrease DRV2605L continous haptic strength'') False None None None,
    K ''HPT_DWLI'' ''Haptic\<newline>Dwell+'' (Some [CHR 0xE5, CHR 0xA2, CHR 0x9E, CHR 0xE5, CHR 0x8A, CHR 0xA0, CHR 0xE7, CHR 0x94, CHR 0xB5, CHR 0xE7, CHR 0xA3, CHR 0x81, CHR 0xE9, CHR 0x98, CHR 0x80, CHR 0xE5, CHR 0x81, CHR 0x9C, CHR 0xE7, CHR 0x95, CHR 0x99, CHR 0xE6, CHR 0x97, CHR 0xB6, CHR 0xE9, CHR 0x97, CHR 0xB4]) False None None None,
    K ''HPT_DWLD'' ''Haptic\<newline>Dwell-'' (Some [CHR 0xE5, CHR 0x87, CHR 0x8F, CHR 0xE5, CHR 0xB0, CHR 0x91, CHR 0xE7, CHR 0x94, CHR 0xB5, CHR 0xE7, CHR 0xA3, CHR 0x81, CHR 0xE9, CHR 0x98, CHR 0x80, CHR 0xE5, CHR 0x81, CHR 0x9C, CHR 0xE7, CHR 0x95, CHR 0x99, CHR 0xE6, CHR 0x97, CHR 0xB6, CHR 0xE9, CHR 0x97, CHR 0xB4]) False None None None,
    K ''KC_ASDN'' ''Auto-\<newline>shift\<newline>Down'' (Some ([CHR 0xE9, CHR 0x99, CHR 0x8D, CHR 0xE4, CHR 0xBD, CHR 0x8E] @ ''Auto Shift'' @ [CHR 0xE6, CHR 0x8C, CHR 0x89, CHR 0xE4, CHR 0xB8, CHR 0x8B, CHR 0xE5, CHR 0x88, CHR 0xA4, CHR 0xE6, CHR 0x96, CHR 0xAD, CHR 0xE6, CHR 0x97, CHR 0xB6, CHR 0xE9, CHR 0x97, CHR 0xB4])) False None None None,
    K ''KC_ASUP'' ''Auto-\<newline>shift\<newline>Up'' (Some ([CHR 0xE5, CHR 0xA2, CHR 0x9E, CHR 0xE5, CHR 0x8A, CHR 0xA0] @ ''Auto Shift'' @ [CHR 0xE5, CHR 0xBC, CHR 0xB9, CHR 0xE8, CHR 0xB5, CHR 0xB7, CHR 0xE5, CHR 0x88, CHR 0xA4, CHR 0xE6, CHR 0x96, CHR 0xAD, CHR 0xE6, CHR 0x97, CHR 0xB6, CHR 0xE9, CHR 0x97, CHR 0xB4])) False None None None,
    K ''KC_ASRP'' ''Auto-\<newline>shift\<newline>Report'' (Some ([CHR 0xE6, CHR 0x8A, CHR 0xA5, CHR 0xE5, CHR 0x91, CHR 0x8A, CHR 0xE5, CHR 0xBD, CHR 0x93, CHR 0xE5, CHR 0x89, CHR 0x8D] @ ''Auto Shift '' @ [CHR 0xE5, CHR 0x88, CHR 0xA4, CHR 0xE6, CHR 0x96, CHR 0xAD, CHR 0xE6, CHR 0x97, CHR 0xB6, CHR 0xE9, CHR 0x97, CHR 0xB4])) False None None None,
    K ''KC_ASON'' ''Auto-\<newline>shift\<newline>On'' (Some ([CHR 0xE5, CHR 0xBC, CHR 0x80, CHR 0xE5, CHR 0x90, CHR 0xAF] @ ''Auto Shift'' @ [CHR 0xE5, CHR 0x8A, CHR 0x9F, CHR 0xE8, CHR 0x83, CHR 0xBD])) False None None None,
    K ''KC_ASOFF'' ''Auto-\<newline>shift\<newline>Off'' (Some ([CHR 0xE5, CHR 0x85, CHR 0xB3, CHR 0xE9, CHR 0x97, CHR 0xAD] @ ''Auto Shift'' @ [CHR 0xE5, CHR 0x8A, CHR 0x9F, CHR 0xE8, CHR 0x83, CHR 0xBD])) False None None None,
    K ''KC_ASTG'' ''Auto-\<newline>shift\<newline>Toggle'' (Some ([CHR 0xE5, CHR 0x88, CHR 0x87, CHR 0xE6, CHR 0x8D, CHR 0xA2] @ ''Auto Shift'' @ [CHR 0xE5, CHR 0x8A, CHR 0x9F, CHR 0xE8, CHR 0x83, CHR 0xBD, CHR 0xE7, CHR 0x9A, CHR 0x84, CHR 0xE7, CHR 0x8A, CHR 0xB6, CHR 0xE6, CHR 0x80, CHR 0x81])) False None None None,
    K ''CMB_ON'' ''Combo\<newline>On'' (Some ([CHR 0xE5, CHR 0xBC, CHR 0x80, CHR 0xE5, CHR 0x90, CHR 0xAF, CHR 0xE7, CHR 0xBB, CHR 0x84, CHR 0xE5, CHR 0x90, CHR 0x88, CHR 0xE9, CHR 0x94, CHR 0xAE] @ ''Combo'' @ [CHR 0xE5, CHR 0x8A, CHR 0x9F, CHR 0xE8, CHR 0x83, CHR 0xBD])) False None None None,
    K ''CMB_OFF'' ''Combo\<newline>Off'' (Some ([CHR 0xE5, CHR 0x85, CHR 0xB3, CHR 0xE9, CHR 0x97, CHR 0xAD, CHR 0xE7, CHR 0xBB, CHR 0x84, CHR 0xE5, CHR 0x90, CHR 0x88, CHR 0xE9, CHR 0x94, CHR 0xAE] @ ''Combo'' @ [CHR 0xE5, CHR 0x8A, CHR 0x9F, CHR 0xE8, CHR 0x83, CHR 0xBD])) False None None None,
    K ''CMB_TOG'' ''Combo\<newline>Toggle'' (Some ([CHR 0xE5, CHR 0x88, CHR 0x87, CHR 0xE6, CHR 0x8D, CHR 0xA2, CHR 0xE7, CHR 0xBB, CHR 0x84, CHR 0xE5, CHR 0x90, CHR 0x88, CHR 0xE9, CHR 0x94, CHR 0xAE] @ ''Combo'' @ [CHR 0xE5, CHR 0xBC, CHR 0x80, CHR 0xE5, CHR 0x90, CHR 0xAF, CHR 0xE5, CHR 0x85, CHR 0xB3, CHR 0xE9, CHR 0x97, CHR 0xAD, CHR 0xE7, CHR 0x8A, CHR 0xB6, CHR 0xE6, CHR 0x80, CHR 0x81])) False None None None]"

definition KEYCODES_BACKLIGHT_args :: "kargs list" where
  "KEYCODES_BACKLIGHT_args = [
    K ''BL_TOGG'' ''BL\<newline>Toggle'' (Some [CHR 0xE6, CHR 0x89, CHR 0x93, CHR 0xE5, CHR 0xBC, CHR 0x80, CHR 0xE6, CHR 0x88, CHR 0x96, CHR 0xE5, CHR 0x85, CHR 0xB3, CHR 0xE9, CHR 0x97, CHR 0xAD, CHR 0xE8, CHR 0x83, CHR 0x8C, CHR 0xE5, CHR 0x85, CHR 0x89, CHR 0xE7, CHR 0x81, CHR 0xAF]) False None None None,
    K ''BL_STEP'' ''BL\<newline>Cycle'' (Some [CHR 0xE5, CHR 0xBE, CHR 0xAA, CHR 0xE7, CHR 0x8E, CHR 0xAF, CHR 0xE5, CHR 0x88, CHR 0x87, CHR 0xE6, CHR 0x8D, CHR 0xA2, CHR 0xE8, CHR 0x83, CHR 0x8C, CHR 0xE5, CHR 0x85, CHR 0x89, CHR 0xE7, CHR 0xBA, CHR 0xA7, CHR 0xE5, CHR 0x88, CHR 0xAB]) False None None None,
    K ''BL_BRTG'' ''BL\<newline>Breath'' (Some [CHR 0xE5, CHR 0x88, CHR 0x87, CHR 0xE6, CHR 0x8D, CHR 0xA2, CHR 0xE8, CHR 0x83, CHR 0x8C, CHR 0xE5, CHR 0x85, CHR 0x89, CHR 0xE5, CHR 0x91, CHR 0xBC, CHR 0xE5, CHR 0x90, CHR 0xB8, CHR 0xE6, CHR 0x95, CHR 0x88, CHR 0xE6, CHR 0x9E, CHR 0x9C]) False None None None,
    K ''BL_ON'' ''BL On'' (Some [CHR 0xE5, CHR 0xB0, CHR 0x86, CHR 0xE8, CHR 0x83, CHR 0x8C, CHR 0xE5, CHR 0x85, CHR 0x89, CHR 0xE8, CHR 0xAE, CHR 0xBE, CHR 0xE7, CHR 0xBD, CHR 0xAE, CHR 0xE4, CHR 0xB8, CHR 0xBA, CHR 0xE6, CHR 0x9C, CHR 0x80, CHR 0xE5, CHR 0xA4, CHR 0xA7, CHR 0xE4, CHR 0xBA, CHR 0xAE, CHR 0xE5, CHR 0xBA, CHR 0xA6]) False None None None,
    K ''BL_OFF'' ''BL Off'' (Some [CHR 0xE5, CHR 0x85, CHR 0xB3, CHR 0xE9, CHR 0x97, CHR 0xAD, CHR 0xE8, CHR 0x83, CHR 0x8C, CHR 0xE5, CHR 0x85, CHR 0x89, CHR 0xE7, CHR 0x81, CHR 0xAF]) False None None None,
    K ''BL_INC'' ''BL +'' (Some [CHR 0xE5, CHR 0xA2, CHR 0x9E, CHR 0xE5, CHR 0x8A, CHR 0xA0, CHR 0xE8, CHR 0x83, CHR 0x8C, CHR 0xE5, CHR 0x85, CHR 0x89, CHR 0xE4, CHR 0xBA, CHR 0xAE, CHR 0xE5, CHR 0xBA, CHR 0xA6, CHR 0xE7, CHR 0xBA, CHR 0xA7, CHR 0xE5, CHR 0x88, CHR 0xAB]) False None None None,
    K ''BL_DEC'' ''BL - '' (Some [CHR 0xE9, CHR 0x99, CHR 0x8D, CHR 0xE4, CHR 0xBD, CHR 0x8E, CHR 0xE8, CHR 0x83, CHR 0x8C, CHR 0xE5, CHR 0x85, CHR 0x89, CHR 0xE4, CHR 0xBA, CHR 0xAE, CHR 0xE5, CHR 0xBA, CHR 0xA6, CHR 0xE7, CHR 0xBA, CHR 0xA7, CHR 0xE5, CHR 0x88, CHR 0xAB]) False None None None,
    K ''RGB_TOG'' ''RGB\<newline>Toggle'' (Some ([CHR 0xE5, CHR 0xB0, CHR 0x86] @ '' RGB '' @ [CHR 0xE7, CHR 0x81, CHR 0xAF, CHR 0xE5, CHR 0x85, CHR 0x89, CHR 0xE5, CHR 0x88, CHR 0x87, CHR 0xE6, CHR 0x8D, CHR 0xA2, CHR 0xE4, CHR 0xB8, CHR 0xBA, CHR 0xE5, CHR 0xBC, CHR 0x80, CHR 0xE5, CHR 0x90, CHR 0xAF, CHR 0xE6, CHR 0x88, CHR 0x96, CHR 0xE5, CHR 0x85, CHR 0xB3, CHR 0xE9, CHR 0x97, CHR 0xAD, CHR 0xE7, CHR 0x8A, CHR 0xB6, CHR 0xE6, CHR 0x80, CHR 0x81])) False None None None,
    K ''RGB_MOD'' ''RGB\<newline>Mode +'' (Some ([CHR 0xE4, CHR 0xB8, CHR 0x8B, CHR 0xE4, CHR 0xB8, CHR 0x80, CHR 0xE4, CHR 0xB8, CHR 0xAA] @ '' RGB '' @ [CHR 0xE6, CHR 0xA8, CHR 0xA1, CHR 0xE5, CHR 0xBC, CHR 0x8F])) False None None None,
    K ''RGB_RMOD'' ''RGB\<newline>Mode -'' (Some ([CHR 0xE4, CHR 0xB8, CHR 0x8A, CHR 0xE4, CHR 0xB8, CHR 0x80, CHR 0xE4, CHR 0xB8, CHR 0xAA] @ '' RGB '' @ [CHR 0xE6, CHR 0xA8, CHR 0xA1, CHR 0xE5, CHR 0xBC, CHR 0x8F])) False None None None,
    K ''RGB_HUI'' ''Hue +'' (Some [CHR 0xE5, CHR 0xA2, CHR 0x9E, CHR 0xE5, CHR 0x8A, CHR 0xA0, CHR 0xE8, CHR 0x89, CHR 0xB2, CHR 0xE8, CHR 0xB0, CHR 0x83]) False None None None,
    K ''RGB_HUD'' ''Hue -'' (Some [CHR 0xE5, CHR 0x87, CHR 0x8F, CHR 0xE5, CHR 0xB0, CHR 0x91, CHR 0xE8, CHR 0x89, CHR 0xB2, CHR 0xE8, CHR 0xB0, CHR 0x83]) False None None None,
    K ''RGB_SAI'' ''Sat +'' (Some [CHR 0xE5, CHR 0xA2, CHR 0x9E, CHR 0xE5, CHR 0x8A, CHR 0xA0, CHR 0xE9, CHR 0xA5, CHR 0xB1, CHR 0xE5, CHR 0x92, CHR 0x8C, CHR 0xE5, CHR 0xBA, CHR 0xA6]) False None None None,
    K ''RGB_SAD'' ''Sat -'' (Some [CHR 0xE5, CHR 0x87, CHR 0x8F, CHR 0xE5, CHR 0xB0, CHR 0x91, CHR 0xE9, CHR 0xA5, CHR 0xB1, CHR 0xE5, CHR 0x92, CHR 0x8C, CHR 0xE5, CHR 0xBA, CHR 0xA6]) False None None None,
    K ''RGB_VAI'' ''Bright +'' (Some [CHR 0xE5, CHR 0xA2, CHR 0x9E, CHR 0xE5, CHR 0x8A, CHR 0xA0, CHR 0xE4, CHR 0xBA, CHR 0xAE, CHR 0xE5, CHR 0xBA, CHR 0xA6]) False None None None,
    K ''RGB_VAD'' ''Bright -'' (Some [CHR 0xE5, CHR 0x87, CHR 0x8F, CHR 0xE5, CHR 0xB0, CHR 0x91, CHR 0xE4, CHR 0xBA, CHR 0xAE, CHR 0xE5, CHR 0xBA, CHR 0xA6]) False None None None,
    K ''RGB_SPI'' ''Effect +'' (Some ([CHR 0xE5, CHR 0xA2, CHR 0x9E, CHR 0xE5, CHR 0x8A, CHR 0xA0] @ '' RGB '' @ [CHR 0xE6, CHR 0x95, CHR 0x88, CHR 0xE6, CHR 0x9E, CHR 0x9C, CHR 0xE9, CHR 0x80, CHR 0x9F, CHR 0xE5, CHR 0xBA, CHR 0xA6])) False None None None,
    K ''RGB_SPD'' ''Effect -'' (Some ([CHR 0xE5, CHR 0x87, CHR 0x8F, CHR 0xE5, CHR 0xB0, CHR 0x91] @ '' RGB '' @ [CHR 0xE6, CHR 0x95, CHR 0x88, CHR 0xE6, CHR 0x9E, CHR 0x9C, CHR 0xE9, CHR 0x80, CHR 0x9F, CHR 0xE5, CHR 0xBA, CHR 0xA6])) False None None None,
    K ''RGB_M_P'' ''RGB\<newline>Mode P'' (Some (''RGB '' @ [CHR 0xE6, CHR 0xA8, CHR 0xA1, CHR 0xE5, CHR 0xBC, CHR 0x8F, CHR 0xE5, CHR 0xB7, CHR 0xB2, CHR 0xE8, CHR 0xAE, CHR 0xBE, CHR 0xE7, CHR 0xBD, CHR 0xAE, CHR 0xE4, CHR 0xB8, CHR 0xBA] @ '': '' @ [CHR 0xE6, CHR 0x99, CHR 0xAE, CHR 0xE9, CHR 0x80, CHR 0x9A])) False None None None,
    K ''RGB_M_B'' ''RGB\<newline>Mode B'' (Some (''RGB '' @ [CHR 0xE6, CHR 0xA8, CHR 0xA1, CHR 0xE5, CHR 0xBC, CHR 0x8F, CHR 0xE5, CHR 0xB7, CHR 0xB2, CHR 0xE8, CHR 0xAE, CHR 0xBE, CHR 0xE7, CHR 0xBD, CHR 0xAE, CHR 0xE4, CHR 0xB8, CHR 0xBA] @ '': '' @ [CHR 0xE5, CHR 0x91, CHR 0xBC, CHR 0xE5, CHR 0x90, CHR 0xB8])) False None None None,
    K ''RGB_M_R'' ''RGB\<newline>Mode R'' (Some (''RGB '' @ [CHR 0xE6, CHR 0xA8, CHR 0xA1, CHR 0xE5, CHR 0xBC, CHR 0x8F, CHR 0xE5, CHR 0xB7, CHR 0xB2, CHR 0xE8, CHR 0xAE, CHR 0xBE, CHR 0xE7, CHR 0xBD, CHR 0xAE, CHR 0xE4, CHR 0xB8, CHR 0xBA] @ '': '' @ [CHR 0xE5, CHR 0xBD, CHR 0xA9, CHR 0xE8, CHR 0x99, CHR 0xB9])) False None None None,
    K ''RGB_M_SW'' ''RGB\<newline>Mode SW'' (Some (''RGB '' @ [CHR 0xE6, CHR 0xA8, CHR 0xA1, CHR 0xE5, CHR 0xBC, CHR 0x8F, CHR 0xE5, CHR 0xB7, CHR 0xB2, CHR 0xE8, CHR 0xAE, CHR 0xBE, CHR 0xE7, CHR 0xBD, CHR 0xAE, CHR 0xE4, CHR 0xB8, CHR 0xBA] @ '': '' @ [CHR 0xE6, CHR 0x97, CHR 0x8B, CHR 0xE8, CHR 0xBD, CHR 0xAC])) False None None None,
    K ''RGB_M_SN'' ''RGB\<newline>Mode SN'' (Some (''RGB '' @ [CHR 0xE6, CHR 0xA8, CHR 0xA1, CHR 0xE5, CHR 0xBC, CHR 0x8F, CHR 0xE5, CHR 0xB7, CHR 0xB2, CHR 0xE8, CHR 0xAE, CHR 0xBE, CHR 0xE7, CHR 0xBD, CHR 0xAE, CHR 0xE4, CHR 0xB8, CHR 0xBA] @ '': '' @ [CHR 0xE8, CHR 0x9B, CHR 0x87, CHR 0xE5, CHR 0xBD, CHR 0xA2])) False None None None,
    K ''RGB_M_K'' ''RGB\<newline>Mode K'' (Some (''RGB '' @ [CHR 0xE6, CHR 0xA8, CHR 0xA1, CHR 0xE5, CHR 0xBC, CHR 0x8F, CHR 0xE5, CHR 0xB7, CHR 0xB2, CHR 0xE8, CHR 0xAE, CHR 0xBE, CHR 0xE7, CHR 0xBD, CHR 0xAE, CHR 0xE4, CHR 0xB8, CHR 0xBA] @ '': '' @ [CHR 0xE9, CHR 0xAA, CHR 0x91, CHR 0xE5, CHR 0xA3, CHR 0xAB, CHR 0xE4, CHR 0xBE, CHR 0xA0])) False None None None,
    K ''RGB_M_X'' ''RGB\<newline>Mode X'' (Some (''RGB '' @ [CHR 0xE6, CHR 0xA8, CHR 0xA1, CHR 0xE5, CHR 0xBC, CHR 0x8F, CHR 0xE5, CHR 0xB7, CHR 0xB2, CHR 0xE8, CHR 0xAE, CHR 0xBE, CHR 0xE7, CHR 0xBD, CHR 0xAE, CHR 0xE4, CHR 0xB8, CHR 0xBA] @ '': '' @ [CHR 0xE5, CHR 0x9C, CHR 0xA3, CHR 0xE8, CHR 0xAF, CHR 0x9E, CHR 0xE8, CHR 0x8A, CHR 0x82])) False None None None,
    K ''RGB_M_G'' ''RGB\<newline>Mode G'' (Some (''RGB '' @ [CHR 0xE6, CHR 0xA8, CHR 0xA1, CHR 0xE5, CHR 0xBC, CHR 0x8F, CHR 0xE5, CHR 0xB7, CHR 0xB2, CHR 0xE8, CHR 0xAE, CHR 0xBE, CHR 0xE7, CHR 0xBD, CHR 0xAE, CHR 0xE4, CHR 0xB8, CHR 0xBA] @ '': '' @ [CHR 0xE6, CHR 0xB8, CHR 0x90, CHR 0xE5, CHR 0x8F, CHR 0x98])) False None None None,
    K ''RGB_M_T'' ''RGB\<newline>Mode T'' (Some (''RGB '' @ [CHR 0xE6, CHR 0xA8, CHR 0xA1, CHR 0xE5, CHR 0xBC, CHR 0x8F, CHR 0xE5, CHR 0xB7, CHR 0xB2, CHR 0xE8, CHR 0xAE, CHR 0xBE, CHR 0xE7, CHR 0xBD, CHR 0xAE, CHR 0xE4, CHR 0xB8, CHR 0xBA] @ '': '' @ [CHR 0xE6, CHR 0xB5, CHR 0x8B, CHR 0xE8, CHR 0xAF, CHR 0x95])) False None None None]"

definition KEYCODES_MEDIA_args :: "kargs list" where
  "KEYCODES_MEDIA_args = [
    K ''KC_F13'' ''F13'' None False None None None,
    K ''KC_F14'' ''F14'' None False None None None,
    K ''KC_F15'' ''F15'' None False None None None,
    K ''KC_F16'' ''F16'' None False None None None,
    K ''KC_F17'' ''F17'' None False None None None,
    K ''KC_F18'' ''F18'' None False None None None,
    K ''KC_F19'' ''F19'' None False None None None,
    K ''KC_F20'' ''F20'' None False None None None,
    K ''KC_F21'' ''F21'' None False None None None,
    K ''KC_F22'' ''F22'' None False None None None,
    K ''KC_F23'' ''F23'' None False None None None,
    K ''KC_F24'' ''F24'' None False None None None,
    K ''KC_PWR'' ''Power'' (Some [CHR 0xE5, CHR 0x85, CHR 0xB3, CHR 0xE9, CHR 0x97, CHR 0xAD]) False None None (Some [''KC_SYSTEM_POWER'']),
    K ''KC_SLEP'' ''Sleep'' (Some [CHR 0xE4, CHR 0xBC, CHR 0x91, CHR 0xE7, CHR 0x9C, CHR 0xA0]) False None None (Some [''KC_SYSTEM_SLEEP'']),
    K ''KC_WAKE'' ''Wake'' (Some [CHR 0xE5, CHR 0x94, CHR 0xA4, CHR 0xE9, CHR 0x86, CHR 0x92]) False None None (Some [''KC_SYSTEM_WAKE'']),
    K ''KC_EXEC'' ''Exec'' (Some [CHR 0xE9, CHR 0x80, CHR 0x80, CHR 0xE5, CHR 0x87, CHR 0xBA]) False None None (Some [''KC_EXECUTE'']),
    K ''KC_HELP'' ''Help'' None False None None None,
    K ''KC_SLCT'' ''Select'' None False None None (Some [''KC_SELECT'']),
    K ''KC_STOP'' ''Stop'' None False None None None,
    K ''KC_AGIN'' ''Again'' None False None None (Some [''KC_AGAIN'']),
    K ''KC_UNDO'' ''Undo'' None False None None None,
    K ''KC_CUT'' ''Cut'' None False None None None,
    K ''KC_COPY'' ''Copy'' None False None None None,
    K ''KC_PSTE'' ''Paste'' None False None None (Some [''KC_PASTE'']),
    K ''KC_FIND'' ''Find'' None False None None None,
    K ''KC_CALC'' ''Calc'' (Some ([CHR 0xE5, CHR 0x90, CHR 0xAF, CHR 0xE5, CHR 0x8A, CHR 0xA8, CHR 0xE8, CHR 0xAE, CHR 0xA1, CHR 0xE7, CHR 0xAE, CHR 0x97, CHR 0xE5, CHR 0x99, CHR 0xA8] @ '' (Windows)'')) False None None (Some [''KC_CALCULATOR'']),
    K ''KC_MAIL'' ''Mail'' (Some ([CHR 0xE5, CHR 0x90, CHR 0xAF, CHR 0xE5, CHR 0x8A, CHR 0xA8, CHR 0xE9, CHR 0x82, CHR 0xAE, CHR 0xE7, CHR 0xAE, CHR 0xB1] @ '' (Windows)'')) False None None None,
    K ''KC_MSEL'' ''Media\<newline>Player'' (Some ([CHR 0xE5, CHR 0x90, CHR 0xAF, CHR 0xE5, CHR 0x8A, CHR 0xA8, CHR 0xE5, CHR 0xAA, CHR 0x92, CHR 0xE4, CHR 0xBD, CHR 0x93, CHR 0xE6, CHR 0x92, CHR 0xAD, CHR 0xE6, CHR 0x94, CHR 0xBE, CHR 0xE5, CHR 0x99, CHR 0xA8] @ '' (Windows)'')) False None None (Some [''KC_MEDIA_SELECT'']),
    K ''KC_MYCM'' ''My\<newline>PC'' (Some ([CHR 0xE5, CHR 0x90, CHR 0xAF, CHR 0xE5, CHR 0x8A, CHR 0xA8, CHR 0xE6, CHR 0x88, CHR 0x91, CHR 0xE7, CHR 0x9A, CHR 0x84, CHR 0xE7, CHR 0x94, CHR 0xB5, CHR 0xE8, CHR 0x84, CHR 0x91] @ '' (Windows)'')) False None None (Some [''KC_MY_COMPUTER'']),
    K ''KC_WSCH'' ''Browser\<newline>Search'' (Some ([CHR 0xE6, CHR 0xB5, CHR 0x8F, CHR 0xE8, CHR 0xA7, CHR 0x88, CHR 0xE5, CHR 0x99, CHR 0xA8, CHR 0xE6, CHR 0x90, CHR 0x9C, CHR 0xE7, CHR 0xB4, CHR 0xA2] @ '' (Windows)'')) False None None (Some [''KC_WWW_SEARCH'']),
    K ''KC_WHOM'' ''Browser\<newline>Home'' (Some ([CHR 0xE6, CHR 0xB5, CHR 0x8F, CHR 0xE8, CHR 0xA7, CHR 0x88, CHR 0xE5, CHR 0x99, CHR 0xA8, CHR 0xE4, CHR 0xB8, CHR 0xBB, CHR 0xE9, CHR 0xA1, CHR 0xB5] @ '' (Windows)'')) False None None (Some [''KC_WWW_HOME'']),
    K ''KC_WBAK'' ''Browser\<newline>Back'' (Some ([CHR 0xE6, CHR 0xB5, CHR 0x8F, CHR 0xE8, CHR 0xA7, CHR 0x88, CHR 0xE5, CHR 0x99, CHR 0xA8, CHR 0xE8, CHR 0xBF, CHR 0x94, CHR 0xE5, CHR 0x9B, CHR 0x9E] @ '' (Windows)'')) False None None (Some [''KC_WWW_BACK'']),
    K ''KC_WFWD'' ''Browser\<newline>Forward'' (Some ([CHR 0xE6, CHR 0xB5, CHR 0x8F, CHR 0xE8, CHR 0xA7, CHR 0x88, CHR 0xE5, CHR 0x99, CHR 0xA8, CHR 0xE5, CHR 0x89, CHR 0x8D, CHR 0xE8, CHR 0xBF, CHR 0x9B] @ '' (Windows)'')) False None None (Some [''KC_WWW_FORWARD'']),
    K ''KC_WSTP'' ''Browser\<newline>Stop'' (Some ([CHR 0xE6, CHR 0xB5, CHR 0x8F, CHR 0xE8, CHR 0xA7, CHR 0x88, CHR 0xE5, CHR 0x99, CHR 0xA8, CHR 0xE5, CHR 0x81, CHR 0x9C, CHR 0xE6, CHR 0xAD, CHR 0xA2] @ '' (Windows)'')) False None None (Some [''KC_WWW_STOP'']),
    K ''KC_WREF'' ''Browser\<newline>Refresh'' (Some ([CHR 0xE6, CHR 0xB5, CHR 0x8F, CHR 0xE8, CHR 0xA7, CHR 0x88, CHR 0xE5, CHR 0x99, CHR 0xA8, CHR 0xE5, CHR 0x88, CHR 0xB7, CHR 0xE6, CHR 0x96, CHR 0xB0] @ '' (Windows)'')) False None None (Some [''KC_WWW_REFRESH'']),
    K ''KC_WFAV'' ''Browser\<newline>Fav.'' (Some ([CHR 0xE6, CHR 0xB5, CHR 0x8F, CHR 0xE8, CHR 0xA7, CHR 0x88, CHR 0xE5, CHR 0x99, CHR 0xA8, CHR 0xE6, CHR 0x94, CHR 0xB6, CHR 0xE8, CHR 0x97, CHR 0x8F, CHR 0xE5, CHR 0xA4, CHR 0xB9] @ '' (Windows)'')) False None None (Some [''KC_WWW_FAVORITES'']),
    K ''KC_BRIU'' ''Bright.\<newline>Up'' (Some [CHR 0xE5, CHR 0xA2, CHR 0x9E, CHR 0xE5, CHR 0x8A, CHR 0xA0, CHR 0xE5, CHR 0xB1, CHR 0x8F, CHR 0xE5, CHR 0xB9, CHR 0x95, CHR 0xE4, CHR 0xBA, CHR 0xAE, CHR 0xE5, CHR 0xBA, CHR 0xA6, CHR 0xEF, CHR 0xBC, CHR 0x88, CHR 0xE7, CHR 0xAC, CHR 0x94, CHR 0xE8, CHR 0xAE, CHR 0xB0, CHR 0xE6, CHR 0x9C, CHR 0xAC, CHR 0xE7, CHR 0x94, CHR 0xB5, CHR 0xE8, CHR 0x84, CHR 0x91, CHR 0xEF, CHR 0xBC, CHR 0x89]) False None None (Some [''KC_BRIGHTNESS_UP'']),
    K ''KC_BRID'' ''Bright.\<newline>Down'' (Some [CHR 0xE9, CHR 0x99, CHR 0x8D, CHR 0xE4, CHR 0xBD, CHR 0x8E, CHR 0xE5, CHR 0xB1, CHR 0x8F, CHR 0xE5, CHR 0xB9, CHR 0x95, CHR 0xE4, CHR 0xBA, CHR 0xAE, CHR 0xE5, CHR 0xBA, CHR 0xA6, CHR 0xEF, CHR 0xBC, CHR 0x88, CHR 0xE7, CHR 0xAC, CHR 0x94, CHR 0xE8, CHR 0xAE, CHR 0xB0, CHR 0xE6, CHR 0x9C, CHR 0xAC, CHR 0xE7, CHR 0x94, CHR 0xB5, CHR 0xE8, CHR 0x84, CHR 0x91, CHR 0xEF, CHR 0xBC, CHR 0x89]) False None None (Some [''KC_BRIGHTNESS_DOWN'']),
    K ''KC_MPRV'' ''Media\<newline>Prev'' (Some ''Previous Track'') False None None (Some [''KC_MEDIA_PREV_TRACK'']),
    K ''KC_MNXT'' ''Media\<newline>Next'' (Some ''Next Track'') False None None (Some [''KC_MEDIA_NEXT_TRACK'']),
    K ''KC_MUTE'' ''Mute'' (Some ''Mute Audio'') False None None (Some [''KC_AUDIO_MUTE'']),
    K ''KC_VOLD'' ''Vol -'' (Some ''Volume Down'') False None None (Some [''KC_AUDIO_VOL_DOWN'']),
    K ''KC_VOLU'' ''Vol +'' (Some ''Volume Up'') False None None (Some [''KC_AUDIO_VOL_UP'']),
    K ''KC__VOLDOWN'' ''Vol -\<newline>Alt'' (Some ''Volume Down Alternate'') False None None None,
    K ''KC__VOLUP'' ''Vol +\<newline>Alt'' (Some ''Volume Up Alternate'') False None None None,
    K ''KC_MSTP'' ''Media\<newline>Stop'' None False None None (Some [''KC_MEDIA_STOP'']),
    K ''KC_MPLY'' ''Media\<newline>Play'' (Some ''Play/Pause'') False None None (Some [''KC_MEDIA_PLAY_PAUSE'']),
    K ''KC_MRWD'' ''Prev\<newline>Track\<newline>(macOS)'' (Some ''Previous Track / Rewind (macOS)'') False None None (Some [''KC_MEDIA_REWIND'']),
    K ''KC_MFFD'' ''Next\<newline>Track\<newline>(macOS)'' (Some ''Next Track / Fast Forward (macOS)'') False None None (Some [''KC_MEDIA_FAST_FORWARD'']),
    K ''KC_EJCT'' ''Eject'' (Some ''Eject (macOS)'') False None None (Some [''KC_MEDIA_EJECT'']),
    K ''KC_MS_U'' ''Mouse\<newline>Up'' (Some [CHR 0xE9, CHR 0xBC, CHR 0xA0, CHR 0xE6, CHR 0xA0, CHR 0x87, CHR 0xE5, CHR 0x85, CHR 0x89, CHR 0xE6, CHR 0xA0, CHR 0x87, CHR 0xE5, CHR 0x90, CHR 0x91, CHR 0xE4, CHR 0xB8, CHR 0x8A]) False None None (Some [''KC_MS_UP'']),
    K ''KC_MS_D'' ''Mouse\<newline>Down'' (Some [CHR 0xE9, CHR 0xBC, CHR 0xA0, CHR 0xE6, CHR 0xA0, CHR 0x87, CHR 0xE5, CHR 0x85, CHR 0x89, CHR 0xE6, CHR 0xA0, CHR 0x87, CHR 0xE5, CHR 0x90, CHR 0x91, CHR 0xE4, CHR 0xB8, CHR 0x8B]) False None None (Some [''KC_MS_DOWN'']),
    K ''KC_MS_L'' ''Mouse\<newline>Left'' (Some [CHR 0xE9, CHR 0xBC, CHR 0xA0, CHR 0xE6, CHR 0xA0, CHR 0x87, CHR 0xE5, CHR 0x85, CHR 0x89, CHR 0xE6, CHR 0xA0, CHR 0x87, CHR 0xE5, CHR 0x90, CHR 0x91, CHR 0xE5, CHR 0xB7, CHR 0xA6]) False None None (Some [''KC_MS_LEFT'']),
    K ''KC_MS_R'' ''Mouse\<newline>Right'' (Some [CHR 0xE9, CHR 0xBC, CHR 0xA0, CHR 0xE6, CHR 0xA0, CHR 0x87, CHR 0xE5, CHR 0x85, CHR 0x89, CHR 0xE6, CHR 0xA0, CHR 0x87, CHR 0xE5, CHR 0x90, CHR 0x91, CHR 0xE5, CHR 0x8F, CHR 0xB3]) False None None (Some [''KC_MS_RIGHT'']),
    K ''KC_BTN1'' ''Mouse\<newline>1'' (Some ''Mouse Button 1'') False None None (Some [''KC_MS_BTN1'']),
    K ''KC_BTN2'' ''Mouse\<newline>2'' (Some ''Mouse Button 2'') False None None (Some [''KC_MS_BTN2'']),
    K ''KC_BTN3'' ''Mouse\<newline>3'' (Some ''Mouse Button 3'') False None None (Some [''KC_MS_BTN3'']),
    K ''KC_BTN4'' ''Mouse\<newline>4'' (Some ''Mouse Button 4'') False None None (Some [''KC_MS_BTN4'']),
    K ''KC_BTN5'' ''Mouse\<newline>5'' (Some ''Mouse Button 5'') False None None (Some [''KC_MS_BTN5'']),
    K ''KC_WH_U'' ''Mouse\<newline>Wheel\<newline>Up'' None False None None (Some [''KC_MS_WH_UP'']),
    K ''KC_WH_D'' ''Mouse\<newline>Wheel\<newline>Down'' None False None None (Some [''KC_MS_WH_DOWN'']),
    K ''KC_WH_L'' ''Mouse\<newline>Wheel\<newline>Left'' None False None None (Some [''KC_MS_WH_LEFT'']),
    K ''KC_WH_R'' ''Mouse\<newline>Wheel\<newline>Right'' None False None None (Some [''KC_MS_WH_RIGHT'']),
    K ''KC_ACL0'' ''Mouse\<newline>Accel\<newline>0'' (Some ([CHR 0xE5, CHR 0xB0, CHR 0x86, CHR 0xE9, CHR 0xBC, CHR 0xA0, CHR 0xE6, CHR 0xA0, CHR 0x87, CHR 0xE5, CHR 0x8A, CHR 0xA0, CHR 0xE9, CHR 0x80, CHR 0x9F, CHR 0xE5, CHR 0xBA, CHR 0xA6, CHR 0xE8, CHR 0xAE, CHR 0xBE, CHR 0xE7, CHR 0xBD, CHR 0xAE, CHR 0xE4, CHR 0xB8, CHR 0xBA] @ '' 0'')) False None None (Some [''KC_MS_ACCEL0'']),
    K ''KC_ACL1'' ''Mouse\<newline>Accel\<newline>1'' (Some ([CHR 0xE5, CHR 0xB0, CHR 0x86, CHR 0xE9, CHR 0xBC, CHR 0xA0, CHR 0xE6, CHR 0xA0, CHR 0x87, CHR 0xE5, CHR 0x8A, CHR 0xA0, CHR 0xE9, CHR 0x80, CHR 0x9F, CHR 0xE5, CHR 0xBA, CHR 0xA6, CHR 0xE8, CHR 0xAE, CHR 0xBE, CHR 0xE7, CHR 0xBD, CHR 0xAE, CHR 0xE4, CHR 0xB8, CHR 0xBA] @ '' 1'')) False None None (Some [''KC_MS_ACCEL1'']),
    K ''KC_ACL2'' ''Mouse\<newline>Accel\<newline>2'' (Some ([CHR 0xE5, CHR 0xB0, CHR 0x86, CHR 0xE9, CHR 0xBC, CHR 0xA0, CHR 0xE6, CHR 0xA0, CHR 0x87, CHR 0xE5, CHR 0x8A, CHR 0xA0, CHR 0xE9, CHR 0x80, CHR 0x9F, CHR 0xE5, CHR 0xBA, CHR 0xA6, CHR 0xE8, CHR 0xAE, CHR 0xBE, CHR 0xE7, CHR 0xBD, CHR 0xAE, CHR 0xE4, CHR 0xB8, CHR 0xBA] @ '' 2'')) False None None (Some [''KC_MS_ACCEL2'']),
    K ''KC_LCAP'' ''Locking\<newline>Caps'' (Some [CHR 0xE9, CHR 0x94, CHR 0x81, CHR 0xE5, CHR 0xAE, CHR 0x9A, CHR 0xE5, CHR 0xA4, CHR 0xA7, CHR 0xE5, CHR 0xB0, CHR 0x8F, CHR 0xE5, CHR 0x86, CHR 0x99, CHR 0xE9, CHR 0x94, CHR 0x81]) False None None (Some [''KC_LOCKING_CAPS'']),
    K ''KC_LNUM'' ''Locking\<newline>Num'' (Some [CHR 0xE9, CHR 0x94, CHR 0x81, CHR 0xE5, CHR 0xAE, CHR 0x9A, CHR 0xE6, CHR 0x95, CHR 0xB0, CHR 0xE5, CHR 0xAD, CHR 0x97, CHR 0xE9, CHR 0x94, CHR 0x81]) False None None (Some [''KC_LOCKING_NUM'']),
    K ''KC_LSCR'' ''Locking\<newline>Scroll'' (Some [CHR 0xE9, CHR 0x94, CHR 0x81, CHR 0xE5, CHR 0xAE, CHR 0x9A, CHR 0xE6, CHR 0xBB, CHR 0x9A, CHR 0xE5, CHR 0x8A, CHR 0xA8, CHR 0xE9, CHR 0x94, CHR 0x81]) False None None (Some [''KC_LOCKING_SCROLL''])]"

definition KEYCODES_MACRO_BASE_args :: "kargs list" where
  "KEYCODES_MACRO_BASE_args = [
    K ''DYN_REC_START1'' ''DM1\<newline>Rec'' (Some ([CHR 0xE5, CHR 0x8A, CHR 0xA8, CHR 0xE6, CHR 0x80, CHR 0x81, CHR 0xE5, CHR 0xAE, CHR 0x8F] @ ''1'' @ [CHR 0xE8, CHR 0xAE, CHR 0xB0, CHR 0xE5, CHR 0xBD, CHR 0x95, CHR 0xE5, CHR 0xBC, CHR 0x80, CHR 0xE5, CHR 0xA7, CHR 0x8B])) False None None (Some [''DM_REC1'']),
    K ''DYN_REC_START2'' ''DM2\<newline>Rec'' (Some ([CHR 0xE5, CHR 0x8A, CHR 0xA8, CHR 0xE6, CHR 0x80, CHR 0x81, CHR 0xE5, CHR 0xAE, CHR 0x8F] @ ''2'' @ [CHR 0xE8, CHR 0xAE, CHR 0xB0, CHR 0xE5, CHR 0xBD, CHR 0x95, CHR 0xE5, CHR 0xBC, CHR 0x80, CHR 0xE5, CHR 0xA7, CHR 0x8B])) False None None (Some [''DM_REC2'']),
    K ''DYN_REC_STOP'' ''DM Rec\<newline>Stop'' (Some [CHR 0xE5, CHR 0x8A, CHR 0xA8, CHR 0xE6, CHR 0x80, CHR 0x81, CHR 0xE5, CHR 0xAE, CHR 0x8F, CHR 0xE5, CHR 0xBD, CHR 0x95, CHR 0xE5, CHR 0x88, CHR 0xB6, CHR 0xE5, CHR 0x81, CHR 0x9C, CHR 0xE6, CHR 0xAD, CHR 0xA2]) False None None (Some [''DM_RSTP'']),
    K ''DYN_MACRO_PLAY1'' ''DM1\<newline>Play'' (Some ([CHR 0xE6, CHR 0x92, CHR 0xAD, CHR 0xE6, CHR 0x94, CHR 0xBE, CHR 0xE5, CHR 0x8A, CHR 0xA8, CHR 0xE6, CHR 0x80, CHR 0x81, CHR 0xE5, CHR 0xAE, CHR 0x8F] @ ''1'')) False None None (Some [''DM_PLY1'']),
    K ''DYN_MACRO_PLAY2'' ''DM2\<newline>Play'' (Some ([CHR 0xE6, CHR 0x92, CHR 0xAD, CHR 0xE6, CHR 0x94, CHR 0xBE, CHR 0xE5, CHR 0x8A, CHR 0xA8, CHR 0xE6, CHR 0x80, CHR 0x81, CHR 0xE5, CHR 0xAE, CHR 0x8F] @ ''2'')) False None None (Some [''DM_PLY2''])]"

definition KEYCODES_MIDI_BASIC_args :: "kargs list" where
  "KEYCODES_MIDI_BASIC_args = [
    K ''MI_C'' ([CHR 0xE1, CHR 0xB4, CHR 0xB9, CHR 0xE1, CHR 0xB4, CHR 0xB5, CHR 0xE1, CHR 0xB4, CHR 0xB0, CHR 0xE1, CHR 0xB4, CHR 0xB5] @ ''\<newline>C'') (Some ''Midi send note C'') False None None None,
    K ''MI_Cs'' ([CHR 0xE1, CHR 0xB4, CHR 0xB9, CHR 0xE1, CHR 0xB4, CHR 0xB5, CHR 0xE1, CHR 0xB4, CHR 0xB0, CHR 0xE1, CHR 0xB4, CHR 0xB5] @ ''\<newline>C#/D'' @ [CHR 0xE1, CHR 0xB5, CHR 0x87]) (Some (''Midi send note C#/D'' @ [CHR 0xE1, CHR 0xB5, CHR 0x87])) False None None (Some [''MI_Db'']),
    K ''MI_D'' ([CHR 0xE1, CHR 0xB4, CHR 0xB9, CHR 0xE1, CHR 0xB4, CHR 0xB5, CHR 0xE1, CHR 0xB4, CHR 0xB0, CHR 0xE1, CHR 0xB4, CHR 0xB5] @ ''\<newline>D'') (Some ''Midi send note D'') False None None None,
    K ''MI_Ds'' ([CHR 0xE1, CHR 0xB4, CHR 0xB9, CHR 0xE1, CHR 0xB4, CHR 0xB5, CHR 0xE1, CHR 0xB4, CHR 0xB0, CHR 0xE1, CHR 0xB4, CHR 0xB5] @ ''\<newline>D#/E'' @ [CHR 0xE1, CHR 0xB5, CHR 0x87]) (Some (''Midi send note D#/E'' @ [CHR 0xE1, CHR 0xB5, CHR 0x87])) False None None (Some [''MI_Eb'']),
    K ''MI_E'' ([CHR 0xE1, CHR 0xB4, CHR 0xB9, CHR 0xE1, CHR 0xB4, CHR 0xB5, CHR 0xE1, CHR 0xB4, CHR 0xB0, CHR 0xE1, CHR 0xB4, CHR 0xB5] @ ''\<newline>E'') (Some ''Midi send note E'') False None None None,
    K ''MI_F'' ([CHR 0xE1, CHR 0xB4, CHR 0xB9, CHR 0xE1, CHR 0xB4, CHR 0xB5, CHR 0xE1, CHR 0xB4, CHR 0xB0, CHR 0xE1, CHR 0xB4, CHR 0xB5] @ ''\<newline>F'') (Some ''Midi send note F'') False None None None,
    K ''MI_Fs'' ([CHR 0xE1, CHR 0xB4, CHR 0xB9, CHR 0xE1, CHR 0xB4, CHR 0xB5, CHR 0xE1, CHR 0xB4, CHR 0xB0, CHR 0xE1, CHR 0xB4, CHR 0xB5] @ ''\<newline>F#/G'' @ [CHR 0xE1, CHR 0xB5, CHR 0x87]) (Some (''Midi send note F#/G'' @ [CHR 0xE1, CHR 0xB5, CHR 0x87])) False None None (Some [''MI_Gb'']),
    K ''MI_G'' ([CHR 0xE1, CHR 0xB4, CHR 0xB9, CHR 0xE1, CHR 0xB4, CHR 0xB5, CHR 0xE1, CHR 0xB4, CHR 0xB0, CHR 0xE1, CHR 0xB4, CHR 0xB5] @ ''\<newline>G'') (Some ''Midi send note G'') False None None None,
    K ''MI_Gs'' ([CHR 0xE1, CHR 0xB4, CHR 0xB9, CHR 0xE1, CHR 0xB4, CHR 0xB5, CHR 0xE1, CHR 0xB4, CHR 0xB0, CHR 0xE1, CHR 0xB4, CHR 0xB5] @ ''\<newline>G#/A'' @ [CHR 0xE1, CHR 0xB5, CHR 0x87]) (Some (''Midi send note G#/A'' @ [CHR 0xE1, CHR 0xB5, CHR 0x87])) False None None (Some [''MI_Ab'']),
    K ''MI_A'' ([CHR 0xE1, CHR 0xB4, CHR 0xB9, CHR 0xE1, CHR 0xB4, CHR 0xB5, CHR 0xE1, CHR 0xB4, CHR 0xB0, CHR 0xE1, CHR 0xB4, CHR 0xB5] @ ''\<newline>A'') (Some ''Midi send note A'') False None None None,
    K ''MI_As'' ([CHR 0xE1, CHR 0xB4, CHR 0xB9, CHR 0xE1, CHR 0xB4, CHR 0xB5, CHR 0xE1, CHR 0xB4, CHR 0xB0, CHR 0xE1, CHR 0xB4, CHR 0xB5] @ ''\<newline>A#/B'' @ [CHR 0xE1, CHR 0xB5, CHR 0x87]) (Some (''Midi send note A#/B'' @ [CHR 0xE1, CHR 0xB5, CHR 0x87])) False None None (Some [''MI_Bb'']),
    K ''MI_B'' ([CHR 0xE1, CHR 0xB4, CHR 0xB9, CHR 0xE1, CHR 0xB4, CHR 0xB5, CHR 0xE1, CHR 0xB4, CHR 0xB0, CHR 0xE1, CHR 0xB4, CHR 0xB5] @ ''\<newline>B'') (Some ''Midi send note B'') False None None None,
    K ''MI_C_1'' ([CHR 0xE1, CHR 0xB4, CHR 0xB9, CHR 0xE1, CHR 0xB4, CHR 0xB5, CHR 0xE1, CHR 0xB4, CHR 0xB0, CHR 0xE1, CHR 0xB4, CHR 0xB5] @ ''\<newline>C'' @ [CHR 0xE2, CHR 0x82, CHR 0x81]) (Some (''Midi send note C'' @ [CHR 0xE2, CHR 0x82, CHR 0x81])) False None None None,
    K ''MI_Cs_1'' ([CHR 0xE1, CHR 0xB4, CHR 0xB9, CHR 0xE1, CHR 0xB4, CHR 0xB5, CHR 0xE1, CHR 0xB4, CHR 0xB0, CHR 0xE1, CHR 0xB4, CHR 0xB5] @ ''\<newline>C#'' @ [CHR 0xE2, CHR 0x82, CHR 0x81] @ ''/D'' @ [CHR 0xE1, CHR 0xB5, CHR 0x87, CHR 0xE2, CHR 0x82, CHR 0x81]) (Some (''Midi send note C#'' @ [CHR 0xE2, CHR 0x82, CHR 0x81] @ ''/D'' @ [CHR 0xE1, CHR 0xB5, CHR 0x87, CHR 0xE2, CHR 0x82, CHR 0x81])) False None None (Some [''MI_Db_1'']),
    K ''MI_D_1'' ([CHR 0xE1, CHR 0xB4, CHR 0xB9, CHR 0xE1, CHR 0xB4, CHR 0xB5, CHR 0xE1, CHR 0xB4, CHR 0xB0, CHR 0xE1, CHR 0xB4, CHR 0xB5] @ ''\<newline>D'' @ [CHR 0xE2, CHR 0x82, CHR 0x81]) (Some (''Midi send note D'' @ [CHR 0xE2, CHR 0x82, CHR 0x81])) False None None None,
    K ''MI_Ds_1'' ([CHR 0xE1, CHR 0xB4, CHR 0xB9, CHR 0xE1, CHR 0xB4, CHR 0xB5, CHR 0xE1, CHR 0xB4, CHR 0xB0, CHR 0xE1, CHR 0xB4, CHR 0xB5] @ ''\<newline>D#'' @ [CHR 0xE2, CHR 0x82, CHR 0x81] @ ''/E'' @ [CHR 0xE1, CHR 0xB5, CHR 0x87, CHR 0xE2, CHR 0x82, CHR 0x81]) (Some (''Midi send note D#'' @ [CHR 0xE2, CHR 0x82, CHR 0x81] @ ''/E'' @ [CHR 0xE1, CHR 0xB5, CHR 0x87, CHR 0xE2, CHR 0x82, CHR 0x81])) False None None (Some [''MI_Eb_1'']),
    K ''MI_E_1'' ([CHR 0xE1, CHR 0xB4, CHR 0xB9, CHR 0xE1, CHR 0xB4, CHR 0xB5, CHR 0xE1, CHR 0xB4, CHR 0xB0, CHR 0xE1, CHR 0xB4, CHR 0xB5] @ ''\<newline>E'' @ [CHR 0xE2, CHR 0x82, CHR 0x81]) (Some (''Midi send note E'' @ [CHR 0xE2, CHR 0x82, CHR 0x81])) False None None None,
    K ''MI_F_1'' ([CHR 0xE1, CHR 0xB4, CHR 0xB9, CHR 0xE1, CHR 0xB4, CHR 0xB5, CHR 0xE1, CHR 0xB4, CHR 0xB0, CHR 0xE1, CHR 0xB4, CHR 0xB5] @ ''\<newline>F'' @ [CHR 0xE2, CHR 0x82, CHR 0x81]) (Some (''Midi send note F'' @ [CHR 0xE2, CHR 0x82, CHR 0x81])) False None None None,
    K ''MI_Fs_1'' ([CHR 0xE1, CHR 0xB4, CHR 0xB9, CHR 0xE1, CHR 0xB4, CHR 0xB5, CHR 0xE1, CHR 0xB4, CHR 0xB0, CHR 0xE1, CHR 0xB4, CHR 0xB5] @ ''\<newline>F#'' @ [CHR 0xE2, CHR 0x82, CHR 0x81] @ ''/G'' @ [CHR 0xE1, CHR 0xB5, CHR 0x87, CHR 0xE2, CHR 0x82, CHR 0x81]) (Some (''Midi send note F#'' @ [CHR 0xE2, CHR 0x82, CHR 0x81] @ ''/G'' @ [CHR 0xE1, CHR 0xB5, CHR 0x87, CHR 0xE2, CHR 0x82, CHR 0x81])) False None None (Some [''MI_Gb_1'']),
    K ''MI_G_1'' ([CHR 0xE1, CHR 0xB4, CHR 0xB9, CHR 0xE1, CHR 0xB4, CHR 0xB5, CHR 0xE1, CHR 0xB4, CHR 0xB0, CHR 0xE1, CHR 0xB4, CHR 0xB5] @ ''\<newline>G'' @ [CHR 0xE2, CHR 0x82, CHR 0x81]) (Some (''Midi send note G'' @ [CHR 0xE2, CHR 0x82, CHR 0x81])) False None None None,
    K ''MI_Gs_1'' ([CHR 0xE1, CHR 0xB4, CHR 0xB9, CHR 0xE1, CHR 0xB4, CHR 0xB5, CHR 0xE1, CHR 0xB4, CHR 0xB0, CHR 0xE1, CHR 0xB4, CHR 0xB5] @ ''\<newline>G#'' @ [CHR 0xE2, CHR 0x82, CHR 0x81] @ ''/A'' @ [CHR 0xE1, CHR 0xB5, CHR 0x87, CHR 0xE2, CHR 0x82, CHR 0x81]) (Some (''Midi send note G#'' @ [CHR 0xE2, CHR 0x82, CHR 0x81] @ ''/A'' @ [CHR 0xE1, CHR 0xB5, CHR 0x87, CHR 0xE2, CHR 0x82, CHR 0x81])) False None None (Some [''MI_Ab_1'']),
    K ''MI_A_1'' ([CHR 0xE1, CHR 0xB4, CHR 0xB9, CHR 0xE1, CHR 0xB4, CHR 0xB5, CHR 0xE1, CHR 0xB4, CHR 0xB0, CHR 0xE1, CHR 0xB4, CHR 0xB5] @ ''\<newline>A'' @ [CHR 0xE2, CHR 0x82, CHR 0x81]) (Some (''Midi send note A'' @ [CHR 0xE2, CHR 0x82, CHR 0x81])) False None None None,
    K ''MI_As_1'' ([CHR 0xE1, CHR 0xB4, CHR 0xB9, CHR 0xE1, CHR 0xB4, CHR 0xB5, CHR 0xE1, CHR 0xB4, CHR 0xB0, CHR 0xE1, CHR 0xB4, CHR 0xB5] @ ''\<newline>A#'' @ [CHR 0xE2, CHR 0x82, CHR 0x81] @ ''/B'' @ [CHR 0xE1, CHR 0xB5, CHR 0x87, CHR 0xE2, CHR 0x82, CHR 0x81]) (Some (''Midi send note A#'' @ [CHR 0xE2, CHR 0x82, CHR 0x81] @ ''/B'' @ [CHR 0xE1, CHR 0xB5, CHR 0x87, CHR 0xE2, CHR 0x82, CHR 0x81])) False None None (Some [''MI_Bb_1'']),
    K ''MI_B_1'' ([CHR 0xE1, CHR 0xB4, CHR 0xB9, CHR 0xE1, CHR 0xB4, CHR 0xB5, CHR 0xE1, CHR 0xB4, CHR 0xB0, CHR 0xE1, CHR 0xB4, CHR 0xB5] @ ''\<newline>B'' @ [CHR 0xE2, CHR 0x82, CHR 0x81]) (Some (''Midi send note B'' @ [CHR 0xE2, CHR 0x82, CHR 0x81])) False None None None,
    K ''MI_C_2'' ([CHR 0xE1, CHR 0xB4, CHR 0xB9, CHR 0xE1, CHR 0xB4, CHR 0xB5, CHR 0xE1, CHR 0xB4, CHR 0xB0, CHR 0xE1, CHR 0xB4, CHR 0xB5] @ ''\<newline>C'' @ [CHR 0xE2, CHR 0x82, CHR 0x82]) (Some (''Midi send note C'' @ [CHR 0xE2, CHR 0x82, CHR 0x82])) False None None None,
    K ''MI_Cs_2'' ([CHR 0xE1, CHR 0xB4, CHR 0xB9, CHR 0xE1, CHR 0xB4, CHR 0xB5, CHR 0xE1, CHR 0xB4, CHR 0xB0, CHR 0xE1, CHR 0xB4, CHR 0xB5] @ ''\<newline>C#'' @ [CHR 0xE2, CHR 0x82, CHR 0x82] @ ''/D'' @ [CHR 0xE1, CHR 0xB5, CHR 0x87, CHR 0xE2, CHR 0x82, CHR 0x82]) (Some (''Midi send note C#'' @ [CHR 0xE2, CHR 0x82, CHR 0x82] @ ''/D'' @ [CHR 0xE1, CHR 0xB5, CHR 0x87, CHR 0xE2, CHR 0x82, CHR 0x82])) False None None (Some [''MI_Db_2'']),
    K ''MI_D_2'' ([CHR 0xE1, CHR 0xB4, CHR 0xB9, CHR 0xE1, CHR 0xB4, CHR 0xB5, CHR 0xE1, CHR 0xB4, CHR 0xB0, CHR 0xE1, CHR 0xB4, CHR 0xB5] @ ''\<newline>D'' @ [CHR 0xE2, CHR 0x82, CHR 0x82]) (Some (''Midi send note D'' @ [CHR 0xE2, CHR 0x82, CHR 0x82])) False None None None,
    K ''MI_Ds_2'' ([CHR 0xE1, CHR 0xB4, CHR 0xB9, CHR 0xE1, CHR 0xB4, CHR 0xB5, CHR 0xE1, CHR 0xB4, CHR 0xB0, CHR 0xE1, CHR 0xB4, CHR 0xB5] @ ''\<newline>D#'' @ [CHR 0xE2, CHR 0x82, CHR 0x82] @ ''/E'' @ [CHR 0xE1, CHR 0xB5, CHR 0x87, CHR 0xE2, CHR 0x82, CHR 0x82]) (Some (''Midi send note D#'' @ [CHR 0xE2, CHR 0x82, CHR 0x82] @ ''/E'' @ [CHR 0xE1, CHR 0xB5, CHR 0x87, CHR 0xE2, CHR 0x82, CHR 0x82])) False None None (Some [''MI_Eb_2'']),
    K ''MI_E_2'' ([CHR 0xE1, CHR 0xB4, CHR 0xB9, CHR 0xE1, CHR 0xB4, CHR 0xB5, CHR 0xE1, CHR 0xB4, CHR 0xB0, CHR 0xE1, CHR 0xB4, CHR 0xB5] @ ''\<newline>E'' @ [CHR 0xE2, CHR 0x82, CHR 0x82]) (Some (''Midi send note E'' @ [CHR 0xE2, CHR 0x82, CHR 0x82])) False None None None,
    K ''MI_F_2'' ([CHR 0xE1, CHR 0xB4, CHR 0xB9, CHR 0xE1, CHR 0xB4, CHR 0xB5, CHR 0xE1, CHR 0xB4, CHR 0xB0, CHR 0xE1, CHR 0xB4, CHR 0xB5] @ ''\<newline>F'' @ [CHR 0xE2, CHR 0x82, CHR 0x82]) (Some (''Midi send note F'' @ [CHR 0xE2, CHR 0x82, CHR 0x82])) False None None None,
    K ''MI_Fs_2'' ([CHR 0xE1, CHR 0xB4, CHR 0xB9, CHR 0xE1, CHR 0xB4, CHR 0xB5, CHR 0xE1, CHR 0xB4, CHR 0xB0, CHR 0xE1, CHR 0xB4, CHR 0xB5] @ ''\<newline>F#'' @ [CHR 0xE2, CHR 0x82, CHR 0x82] @ ''/G'' @ [CHR 0xE1, CHR 0xB5, CHR 0x87, CHR 0xE2, CHR 0x82, CHR 0x82]) (Some (''Midi send note F#'' @ [CHR 0xE2, CHR 0x82, CHR 0x82] @ ''/G'' @ [CHR 0xE1, CHR 0xB5, CHR 0x87, CHR 0xE2, CHR 0x82, CHR 0x82])) False None None (Some [''MI_Gb_2'']),
    K ''MI_G_2'' ([CHR 0xE1, CHR 0xB4, CHR 0xB9, CHR 0xE1, CHR 0xB4, CHR 0xB5, CHR 0xE1, CHR 0xB4, CHR 0xB0, CHR 0xE1, CHR 0xB4, CHR 0xB5] @ ''\<newline>G'' @ [CHR 0xE2, CHR 0x82, CHR 0x82]) (Some (''Midi send note G'' @ [CHR 0xE2, CHR 0x82, CHR 0x82])) False None None None,
    K ''MI_Gs_2'' ([CHR 0xE1, CHR 0xB4, CHR 0xB9, CHR 0xE1, CHR 0xB4, CHR 0xB5, CHR 0xE1, CHR 0xB4, CHR 0xB0, CHR 0xE1, CHR 0xB4, CHR 0xB5] @ ''\<newline>G#'' @ [CHR 0xE2, CHR 0x82, CHR 0x82] @ ''/A'' @ [CHR 0xE1, CHR 0xB5, CHR 0x87, CHR 0xE2, CHR 0x82, CHR 0x82]) (Some (''Midi send note G#'' @ [CHR 0xE2, CHR 0x82, CHR 0x82] @ ''/A'' @ [CHR 0xE1, CHR 0xB5, CHR 0x87, CHR 0xE2, CHR 0x82, CHR 0x82])) False None None (Some [''MI_Ab_2'']),
    K ''MI_A_2'' ([CHR 0xE1, CHR 0xB4, CHR 0xB9, CHR 0xE1, CHR 0xB4, CHR 0xB5, CHR 0xE1, CHR 0xB4, CHR 0xB0, CHR 0xE1, CHR 0xB4, CHR 0xB5] @ ''\<newline>A'' @ [CHR 0xE2, CHR 0x82, CHR 0x82]) (Some (''Midi send note A'' @ [CHR 0xE2, CHR 0x82, CHR 0x82])) False None None None,
    K ''MI_As_2'' ([CHR 0xE1, CHR 0xB4, CHR 0xB9, CHR 0xE1, CHR 0xB4, CHR 0xB5, CHR 0xE1, CHR 0xB4, CHR 0xB0, CHR 0xE1, CHR 0xB4, CHR 0xB5] @ ''\<newline>A#'' @ [CHR 0xE2, CHR 0x82, CHR 0x82] @ ''/B'' @ [CHR 0xE1, CHR 0xB5, CHR 0x87, CHR 0xE2, CHR 0x82, CHR 0x82]) (Some (''Midi send note A#'' @ [CHR 0xE2, CHR 0x82, CHR 0x82] @ ''/B'' @ [CHR 0xE1, CHR 0xB5, CHR 0x87, CHR 0xE2, CHR 0x82, CHR 0x82])) False None None (Some [''MI_Bb_2'']),
    K ''MI_B_2'' ([CHR 0xE1, CHR 0xB4, CHR 0xB9, CHR 0xE1, CHR 0xB4, CHR 0xB5, CHR 0xE1, CHR 0xB4, CHR 0xB0, CHR 0xE1, CHR 0xB4, CHR 0xB5] @ ''\<newline>B'' @ [CHR 0xE2, CHR 0x82, CHR 0x82]) (Some (''Midi send note B'' @ [CHR 0xE2, CHR 0x82, CHR 0x82])) False None None None,
    K ''MI_C_3'' ([CHR 0xE1, CHR 0xB4, CHR 0xB9, CHR 0xE1, CHR 0xB4, CHR 0xB5, CHR 0xE1, CHR 0xB4, CHR 0xB0, CHR 0xE1, CHR 0xB4, CHR 0xB5] @ ''\<newline>C'' @ [CHR 0xE2, CHR 0x82, CHR 0x83]) (Some (''Midi send note C'' @ [CHR 0xE2, CHR 0x82, CHR 0x83])) False None None None,
    K ''MI_Cs_3'' ([CHR 0xE1, CHR 0xB4, CHR 0xB9, CHR 0xE1, CHR 0xB4, CHR 0xB5, CHR 0xE1, CHR 0xB4, CHR 0xB0, CHR 0xE1, CHR 0xB4, CHR 0xB5] @ ''\<newline>C#'' @ [CHR 0xE2, CHR 0x82, CHR 0x83] @ ''/D'' @ [CHR 0xE1, CHR 0xB5, CHR 0x87, CHR 0xE2, CHR 0x82, CHR 0x83]) (Some (''Midi send note C#'' @ [CHR 0xE2, CHR 0x82, CHR 0x83] @ ''/D'' @ [CHR 0xE1, CHR 0xB5, CHR 0x87, CHR 0xE2, CHR 0x82, CHR 0x83])) False None None (Some [''MI_Db_3'']),
    K ''MI_D_3'' ([CHR 0xE1, CHR 0xB4, CHR 0xB9, CHR 0xE1, CHR 0xB4, CHR 0xB5, CHR 0xE1, CHR 0xB4, CHR 0xB0, CHR 0xE1, CHR 0xB4, CHR 0xB5] @ ''\<newline>D'' @ [CHR 0xE2, CHR 0x82, CHR 0x83]) (Some (''Midi send note D'' @ [CHR 0xE2, CHR 0x82, CHR 0x83])) False None None None,
    K ''MI_Ds_3'' ([CHR 0xE1, CHR 0xB4, CHR 0xB9, CHR 0xE1, CHR 0xB4, CHR 0xB5, CHR 0xE1, CHR 0xB4, CHR 0xB0, CHR 0xE1, CHR 0xB4, CHR 0xB5] @ ''\<newline>D#'' @ [CHR 0xE2, CHR 0x82, CHR 0x83] @ ''/E'' @ [CHR 0xE1, CHR 0xB5, CHR 0x87, CHR 0xE2, CHR 0x82, CHR 0x83]) (Some (''Midi send note D#'' @ [CHR 0xE2, CHR 0x82, CHR 0x83] @ ''/E'' @ [CHR 0xE1, CHR 0xB5, CHR 0x87, CHR 0xE2, CHR 0x82, CHR 0x83])) False None None (Some [''MI_Eb_3'']),
    K ''MI_E_3'' ([CHR 0xE1, CHR 0xB4, CHR 0xB9, CHR 0xE1, CHR 0xB4, CHR 0xB5, CHR 0xE1, CHR 0xB4, CHR 0xB0, CHR 0xE1, CHR 0xB4, CHR 0xB5] @ ''\<newline>E'' @ [CHR 0xE2, CHR 0x82, CHR 0x83]) (Some (''Midi send note E'' @ [CHR 0xE2, CHR 0x82, CHR 0x83])) False None None None,
    K ''MI_F_3'' ([CHR 0xE1, CHR 0xB4, CHR 0xB9, CHR 0xE1, CHR 0xB4, CHR 0xB5, CHR 0xE1, CHR 0xB4, CHR 0xB0, CHR 0xE1, CHR 0xB4, CHR 0xB5] @ ''\<newline>F'' @ [CHR 0xE2, CHR 0x82, CHR 0x83]) (Some (''Midi send note F'' @ [CHR 0xE2, CHR 0x82, CHR 0x83])) False None None None,
    K ''MI_Fs_3'' ([CHR 0xE1, CHR 0xB4, CHR 0xB9, CHR 0xE1, CHR 0xB4, CHR 0xB5, CHR 0xE1, CHR 0xB4, CHR 0xB0, CHR 0xE1, CHR 0xB4, CHR 0xB5] @ ''\<newline>F#'' @ [CHR 0xE2, CHR 0x82, CHR 0x83] @ ''/G'' @ [CHR 0xE1, CHR 0xB5, CHR 0x87, CHR 0xE2, CHR 0x82, CHR 0x83]) (Some (''Midi send note F#'' @ [CHR 0xE2, CHR 0x82, CHR 0x83] @ ''/G'' @ [CHR 0xE1, CHR 0xB5, CHR 0x87, CHR 0xE2, CHR 0x82, CHR 0x83])) False None None (Some [''MI_Gb_3'']),
    K ''MI_G_3'' ([CHR 0xE1, CHR 0xB4, CHR 0xB9, CHR 0xE1, CHR 0xB4, CHR 0xB5, CHR 0xE1, CHR 0xB4, CHR 0xB0, CHR 0xE1, CHR 0xB4, CHR 0xB5] @ ''\<newline>G'' @ [CHR 0xE2, CHR 0x82, CHR 0x83]) (Some (''Midi send note G'' @ [CHR 0xE2, CHR 0x82, CHR 0x83])) False None None None,
    K ''MI_Gs_3'' ([CHR 0xE1, CHR 0xB4, CHR 0xB9, CHR 0xE1, CHR 0xB4, CHR 0xB5, CHR 0xE1, CHR 0xB4, CHR 0xB0, CHR 0xE1, CHR 0xB4, CHR 0xB5] @ ''\<newline>G#'' @ [CHR 0xE2, CHR 0x82, CHR 0x83] @ ''/A'' @ [CHR 0xE1, CHR 0xB5, CHR 0x87, CHR 0xE2, CHR 0x82, CHR 0x83]) (Some (''Midi send note G#'' @ [CHR 0xE2, CHR 0x82, CHR 0x83] @ ''/A'' @ [CHR 0xE1, CHR 0xB5, CHR 0x87, CHR 0xE2, CHR 0x82, CHR 0x83])) False None None (Some [''MI_Ab_3'']),
    K ''MI_A_3'' ([CHR 0xE1, CHR 0xB4, CHR 0xB9, CHR 0xE1, CHR 0xB4, CHR 0xB5, CHR 0xE1, CHR 0xB4, CHR 0xB0, CHR 0xE1, CHR 0xB4, CHR 0xB5] @ ''\<newline>A'' @ [CHR 0xE2, CHR 0x82, CHR 0x83]) (Some (''Midi send note A'' @ [CHR 0xE2, CHR 0x82, CHR 0x83])) False None None None,
    K ''MI_As_3'' ([CHR 0xE1, CHR 0xB4, CHR 0xB9, CHR 0xE1, CHR 0xB4, CHR 0xB5, CHR 0xE1, CHR 0xB4, CHR 0xB0, CHR 0xE1, CHR 0xB4, CHR 0xB5] @ ''\<newline>A#'' @ [CHR 0xE2, CHR 0x82, CHR 0x83] @ ''/B'' @ [CHR 0xE1, CHR 0xB5, CHR 0x87, CHR 0xE2, CHR 0x82, CHR 0x83]) (Some (''Midi send note A#'' @ [CHR 0xE2, CHR 0x82, CHR 0x83] @ ''/B'' @ [CHR 0xE1, CHR 0xB5, CHR 0x87, CHR 0xE2, CHR 0x82, CHR 0x83])) False None None (Some [''MI_Bb_3'']),
    K ''MI_B_3'' ([CHR 0xE1, CHR 0xB4, CHR 0xB9, CHR 0xE1, CHR 0xB4, CHR 0xB5, CHR 0xE1, CHR 0xB4, CHR 0xB0, CHR 0xE1, CHR 0xB4, CHR 0xB5] @ ''\<newline>B'' @ [CHR 0xE2, CHR 0x82, CHR 0x83]) (Some (''Midi send note B'' @ [CHR 0xE2, CHR 0x82, CHR 0x83])) False None None None,
    K ''MI_C_4'' ([CHR 0xE1, CHR 0xB4, CHR 0xB9, CHR 0xE1, CHR 0xB4, CHR 0xB5, CHR 0xE1, CHR 0xB4, CHR 0xB0, CHR 0xE1, CHR 0xB4, CHR 0xB5] @ ''\<newline>C'' @ [CHR 0xE2, CHR 0x82, CHR 0x84]) (Some (''Midi send note C'' @ [CHR 0xE2, CHR 0x82, CHR 0x84])) False None None None,
    K ''MI_Cs_4'' ([CHR 0xE1, CHR 0xB4, CHR 0xB9, CHR 0xE1, CHR 0xB4, CHR 0xB5, CHR 0xE1, CHR 0xB4, CHR 0xB0, CHR 0xE1, CHR 0xB4, CHR 0xB5] @ ''\<newline>C#'' @ [CHR 0xE2, CHR 0x82, CHR 0x84] @ ''/D'' @ [CHR 0xE1, CHR 0xB5, CHR 0x87, CHR 0xE2, CHR 0x82, CHR 0x84]) (Some (''Midi send note C#'' @ [CHR 0xE2, CHR 0x82, CHR 0x84] @ ''/D'' @ [CHR 0xE1, CHR 0xB5, CHR 0x87, CHR 0xE2, CHR 0x82, CHR 0x84])) False None None (Some [''MI_Db_4'']),
    K ''MI_D_4'' ([CHR 0xE1, CHR 0xB4, CHR 0xB9, CHR 0xE1, CHR 0xB4, CHR 0xB5, CHR 0xE1, CHR 0xB4, CHR 0xB0, CHR 0xE1, CHR 0xB4, CHR 0xB5] @ ''\<newline>D'' @ [CHR 0xE2, CHR 0x82, CHR 0x84]) (Some (''Midi send note D'' @ [CHR 0xE2, CHR 0x82, CHR 0x84])) False None None None,
    K ''MI_Ds_4'' ([CHR 0xE1, CHR 0xB4, CHR 0xB9, CHR 0xE1, CHR 0xB4, CHR 0xB5, CHR 0xE1, CHR 0xB4, CHR 0xB0, CHR 0xE1, CHR 0xB4, CHR 0xB5] @ ''\<newline>D#'' @ [CHR 0xE2, CHR 0x82, CHR 0x84] @ ''/E'' @ [CHR 0xE1, CHR 0xB5, CHR 0x87, CHR 0xE2, CHR 0x82, CHR 0x84]) (Some (''Midi send note D#'' @ [CHR 0xE2, CHR 0x82, CHR 0x84] @ ''/E'' @ [CHR 0xE1, CHR 0xB5, CHR 0x87, CHR 0xE2, CHR 0x82, CHR 0x84])) False None None (Some [''MI_Eb_4'']),
    K ''MI_E_4'' ([CHR 0xE1, CHR 0xB4, CHR 0xB9, CHR 0xE1, CHR 0xB4, CHR 0xB5, CHR 0xE1, CHR 0xB4, CHR 0xB0, CHR 0xE1, CHR 0xB4, CHR 0xB5] @ ''\<newline>E'' @ [CHR 0xE2, CHR 0x82, CHR 0x84]) (Some (''Midi send note E'' @ [CHR 0xE2, CHR 0x82, CHR 0x84])) False None None None,
    K ''MI_F_4'' ([CHR 0xE1, CHR 0xB4, CHR 0xB9, CHR 0xE1, CHR 0xB4, CHR 0xB5, CHR 0xE1, CHR 0xB4, CHR 0xB0, CHR 0xE1, CHR 0xB4, CHR 0xB5] @ ''\<newline>F'' @ [CHR 0xE2, CHR 0x82, CHR 0x84]) (Some (''Midi send note F'' @ [CHR 0xE2, CHR 0x82, CHR 0x84])) False None None None,
    K ''MI_Fs_4'' ([CHR 0xE1, CHR 0xB4, CHR 0xB9, CHR 0xE1, CHR 0xB4, CHR 0xB5, CHR 0xE1, CHR 0xB4, CHR 0xB0, CHR 0xE1, CHR 0xB4, CHR 0xB5] @ ''\<newline>F#'' @ [CHR 0xE2, CHR 0x82, CHR 0x84] @ ''/G'' @ [CHR 0xE1, CHR 0xB5, CHR 0x87, CHR 0xE2, CHR 0x82, CHR 0x84]) (Some (''Midi send note F#'' @ [CHR 0xE2, CHR 0x82, CHR 0x84] @ ''/G'' @ [CHR 0xE1, CHR 0xB5, CHR 0x87, CHR 0xE2, CHR 0x82, CHR 0x84])) False None None (Some [''MI_Gb_4'']),
    K ''MI_G_4'' ([CHR 0xE1, CHR 0xB4, CHR 0xB9, CHR 0xE1, CHR 0xB4, CHR 0xB5, CHR 0xE1, CHR 0xB4, CHR 0xB0, CHR 0xE1, CHR 0xB4, CHR 0xB5] @ ''\<newline>G'' @ [CHR 0xE2, CHR 0x82, CHR 0x84]) (Some (''Midi send note G'' @ [CHR 0xE2, CHR 0x82, CHR 0x84])) False None None None,
    K ''MI_Gs_4'' ([CHR 0xE1, CHR 0xB4, CHR 0xB9, CHR 0xE1, CHR 0xB4, CHR 0xB5, CHR 0xE1, CHR 0xB4, CHR 0xB0, CHR 0xE1, CHR 0xB4, CHR 0xB5] @ ''\<newline>G#'' @ [CHR 0xE2, CHR 0x82, CHR 0x84] @ ''/A'' @ [CHR 0xE1, CHR 0xB5, CHR 0x87, CHR 0xE2, CHR 0x82, CHR 0x84]) (Some (''Midi send note G#'' @ [CHR 0xE2, CHR 0x82, CHR 0x84] @ ''/A'' @ [CHR 0xE1, CHR 0xB5, CHR 0x87, CHR 0xE2, CHR 0x82, CHR 0x84])) False None None (Some [''MI_Ab_4'']),
    K ''MI_A_4'' ([CHR 0xE1, CHR 0xB4, CHR 0xB9, CHR 0xE1, CHR 0xB4, CHR 0xB5, CHR 0xE1, CHR 0xB4, CHR 0xB0, CHR 0xE1, CHR 0xB4, CHR 0xB5] @ ''\<newline>A'' @ [CHR 0xE2, CHR 0x82, CHR 0x84]) (Some (''Midi send note A'' @ [CHR 0xE2, CHR 0x82, CHR 0x84])) False None None None,
    K ''MI_As_4'' ([CHR 0xE1, CHR 0xB4, CHR 0xB9, CHR 0xE1, CHR 0xB4, CHR 0xB5, CHR 0xE1, CHR 0xB4, CHR 0xB0, CHR 0xE1, CHR 0xB4, CHR 0xB5] @ ''\<newline>A#'' @ [CHR 0xE2, CHR 0x82, CHR 0x84] @ ''/B'' @ [CHR 0xE1, CHR 0xB5, CHR 0x87, CHR 0xE2, CHR 0x82, CHR 0x84]) (Some (''Midi send note A#'' @ [CHR 0xE2, CHR 0x82, CHR 0x84] @ ''/B'' @ [CHR 0xE1, CHR 0xB5, CHR 0x87, CHR 0xE2, CHR 0x82, CHR 0x84])) False None None (Some [''MI_Bb_4'']),
    K ''MI_B_4'' ([CHR 0xE1, CHR 0xB4, CHR 0xB9, CHR 0xE1, CHR 0xB4, CHR 0xB5, CHR 0xE1, CHR 0xB4, CHR 0xB0, CHR 0xE1, CHR 0xB4, CHR 0xB5] @ ''\<newline>B'' @ [CHR 0xE2, CHR 0x82, CHR 0x84]) (Some (''Midi send note B'' @ [CHR 0xE2, CHR 0x82, CHR 0x84])) False None None None,
    K ''MI_C_5'' ([CHR 0xE1, CHR 0xB4, CHR 0xB9, CHR 0xE1, CHR 0xB4, CHR 0xB5, CHR 0xE1, CHR 0xB4, CHR 0xB0, CHR 0xE1, CHR 0xB4, CHR 0xB5] @ ''\<newline>C'' @ [CHR 0xE2, CHR 0x82, CHR 0x85]) (Some (''Midi send note C'' @ [CHR 0xE2, CHR 0x82, CHR 0x85])) False None None None,
    K ''MI_Cs_5'' ([CHR 0xE1, CHR 0xB4, CHR 0xB9, CHR 0xE1, CHR 0xB4, CHR 0xB5, CHR 0xE1, CHR 0xB4, CHR 0xB0, CHR 0xE1, CHR 0xB4, CHR 0xB5] @ ''\<newline>C#'' @ [CHR 0xE2, CHR 0x82, CHR 0x85] @ ''/D'' @ [CHR 0xE1, CHR 0xB5, CHR 0x87, CHR 0xE2, CHR 0x82, CHR 0x85]) (Some (''Midi send note C#'' @ [CHR 0xE2, CHR 0x82, CHR 0x85] @ ''/D'' @ [CHR 0xE1, CHR 0xB5, CHR 0x87, CHR 0xE2, CHR 0x82, CHR 0x85])) False None None (Some [''MI_Db_5'']),
    K ''MI_D_5'' ([CHR 0xE1, CHR 0xB4, CHR 0xB9, CHR 0xE1, CHR 0xB4, CHR 0xB5, CHR 0xE1, CHR 0xB4, CHR 0xB0, CHR 0xE1, CHR 0xB4, CHR 0xB5] @ ''\<newline>D'' @ [CHR 0xE2, CHR 0x82, CHR 0x85]) (Some (''Midi send note D'' @ [CHR 0xE2, CHR 0x82, CHR 0x85])) False None None None,
    K ''MI_Ds_5'' ([CHR 0xE1, CHR 0xB4, CHR 0xB9, CHR 0xE1, CHR 0xB4, CHR 0xB5, CHR 0xE1, CHR 0xB4, CHR 0xB0, CHR 0xE1, CHR 0xB4, CHR 0xB5] @ ''\<newline>D#'' @ [CHR 0xE2, CHR 0x82, CHR 0x85] @ ''/E'' @ [CHR 0xE1, CHR 0xB5, CHR 0x87, CHR 0xE2, CHR 0x82, CHR 0x85]) (Some (''Midi send note D#'' @ [CHR 0xE2, CHR 0x82, CHR 0x85] @ ''/E'' @ [CHR 0xE1, CHR 0xB5, CHR 0x87, CHR 0xE2, CHR 0x82, CHR 0x85])) False None None (Some [''MI_Eb_5'']),
    K ''MI_E_5'' ([CHR 0xE1, CHR 0xB4, CHR 0xB9, CHR 0xE1, CHR 0xB4, CHR 0xB5, CHR 0xE1, CHR 0xB4, CHR 0xB0, CHR 0xE1, CHR 0xB4, CHR 0xB5] @ ''\<newline>E'' @ [CHR 0xE2, CHR 0x82, CHR 0x85]) (Some (''Midi send note E'' @ [CHR 0xE2, CHR 0x82, CHR 0x85])) False None None None,
    K ''MI_F_5'' ([CHR 0xE1, CHR 0xB4, CHR 0xB9, CHR 0xE1, CHR 0xB4, CHR 0xB5, CHR 0xE1, CHR 0xB4, CHR 0xB0, CHR 0xE1, CHR 0xB4, CHR 0xB5] @ ''\<newline>F'' @ [CHR 0xE2, CHR 0x82, CHR 0x85]) (Some (''Midi send note F'' @ [CHR 0xE2, CHR 0x82, CHR 0x85])) False None None None,
    K ''MI_Fs_5'' ([CHR 0xE1, CHR 0xB4, CHR 0xB9, CHR 0xE1, CHR 0xB4, CHR 0xB5, CHR 0xE1, CHR 0xB4, CHR 0xB0, CHR 0xE1, CHR 0xB4, CHR 0xB5] @ ''\<newline>F#'' @ [CHR 0xE2, CHR 0x82, CHR 0x85] @ ''/G'' @ [CHR 0xE1, CHR 0xB5, CHR 0x87, CHR 0xE2, CHR 0x82, CHR 0x85]) (Some (''Midi send note F#'' @ [CHR 0xE2, CHR 0x82, CHR 0x85] @ ''/G'' @ [CHR 0xE1, CHR 0xB5, CHR 0x87, CHR 0xE2, CHR 0x82, CHR 0x85])) False None None (Some [''MI_Gb_5'']),
    K ''MI_G_5'' ([CHR 0xE1, CHR 0xB4, CHR 0xB9, CHR 0xE1, CHR 0xB4, CHR 0xB5, CHR 0xE1, CHR 0xB4, CHR 0xB0, CHR 0xE1, CHR 0xB4, CHR 0xB5] @ ''\<newline>G'' @ [CHR 0xE2, CHR 0x82, CHR 0x85]) (Some (''Midi send note G'' @ [CHR 0xE2, CHR 0x82, CHR 0x85])) False None None None,
    K ''MI_Gs_5'' ([CHR 0xE1, CHR 0xB4, CHR 0xB9, CHR 0xE1, CHR 0xB4, CHR 0xB5, CHR 0xE1, CHR 0xB4, CHR 0xB0, CHR 0xE1, CHR 0xB4, CHR 0xB5] @ ''\<newline>G#'' @ [CHR 0xE2, CHR 0x82, CHR 0x85] @ ''/A'' @ [CHR 0xE1, CHR 0xB5, CHR 0x87, CHR 0xE2, CHR 0x82, CHR 0x85]) (Some (''Midi send note G#'' @ [CHR 0xE2, CHR 0x82, CHR 0x85] @ ''/A'' @ [CHR 0xE1, CHR 0xB5, CHR 0x87, CHR 0xE2, CHR 0x82, CHR 0x85])) False None None (Some [''MI_Ab_5'']),
    K ''MI_A_5'' ([CHR 0xE1, CHR 0xB4, CHR 0xB9, CHR 0xE1, CHR 0xB4, CHR 0xB5, CHR 0xE1, CHR 0xB4, CHR 0xB0, CHR 0xE1, CHR 0xB4, CHR 0xB5] @ ''\<newline>A'' @ [CHR 0xE2, CHR 0x82, CHR 0x85]) (Some (''Midi send note A'' @ [CHR 0xE2, CHR 0x82, CHR 0x85])) False None None None,
    K ''MI_As_5'' ([CHR 0xE1, CHR 0xB4, CHR 0xB9, CHR 0xE1, CHR 0xB4, CHR 0xB5, CHR 0xE1, CHR 0xB4, CHR 0xB0, CHR 0xE1, CHR 0xB4, CHR 0xB5] @ ''\<newline>A#'' @ [CHR 0xE2, CHR 0x82, CHR 0x85] @ ''/B'' @ [CHR 0xE1, CHR 0xB5, CHR 0x87, CHR 0xE2, CHR 0x82, CHR 0x85]) (Some (''Midi send note A#'' @ [CHR 0xE2, CHR 0x82, CHR 0x85] @ ''/B'' @ [CHR 0xE1, CHR 0xB5, CHR 0x87, CHR 0xE2, CHR 0x82, CHR 0x85])) False None None (Some [''MI_Bb_5'']),
    K ''MI_B_5'' ([CHR 0xE1, CHR 0xB4, CHR 0xB9, CHR 0xE1, CHR 0xB4, CHR 0xB5, CHR 0xE1, CHR 0xB4, CHR 0xB0, CHR 0xE1, CHR 0xB4, CHR 0xB5] @ ''\<newline>B'' @ [CHR 0xE2, CHR 0x82, CHR 0x85]) (Some (''Midi send note B'' @ [CHR 0xE2, CHR 0x82, CHR 0x85])) False None None None,
    K ''MI_ALLOFF'' ([CHR 0xE1, CHR 0xB4, CHR 0xB9, CHR 0xE1, CHR 0xB4, CHR 0xB5, CHR 0xE1, CHR 0xB4, CHR 0xB0, CHR 0xE1, CHR 0xB4, CHR 0xB5] @ ''\<newline>Notes'' @ [CHR 0xE1, CHR 0xB5, CHR 0x92, CHR 0xE1, CHR 0xB6, CHR 0xA0, CHR 0xE1, CHR 0xB6, CHR 0xA0]) (Some ''Midi send all notes OFF'') False None None None]"

definition KEYCODES_MIDI_ADVANCED_args :: "kargs list" where
  "KEYCODES_MIDI_ADVANCED_args = [
    K ''MI_OCT_N2'' ([CHR 0xE1, CHR 0xB4, CHR 0xB9, CHR 0xE1, CHR 0xB4, CHR 0xB5, CHR 0xE1, CHR 0xB4, CHR 0xB0, CHR 0xE1, CHR 0xB4, CHR 0xB5] @ ''\<newline>Oct'' @ [CHR 0xE2, CHR 0x82, CHR 0x8B, CHR 0xE2, CHR 0x82, CHR 0x82]) (Some ''Midi set octave to -2'') False None None None,
    K ''MI_OCT_N1'' ([CHR 0xE1, CHR 0xB4, CHR 0xB9, CHR 0xE1, CHR 0xB4, CHR 0xB5, CHR 0xE1, CHR 0xB4, CHR 0xB0, CHR 0xE1, CHR 0xB4, CHR 0xB5] @ ''\<newline>Oct'' @ [CHR 0xE2, CHR 0x82, CHR 0x8B, CHR 0xE2, CHR 0x82, CHR 0x81]) (Some ''Midi set octave to -1'') False None None None,
    K ''MI_OCT_0'' ([CHR 0xE1, CHR 0xB4, CHR 0xB9, CHR 0xE1, CHR 0xB4, CHR 0xB5, CHR 0xE1, CHR 0xB4, CHR 0xB0, CHR 0xE1, CHR 0xB4, CHR 0xB5] @ ''\<newline>Oct'' @ [CHR 0xE2, CHR 0x82, CHR 0x80]) (Some ''Midi set octave to 0'') False None None None,
    K ''MI_OCT_1'' ([CHR 0xE1, CHR 0xB4, CHR 0xB9, CHR 0xE1, CHR 0xB4, CHR 0xB5, CHR 0xE1, CHR 0xB4, CHR 0xB0, CHR 0xE1, CHR 0xB4, CHR 0xB5] @ ''\<newline>Oct'' @ [CHR 0xE2, CHR 0x82, CHR 0x8A, CHR 0xE2, CHR 0x82, CHR 0x81]) (Some ''Midi set octave to 1'') False None None None,
    K ''MI_OCT_2'' ([CHR 0xE1, CHR 0xB4, CHR 0xB9, CHR 0xE1, CHR 0xB4, CHR 0xB5, CHR 0xE1, CHR 0xB4, CHR 0xB0, CHR 0xE1, CHR 0xB4, CHR 0xB5] @ ''\<newline>Oct'' @ [CHR 0xE2, CHR 0x82, CHR 0x8A, CHR 0xE2, CHR 0x82, CHR 0x82]) (Some ''Midi set octave to 2'') False None None None,
    K ''MI_OCT_3'' ([CHR 0xE1, CHR 0xB4, CHR 0xB9, CHR 0xE1, CHR 0xB4, CHR 0xB5, CHR 0xE1, CHR 0xB4, CHR 0xB0, CHR 0xE1, CHR 0xB4, CHR 0xB5] @ ''\<newline>Oct'' @ [CHR 0xE2, CHR 0x82, CHR 0x8A, CHR 0xE2, CHR 0x82, CHR 0x83]) (Some ''Midi set octave to 3'') False None None None,
    K ''MI_OCT_4'' ([CHR 0xE1, CHR 0xB4, CHR 0xB9, CHR 0xE1, CHR 0xB4, CHR 0xB5, CHR 0xE1, CHR 0xB4, CHR 0xB0, CHR 0xE1, CHR 0xB4, CHR 0xB5] @ ''\<newline>Oct'' @ [CHR 0xE2, CHR 0x82, CHR 0x8A, CHR 0xE2, CHR 0x82, CHR 0x84]) (Some ''Midi set octave to 4'') False None None None,
    K ''MI_OCT_5'' ([CHR 0xE1, CHR 0xB4, CHR 0xB9, CHR 0xE1, CHR 0xB4, CHR 0xB5, CHR 0xE1, CHR 0xB4, CHR 0xB0, CHR 0xE1, CHR 0xB4, CHR 0xB5] @ ''\<newline>Oct'' @ [CHR 0xE2, CHR 0x82, CHR 0x8A, CHR 0xE2, CHR 0x82, CHR 0x85]) (Some ''Midi set octave to 5'') False None None None,
    K ''MI_OCT_6'' ([CHR 0xE1, CHR 0xB4, CHR 0xB9, CHR 0xE1, CHR 0xB4, CHR 0xB5, CHR 0xE1, CHR 0xB4, CHR 0xB0, CHR 0xE1, CHR 0xB4, CHR 0xB5] @ ''\<newline>Oct'' @ [CHR 0xE2, CHR 0x82, CHR 0x8A, CHR 0xE2, CHR 0x82, CHR 0x86]) (Some ''Midi set octave to 6'') False None None None,
    K ''MI_OCT_7'' ([CHR 0xE1, CHR 0xB4, CHR 0xB9, CHR 0xE1, CHR 0xB4, CHR 0xB5, CHR 0xE1, CHR 0xB4, CHR 0xB0, CHR 0xE1, CHR 0xB4, CHR 0xB5] @ ''\<newline>Oct'' @ [CHR 0xE2, CHR 0x82, CHR 0x8A, CHR 0xE2, CHR 0x82, CHR 0x87]) (Some ''Midi set octave to 7'') False None None None,
    K ''MI_OCTD'' ([CHR 0xE1, CHR 0xB4, CHR 0xB9, CHR 0xE1, CHR 0xB4, CHR 0xB5, CHR 0xE1, CHR 0xB4, CHR 0xB0, CHR 0xE1, CHR 0xB4, CHR 0xB5] @ ''\<newline>Oct'' @ [CHR 0xE1, CHR 0xB4, CHR 0xB0, CHR 0xE1, CHR 0xB4, CHR 0xBA]) (Some ''Midi move down an octave'') False None None None,
    K ''MI_OCTU'' ([CHR 0xE1, CHR 0xB4, CHR 0xB9, CHR 0xE1, CHR 0xB4, CHR 0xB5, CHR 0xE1, CHR 0xB4, CHR 0xB0, CHR 0xE1, CHR 0xB4, CHR 0xB5] @ ''\<newline>Oct'' @ [CHR 0xE1, CHR 0xB5, CHR 0x81, CHR 0xE1, CHR 0xB4, CHR 0xBE]) (Some ''Midi move up an octave'') False None None None,
    K ''MI_TRNS_N6'' ([CHR 0xE1, CHR 0xB4, CHR 0xB9, CHR 0xE1, CHR 0xB4, CHR 0xB5, CHR 0xE1, CHR 0xB4, CHR 0xB0, CHR 0xE1, CHR 0xB4, CHR 0xB5] @ ''\<newline>Trans'' @ [CHR 0xE2, CHR 0x82, CHR 0x8B, CHR 0xE2, CHR 0x82, CHR 0x86]) (Some ''Midi set transposition to -4 semitones'') False None None None,
    K ''MI_TRNS_N5'' ([CHR 0xE1, CHR 0xB4, CHR 0xB9, CHR 0xE1, CHR 0xB4, CHR 0xB5, CHR 0xE1, CHR 0xB4, CHR 0xB0, CHR 0xE1, CHR 0xB4, CHR 0xB5] @ ''\<newline>Trans'' @ [CHR 0xE2, CHR 0x82, CHR 0x8B, CHR 0xE2, CHR 0x82, CHR 0x85]) (Some ''Midi set transposition to -5 semitones'') False None None None,
    K ''MI_TRNS_N4'' ([CHR 0xE1, CHR 0xB4, CHR 0xB9, CHR 0xE1, CHR 0xB4, CHR 0xB5, CHR 0xE1, CHR 0xB4, CHR 0xB0, CHR 0xE1, CHR 0xB4, CHR 0xB5] @ ''\<newline>Trans'' @ [CHR 0xE2, CHR 0x82, CHR 0x8B, CHR 0xE2, CHR 0x82, CHR 0x84]) (Some ''Midi set transposition to -4 semitones'') False None None None,
    K ''MI_TRNS_N3'' ([CHR 0xE1, CHR 0xB4, CHR 0xB9, CHR 0xE1, CHR 0xB4, CHR 0xB5, CHR 0xE1, CHR 0xB4, CHR 0xB0, CHR 0xE1, CHR 0xB4, CHR 0xB5] @ ''\<newline>Trans'' @ [CHR 0xE2, CHR 0x82, CHR 0x8B, CHR 0xE2, CHR 0x82, CHR 0x83]) (Some ''Midi set transposition to -3 semitones'') False None None None,
    K ''MI_TRNS_N2'' ([CHR 0xE1, CHR 0xB4, CHR 0xB9, CHR 0xE1, CHR 0xB4, CHR 0xB5, CHR 0xE1, CHR 0xB4, CHR 0xB0, CHR 0xE1, CHR 0xB4, CHR 0xB5] @ ''\<newline>Trans'' @ [CHR 0xE2, CHR 0x82, CHR 0x8B, CHR 0xE2, CHR 0x82, CHR 0x82]) (Some ''Midi set transposition to -2 semitones'') False None None None,
    K ''MI_TRNS_N1'' ([CHR 0xE1, CHR 0xB4, CHR 0xB9, CHR 0xE1, CHR 0xB4, CHR 0xB5, CHR 0xE1, CHR 0xB4, CHR 0xB0, CHR 0xE1, CHR 0xB4, CHR 0xB5] @ ''\<newline>Trans'' @ [CHR 0xE2, CHR 0x82, CHR 0x8B, CHR 0xE2, CHR 0x82, CHR 0x81]) (Some ''Midi set transposition to -1 semitones'') False None None None,
    K ''MI_TRNS_0'' ([CHR 0xE1, CHR 0xB4, CHR 0xB9, CHR 0xE1, CHR 0xB4, CHR 0xB5, CHR 0xE1, CHR 0xB4, CHR 0xB0, CHR 0xE1, CHR 0xB4, CHR 0xB5] @ ''\<newline>Trans'' @ [CHR 0xE2, CHR 0x82, CHR 0x80]) (Some ''Midi set no transposition'') False None None None,
    K ''MI_TRNS_1'' ([CHR 0xE1, CHR 0xB4, CHR 0xB9, CHR 0xE1, CHR 0xB4, CHR 0xB5, CHR 0xE1, CHR 0xB4, CHR 0xB0, CHR 0xE1, CHR 0xB4, CHR 0xB5] @ ''\<newline>Trans'' @ [CHR 0xE2, CHR 0x82, CHR 0x8A, CHR 0xE2, CHR 0x82, CHR 0x81]) (Some ''Midi set transposition to +1 semitones'') False None None None,
    K ''MI_TRNS_2'' ([CHR 0xE1, CHR 0xB4, CHR 0xB9, CHR 0xE1, CHR 0xB4, CHR 0xB5, CHR 0xE1, CHR 0xB4, CHR 0xB0, CHR 0xE1, CHR 0xB4, CHR 0xB5] @ ''\<newline>Trans'' @ [CHR 0xE2, CHR 0x82, CHR 0x8A, CHR 0xE2, CHR 0x82, CHR 0x82]) (Some ''Midi set transposition to +2 semitones'') False None None None,
    K ''MI_TRNS_3'' ([CHR 0xE1, CHR 0xB4, CHR 0xB9, CHR 0xE1, CHR 0xB4, CHR 0xB5, CHR 0xE1, CHR 0xB4, CHR 0xB0, CHR 0xE1, CHR 0xB4, CHR 0xB5] @ ''\<newline>Trans'' @ [CHR 0xE2, CHR 0x82, CHR 0x8A, CHR 0xE2, CHR 0x82, CHR 0x83]) (Some ''Midi set transposition to +3 semitones'') False None None None,
    K ''MI_TRNS_4'' ([CHR 0xE1, CHR 0xB4, CHR 0xB9, CHR 0xE1, CHR 0xB4, CHR 0xB5, CHR 0xE1, CHR 0xB4, CHR 0xB0, CHR 0xE1, CHR 0xB4, CHR 0xB5] @ ''\<newline>Trans'' @ [CHR 0xE2, CHR 0x82, CHR 0x8A, CHR 0xE2, CHR 0x82, CHR 0x84]) (Some ''Midi set transposition to +4 semitones'') False None None None,
    K ''MI_TRNS_5'' ([CHR 0xE1, CHR 0xB4, CHR 0xB9, CHR 0xE1, CHR 0xB4, CHR 0xB5, CHR 0xE1, CHR 0xB4, CHR 0xB0, CHR 0xE1, CHR 0xB4, CHR 0xB5] @ ''\<newline>Trans'' @ [CHR 0xE2, CHR 0x82, CHR 0x8A, CHR 0xE2, CHR 0x82, CHR 0x85]) (Some ''Midi set transposition to +5 semitones'') False None None None,
    K ''MI_TRNS_6'' ([CHR 0xE1, CHR 0xB4, CHR 0xB9, CHR 0xE1, CHR 0xB4, CHR 0xB5, CHR 0xE1, CHR 0xB4, CHR 0xB0, CHR 0xE1, CHR 0xB4, CHR 0xB5] @ ''\<newline>Trans'' @ [CHR 0xE2, CHR 0x82, CHR 0x8A, CHR 0xE2, CHR 0x82, CHR 0x86]) (Some ''Midi set transposition to +6 semitones'') False None None None,
    K ''MI_TRNSD'' ([CHR 0xE1, CHR 0xB4, CHR 0xB9, CHR 0xE1, CHR 0xB4, CHR 0xB5, CHR 0xE1, CHR 0xB4, CHR 0xB0, CHR 0xE1, CHR 0xB4, CHR 0xB5] @ ''\<newline>Trans'' @ [CHR 0xE1, CHR 0xB4, CHR 0xB0, CHR 0xE1, CHR 0xB4, CHR 0xBA]) (Some ''Midi decrease transposition'') False None None None,
    K ''MI_TRNSU'' ([CHR 0xE1, CHR 0xB4, CHR 0xB9, CHR 0xE1, CHR 0xB4, CHR 0xB5, CHR 0xE1, CHR 0xB4, CHR 0xB0, CHR 0xE1, CHR 0xB4, CHR 0xB5] @ ''\<newline>Trans'' @ [CHR 0xE1, CHR 0xB5, CHR 0x81, CHR 0xE1, CHR 0xB4, CHR 0xBE]) (Some ''Midi increase transposition'') False None None None,
    K ''MI_VEL_1'' ([CHR 0xE1, CHR 0xB4, CHR 0xB9, CHR 0xE1, CHR 0xB4, CHR 0xB5, CHR 0xE1, CHR 0xB4, CHR 0xB0, CHR 0xE1, CHR 0xB4, CHR 0xB5] @ ''\<newline>Vel'' @ [CHR 0xE2, CHR 0x82, CHR 0x81]) (Some ''Midi set velocity to 0'') False None None (Some [''MI_VEL_0'']),
    K ''MI_VEL_2'' ([CHR 0xE1, CHR 0xB4, CHR 0xB9, CHR 0xE1, CHR 0xB4, CHR 0xB5, CHR 0xE1, CHR 0xB4, CHR 0xB0, CHR 0xE1, CHR 0xB4, CHR 0xB5] @ ''\<newline>Vel'' @ [CHR 0xE2, CHR 0x82, CHR 0x82]) (Some ''Midi set velocity to 25'') False None None None,
    K ''MI_VEL_3'' ([CHR 0xE1, CHR 0xB4, CHR 0xB9, CHR 0xE1, CHR 0xB4, CHR 0xB5, CHR 0xE1, CHR 0xB4, CHR 0xB0, CHR 0xE1, CHR 0xB4, CHR 0xB5] @ ''\<newline>Vel'' @ [CHR 0xE2, CHR 0x82, CHR 0x83]) (Some ''Midi set velocity to 38'') False None None None,
    K ''MI_VEL_4'' ([CHR 0xE1, CHR 0xB4, CHR 0xB9, CHR 0xE1, CHR 0xB4, CHR 0xB5, CHR 0xE1, CHR 0xB4, CHR 0xB0, CHR 0xE1, CHR 0xB4, CHR 0xB5] @ ''\<newline>Vel'' @ [CHR 0xE2, CHR 0x82, CHR 0x84]) (Some ''Midi set velocity to 51'') False None None None,
    K ''MI_VEL_5'' ([CHR 0xE1, CHR 0xB4, CHR 0xB9, CHR 0xE1, CHR 0xB4, CHR 0xB5, CHR 0xE1, CHR 0xB4, CHR 0xB0, CHR 0xE1, CHR 0xB4, CHR 0xB5] @ ''\<newline>Vel'' @ [CHR 0xE2, CHR 0x82, CHR 0x85]) (Some ''Midi set velocity to 64'') False None None None,
    K ''MI_VEL_6'' ([CHR 0xE1, CHR 0xB4, CHR 0xB9, CHR 0xE1, CHR 0xB4, CHR 0xB5, CHR 0xE1, CHR 0xB4, CHR 0xB0, CHR 0xE1, CHR 0xB4, CHR 0xB5] @ ''\<newline>Vel'' @ [CHR 0xE2, CHR 0x82, CHR 0x86]) (Some ''Midi set velocity to 76'') False None None None,
    K ''MI_VEL_7'' ([CHR 0xE1, CHR 0xB4, CHR 0xB9, CHR 0xE1, CHR 0xB4, CHR 0xB5, CHR 0xE1, CHR 0xB4, CHR 0xB0, CHR 0xE1, CHR 0xB4, CHR 0xB5] @ ''\<newline>Vel'' @ [CHR 0xE2, CHR 0x82, CHR 0x87]) (Some ''Midi set velocity to 89'') False None None None,
    K ''MI_VEL_8'' ([CHR 0xE1, CHR 0xB4, CHR 0xB9, CHR 0xE1, CHR 0xB4, CHR 0xB5, CHR 0xE1, CHR 0xB4, CHR 0xB0, CHR 0xE1, CHR 0xB4, CHR 0xB5] @ ''\<newline>Vel'' @ [CHR 0xE2, CHR 0x82, CHR 0x88]) (Some ''Midi set velocity to 102'') False None None None,
    K ''MI_VEL_9'' ([CHR 0xE1, CHR 0xB4, CHR 0xB9, CHR 0xE1, CHR 0xB4, CHR 0xB5, CHR 0xE1, CHR 0xB4, CHR 0xB0, CHR 0xE1, CHR 0xB4, CHR 0xB5] @ ''\<newline>Vel'' @ [CHR 0xE2, CHR 0x82, CHR 0x89]) (Some ''Midi set velocity to 114'') False None None None,
    K ''MI_VEL_10'' ([CHR 0xE1, CHR 0xB4, CHR 0xB9, CHR 0xE1, CHR 0xB4, CHR 0xB5, CHR 0xE1, CHR 0xB4, CHR 0xB0, CHR 0xE1, CHR 0xB4, CHR 0xB5] @ ''\<newline>Vel'' @ [CHR 0xE2, CHR 0x82, CHR 0x81, CHR 0xE2, CHR 0x82, CHR 0x80]) (Some ''Midi set velocity to 127'') False None None None,
    K ''MI_VELD'' ([CHR 0xE1, CHR 0xB4, CHR 0xB9, CHR 0xE1, CHR 0xB4, CHR 0xB5, CHR 0xE1, CHR 0xB4, CHR 0xB0, CHR 0xE1, CHR 0xB4, CHR 0xB5] @ ''\<newline>Vel'' @ [CHR 0xE1, CHR 0xB4, CHR 0xB0, CHR 0xE1, CHR 0xB4, CHR 0xBA]) (Some ''Midi decrease velocity'') False None None None,
    K ''MI_VELU'' ([CHR 0xE1, CHR 0xB4, CHR 0xB9, CHR 0xE1, CHR 0xB4, CHR 0xB5, CHR 0xE1, CHR 0xB4, CHR 0xB0, CHR 0xE1, CHR 0xB4, CHR 0xB5] @ ''\<newline>Vel'' @ [CHR 0xE1, CHR 0xB5, CHR 0x81, CHR 0xE1, CHR 0xB4, CHR 0xBE]) (Some ''Midi increase velocity'') False None None None,
    K ''MI_CH1'' ([CHR 0xE1, CHR 0xB4, CHR 0xB9, CHR 0xE1, CHR 0xB4, CHR 0xB5, CHR 0xE1, CHR 0xB4, CHR 0xB0, CHR 0xE1, CHR 0xB4, CHR 0xB5] @ ''\<newline>CH'' @ [CHR 0xE2, CHR 0x82, CHR 0x81]) (Some ''Midi set channel to 1'') False None None None,
    K ''MI_CH2'' ([CHR 0xE1, CHR 0xB4, CHR 0xB9, CHR 0xE1, CHR 0xB4, CHR 0xB5, CHR 0xE1, CHR 0xB4, CHR 0xB0, CHR 0xE1, CHR 0xB4, CHR 0xB5] @ ''\<newline>CH'' @ [CHR 0xE2, CHR 0x82, CHR 0x82]) (Some ''Midi set channel to 2'') False None None None,
    K ''MI_CH3'' ([CHR 0xE1, CHR 0xB4, CHR 0xB9, CHR 0xE1, CHR 0xB4, CHR 0xB5, CHR 0xE1, CHR 0xB4, CHR 0xB0, CHR 0xE1, CHR 0xB4, CHR 0xB5] @ ''\<newline>CH'' @ [CHR 0xE2, CHR 0x82, CHR 0x83]) (Some ''Midi set channel to 3'') False None None None,
    K ''MI_CH4'' ([CHR 0xE1, CHR 0xB4, CHR 0xB9, CHR 0xE1, CHR 0xB4, CHR 0xB5, CHR 0xE1, CHR 0xB4, CHR 0xB0, CHR 0xE1, CHR 0xB4, CHR 0xB5] @ ''\<newline>CH'' @ [CHR 0xE2, CHR 0x82, CHR 0x84]) (Some ''Midi set channel to 4'') False None None None,
    K ''MI_CH5'' ([CHR 0xE1, CHR 0xB4, CHR 0xB9, CHR 0xE1, CHR 0xB4, CHR 0xB5, CHR 0xE1, CHR 0xB4, CHR 0xB0, CHR 0xE1, CHR 0xB4, CHR 0xB5] @ ''\<newline>CH'' @ [CHR 0xE2, CHR 0x82, CHR 0x85]) (Some ''Midi set channel to 5'') False None None None,
    K ''MI_CH6'' ([CHR 0xE1, CHR 0xB4, CHR 0xB9, CHR 0xE1, CHR 0xB4, CHR 0xB5, CHR 0xE1, CHR 0xB4, CHR 0xB0, CHR 0xE1, CHR 0xB4, CHR 0xB5] @ ''\<newline>CH'' @ [CHR 0xE2, CHR 0x82, CHR 0x86]) (Some ''Midi set channel to 6'') False None None None,
    K ''MI_CH7'' ([CHR 0xE1, CHR 0xB4, CHR 0xB9, CHR 0xE1, CHR 0xB4, CHR 0xB5, CHR 0xE1, CHR 0xB4, CHR 0xB0, CHR 0xE1, CHR 0xB4, CHR 0xB5] @ ''\<newline>CH'' @ [CHR 0xE2, CHR 0x82, CHR 0x87]) (Some ''Midi set channel to 7'') False None None None,
    K ''MI_CH8'' ([CHR 0xE1, CHR 0xB4, CHR 0xB9, CHR 0xE1, CHR 0xB4, CHR 0xB5, CHR 0xE1, CHR 0xB4, CHR 0xB0, CHR 0xE1, CHR 0xB4, CHR 0xB5] @ ''\<newline>CH'' @ [CHR 0xE2, CHR 0x82, CHR 0x88]) (Some ''Midi set channel to 8'') False None None None,
    K ''MI_CH9'' ([CHR 0xE1, CHR 0xB4, CHR 0xB9, CHR 0xE1, CHR 0xB4, CHR 0xB5, CHR 0xE1, CHR 0xB4, CHR 0xB0, CHR 0xE1, CHR 0xB4, CHR 0xB5] @ ''\<newline>CH'' @ [CHR 0xE2, CHR 0x82, CHR 0x89]) (Some ''Midi set channel to 9'') False None None None,
    K ''MI_CH10'' ([CHR 0xE1, CHR 0xB4, CHR 0xB9, CHR 0xE1, CHR 0xB4, CHR 0xB5, CHR 0xE1, CHR 0xB4, CHR 0xB0, CHR 0xE1, CHR 0xB4, CHR 0xB5] @ ''\<newline>CH'' @ [CHR 0xE2, CHR 0x82, CHR 0x81, CHR 0xE2, CHR 0x82, CHR 0x80]) (Some ''Midi set channel to 10'') False None None None,
    K ''MI_CH11'' ([CHR 0xE1, CHR 0xB4, CHR 0xB9, CHR 0xE1, CHR 0xB4, CHR 0xB5, CHR 0xE1, CHR 0xB4, CHR 0xB0, CHR 0xE1, CHR 0xB4, CHR 0xB5] @ ''\<newline>CH'' @ [CHR 0xE2, CHR 0x82, CHR 0x81, CHR 0xE2, CHR 0x82, CHR 0x81]) (Some ''Midi set channel to 11'') False None None None,
    K ''MI_CH12'' ([CHR 0xE1, CHR 0xB4, CHR 0xB9, CHR 0xE1, CHR 0xB4, CHR 0xB5, CHR 0xE1, CHR 0xB4, CHR 0xB0, CHR 0xE1, CHR 0xB4, CHR 0xB5] @ ''\<newline>CH'' @ [CHR 0xE2, CHR 0x82, CHR 0x81, CHR 0xE2, CHR 0x82, CHR 0x82]) (Some ''Midi set channel to 12'') False None None None,
    K ''MI_CH13'' ([CHR 0xE1, CHR 0xB4, CHR 0xB9, CHR 0xE1, CHR 0xB4, CHR 0xB5, CHR 0xE1, CHR 0xB4, CHR 0xB0, CHR 0xE1, CHR 0xB4, CHR 0xB5] @ ''\<newline>CH'' @ [CHR 0xE2, CHR 0x82, CHR 0x81, CHR 0xE2, CHR 0x82, CHR 0x83]) (Some ''Midi set channel to 13'') False None None None,
    K ''MI_CH14'' ([CHR 0xE1, CHR 0xB4, CHR 0xB9, CHR 0xE1, CHR 0xB4, CHR 0xB5, CHR 0xE1, CHR 0xB4, CHR 0xB0, CHR 0xE1, CHR 0xB4, CHR 0xB5] @ ''\<newline>CH'' @ [CHR 0xE2, CHR 0x82, CHR 0x81, CHR 0xE2, CHR 0x82, CHR 0x84]) (Some ''Midi set channel to 14'') False None None None,
    K ''MI_CH15'' ([CHR 0xE1, CHR 0xB4, CHR 0xB9, CHR 0xE1, CHR 0xB4, CHR 0xB5, CHR 0xE1, CHR 0xB4, CHR 0xB0, CHR 0xE1, CHR 0xB4, CHR 0xB5] @ ''\<newline>CH'' @ [CHR 0xE2, CHR 0x82, CHR 0x81, CHR 0xE2, CHR 0x82, CHR 0x85]) (Some ''Midi set channel to 15'') False None None None,
    K ''MI_CH16'' ([CHR 0xE1, CHR 0xB4, CHR 0xB9, CHR 0xE1, CHR 0xB4, CHR 0xB5, CHR 0xE1, CHR 0xB4, CHR 0xB0, CHR 0xE1, CHR 0xB4, CHR 0xB5] @ ''\<newline>CH'' @ [CHR 0xE2, CHR 0x82, CHR 0x81, CHR 0xE2, CHR 0x82, CHR 0x86]) (Some ''Midi set channel to 16'') False None None None,
    K ''MI_CHD'' ([CHR 0xE1, CHR 0xB4, CHR 0xB9, CHR 0xE1, CHR 0xB4, CHR 0xB5, CHR 0xE1, CHR 0xB4, CHR 0xB0, CHR 0xE1, CHR 0xB4, CHR 0xB5] @ ''\<newline>CH'' @ [CHR 0xE1, CHR 0xB4, CHR 0xB0, CHR 0xE1, CHR 0xB4, CHR 0xBA]) (Some ''Midi decrease channel'') False None None None,
    K ''MI_CHU'' ([CHR 0xE1, CHR 0xB4, CHR 0xB9, CHR 0xE1, CHR 0xB4, CHR 0xB5, CHR 0xE1, CHR 0xB4, CHR 0xB0, CHR 0xE1, CHR 0xB4, CHR 0xB5] @ ''\<newline>CH'' @ [CHR 0xE1, CHR 0xB5, CHR 0x81, CHR 0xE1, CHR 0xB4, CHR 0xBE]) (Some ''Midi increase channel'') False None None None,
    K ''MI_SUS'' ([CHR 0xE1, CHR 0xB4, CHR 0xB9, CHR 0xE1, CHR 0xB4, CHR 0xB5, CHR 0xE1, CHR 0xB4, CHR 0xB0, CHR 0xE1, CHR 0xB4, CHR 0xB5] @ ''\<newline>Sust'') (Some ''Midi Sustain'') False None None None,
    K ''MI_PORT'' ([CHR 0xE1, CHR 0xB4, CHR 0xB9, CHR 0xE1, CHR 0xB4, CHR 0xB5, CHR 0xE1, CHR 0xB4, CHR 0xB0, CHR 0xE1, CHR 0xB4, CHR 0xB5] @ ''\<newline>Port'') (Some ''Midi Portmento'') False None None None,
    K ''MI_SOST'' ([CHR 0xE1, CHR 0xB4, CHR 0xB9, CHR 0xE1, CHR 0xB4, CHR 0xB5, CHR 0xE1, CHR 0xB4, CHR 0xB0, CHR 0xE1, CHR 0xB4, CHR 0xB5] @ ''\<newline>Sost'') (Some ''Midi Sostenuto'') False None None None,
    K ''MI_SOFT'' ([CHR 0xE1, CHR 0xB4, CHR 0xB9, CHR 0xE1, CHR 0xB4, CHR 0xB5, CHR 0xE1, CHR 0xB4, CHR 0xB0, CHR 0xE1, CHR 0xB4, CHR 0xB5] @ ''\<newline>SPedal'') (Some ''Midi Soft Pedal'') False None None None,
    K ''MI_LEG'' ([CHR 0xE1, CHR 0xB4, CHR 0xB9, CHR 0xE1, CHR 0xB4, CHR 0xB5, CHR 0xE1, CHR 0xB4, CHR 0xB0, CHR 0xE1, CHR 0xB4, CHR 0xB5] @ ''\<newline>Legat'') (Some ''Midi Legato'') False None None None,
    K ''MI_MOD'' ([CHR 0xE1, CHR 0xB4, CHR 0xB9, CHR 0xE1, CHR 0xB4, CHR 0xB5, CHR 0xE1, CHR 0xB4, CHR 0xB0, CHR 0xE1, CHR 0xB4, CHR 0xB5] @ ''\<newline>Modul'') (Some ''Midi Modulation'') False None None None,
    K ''MI_MODSD'' ([CHR 0xE1, CHR 0xB4, CHR 0xB9, CHR 0xE1, CHR 0xB4, CHR 0xB5, CHR 0xE1, CHR 0xB4, CHR 0xB0, CHR 0xE1, CHR 0xB4, CHR 0xB5] @ ''\<newline>Modul'' @ [CHR 0xE1, CHR 0xB4, CHR 0xB0, CHR 0xE1, CHR 0xB4, CHR 0xBA]) (Some ''Midi decrease modulation speed'') False None None None,
    K ''MI_MODSU'' ([CHR 0xE1, CHR 0xB4, CHR 0xB9, CHR 0xE1, CHR 0xB4, CHR 0xB5, CHR 0xE1, CHR 0xB4, CHR 0xB0, CHR 0xE1, CHR 0xB4, CHR 0xB5] @ ''\<newline>Modul'' @ [CHR 0xE1, CHR 0xB5, CHR 0x81, CHR 0xE1, CHR 0xB4, CHR 0xBE]) (Some ''Midi increase modulation speed'') False None None None,
    K ''MI_BENDD'' ([CHR 0xE1, CHR 0xB4, CHR 0xB9, CHR 0xE1, CHR 0xB4, CHR 0xB5, CHR 0xE1, CHR 0xB4, CHR 0xB0, CHR 0xE1, CHR 0xB4, CHR 0xB5] @ ''\<newline>Bend'' @ [CHR 0xE1, CHR 0xB4, CHR 0xB0, CHR 0xE1, CHR 0xB4, CHR 0xBA]) (Some ''Midi bend pitch down'') False None None None,
    K ''MI_BENDU'' ([CHR 0xE1, CHR 0xB4, CHR 0xB9, CHR 0xE1, CHR 0xB4, CHR 0xB5, CHR 0xE1, CHR 0xB4, CHR 0xB0, CHR 0xE1, CHR 0xB4, CHR 0xB5] @ ''\<newline>Bend'' @ [CHR 0xE1, CHR 0xB5, CHR 0x81, CHR 0xE1, CHR 0xB4, CHR 0xBE]) (Some ''Midi bend pitch up'') False None None None]"

definition MO_description :: string where
  "MO_description =
     [CHR 0xE6, CHR 0x8C, CHR 0x89, CHR 0xE4, CHR 0xB8, CHR 0x8B, CHR 0xE6, CHR 0x97,
     CHR 0xB6, CHR 0xE6, CHR 0x9A, CHR 0x82, CHR 0xE6, CHR 0x97, CHR 0xB6, CHR 0xE5,
     CHR 0x88, CHR 0x87, CHR 0xE6, CHR 0x8D, CHR 0xA2, CHR 0xE5, CHR 0x88, CHR 0xB0,
     CHR 0xE8, CHR 0xAF, CHR 0xA5, CHR 0xE5, CHR 0xB1, CHR 0x82] @ ''('' @ [CHR 0xE6,
     CHR 0x9D, CHR 0xBE, CHR 0xE5, CHR 0xBC, CHR 0x80, CHR 0xE6, CHR 0x81, CHR 0xA2,
     CHR 0xE5, CHR 0xA4, CHR 0x8D, CHR 0xE5, CHR 0x88, CHR 0xB0, CHR 0xE9, CHR 0xBB,
     CHR 0x98, CHR 0xE8, CHR 0xAE, CHR 0xA4, CHR 0xE5, CHR 0xB1, CHR 0x82] @ '')''"

definition DF_description :: string where
  "DF_description =
     [CHR 0xE8, CHR 0xAE, CHR 0xBE, CHR 0xE7, CHR 0xBD, CHR 0xAE, CHR 0xE8, CHR 0xAF,
     CHR 0xA5, CHR 0xE5, CHR 0xB1, CHR 0x82, CHR 0xE4, CHR 0xB8, CHR 0xBA, CHR 0xE5,
     CHR 0x9F, CHR 0xBA, CHR 0xE7, CHR 0xA1, CHR 0x80, CHR 0xEF, CHR 0xBC, CHR 0x88,
     CHR 0xE9, CHR 0xBB, CHR 0x98, CHR 0xE8, CHR 0xAE, CHR 0xA4, CHR 0xEF, CHR 0xBC,
     CHR 0x89, CHR 0xE5, CHR 0xB1, CHR 0x82]"

definition TG_description :: string where
  "TG_description =
     [CHR 0xE5, CHR 0x88, CHR 0x87, CHR 0xE6, CHR 0x8D, CHR 0xA2, CHR 0xE5, CHR 0x88,
     CHR 0xB0, CHR 0xE8, CHR 0xAF, CHR 0xA5, CHR 0xE5, CHR 0xB1, CHR 0x82, CHR 0xE6,
     CHR 0x88, CHR 0x96, CHR 0xE8, CHR 0x80, CHR 0x85, CHR 0xE5, CHR 0x88, CHR 0x87,
     CHR 0xE5, CHR 0x9B, CHR 0x9E, CHR 0xE9, CHR 0xBB, CHR 0x98, CHR 0xE8, CHR 0xAE,
     CHR 0xA4, CHR 0xE5, CHR 0xB1, CHR 0x82]"

definition TT_description :: string where
  "TT_description =
     [CHR 0xE6, CHR 0x8C, CHR 0x89, CHR 0xE4, CHR 0xB8, CHR 0x8B, CHR 0xE6, CHR 0x97,
     CHR 0xB6, CHR 0xE6, CHR 0x9A, CHR 0x82, CHR 0xE6, CHR 0x97, CHR 0xB6, CHR 0xE5,
     CHR 0x88, CHR 0x87, CHR 0xE6, CHR 0x8D, CHR 0xA2, CHR 0xE5, CHR 0x88, CHR 0xB0,
     CHR 0xE8, CHR 0xAF, CHR 0xA5, CHR 0xE5, CHR 0xB1, CHR 0x82, CHR 0xEF, CHR 0xBC,
     CHR 0x8C, CHR 0xE8, CHR 0xBF, CHR 0x9E, CHR 0xE7, CHR 0xBB, CHR 0xAD, CHR 0xE7,
     CHR 0x82, CHR 0xB9, CHR 0xE5, CHR 0x87, CHR 0xBB, CHR 0xE5, CHR 0xA4, CHR 0x9A,
     CHR 0xE6, CHR 0xAC, CHR 0xA1, CHR 0xE5, CHR 0x90, CHR 0x8E, CHR 0xEF, CHR 0xBC,
     CHR 0x8C, CHR 0xE5, CHR 0x88, CHR 0x87, CHR 0xE6, CHR 0x8D, CHR 0xA2, CHR 0xE5,
     CHR 0x88, CHR 0xB0, CHR 0xE8, CHR 0xAF, CHR 0xA5, CHR 0xE5, CHR 0xB1, CHR 0x82,
     CHR 0xEF, CHR 0xBC, CHR 0x8C, CHR 0xE5, CHR 0x86, CHR 0x8D, CHR 0xE8, CHR 0xBF,
     CHR 0x9E, CHR 0xE7, CHR 0xBB, CHR 0xAD, CHR 0xE7, CHR 0x82, CHR 0xB9, CHR 0xE5,
     CHR 0x87, CHR 0xBB, CHR 0xE5, CHR 0xA4, CHR 0x9A, CHR 0xE6, CHR 0xAC, CHR 0xA1,
     CHR 0xE5, CHR 0x90, CHR 0x8E, CHR 0xEF, CHR 0xBC, CHR 0x8C, CHR 0xE5, CHR 0x88,
     CHR 0x87, CHR 0xE5, CHR 0x9B, CHR 0x9E, CHR 0xE9, CHR 0xBB, CHR 0x98, CHR 0xE8,
     CHR 0xAE, CHR 0xA4, CHR 0xE5, CHR 0xB1, CHR 0x82]"

definition OSL_description :: string where
  "OSL_description =
     [CHR 0xE6, CHR 0x9A, CHR 0x82, CHR 0xE6, CHR 0x97, CHR 0xB6, CHR 0xE5, CHR 0x88,
     CHR 0x87, CHR 0xE6, CHR 0x8D, CHR 0xA2, CHR 0xE5, CHR 0x88, CHR 0xB0, CHR 0xE8,
     CHR 0xAF, CHR 0xA5, CHR 0xE5, CHR 0xB1, CHR 0x82, CHR 0xEF, CHR 0xBC, CHR 0x8C,
     CHR 0xE6, CHR 0x8C, CHR 0x89, CHR 0xE4, CHR 0xB8, CHR 0x8B, CHR 0xE4, CHR 0xB8,
     CHR 0x8B, CHR 0xE4, CHR 0xB8, CHR 0x80, CHR 0xE4, CHR 0xB8, CHR 0xAA, CHR 0xE9,
     CHR 0x94, CHR 0xAE, CHR 0xE5, CHR 0x90, CHR 0x8E, CHR 0xEF, CHR 0xBC, CHR 0x8C,
     CHR 0xE5, CHR 0x88, CHR 0x87, CHR 0xE5, CHR 0x9B, CHR 0x9E, CHR 0xE9, CHR 0xBB,
     CHR 0x98, CHR 0xE8, CHR 0xAE, CHR 0xA4, CHR 0xE5, CHR 0xB1, CHR 0x82]"

definition TO_description :: string where
  "TO_description =
     [CHR 0xE5, CHR 0x88, CHR 0x87, CHR 0xE6, CHR 0x8D, CHR 0xA2, CHR 0xE5, CHR 0x88,
     CHR 0xB0, CHR 0xE8, CHR 0xAF, CHR 0xA5, CHR 0xE5, CHR 0xB1, CHR 0x82]"

definition LT_description :: "nat \<Rightarrow> string" where
  \<comment> \<open>the tooltip format string of the layer-tap keycodes, \<open>{}\<close> filled with the layer\<close>
  "LT_description x =
     [CHR 0xE5, CHR 0x8D, CHR 0x95, CHR 0xE5, CHR 0x87, CHR 0xBB, CHR 0xE8, CHR 0xA7,
     CHR 0xA6, CHR 0xE5, CHR 0x8F, CHR 0x91, CHR 0xE9, CHR 0x94, CHR 0xAE, CHR 0xE5,
     CHR 0x80, CHR 0xBC, CHR 0xEF, CHR 0xBC, CHR 0x8C, CHR 0xE9, CHR 0x95, CHR 0xBF,
     CHR 0xE6, CHR 0x8C, CHR 0x89, CHR 0xE5, CHR 0x88, CHR 0x87, CHR 0xE6, CHR 0x8D,
     CHR 0xA2, CHR 0xE5, CHR 0x88, CHR 0xB0, CHR 0xE5, CHR 0xB1, CHR 0x82] @ '' '' @ str_nat x @ '' ''"

definition KEYCODES_HIDDEN_args :: "kargs list" where
  \<comment> \<open>\<open>for x in range(256): KEYCODES_HIDDEN.append(K("TD({})".format(x), "TD({})".format(x)))\<close>\<close>
  "KEYCODES_HIDDEN_args =
     map (\<lambda>x. K (''TD('' @ str_nat x @ '')'') (''TD('' @ str_nat x @ '')'') None False None None None)
       [0..<256]"

definition KEYCODES_SPECIAL :: "env \<Rightarrow> keycode list" where
  "KEYCODES_SPECIAL env = map (mk_keycode env) KEYCODES_SPECIAL_args"

definition KEYCODES_BASIC_NUMPAD :: "env \<Rightarrow> keycode list" where
  "KEYCODES_BASIC_NUMPAD env = map (mk_keycode env) KEYCODES_BASIC_NUMPAD_args"

definition KEYCODES_BASIC_NAV :: "env \<Rightarrow> keycode list" where
  "KEYCODES_BASIC_NAV env = map (mk_keycode env) KEYCODES_BASIC_NAV_args"

definition KEYCODES_BASIC :: "env \<Rightarrow> keycode list" where
  \<comment> \<open>after \<open>KEYCODES_BASIC.extend(KEYCODES_BASIC_NUMPAD)\<close> and \<open>.extend(KEYCODES_BASIC_NAV)\<close>\<close>
  "KEYCODES_BASIC env =
     map (mk_keycode env) KEYCODES_BASIC_args @ KEYCODES_BASIC_NUMPAD env @ KEYCODES_BASIC_NAV env"

definition KEYCODES_SHIFTED :: "env \<Rightarrow> keycode list" where
  "KEYCODES_SHIFTED env = map (mk_keycode env) KEYCODES_SHIFTED_args"

definition KEYCODES_ISO_KR :: "env \<Rightarrow> keycode list" where
  "KEYCODES_ISO_KR env = map (mk_keycode env) KEYCODES_ISO_KR_args"

definition KEYCODES_ISO :: "env \<Rightarrow> keycode list" where
  \<comment> \<open>after \<open>KEYCODES_ISO.extend(KEYCODES_ISO_KR)\<close>\<close>
  "KEYCODES_ISO env = map (mk_keycode env) KEYCODES_ISO_args @ KEYCODES_ISO_KR env"

definition KEYCODES_BOOT :: "env \<Rightarrow> keycode list" where
  "KEYCODES_BOOT env = map (mk_keycode env) KEYCODES_BOOT_args"

definition KEYCODES_MODIFIERS :: "env \<Rightarrow> keycode list" where
  "KEYCODES_MODIFIERS env = map (mk_keycode env) KEYCODES_MODIFIERS_args"

definition KEYCODES_QUANTUM :: "env \<Rightarrow> keycode list" where
  "KEYCODES_QUANTUM env = map (mk_keycode env) KEYCODES_QUANTUM_args"

definition KEYCODES_BACKLIGHT :: "env \<Rightarrow> keycode list" where
  "KEYCODES_BACKLIGHT env = map (mk_keycode env) KEYCODES_BACKLIGHT_args"

definition KEYCODES_MEDIA :: "env \<Rightarrow> keycode list" where
  "KEYCODES_MEDIA env = map (mk_keycode env) KEYCODES_MEDIA_args"

definition KEYCODES_MACRO_BASE :: "env \<Rightarrow> keycode list" where
  "KEYCODES_MACRO_BASE env = map (mk_keycode env) KEYCODES_MACRO_BASE_args"

definition KEYCODES_MIDI_BASIC :: "env \<Rightarrow> keycode list" where
  "KEYCODES_MIDI_BASIC env = map (mk_keycode env) KEYCODES_MIDI_BASIC_args"

definition KEYCODES_MIDI_ADVANCED :: "env \<Rightarrow> keycode list" where
  "KEYCODES_MIDI_ADVANCED env = map (mk_keycode env) KEYCODES_MIDI_ADVANCED_args"

definition KEYCODES_HIDDEN :: "env \<Rightarrow> keycode list" where
  "KEYCODES_HIDDEN env = map (mk_keycode env) KEYCODES_HIDDEN_args"

subsection \<open>Rebuilding the registry\<close>

text \<open>
  The loop of \<open>recreate_keycodes\<close>. The entry of \<open>KEYCODES_MAP\<close> is written before
  \<open>Keycode.deserialize\<close> is called, so it stays when the call raises.
\<close>

fun populate :: "env \<Rightarrow> keycode list \<Rightarrow> unit action" where
  "populate env [] = returnM ()"
| "populate env (keycode # rest) =
     bindM (modify (\<lambda>s. s\<lparr>KEYCODES_MAP :=
              (KEYCODES_MAP s)(replace (qmk_id keycode) ''(kc)'' '''' \<mapsto> keycode)\<rparr>)) (\<lambda>_.
     bindM (\<lambda>s. (deserialize env s (PyStr (qmk_id keycode)) False, s)) (\<lambda>raw.
     bindM (modify (\<lambda>s. s\<lparr>RAWCODES_MAP := (RAWCODES_MAP s)(raw \<mapsto> keycode)\<rparr>)) (\<lambda>_.
     populate env rest)))"

definition recreate_keycodes :: "env \<Rightarrow> unit action" where
  "recreate_keycodes env =
     bindM (modify (\<lambda>s. s\<lparr>KEYCODES := []\<rparr>)) (\<lambda>_.
     bindM (modify (\<lambda>s. s\<lparr>KEYCODES := KEYCODES s @
              (KEYCODES_SPECIAL env @ KEYCODES_BASIC env @ KEYCODES_SHIFTED env @ KEYCODES_ISO env @
               KEYCODES_LAYERS s @ KEYCODES_BOOT env @ KEYCODES_MODIFIERS env @
               KEYCODES_QUANTUM env @ KEYCODES_BACKLIGHT env @ KEYCODES_MEDIA env @
               KEYCODES_TAP_DANCE s @ KEYCODES_MACRO s @ KEYCODES_USER s @ KEYCODES_HIDDEN env @
               KEYCODES_MIDI s)\<rparr>)) (\<lambda>_.
     bindM (modify (\<lambda>s. s\<lparr>KEYCODES_MAP := Map.empty\<rparr>)) (\<lambda>_.
     bindM (modify (\<lambda>s. s\<lparr>RAWCODES_MAP := Map.empty\<rparr>)) (\<lambda>_.
     (\<lambda>s. populate env (KEYCODES s) s)))))"

definition append_USER :: "keycode \<Rightarrow> state \<Rightarrow> state" where
  "append_USER k s = s\<lparr>KEYCODES_USER := KEYCODES_USER s @ [k]\<rparr>"

definition append_LAYERS :: "keycode \<Rightarrow> state \<Rightarrow> state" where
  "append_LAYERS k s = s\<lparr>KEYCODES_LAYERS := KEYCODES_LAYERS s @ [k]\<rparr>"

definition extend_LAYERS :: "keycode list \<Rightarrow> state \<Rightarrow> state" where
  "extend_LAYERS ks s = s\<lparr>KEYCODES_LAYERS := KEYCODES_LAYERS s @ ks\<rparr>"

definition append_MACRO :: "keycode \<Rightarrow> state \<Rightarrow> state" where
  "append_MACRO k s = s\<lparr>KEYCODES_MACRO := KEYCODES_MACRO s @ [k]\<rparr>"

definition append_TAP_DANCE :: "keycode \<Rightarrow> state \<Rightarrow> state" where
  "append_TAP_DANCE k s = s\<lparr>KEYCODES_TAP_DANCE := KEYCODES_TAP_DANCE s @ [k]\<rparr>"

definition user_args :: "kargs list" where
  "user_args =
     map (\<lambda>x. K (''USER'' @ format_02 x) (''User '' @ str_nat x)
                (Some (''User keycode '' @ str_nat x)) False None None None) [0..<16]"

definition create_user_keycodes :: "env \<Rightarrow> unit action" where
  "create_user_keycodes env =
     bindM (modify (\<lambda>s. s\<lparr>KEYCODES_USER := []\<rparr>)) (\<lambda>_.
     construct_into env append_USER user_args)"

text \<open>A custom keycode of the keyboard is a dictionary; \<open>c.get(key, default)\<close> reads it.\<close>

definition dict_get :: "(string \<rightharpoonup> string) \<Rightarrow> string \<Rightarrow> string \<Rightarrow> string" where
  "dict_get c k d = (case c k of None \<Rightarrow> d | Some v \<Rightarrow> v)"

definition custom_user_args :: "(string \<rightharpoonup> string) list \<Rightarrow> kargs list" where
  "custom_user_args custom =
     map (\<lambda>(x, c_keycode).
            K (''USER'' @ format_02 x)
              (dict_get c_keycode ''shortName'' (''USER'' @ format_02 x))
              (Some (dict_get c_keycode ''title'' (''USER'' @ format_02 x)))
              False None None
              (Some [dict_get c_keycode ''name'' (''USER'' @ format_02 x)]))
       (enumerate 0 custom)"

definition create_custom_user_keycodes :: "env \<Rightarrow> (string \<rightharpoonup> string) list \<Rightarrow> unit action" where
  "create_custom_user_keycodes env custom =
     bindM (modify (\<lambda>s. s\<lparr>KEYCODES_USER := []\<rparr>)) (\<lambda>_.
     construct_into env append_USER (custom_user_args custom))"

definition create_midi_keycodes :: "env \<Rightarrow> string option \<Rightarrow> unit action" where
  "create_midi_keycodes env midiSettingLevel =
     bindM (modify (\<lambda>s. s\<lparr>KEYCODES_MIDI := []\<rparr>)) (\<lambda>_.
     bindM (if midiSettingLevel = Some ''basic'' \<or> midiSettingLevel = Some ''advanced''
            then modify (\<lambda>s. s\<lparr>KEYCODES_MIDI := KEYCODES_MIDI s @ KEYCODES_MIDI_BASIC env\<rparr>)
            else returnM ()) (\<lambda>_.
     if midiSettingLevel = Some ''advanced''
     then modify (\<lambda>s. s\<lparr>KEYCODES_MIDI := KEYCODES_MIDI s @ KEYCODES_MIDI_ADVANCED env\<rparr>)
     else returnM ()))"

text \<open>The capability snapshot: the attributes of \<open>keyboard\<close> that the rebuild reads.\<close>

record keyboard =
  vial_protocol :: int
  layers :: int
  macro_count :: int
  tap_dance_count :: int
  custom_keycodes :: "(string \<rightharpoonup> string) list option"
  midi :: "string option"

definition mask_args :: "int \<Rightarrow> string \<Rightarrow> string \<Rightarrow> kargs list" where
  "mask_args n lbl description =
     map (\<lambda>layer. K (lbl @ ''('' @ str_nat layer @ '')'') (lbl @ ''('' @ str_nat layer @ '')'')
                    (Some description) False None None None) [0..<nat n]"

definition generate_keycodes_for_mask :: "env \<Rightarrow> int \<Rightarrow> string \<Rightarrow> string \<Rightarrow> keycode list action" where
  \<comment> \<open>the local function of \<open>recreate_keyboard_keycodes\<close>; \<open>n\<close> is its free variable \<open>layers\<close>\<close>
  "generate_keycodes_for_mask env n lbl description = construct env (mask_args n lbl description)"

definition fn_args :: "kargs list" where
  "fn_args =
     [K ''FN_MO13'' ''Fn1\<newline>(Fn3)'' None False None None None,
      K ''FN_MO23'' ''Fn2\<newline>(Fn3)'' None False None None None]"

definition lt_args :: "int \<Rightarrow> kargs list" where
  "lt_args n =
     map (\<lambda>x. K (''LT'' @ str_nat x @ ''(kc)'') (''LT '' @ str_nat x @ ''\<newline>(kc)'')
                (Some (LT_description x)) True None None None) [0..<nat (min n 16)]"

definition macro_args :: "int \<Rightarrow> kargs list" where
  "macro_args n =
     map (\<lambda>x. K (''M'' @ str_nat x) (''M'' @ str_nat x) None False None None None) [0..<nat n]"

definition tap_dance_args :: "int \<Rightarrow> kargs list" where
  "tap_dance_args n =
     map (\<lambda>x. K (''TD('' @ str_nat x @ '')'') (''TD('' @ str_nat x @ '')'')
                (Some ''Tap dance keycode'') False None None None) [0..<nat n]"

definition recreate_keyboard_keycodes :: "env \<Rightarrow> keyboard \<Rightarrow> unit action" where
  "recreate_keyboard_keycodes env keyboard =
     bindM (modify (\<lambda>s. s\<lparr>protocol := vial_protocol keyboard\<rparr>)) (\<lambda>_.
     bindM (modify (\<lambda>s. s\<lparr>KEYCODES_LAYERS := []\<rparr>)) (\<lambda>_.
     bindM (if layers keyboard \<ge> 4 then construct_into env append_LAYERS fn_args
            else returnM ()) (\<lambda>_.
     bindM (bindM (generate_keycodes_for_mask env (layers keyboard) ''MO'' MO_description)
              (\<lambda>ks. modify (extend_LAYERS ks))) (\<lambda>_.
     bindM (bindM (generate_keycodes_for_mask env (layers keyboard) ''DF'' DF_description)
              (\<lambda>ks. modify (extend_LAYERS ks))) (\<lambda>_.
     bindM (bindM (generate_keycodes_for_mask env (layers keyboard) ''TG'' TG_description)
              (\<lambda>ks. modify (extend_LAYERS ks))) (\<lambda>_.
     bindM (bindM (generate_keycodes_for_mask env (layers keyboard) ''TT'' TT_description)
              (\<lambda>ks. modify (extend_LAYERS ks))) (\<lambda>_.
     bindM (bindM (generate_keycodes_for_mask env (layers keyboard) ''OSL'' OSL_description)
              (\<lambda>ks. modify (extend_LAYERS ks))) (\<lambda>_.
     bindM (bindM (generate_keycodes_for_mask env (layers keyboard) ''TO'' TO_description)
              (\<lambda>ks. modify (extend_LAYERS ks))) (\<lambda>_.
     bindM (construct_into env append_LAYERS (lt_args (layers keyboard))) (\<lambda>_.
     bindM (modify (\<lambda>s. s\<lparr>KEYCODES_MACRO := []\<rparr>)) (\<lambda>_.
     bindM (construct_into env append_MACRO (macro_args (macro_count keyboard))) (\<lambda>_.
     bindM (modify (\<lambda>s. s\<lparr>KEYCODES_MACRO := KEYCODES_MACRO s @ KEYCODES_MACRO_BASE env\<rparr>)) (\<lambda>_.
     bindM (modify (\<lambda>s. s\<lparr>KEYCODES_TAP_DANCE := []\<rparr>)) (\<lambda>_.
     bindM (construct_into env append_TAP_DANCE (tap_dance_args (tap_dance_count keyboard))) (\<lambda>_.
     bindM (case custom_keycodes keyboard of
              None \<Rightarrow> create_user_keycodes env
            | Some custom \<Rightarrow>
                if length custom > 0 then create_custom_user_keycodes env custom
                else create_user_keycodes env) (\<lambda>_.
     bindM (create_midi_keycodes env (midi keyboard)) (\<lambda>_.
     recreate_keycodes env)))))))))))))))))"

subsection \<open>The import of the module, and the states the program reaches\<close>

definition initial_state :: state where
  \<comment> \<open>the empty containers of the class body and of the module's top level\<close>
  "initial_state =
     \<lparr>masked_keycodes = {}, recorder_alias_to_keycode = Map.empty, qmk_id_to_keycode = Map.empty,
      protocol = 0, KEYCODES_LAYERS = [], KEYCODES_TAP_DANCE = [], KEYCODES_USER = [],
      KEYCODES_MACRO = [], KEYCODES_MIDI = [], KEYCODES = [], KEYCODES_MAP = Map.empty,
      RAWCODES_MAP = Map.empty\<rparr>"

definition static_args :: "kargs list" where
  \<comment> \<open>every constructor call of the module's top level, in the order in which it runs\<close>
  "static_args =
     KEYCODES_SPECIAL_args @ KEYCODES_BASIC_NUMPAD_args @ KEYCODES_BASIC_NAV_args @
     KEYCODES_BASIC_args @ KEYCODES_SHIFTED_args @ KEYCODES_ISO_args @ KEYCODES_ISO_KR_args @
     KEYCODES_BOOT_args @ KEYCODES_MODIFIERS_args @ KEYCODES_QUANTUM_args @
     KEYCODES_BACKLIGHT_args @ KEYCODES_MEDIA_args @ KEYCODES_MACRO_BASE_args @
     KEYCODES_MIDI_BASIC_args @ KEYCODES_MIDI_ADVANCED_args @ KEYCODES_HIDDEN_args"

definition module_init :: "env \<Rightarrow> (error + unit) \<times> state" where
  "module_init env =
     bindM (construct env KEYCODES_SPECIAL_args) (\<lambda>_.
     bindM (construct env KEYCODES_BASIC_NUMPAD_args) (\<lambda>_.
     bindM (construct env KEYCODES_BASIC_NAV_args) (\<lambda>_.
     bindM (construct env KEYCODES_BASIC_args) (\<lambda>_.
     bindM (construct env KEYCODES_SHIFTED_args) (\<lambda>_.
     bindM (construct env KEYCODES_ISO_args) (\<lambda>_.
     bindM (construct env KEYCODES_ISO_KR_args) (\<lambda>_.
     bindM (construct env KEYCODES_BOOT_args) (\<lambda>_.
     bindM (construct env KEYCODES_MODIFIERS_args) (\<lambda>_.
     bindM (construct env KEYCODES_QUANTUM_args) (\<lambda>_.
     bindM (construct env KEYCODES_BACKLIGHT_args) (\<lambda>_.
     bindM (construct env KEYCODES_MEDIA_args) (\<lambda>_.
     bindM (construct env KEYCODES_MACRO_BASE_args) (\<lambda>_.
     bindM (construct env KEYCODES_MIDI_BASIC_args) (\<lambda>_.
     bindM (construct env KEYCODES_MIDI_ADVANCED_args) (\<lambda>_.
     bindM (construct env KEYCODES_HIDDEN_args) (\<lambda>_.
     recreate_keycodes env)))))))))))))))) initial_state"

text \<open>
  The states of a running program: the one the import leaves, and every state a call of
  \<open>recreate_keyboard_keycodes\<close> or \<open>recreate_keycodes\<close> that returned leaves. (A call
  that raises leaves the two dictionaries half built; the module has no handler for it.)
\<close>

inductive reachable :: "env \<Rightarrow> state \<Rightarrow> bool" for env :: env where
  imported: "module_init env = (Inr (), s) \<Longrightarrow> reachable env s"
| rebuilt: "reachable env s \<Longrightarrow> recreate_keyboard_keycodes env kb s = (Inr (), s') \<Longrightarrow> reachable env s'"
| recreated: "reachable env s \<Longrightarrow> recreate_keycodes env s = (Inr (), s') \<Longrightarrow> reachable env s'"

subsection \<open>Auxiliary notions for the proofs\<close>

text \<open>The key of \<open>KEYCODES_MAP\<close> under which \<open>recreate_keycodes\<close> files a descriptor.\<close>

abbreviation strip_kc :: "string \<Rightarrow> string" where
  "strip_kc i \<equiv> replace i ''(kc)'' ''''"

definition ras :: "kargs \<Rightarrow> string list" where
  "ras a = (case a_recorder_alias a of None \<Rightarrow> [] | Some r \<Rightarrow> r)"

text \<open>What a run of constructor calls that all return has written to the class attributes.\<close>

definition Q_of :: "env \<Rightarrow> kargs list \<Rightarrow> (string \<rightharpoonup> keycode) \<Rightarrow> (string \<rightharpoonup> keycode)" where
  "Q_of env as m = fold (\<lambda>a m. m(a_qmk_id a \<mapsto> mk_keycode env a)) as m"

definition R_of :: "env \<Rightarrow> kargs list \<Rightarrow> (string \<rightharpoonup> keycode) \<Rightarrow> (string \<rightharpoonup> keycode)" where
  "R_of env as r = fold (\<lambda>a r. fold (\<lambda>al r. r(al \<mapsto> mk_keycode env a)) (ras a) r) as r"

definition M_of :: "kargs list \<Rightarrow> string set \<Rightarrow> string set" where
  "M_of as S = fold (\<lambda>a S. if a_masked a then insert (strip_kc (a_qmk_id a)) S else S) as S"

definition enter_all :: "env \<Rightarrow> kargs list \<Rightarrow> state \<Rightarrow> state" where
  "enter_all env as s =
     s\<lparr>masked_keycodes := M_of as (masked_keycodes s),
       recorder_alias_to_keycode := R_of env as (recorder_alias_to_keycode s),
       qmk_id_to_keycode := Q_of env as (qmk_id_to_keycode s)\<rparr>"

text \<open>Constructor calls that claim no recorder alias and pass the assertion.\<close>

definition quiet :: "kargs \<Rightarrow> bool" where
  "quiet a = (a_recorder_alias a = None \<and> (\<not> a_masked a \<or> endswith (a_qmk_id a) ''(kc)''))"

text \<open>The constructor calls of one rebuild, list by list and in the order they run.\<close>

definition layer_args :: "int \<Rightarrow> kargs list" where
  "layer_args n =
     (if n \<ge> 4 then fn_args else []) @
     mask_args n ''MO'' MO_description @ mask_args n ''DF'' DF_description @
     mask_args n ''TG'' TG_description @ mask_args n ''TT'' TT_description @
     mask_args n ''OSL'' OSL_description @ mask_args n ''TO'' TO_description @ lt_args n"

definition user_list_args :: "keyboard \<Rightarrow> kargs list" where
  "user_list_args kb =
     (case custom_keycodes kb of
        None \<Rightarrow> user_args
      | Some custom \<Rightarrow> if length custom > 0 then custom_user_args custom else user_args)"

definition dyn_args :: "keyboard \<Rightarrow> kargs list" where
  "dyn_args kb =
     layer_args (layers kb) @ macro_args (macro_count kb) @
     tap_dance_args (tap_dance_count kb) @ user_list_args kb"

definition midi_keycodes :: "env \<Rightarrow> string option \<Rightarrow> keycode list" where
  "midi_keycodes env lvl =
     (if lvl = Some ''basic'' \<or> lvl = Some ''advanced'' then KEYCODES_MIDI_BASIC env else []) @
     (if lvl = Some ''advanced'' then KEYCODES_MIDI_ADVANCED env else [])"

text \<open>The state in which \<open>recreate_keyboard_keycodes\<close> calls \<open>recreate_keycodes\<close>.\<close>

definition regenerate :: "env \<Rightarrow> keyboard \<Rightarrow> state \<Rightarrow> state" where
  "regenerate env kb s =
     (enter_all env (dyn_args kb) s)
       \<lparr>protocol := vial_protocol kb,
        KEYCODES_LAYERS := map (mk_keycode env) (layer_args (layers kb)),
        KEYCODES_TAP_DANCE := map (mk_keycode env) (tap_dance_args (tap_dance_count kb)),
        KEYCODES_USER := map (mk_keycode env) (user_list_args kb),
        KEYCODES_MACRO := map (mk_keycode env) (macro_args (macro_count kb)) @ KEYCODES_MACRO_BASE env,
        KEYCODES_MIDI := midi_keycodes env (midi kb)\<rparr>"

text \<open>The concatenation \<open>recreate_keycodes\<close> assigns to \<open>KEYCODES\<close>.\<close>

definition all_keycodes :: "env \<Rightarrow> state \<Rightarrow> keycode list" where
  "all_keycodes env s =
     KEYCODES_SPECIAL env @ KEYCODES_BASIC env @ KEYCODES_SHIFTED env @ KEYCODES_ISO env @
     KEYCODES_LAYERS s @ KEYCODES_BOOT env @ KEYCODES_MODIFIERS env @
     KEYCODES_QUANTUM env @ KEYCODES_BACKLIGHT env @ KEYCODES_MEDIA env @
     KEYCODES_TAP_DANCE s @ KEYCODES_MACRO s @ KEYCODES_USER s @ KEYCODES_HIDDEN env @
     KEYCODES_MIDI s"

text \<open>The key of \<open>RAWCODES_MAP\<close> under which a descriptor is filed, when its id resolves.\<close>

definition raw_value :: "env \<Rightarrow> state \<Rightarrow> keycode \<Rightarrow> int" where
  "raw_value env s k = (case deserialize env s (PyStr (qmk_id k)) False of Inr c \<Rightarrow> c | Inl e \<Rightarrow> 0)"

text \<open>The constructor calls behind the list \<open>KEYCODES\<close> of one generation of the registry:
  \<open>None\<close> for the import (the capability-dependent lists are still empty), \<open>Some kb\<close>
  after a rebuild for the snapshot \<open>kb\<close>.\<close>

definition midi_args :: "string option \<Rightarrow> kargs list" where
  "midi_args lvl =
     (if lvl = Some ''basic'' \<or> lvl = Some ''advanced'' then KEYCODES_MIDI_BASIC_args else []) @
     (if lvl = Some ''advanced'' then KEYCODES_MIDI_ADVANCED_args else [])"

definition registry_args :: "keyboard option \<Rightarrow> kargs list" where
  "registry_args cfg =
     KEYCODES_SPECIAL_args @
     (KEYCODES_BASIC_args @ KEYCODES_BASIC_NUMPAD_args @ KEYCODES_BASIC_NAV_args) @
     KEYCODES_SHIFTED_args @ (KEYCODES_ISO_args @ KEYCODES_ISO_KR_args) @
     (case cfg of None \<Rightarrow> [] | Some kb \<Rightarrow> layer_args (layers kb)) @
     KEYCODES_BOOT_args @ KEYCODES_MODIFIERS_args @ KEYCODES_QUANTUM_args @
     KEYCODES_BACKLIGHT_args @ KEYCODES_MEDIA_args @
     (case cfg of None \<Rightarrow> [] | Some kb \<Rightarrow> tap_dance_args (tap_dance_count kb)) @
     (case cfg of None \<Rightarrow> [] | Some kb \<Rightarrow> macro_args (macro_count kb) @ KEYCODES_MACRO_BASE_args) @
     (case cfg of None \<Rightarrow> [] | Some kb \<Rightarrow> user_list_args kb) @
     KEYCODES_HIDDEN_args @
     (case cfg of None \<Rightarrow> [] | Some kb \<Rightarrow> midi_args (midi kb))"

definition entered :: "state \<Rightarrow> kargs \<Rightarrow> bool" where
  "entered s a =
     (qmk_id_to_keycode s (a_qmk_id a) \<noteq> None \<and>
      (\<not> a_masked a \<or> strip_kc (a_qmk_id a) \<in> masked_keycodes s))"

definition wf_qmk :: "state \<Rightarrow> bool" where
  "wf_qmk s = (\<forall>i d. qmk_id_to_keycode s i = Some d \<longrightarrow> qmk_id d = i)"

text \<open>A state in which \<open>recreate_keycodes\<close> is about to file the constructor calls of \<open>cfg\<close>.\<close>

definition ready :: "env \<Rightarrow> keyboard option \<Rightarrow> state \<Rightarrow> bool" where
  "ready env cfg s =
     (all_keycodes env s = map (mk_keycode env) (registry_args cfg) \<and> wf_qmk s \<and>
      list_all (entered s) static_args \<and> list_all (entered s) (registry_args cfg))"

text \<open>A state whose registry is the complete generation for \<open>cfg\<close>.\<close>

definition generation :: "env \<Rightarrow> keyboard option \<Rightarrow> state \<Rightarrow> bool" where
  "generation env cfg s =
     (ready env cfg s \<and> KEYCODES s = all_keycodes env s \<and>
      KEYCODES_MAP s = map_of (rev (map (\<lambda>k. (strip_kc (qmk_id k), k)) (KEYCODES s))) \<and>
      RAWCODES_MAP s = map_of (rev (map (\<lambda>k. (raw_value env s k, k)) (KEYCODES s))) \<and>
      list_all (\<lambda>k. resolve env s (qmk_id k) = Inr (raw_value env s k)) (KEYCODES s))"

definition masked_ok :: "kargs \<Rightarrow> bool" where
  "masked_ok a = (\<not> a_masked a \<or> endswith (a_qmk_id a) ''(kc)'')"

text \<open>The constructor calls written out in the module, without the 256 of \<open>KEYCODES_HIDDEN\<close>.\<close>

definition static15_args :: "kargs list" where
  "static15_args =
     KEYCODES_SPECIAL_args @ KEYCODES_BASIC_NUMPAD_args @ KEYCODES_BASIC_NAV_args @
     KEYCODES_BASIC_args @ KEYCODES_SHIFTED_args @ KEYCODES_ISO_args @ KEYCODES_ISO_KR_args @
     KEYCODES_BOOT_args @ KEYCODES_MODIFIERS_args @ KEYCODES_QUANTUM_args @
     KEYCODES_BACKLIGHT_args @ KEYCODES_MEDIA_args @ KEYCODES_MACRO_BASE_args @
     KEYCODES_MIDI_BASIC_args @ KEYCODES_MIDI_ADVANCED_args"

text \<open>The stripped ids of the masked descriptors of \<open>KEYCODES_MODIFIERS\<close>.\<close>

definition modifier_keys :: "string list" where
  "modifier_keys =
     [''LSFT'', ''LCTL'', ''LALT'', ''LGUI'', ''RSFT'', ''RCTL'', ''RALT'', ''RGUI'', ''C_S'',
      ''LCA'', ''LCG'', ''LSA'', ''SGUI'', ''LCAG'', ''RCG'', ''MEH'', ''HYPR'', ''LSFT_T'',
      ''LCTL_T'', ''LALT_T'', ''LGUI_T'', ''RSFT_T'', ''RCTL_T'', ''RALT_T'', ''RGUI_T'',
      ''C_S_T'', ''LCA_T'', ''LCG_T'', ''LSA_T'', ''SGUI_T'', ''LCAG_T'', ''RCG_T'', ''RCAG_T'',
      ''MEH_T'', ''ALL_T'']"

text \<open>The forms of the ids that the loops generate for descriptors that are not masked.\<close>

definition dyn_plain_shape :: "string \<Rightarrow> bool" where
  "dyn_plain_shape i =
     (CHR ''('' \<in> set i \<or>
      (case i of c # d # r \<Rightarrow> c = CHR ''M'' \<and> d \<in> set ''0123456789'' | _ \<Rightarrow> False) \<or>
      take 4 i = ''USER'' \<or> i = ''FN_MO13'' \<or> i = ''FN_MO23'')"

definition dyn_plain :: "kargs \<Rightarrow> bool" where
  "dyn_plain a = (\<not> a_masked a \<and> CHR ''k'' \<notin> set (a_qmk_id a) \<and> dyn_plain_shape (a_qmk_id a))"

definition lt_arg :: "nat \<Rightarrow> kargs" where
  "lt_arg x =
     K (''LT'' @ str_nat x @ ''(kc)'') (''LT '' @ str_nat x @ ''\<newline>(kc)'')
       (Some (LT_description x)) True None None None"

subsection \<open>A sample environment\<close>

text \<open>
  The examples below need protocol tables. \<open>sample_kc\<close> is a stand-in for the missing
  \<open>keycodes_v5.kc\<close>: it gives the values of the QMK numbering to the ids the examples name
  and one spare value to every other id, so that every id of the registry resolves; the
  examples run under protocol 5. The sample fallback rejects every text.
\<close>

definition sample_kc :: "string \<rightharpoonup> int" where
  "sample_kc i =
     Some (if i = ''KC_NO'' then 0x0000
           else if i = ''KC_A'' then 0x0004
           else if i = ''LSFT(kc)'' then 0x0200
           else if i = ''RESET'' then 0x5C00
           else 0x7FFF)"

definition sample_env :: env where
  "sample_env =
     \<lparr>kc_v5 = sample_kc, masked_v5 = {0x0200}, kc_v6 = sample_kc, masked_v6 = {0x0200},
      anykc_decode = (\<lambda>t. Inl (DecodeError t)), platform = ''linux''\<rparr>"

definition sample_keyboard :: keyboard where
  \<comment> \<open>the snapshot of the spec's example scenario\<close>
  "sample_keyboard =
     \<lparr>vial_protocol = 5, layers = 4, macro_count = 2, tap_dance_count = 0,
      custom_keycodes = None, midi = None\<rparr>"

definition sample_import :: state where
  \<comment> \<open>the state after the import\<close>
  "sample_import = snd (module_init sample_env)"

definition sample_state :: state where
  \<comment> \<open>the state after the import and one rebuild\<close>
  "sample_state = snd (recreate_keyboard_keycodes sample_env sample_keyboard sample_import)"

definition shrunk_state :: state where
  \<comment> \<open>a rebuild for two layers, then one for a single layer\<close>
  "shrunk_state =
     snd (recreate_keyboard_keycodes sample_env (sample_keyboard\<lparr>layers := 1\<rparr>)
       (snd (recreate_keyboard_keycodes sample_env (sample_keyboard\<lparr>layers := 2\<rparr>) sample_import)))"

definition empty_custom_state :: state where
  \<comment> \<open>a rebuild for a keyboard that supplies an empty list of custom keycodes\<close>
  "empty_custom_state =
     snd (recreate_keyboard_keycodes sample_env (sample_keyboard\<lparr>custom_keycodes := Some []\<rparr>)
       sample_import)"

section \<open>Properties\<close>

lemma bindM_returnM [simp]: "bindM (returnM x) f = f x"
  by (rule ext) (simp add: bindM_def returnM_def)

lemma bindM_modify [simp]: "bindM (modify g) f s = f () (g s)"
  by (simp add: bindM_def modify_def)

lemma returnM_apply [simp]: "returnM x s = (Inr x, s)"
  by (simp add: returnM_def)

lemma modify_apply [simp]: "modify g s = (Inr (), g s)"
  by (simp add: modify_def)

lemma bindM_Inr: "m s = (Inr x, s') \<Longrightarrow> bindM m f s = f x s'"
  by (simp add: bindM_def)

lemma bindM_Inl: "m s = (Inl e, s') \<Longrightarrow> bindM m f s = (Inl e, s')"
  by (simp add: bindM_def)

lemma startswith_set: "startswith s p \<Longrightarrow> set p \<subseteq> set s"
  by (induction s p rule: startswith.induct) auto

lemma replace_absent: "c \<in> set old \<Longrightarrow> c \<notin> set s \<Longrightarrow> replace s old new = s"
proof (induction s)
  case Nil
  then show ?case by auto
next
  case (Cons x xs)
  have "\<not> startswith (x # xs) old"
    using Cons.prems startswith_set by blast
  with Cons show ?case by auto
qed

lemma replace_kc_suffix: "CHR ''('' \<notin> set p \<Longrightarrow> replace (p @ ''(kc)'') ''(kc)'' [] = p"
  by (induction p) auto

lemma digit_char_dec: "d < 10 \<Longrightarrow> digit_char d \<in> set ''0123456789''"
proof -
  assume "d < 10"
  then have "d \<in> {0,1,2,3,4,5,6,7,8,9}" by auto
  then show ?thesis by (auto simp: digit_char_def)
qed

lemma str_nat_digits: "set (str_nat n) \<subseteq> set ''0123456789''"
proof (induction n rule: str_nat.induct)
  case (1 n)
  show ?case
  proof (cases "n < 10")
    case True
    then show ?thesis using digit_char_dec[of n] by (subst str_nat.simps) auto
  next
    case False
    have "n mod 10 < 10" by simp
    then have "digit_char (n mod 10) \<in> set ''0123456789''" by (rule digit_char_dec)
    with False 1 show ?thesis by (subst str_nat.simps) auto
  qed
qed

lemma str_nat_nonempty: "str_nat n \<noteq> []"
  by (subst str_nat.simps) auto

lemma digit_char_inj: "a < 10 \<Longrightarrow> b < 10 \<Longrightarrow> digit_char a = digit_char b \<Longrightarrow> a = b"
proof -
  assume "a < 10" "b < 10" and eq: "digit_char a = digit_char b"
  then have "a \<in> {0,1,2,3,4,5,6,7,8,9}" "b \<in> {0,1,2,3,4,5,6,7,8,9}" by auto
  with eq show ?thesis by (auto simp: digit_char_def)
qed

lemma str_nat_inj: "str_nat a = str_nat b \<Longrightarrow> a = b"
proof (induction a arbitrary: b rule: str_nat.induct)
  case (1 a)
  show ?case
  proof (cases "a < 10")
    case True
    show ?thesis
    proof (cases "b < 10")
      case True
      with \<open>a < 10\<close> 1(2) show ?thesis
        by (simp add: str_nat.simps[of a] str_nat.simps[of b] digit_char_inj)
    next
      case False
      with \<open>a < 10\<close> 1(2) str_nat_nonempty[of "b div 10"] show ?thesis
        by (simp add: str_nat.simps[of a] str_nat.simps[of b])
    qed
  next
    case False
    show ?thesis
    proof (cases "b < 10")
      case True
      with False 1(2) str_nat_nonempty[of "a div 10"] show ?thesis
        by (simp add: str_nat.simps[of a] str_nat.simps[of b])
    next
      case bf: False
      from False bf 1(2) have e: "str_nat (a div 10) = str_nat (b div 10)"
          and d: "digit_char (a mod 10) = digit_char (b mod 10)"
        by (simp_all add: str_nat.simps[of a] str_nat.simps[of b])
      from 1(1)[OF False e] have "a div 10 = b div 10" .
      moreover from d have "a mod 10 = b mod 10" by (intro digit_char_inj) auto
      ultimately show ?thesis by (metis div_mult_mod_eq)
    qed
  qed
qed

lemma find_from_absent_prefix:
  "c \<notin> set p \<Longrightarrow> find_from (p @ c # rest) [c] i = int (i + length p)"
  by (induction p arbitrary: i) auto

lemma str_find_paren: "CHR ''('' \<notin> set p \<Longrightarrow> str_find (p @ ''('' @ rest) ''('' = int (length p)"
  using find_from_absent_prefix[of "CHR ''(''" p rest 0] by (simp add: str_find_def)

lemma slice_prefix: "slice (p @ rest) 0 (int (length p)) = p"
  by (simp add: slice_def slice_bound_def)

lemma Q_of_append [simp]: "Q_of env (as @ bs) m = Q_of env bs (Q_of env as m)"
  by (simp add: Q_of_def)
lemma R_of_append [simp]: "R_of env (as @ bs) m = R_of env bs (R_of env as m)"
  by (simp add: R_of_def)
lemma M_of_append [simp]: "M_of (as @ bs) m = M_of bs (M_of as m)"
  by (simp add: M_of_def)
lemma Q_of_Nil [simp]: "Q_of env [] m = m" by (simp add: Q_of_def)
lemma R_of_Nil [simp]: "R_of env [] m = m" by (simp add: R_of_def)
lemma M_of_Nil [simp]: "M_of [] m = m" by (simp add: M_of_def)
lemma Q_of_Cons: "Q_of env (a # as) m = Q_of env as (m(a_qmk_id a \<mapsto> mk_keycode env a))"
  by (simp add: Q_of_def)
lemma R_of_Cons: "R_of env (a # as) r = R_of env as (fold (\<lambda>al r. r(al \<mapsto> mk_keycode env a)) (ras a) r)"
  by (simp add: R_of_def)
lemma M_of_Cons: "M_of (a # as) S = M_of as (if a_masked a then insert (strip_kc (a_qmk_id a)) S else S)"
  by (simp add: M_of_def)

lemma enter_all_Nil [simp]: "enter_all env [] s = s"
  by (simp add: enter_all_def)

lemma enter_all_append: "enter_all env (as @ bs) s = enter_all env bs (enter_all env as s)"
  by (simp add: enter_all_def)

lemma claim_recorder_aliases_Inr:
  "claim_recorder_aliases self rs s = (Inr u, s') \<Longrightarrow>
     s' = s\<lparr>recorder_alias_to_keycode := fold (\<lambda>al r. r(al \<mapsto> self)) rs (recorder_alias_to_keycode s)\<rparr>"
proof (induction rs arbitrary: s)
  case Nil
  then show ?case by simp
next
  case (Cons a rs)
  let ?t = "s\<lparr>recorder_alias_to_keycode := (recorder_alias_to_keycode s)(a \<mapsto> self)\<rparr>"
  from Cons.prems have "claim_recorder_aliases self rs ?t = (Inr u, s')"
    by (simp split: if_splits)
  from Cons.IH[OF this] show ?case by simp
qed

lemma claim_recorder_aliases_fresh:
  "distinct rs \<Longrightarrow> \<forall>al\<in>set rs. recorder_alias_to_keycode s al = None \<Longrightarrow>
     claim_recorder_aliases self rs s =
       (Inr (), s\<lparr>recorder_alias_to_keycode := fold (\<lambda>al r. r(al \<mapsto> self)) rs (recorder_alias_to_keycode s)\<rparr>)"
proof (induction rs arbitrary: s)
  case Nil
  then show ?case by simp
next
  case (Cons a rs)
  let ?t = "s\<lparr>recorder_alias_to_keycode := (recorder_alias_to_keycode s)(a \<mapsto> self)\<rparr>"
  from Cons.prems have "distinct rs" "\<forall>al\<in>set rs. recorder_alias_to_keycode ?t al = None"
    by auto
  from Cons.IH[OF this] Cons.prems show ?case by simp
qed

lemma claim_recorder_aliases_never:
  "claim_recorder_aliases self rs s = (Inl e, s') \<Longrightarrow> \<exists>a. e = Misconfigured a"
  by (induction rs arbitrary: s) (auto split: if_splits)

lemma Keycode_init_Inr:
  assumes "Keycode_init env a s = (Inr k, s')"
  shows "k = mk_keycode env a \<and> s' = enter_all env [a] s"
proof -
  let ?s1 = "s\<lparr>qmk_id_to_keycode := (qmk_id_to_keycode s)(a_qmk_id a \<mapsto> mk_keycode env a)\<rparr>"
  show ?thesis
  proof (cases "a_recorder_alias a")
    case None
    with assms show ?thesis
      by (auto simp: Keycode_init_def Let_def bindM_def enter_all_def Q_of_def R_of_def M_of_def
          ras_def split: if_splits)
  next
    case (Some rs)
    obtain r s2 where c: "claim_recorder_aliases (mk_keycode env a) rs ?s1 = (r, s2)"
      by (cases "claim_recorder_aliases (mk_keycode env a) rs ?s1")
    show ?thesis
    proof (cases r)
      case (Inl e)
      with assms Some c show ?thesis
        by (simp add: Keycode_init_def Let_def bindM_def)
    next
      case (Inr u)
      with c have "s2 = ?s1\<lparr>recorder_alias_to_keycode :=
          fold (\<lambda>al r. r(al \<mapsto> mk_keycode env a)) rs (recorder_alias_to_keycode ?s1)\<rparr>"
        using claim_recorder_aliases_Inr by blast
      with assms Some c Inr show ?thesis
        by (auto simp: Keycode_init_def Let_def bindM_def enter_all_def Q_of_def R_of_def M_of_def
            ras_def split: if_splits)
    qed
  qed
qed

lemma Keycode_init_fresh:
  assumes "distinct (ras a)" "\<forall>al\<in>set (ras a). recorder_alias_to_keycode s al = None"
    and "\<not> a_masked a \<or> endswith (a_qmk_id a) ''(kc)''"
  shows "Keycode_init env a s = (Inr (mk_keycode env a), enter_all env [a] s)"
proof (cases "a_recorder_alias a")
  case None
  with assms(3) show ?thesis
    by (auto simp: Keycode_init_def Let_def enter_all_def Q_of_def R_of_def M_of_def ras_def)
next
  case (Some rs)
  let ?s1 = "s\<lparr>qmk_id_to_keycode := (qmk_id_to_keycode s)(a_qmk_id a \<mapsto> mk_keycode env a)\<rparr>"
  from assms Some have "claim_recorder_aliases (mk_keycode env a) rs ?s1 =
      (Inr (), ?s1\<lparr>recorder_alias_to_keycode :=
          fold (\<lambda>al r. r(al \<mapsto> mk_keycode env a)) rs (recorder_alias_to_keycode ?s1)\<rparr>)"
    by (intro claim_recorder_aliases_fresh) (auto simp: ras_def)
  with assms(3) Some show ?thesis
    by (auto simp: Keycode_init_def Let_def bindM_def enter_all_def Q_of_def R_of_def M_of_def ras_def)
qed

lemma Keycode_init_quiet:
  "quiet a \<Longrightarrow> Keycode_init env a s = (Inr (mk_keycode env a), enter_all env [a] s)"
  by (rule Keycode_init_fresh) (auto simp: quiet_def ras_def)

lemma Keycode_init_error:
  "Keycode_init env a s = (Inl e, s') \<Longrightarrow> (\<exists>x. e = Misconfigured x) \<or> e = AssertionError"
  by (auto simp: Keycode_init_def Let_def bindM_def split: option.splits sum.splits if_splits prod.splits
      dest: claim_recorder_aliases_never)

lemma construct_Inr:
  "construct env as s = (Inr ks, s') \<Longrightarrow> ks = map (mk_keycode env) as \<and> s' = enter_all env as s"
proof (induction as arbitrary: s ks s')
  case Nil
  then show ?case by simp
next
  case (Cons a as)
  obtain r s1 where i: "Keycode_init env a s = (r, s1)" by (cases "Keycode_init env a s")
  show ?case
  proof (cases r)
    case (Inl e)
    with Cons.prems i show ?thesis by (simp add: bindM_def)
  next
    case (Inr k)
    with i have k: "k = mk_keycode env a" and s1: "s1 = enter_all env [a] s"
      using Keycode_init_Inr by blast+
    obtain r2 s2 where c: "construct env as s1 = (r2, s2)" by (cases "construct env as s1")
    show ?thesis
    proof (cases r2)
      case (Inl e)
      with Cons.prems i Inr c show ?thesis by (simp add: bindM_def)
    next
      case r2: (Inr ks')
      with c Cons.IH have "ks' = map (mk_keycode env) as" "s2 = enter_all env as s1" by blast+
      with Cons.prems i Inr c r2 k s1 show ?thesis
        using enter_all_append[of env "[a]" as s] by (simp add: bindM_def)
    qed
  qed
qed

lemma construct_quiet:
  "list_all quiet as \<Longrightarrow> construct env as s = (Inr (map (mk_keycode env) as), enter_all env as s)"
proof (induction as arbitrary: s)
  case Nil
  then show ?case by simp
next
  case (Cons a as)
  then show ?case
    using enter_all_append[of env "[a]" as s] by (simp add: Keycode_init_quiet bindM_def)
qed

lemma startswith_append [simp]: "startswith (p @ r) p"
  by (induction p) auto

lemma endswith_append [simp]: "endswith (p @ suf) suf"
  by (simp add: endswith_def)

lemma quiet_mask_args [simp]: "list_all quiet (mask_args n l d)"
  by (simp add: mask_args_def quiet_def K_def list_all_iff)

lemma quiet_lt_args [simp]: "list_all quiet (lt_args n)"
proof -
  have "endswith (''LT'' @ str_nat x @ ''(kc)'') ''(kc)''" for x
    using endswith_append[of "''LT'' @ str_nat x" "''(kc)''"] by simp
  then show ?thesis
    by (simp add: lt_args_def quiet_def K_def list_all_iff)
qed

lemma quiet_fn_args [simp]: "list_all quiet fn_args"
  by (simp add: fn_args_def quiet_def K_def)

lemma quiet_macro_args [simp]: "list_all quiet (macro_args n)"
  by (simp add: macro_args_def quiet_def K_def list_all_iff)

lemma quiet_tap_dance_args [simp]: "list_all quiet (tap_dance_args n)"
  by (simp add: tap_dance_args_def quiet_def K_def list_all_iff)

lemma quiet_user_args [simp]: "list_all quiet user_args"
  by (simp add: user_args_def quiet_def K_def list_all_iff)

lemma quiet_custom_user_args [simp]: "list_all quiet (custom_user_args c)"
  by (auto simp: custom_user_args_def quiet_def K_def list_all_iff)

lemma quiet_user_list_args [simp]: "list_all quiet (user_list_args kb)"
  by (simp add: user_list_args_def split: option.splits)

lemma quiet_layer_args [simp]: "list_all quiet (layer_args n)"
  by (simp add: layer_args_def)

lemma quiet_dyn_args [simp]: "list_all quiet (dyn_args kb)"
  by (simp add: dyn_args_def)

lemma ras_quiet: "quiet a \<Longrightarrow> ras a = []"
  by (simp add: quiet_def ras_def)

lemma R_of_quiet [simp]: "list_all quiet as \<Longrightarrow> R_of env as r = r"
  by (induction as arbitrary: r) (simp_all add: R_of_Cons ras_quiet)

lemma construct_into_USER:
  "list_all quiet as \<Longrightarrow> construct_into env append_USER as s =
     (Inr (), (enter_all env as s)\<lparr>KEYCODES_USER := KEYCODES_USER s @ map (mk_keycode env) as\<rparr>)"
proof (induction as arbitrary: s)
  case Nil
  then show ?case by simp
next
  case (Cons a as)
  then show ?case
    by (simp add: Keycode_init_quiet bindM_def append_USER_def enter_all_def Q_of_Cons R_of_Cons M_of_Cons)
qed

lemma construct_into_LAYERS:
  "list_all quiet as \<Longrightarrow> construct_into env append_LAYERS as s =
     (Inr (), (enter_all env as s)\<lparr>KEYCODES_LAYERS := KEYCODES_LAYERS s @ map (mk_keycode env) as\<rparr>)"
proof (induction as arbitrary: s)
  case Nil
  then show ?case by simp
next
  case (Cons a as)
  then show ?case
    by (simp add: Keycode_init_quiet bindM_def append_LAYERS_def enter_all_def Q_of_Cons R_of_Cons M_of_Cons)
qed

lemma construct_into_MACRO:
  "list_all quiet as \<Longrightarrow> construct_into env append_MACRO as s =
     (Inr (), (enter_all env as s)\<lparr>KEYCODES_MACRO := KEYCODES_MACRO s @ map (mk_keycode env) as\<rparr>)"
proof (induction as arbitrary: s)
  case Nil
  then show ?case by simp
next
  case (Cons a as)
  then show ?case
    by (simp add: Keycode_init_quiet bindM_def append_MACRO_def enter_all_def Q_of_Cons R_of_Cons M_of_Cons)
qed

lemma construct_into_TAP_DANCE:
  "list_all quiet as \<Longrightarrow> construct_into env append_TAP_DANCE as s =
     (Inr (), (enter_all env as s)\<lparr>KEYCODES_TAP_DANCE := KEYCODES_TAP_DANCE s @ map (mk_keycode env) as\<rparr>)"
proof (induction as arbitrary: s)
  case Nil
  then show ?case by simp
next
  case (Cons a as)
  then show ?case
    by (simp add: Keycode_init_quiet bindM_def append_TAP_DANCE_def enter_all_def Q_of_Cons R_of_Cons M_of_Cons)
qed

lemma create_user_keycodes_eq:
  "create_user_keycodes env s =
     (Inr (), (enter_all env user_args s)\<lparr>KEYCODES_USER := map (mk_keycode env) user_args\<rparr>)"
  by (simp add: create_user_keycodes_def construct_into_USER enter_all_def)

lemma create_custom_user_keycodes_eq:
  "create_custom_user_keycodes env c s =
     (Inr (), (enter_all env (custom_user_args c) s)\<lparr>KEYCODES_USER := map (mk_keycode env) (custom_user_args c)\<rparr>)"
  by (simp add: create_custom_user_keycodes_def construct_into_USER enter_all_def)

lemma create_midi_keycodes_eq:
  "create_midi_keycodes env lvl s = (Inr (), s\<lparr>KEYCODES_MIDI := midi_keycodes env lvl\<rparr>)"
  by (simp add: create_midi_keycodes_def midi_keycodes_def)

lemma generate_keycodes_for_mask_eq:
  "generate_keycodes_for_mask env n l d s =
     (Inr (map (mk_keycode env) (mask_args n l d)), enter_all env (mask_args n l d) s)"
  by (simp add: generate_keycodes_for_mask_def construct_quiet)

lemma recreate_keyboard_keycodes_eq:
  "recreate_keyboard_keycodes env kb s = recreate_keycodes env (regenerate env kb s)"
proof -
  have user: "(case custom_keycodes kb of None \<Rightarrow> create_user_keycodes env
        | Some custom \<Rightarrow> if length custom > 0 then create_custom_user_keycodes env custom
            else create_user_keycodes env) t =
      (Inr (), (enter_all env (user_list_args kb) t)\<lparr>KEYCODES_USER := map (mk_keycode env) (user_list_args kb)\<rparr>)" for t
    by (simp add: user_list_args_def create_user_keycodes_eq create_custom_user_keycodes_eq
        split: option.splits)
  show ?thesis
    unfolding recreate_keyboard_keycodes_def
    apply (simp add: bindM_def generate_keycodes_for_mask_eq construct_into_LAYERS construct_into_MACRO
        construct_into_TAP_DANCE user create_midi_keycodes_eq extend_LAYERS_def)
    apply (auto intro!: arg_cong[where f = "recreate_keycodes env"] state.equality
        simp: regenerate_def dyn_args_def layer_args_def enter_all_def)
    done
qed

lemma deserialize_maps [simp]:
  "deserialize env (s\<lparr>KEYCODES_MAP := m\<rparr>) = deserialize env s"
  "deserialize env (s\<lparr>RAWCODES_MAP := w\<rparr>) = deserialize env s"
  "deserialize env (s\<lparr>KEYCODES := ks\<rparr>) = deserialize env s"
  by (rule ext, rule ext, simp add: deserialize_def resolve_def kc_table_def
      split: pyval.splits option.splits)+

lemma raw_value_maps [simp]:
  "raw_value env (s\<lparr>KEYCODES_MAP := m\<rparr>) = raw_value env s"
  "raw_value env (s\<lparr>RAWCODES_MAP := w\<rparr>) = raw_value env s"
  "raw_value env (s\<lparr>KEYCODES := ks\<rparr>) = raw_value env s"
  by (simp_all add: raw_value_def fun_eq_iff)

lemma deserialize_False_error:
  "deserialize env s v False = Inl e \<Longrightarrow> \<exists>x. e = UnableToResolve x"
  by (auto simp: deserialize_def resolve_def split: pyval.splits option.splits sum.splits)

lemma populate_frame:
  "\<exists>m w. snd (populate env ks t) = t\<lparr>KEYCODES_MAP := m, RAWCODES_MAP := w\<rparr>"
proof (induction ks arbitrary: t)
  case Nil
  have "t = t\<lparr>KEYCODES_MAP := KEYCODES_MAP t, RAWCODES_MAP := RAWCODES_MAP t\<rparr>" by simp
  then show ?case by (metis populate.simps(1) returnM_apply snd_conv)
next
  case (Cons k ks)
  let ?t1 = "t\<lparr>KEYCODES_MAP := (KEYCODES_MAP t)(strip_kc (qmk_id k) \<mapsto> k)\<rparr>"
  show ?case
  proof (cases "deserialize env t (PyStr (qmk_id k)) False")
    case (Inl e)
    have "?t1 = t\<lparr>KEYCODES_MAP := (KEYCODES_MAP t)(strip_kc (qmk_id k) \<mapsto> k), RAWCODES_MAP := RAWCODES_MAP t\<rparr>"
      by simp
    moreover from Inl have "snd (populate env (k # ks) t) = ?t1" by (simp add: bindM_def)
    ultimately show ?thesis by metis
  next
    case (Inr c)
    let ?t2 = "?t1\<lparr>RAWCODES_MAP := (RAWCODES_MAP t)(c \<mapsto> k)\<rparr>"
    from Inr have p: "populate env (k # ks) t = populate env ks ?t2" by (simp add: bindM_def)
    from Cons.IH[of ?t2] obtain m w where "snd (populate env ks ?t2) = ?t2\<lparr>KEYCODES_MAP := m, RAWCODES_MAP := w\<rparr>"
      by blast
    then have "snd (populate env (k # ks) t) = t\<lparr>KEYCODES_MAP := m, RAWCODES_MAP := w\<rparr>"
      using p by simp
    then show ?thesis by blast
  qed
qed

lemma populate_error:
  "populate env ks t = (Inl e, t') \<Longrightarrow> \<exists>x. e = UnableToResolve x"
proof (induction ks arbitrary: t)
  case Nil
  then show ?case by simp
next
  case (Cons k ks)
  show ?case
  proof (cases "deserialize env t (PyStr (qmk_id k)) False")
    case (Inl e')
    with Cons.prems have "e = e'" by (simp add: bindM_def)
    with Inl show ?thesis using deserialize_False_error by blast
  next
    case (Inr c)
    with Cons.prems Cons.IH show ?thesis by (simp add: bindM_def)
  qed
qed

lemma fun_upd_fold: "(\<lambda>a. if a = k then v else m a) = m(k := v)"
  by (rule ext) simp

lemma map_add_snoc: "m(k \<mapsto> v) ++ map_of (rev ps) = m ++ map_of (rev ((k, v) # ps))"
  by (rule ext) (simp add: map_add_def split: option.splits)

lemma populate_ok:
  assumes "\<forall>k\<in>set ks. \<exists>c. deserialize env t (PyStr (qmk_id k)) False = Inr c"
  shows "populate env ks t =
     (Inr (), t\<lparr>KEYCODES_MAP := KEYCODES_MAP t ++ map_of (rev (map (\<lambda>k. (strip_kc (qmk_id k), k)) ks)),
                RAWCODES_MAP := RAWCODES_MAP t ++ map_of (rev (map (\<lambda>k. (raw_value env t k, k)) ks))\<rparr>)"
  using assms
proof (induction ks arbitrary: t)
  case Nil
  then show ?case by simp
next
  case (Cons k ks)
  from Cons.prems obtain c where c: "deserialize env t (PyStr (qmk_id k)) False = Inr c" by auto
  then have rv: "raw_value env t k = c" by (simp add: raw_value_def)
  let ?t2 = "t\<lparr>KEYCODES_MAP := (KEYCODES_MAP t)(strip_kc (qmk_id k) \<mapsto> k),
               RAWCODES_MAP := (RAWCODES_MAP t)(c \<mapsto> k)\<rparr>"
  let ?A = "map_of (rev (map (\<lambda>k. (strip_kc (qmk_id k), k)) ks))"
  let ?B = "map_of (rev (map (\<lambda>k. (raw_value env t k, k)) ks))"
  from c have p: "populate env (k # ks) t = populate env ks ?t2" by (simp add: bindM_def)
  from Cons.prems have "\<forall>k\<in>set ks. \<exists>c. deserialize env ?t2 (PyStr (qmk_id k)) False = Inr c"
    by simp
  from Cons.IH[OF this]
  have "populate env ks ?t2 =
      (Inr (), ?t2\<lparr>KEYCODES_MAP := KEYCODES_MAP ?t2 ++ ?A, RAWCODES_MAP := RAWCODES_MAP ?t2 ++ ?B\<rparr>)"
    by (simp add: fun_upd_fold)
  moreover have "KEYCODES_MAP ?t2 ++ ?A =
      KEYCODES_MAP t ++ map_of (rev (map (\<lambda>k. (strip_kc (qmk_id k), k)) (k # ks)))"
    using map_add_snoc[of "KEYCODES_MAP t" "strip_kc (qmk_id k)" k "map (\<lambda>k. (strip_kc (qmk_id k), k)) ks"]
    by simp
  moreover have "RAWCODES_MAP ?t2 ++ ?B =
      RAWCODES_MAP t ++ map_of (rev (map (\<lambda>k. (raw_value env t k, k)) (k # ks)))"
    using map_add_snoc[of "RAWCODES_MAP t" c k "map (\<lambda>k. (raw_value env t k, k)) ks"] rv
    by simp
  moreover have "?t2\<lparr>KEYCODES_MAP := X, RAWCODES_MAP := Y\<rparr> = t\<lparr>KEYCODES_MAP := X, RAWCODES_MAP := Y\<rparr>"
    for X Y by simp
  ultimately show ?case using p by presburger
qed

lemma populate_Inr:
  "populate env ks t = (Inr u, t') \<Longrightarrow>
     \<forall>k\<in>set ks. \<exists>c. deserialize env t (PyStr (qmk_id k)) False = Inr c"
proof (induction ks arbitrary: t)
  case Nil
  then show ?case by simp
next
  case (Cons k ks)
  show ?case
  proof (cases "deserialize env t (PyStr (qmk_id k)) False")
    case (Inl e)
    with Cons.prems show ?thesis by (simp add: bindM_def)
  next
    case (Inr c)
    let ?t2 = "t\<lparr>KEYCODES_MAP := (KEYCODES_MAP t)(strip_kc (qmk_id k) \<mapsto> k),
                 RAWCODES_MAP := (RAWCODES_MAP t)(c \<mapsto> k)\<rparr>"
    from Inr Cons.prems have "populate env ks ?t2 = (Inr u, t')" by (simp add: bindM_def)
    from Cons.IH[OF this] Inr show ?thesis by simp
  qed
qed

lemma recreate_keycodes_eq:
  "recreate_keycodes env s =
     populate env (all_keycodes env s)
       (s\<lparr>KEYCODES := all_keycodes env s, KEYCODES_MAP := Map.empty, RAWCODES_MAP := Map.empty\<rparr>)"
  by (simp add: recreate_keycodes_def all_keycodes_def)

lemma all_keycodes_upd [simp]:
  "all_keycodes env (s\<lparr>KEYCODES := ks\<rparr>) = all_keycodes env s"
  "all_keycodes env (s\<lparr>KEYCODES_MAP := m\<rparr>) = all_keycodes env s"
  "all_keycodes env (s\<lparr>RAWCODES_MAP := w\<rparr>) = all_keycodes env s"
  by (simp_all add: all_keycodes_def)

lemma recreate_keycodes_frame:
  "\<exists>m w. snd (recreate_keycodes env s) =
     s\<lparr>KEYCODES := all_keycodes env s, KEYCODES_MAP := m, RAWCODES_MAP := w\<rparr>"
proof -
  let ?t = "s\<lparr>KEYCODES := all_keycodes env s, KEYCODES_MAP := Map.empty, RAWCODES_MAP := Map.empty\<rparr>"
  from populate_frame[of env "all_keycodes env s" ?t] obtain m w where
    "snd (populate env (all_keycodes env s) ?t) = ?t\<lparr>KEYCODES_MAP := m, RAWCODES_MAP := w\<rparr>" by blast
  then show ?thesis by (auto simp: recreate_keycodes_eq)
qed

lemma recreate_keycodes_overwrites:
  "recreate_keycodes env (s\<lparr>KEYCODES := ks, KEYCODES_MAP := m, RAWCODES_MAP := w\<rparr>) = recreate_keycodes env s"
  by (simp add: recreate_keycodes_eq)

lemma regenerate_maps:
  "regenerate env kb (s\<lparr>KEYCODES := ks, KEYCODES_MAP := m, RAWCODES_MAP := w\<rparr>) =
     (regenerate env kb s)\<lparr>KEYCODES := ks, KEYCODES_MAP := m, RAWCODES_MAP := w\<rparr>"
  by (simp add: regenerate_def enter_all_def)

lemma Q_of_map_add:
  "Q_of env as m = m ++ map_of (rev (map (\<lambda>a. (a_qmk_id a, mk_keycode env a)) as))"
proof (induction as arbitrary: m)
  case Nil
  then show ?case by simp
next
  case (Cons a as)
  let ?ps = "map (\<lambda>a. (a_qmk_id a, mk_keycode env a)) as"
  have "Q_of env (a # as) m = Q_of env as (m(a_qmk_id a \<mapsto> mk_keycode env a))"
    by (rule Q_of_Cons)
  also have "\<dots> = m(a_qmk_id a \<mapsto> mk_keycode env a) ++ map_of (rev ?ps)"
    by (rule Cons)
  also have "\<dots> = m ++ map_of (rev ((a_qmk_id a, mk_keycode env a) # ?ps))"
    by (rule map_add_snoc)
  finally show ?case by (simp only: list.map)
qed

lemma Q_of_idem: "Q_of env as (Q_of env as m) = Q_of env as m"
  by (rule ext) (simp add: Q_of_map_add map_add_def split: option.splits)

lemma M_of_eq: "M_of as S = S \<union> (\<lambda>a. strip_kc (a_qmk_id a)) ` {a \<in> set as. a_masked a}"
  by (induction as arbitrary: S) (auto simp: M_of_Cons)

lemma M_of_idem: "M_of as (M_of as S) = M_of as S"
  by (auto simp: M_of_eq)

lemma regenerate_idem: "regenerate env kb (regenerate env kb s) = regenerate env kb s"
  by (simp add: regenerate_def enter_all_def Q_of_idem M_of_idem)

lemma rebuild_twice:
  "recreate_keyboard_keycodes env kb (snd (recreate_keyboard_keycodes env kb s)) =
     recreate_keyboard_keycodes env kb s"
proof -
  let ?t = "regenerate env kb s"
  obtain m w where
    "snd (recreate_keycodes env ?t) = ?t\<lparr>KEYCODES := all_keycodes env ?t, KEYCODES_MAP := m, RAWCODES_MAP := w\<rparr>"
    using recreate_keycodes_frame by blast
  then show ?thesis
    by (simp add: recreate_keyboard_keycodes_eq regenerate_maps recreate_keycodes_overwrites
        regenerate_idem)
qed

lemma rebuild_error:
  "recreate_keyboard_keycodes env kb s = (Inl e, s') \<Longrightarrow> \<exists>x. e = UnableToResolve x"
  by (auto simp: recreate_keyboard_keycodes_eq recreate_keycodes_eq dest: populate_error)

subsection \<open>The import\<close>

lemma bindM_assoc: "bindM (bindM m f) g = bindM m (\<lambda>x. bindM (f x) g)"
  by (rule ext) (simp add: bindM_def split: prod.splits sum.splits)

lemma bindM_Pair_Inr [simp]: "bindM (Pair (Inr x)) f = f x"
  by (rule ext) (simp add: bindM_def)

lemma construct_append_bind:
  "bindM (construct env as) (\<lambda>_. bindM (construct env bs) (\<lambda>_. g)) =
   bindM (construct env (as @ bs)) (\<lambda>_. g)"
  by (induction as) (simp_all add: bindM_assoc)

lemma fold_upd_apply:
  "fold (\<lambda>al r. r(al \<mapsto> v)) rs r x = (if x \<in> set rs then Some v else r x)"
  by (induction rs arbitrary: r) auto

lemma R_of_None:
  "R_of env as r x = None \<longleftrightarrow> r x = None \<and> x \<notin> set (concat (map ras as))"
  by (induction as arbitrary: r) (auto simp: R_of_Cons fold_upd_apply)

lemma enter_all_fields [simp]:
  "qmk_id_to_keycode (enter_all env as s) = Q_of env as (qmk_id_to_keycode s)"
  "masked_keycodes (enter_all env as s) = M_of as (masked_keycodes s)"
  "recorder_alias_to_keycode (enter_all env as s) = R_of env as (recorder_alias_to_keycode s)"
  "protocol (enter_all env as s) = protocol s"
  "KEYCODES_LAYERS (enter_all env as s) = KEYCODES_LAYERS s"
  "KEYCODES_TAP_DANCE (enter_all env as s) = KEYCODES_TAP_DANCE s"
  "KEYCODES_USER (enter_all env as s) = KEYCODES_USER s"
  "KEYCODES_MACRO (enter_all env as s) = KEYCODES_MACRO s"
  "KEYCODES_MIDI (enter_all env as s) = KEYCODES_MIDI s"
  "KEYCODES (enter_all env as s) = KEYCODES s"
  "KEYCODES_MAP (enter_all env as s) = KEYCODES_MAP s"
  "RAWCODES_MAP (enter_all env as s) = RAWCODES_MAP s"
  by (simp_all add: enter_all_def)

lemma construct_fresh:
  assumes "distinct (concat (map ras as))"
    and "\<forall>al\<in>set (concat (map ras as)). recorder_alias_to_keycode s al = None"
    and "list_all masked_ok as"
  shows "construct env as s = (Inr (map (mk_keycode env) as), enter_all env as s)"
  using assms
proof (induction as arbitrary: s)
  case Nil
  then show ?case by simp
next
  case (Cons a as)
  have i: "Keycode_init env a s = (Inr (mk_keycode env a), enter_all env [a] s)"
    using Cons.prems by (intro Keycode_init_fresh) (auto simp: masked_ok_def)
  have "\<forall>al\<in>set (concat (map ras as)). recorder_alias_to_keycode (enter_all env [a] s) al = None"
    using Cons.prems by (auto simp: R_of_None)
  moreover have "distinct (concat (map ras as))" and "list_all masked_ok as"
    using Cons.prems by auto
  ultimately have "construct env as (enter_all env [a] s) =
      (Inr (map (mk_keycode env) as), enter_all env as (enter_all env [a] s))"
    using Cons.IH by blast
  with i show ?case
    using enter_all_append[of env "[a]" as s] by (simp add: bindM_def)
qed

lemmas static_defs = KEYCODES_SPECIAL_args_def KEYCODES_BASIC_NUMPAD_args_def KEYCODES_BASIC_NAV_args_def
  KEYCODES_BASIC_args_def KEYCODES_SHIFTED_args_def KEYCODES_ISO_args_def KEYCODES_ISO_KR_args_def
  KEYCODES_BOOT_args_def KEYCODES_MODIFIERS_args_def KEYCODES_QUANTUM_args_def
  KEYCODES_BACKLIGHT_args_def KEYCODES_MEDIA_args_def KEYCODES_MACRO_BASE_args_def
  KEYCODES_MIDI_BASIC_args_def KEYCODES_MIDI_ADVANCED_args_def

lemma hidden_ras [simp]: "concat (map ras KEYCODES_HIDDEN_args) = []"
  by (simp add: KEYCODES_HIDDEN_args_def ras_def K_def)

lemma static_aliases_distinct: "distinct (concat (map ras static_args))"
  unfolding static_args_def
  by (simp add: static_defs K_def ras_def)

lemma masked_ok_if: "masked_ok a = (if a_masked a then endswith (a_qmk_id a) ''(kc)'' else True)"
  by (simp add: masked_ok_def)

lemma hidden_masked_ok: "list_all masked_ok KEYCODES_HIDDEN_args"
  by (simp add: KEYCODES_HIDDEN_args_def K_def masked_ok_def list_all_iff)

lemma static_masked_ok: "list_all masked_ok static_args"
  unfolding static_args_def
  by (simp add: hidden_masked_ok) (simp add: static_defs K_def masked_ok_if endswith_def)

lemma module_init_eq:
  "module_init env = recreate_keycodes env (enter_all env static_args initial_state)"
proof -
  have "module_init env = bindM (construct env static_args) (\<lambda>_. recreate_keycodes env) initial_state"
    unfolding module_init_def static_args_def by (simp only: construct_append_bind append_assoc)
  moreover have "construct env static_args initial_state =
      (Inr (map (mk_keycode env) static_args), enter_all env static_args initial_state)"
    by (rule construct_fresh[OF static_aliases_distinct _ static_masked_ok])
       (simp add: initial_state_def)
  ultimately show ?thesis by (simp add: bindM_def)
qed

subsection \<open>Every reachable state holds a complete generation of the registry\<close>

lemma mk_keycode_fields [simp]:
  "qmk_id (mk_keycode env a) = a_qmk_id a"
  "masked (mk_keycode env a) = a_masked a"
  "tooltip (mk_keycode env a) = a_tooltip a"
  by (simp_all add: mk_keycode_def)

lemma map_of_rev_None: "map_of (rev ps) i = None \<longleftrightarrow> i \<notin> fst ` set ps"
  by (simp add: map_of_eq_None_iff)

lemma Q_of_None: "Q_of env as m i = None \<longleftrightarrow> m i = None \<and> i \<notin> a_qmk_id ` set as"
proof -
  have "fst ` set (map (\<lambda>a. (a_qmk_id a, mk_keycode env a)) as) = a_qmk_id ` set as"
    by force
  then show ?thesis
    by (auto simp: Q_of_map_add map_of_rev_None)
qed

lemma Q_of_wf:
  assumes "\<forall>i d. m i = Some d \<longrightarrow> qmk_id d = i" and "Q_of env as m i = Some d"
  shows "qmk_id d = i"
proof (cases "map_of (rev (map (\<lambda>a. (a_qmk_id a, mk_keycode env a)) as)) i")
  case None
  with assms show ?thesis by (simp add: Q_of_map_add map_add_def)
next
  case (Some d')
  with assms(2) have "d' = d" by (simp add: Q_of_map_add map_add_def)
  with Some have "(i, d) \<in> set (rev (map (\<lambda>a. (a_qmk_id a, mk_keycode env a)) as))"
    by (simp only: map_of_SomeD)
  then show ?thesis by auto
qed

lemma entered_upd [simp]:
  "entered (s\<lparr>protocol := p\<rparr>) = entered s"
  "entered (s\<lparr>KEYCODES_LAYERS := l\<rparr>) = entered s"
  "entered (s\<lparr>KEYCODES_TAP_DANCE := l\<rparr>) = entered s"
  "entered (s\<lparr>KEYCODES_USER := l\<rparr>) = entered s"
  "entered (s\<lparr>KEYCODES_MACRO := l\<rparr>) = entered s"
  "entered (s\<lparr>KEYCODES_MIDI := l\<rparr>) = entered s"
  "entered (s\<lparr>KEYCODES := l\<rparr>) = entered s"
  "entered (s\<lparr>KEYCODES_MAP := m\<rparr>) = entered s"
  "entered (s\<lparr>RAWCODES_MAP := w\<rparr>) = entered s"
  by (simp_all add: entered_def fun_eq_iff)

lemma wf_qmk_upd [simp]:
  "wf_qmk (s\<lparr>protocol := p\<rparr>) = wf_qmk s"
  "wf_qmk (s\<lparr>KEYCODES_LAYERS := l\<rparr>) = wf_qmk s"
  "wf_qmk (s\<lparr>KEYCODES_TAP_DANCE := l\<rparr>) = wf_qmk s"
  "wf_qmk (s\<lparr>KEYCODES_USER := l\<rparr>) = wf_qmk s"
  "wf_qmk (s\<lparr>KEYCODES_MACRO := l\<rparr>) = wf_qmk s"
  "wf_qmk (s\<lparr>KEYCODES_MIDI := l\<rparr>) = wf_qmk s"
  "wf_qmk (s\<lparr>KEYCODES := l\<rparr>) = wf_qmk s"
  "wf_qmk (s\<lparr>KEYCODES_MAP := m\<rparr>) = wf_qmk s"
  "wf_qmk (s\<lparr>RAWCODES_MAP := w\<rparr>) = wf_qmk s"
  by (simp_all add: wf_qmk_def)

lemma entered_mono: "entered s a \<Longrightarrow> entered (enter_all env as s) a"
  by (auto simp: entered_def Q_of_None M_of_eq)

lemma entered_mem: "a \<in> set as \<Longrightarrow> entered (enter_all env as s) a"
  by (auto simp: entered_def Q_of_None M_of_eq)

lemma wf_qmk_enter_all: "wf_qmk s \<Longrightarrow> wf_qmk (enter_all env as s)"
  unfolding wf_qmk_def using Q_of_wf by (metis enter_all_fields(1))

lemma ready_upd [simp]:
  "ready env cfg (s\<lparr>KEYCODES := l\<rparr>) = ready env cfg s"
  "ready env cfg (s\<lparr>KEYCODES_MAP := m\<rparr>) = ready env cfg s"
  "ready env cfg (s\<lparr>RAWCODES_MAP := w\<rparr>) = ready env cfg s"
  by (simp_all add: ready_def)

lemma all_keycodes_regenerate:
  "all_keycodes env (regenerate env kb s) = map (mk_keycode env) (registry_args (Some kb))"
  by (simp add: all_keycodes_def regenerate_def registry_args_def midi_keycodes_def midi_args_def
      KEYCODES_SPECIAL_def KEYCODES_BASIC_def KEYCODES_BASIC_NUMPAD_def KEYCODES_BASIC_NAV_def
      KEYCODES_SHIFTED_def KEYCODES_ISO_def KEYCODES_ISO_KR_def KEYCODES_BOOT_def
      KEYCODES_MODIFIERS_def KEYCODES_QUANTUM_def KEYCODES_BACKLIGHT_def KEYCODES_MEDIA_def
      KEYCODES_MACRO_BASE_def KEYCODES_MIDI_BASIC_def KEYCODES_MIDI_ADVANCED_def KEYCODES_HIDDEN_def)

lemma all_keycodes_imported:
  "all_keycodes env (enter_all env static_args initial_state) = map (mk_keycode env) (registry_args None)"
  by (simp add: all_keycodes_def registry_args_def initial_state_def
      KEYCODES_SPECIAL_def KEYCODES_BASIC_def KEYCODES_BASIC_NUMPAD_def KEYCODES_BASIC_NAV_def
      KEYCODES_SHIFTED_def KEYCODES_ISO_def KEYCODES_ISO_KR_def KEYCODES_BOOT_def
      KEYCODES_MODIFIERS_def KEYCODES_QUANTUM_def KEYCODES_BACKLIGHT_def KEYCODES_MEDIA_def
      KEYCODES_HIDDEN_def)

lemma registry_args_subset:
  "set (registry_args cfg) \<subseteq> set static_args \<union> (case cfg of None \<Rightarrow> {} | Some kb \<Rightarrow> set (dyn_args kb))"
  by (auto simp: registry_args_def static_args_def dyn_args_def midi_args_def split: option.splits if_splits)

lemma ready_imported: "ready env None (enter_all env static_args initial_state)"
proof -
  have "wf_qmk initial_state" by (simp add: wf_qmk_def initial_state_def)
  then have "wf_qmk (enter_all env static_args initial_state)" by (rule wf_qmk_enter_all)
  moreover have "list_all (entered (enter_all env static_args initial_state)) static_args"
    by (simp add: list_all_iff entered_mem)
  moreover have "list_all (entered (enter_all env static_args initial_state)) (registry_args None)"
    using registry_args_subset[of None] by (auto simp: list_all_iff entered_mem)
  ultimately show ?thesis by (simp add: ready_def all_keycodes_imported)
qed

lemma ready_regenerate:
  assumes "wf_qmk s" and "list_all (entered s) static_args"
  shows "ready env (Some kb) (regenerate env kb s)"
proof -
  let ?t = "enter_all env (dyn_args kb) s"
  have e: "entered (regenerate env kb s) = entered ?t" by (simp add: regenerate_def)
  have w: "wf_qmk (regenerate env kb s) = wf_qmk ?t" by (simp add: regenerate_def)
  have 1: "list_all (entered ?t) static_args"
    using assms(2) by (simp add: list_all_iff entered_mono)
  have "entered ?t a" if "a \<in> set (registry_args (Some kb))" for a
  proof -
    from that registry_args_subset[of "Some kb"] have "a \<in> set static_args \<or> a \<in> set (dyn_args kb)"
      by auto
    then show ?thesis
      using 1 by (auto simp: list_all_iff entered_mem)
  qed
  then have 2: "list_all (entered ?t) (registry_args (Some kb))" by (simp add: list_all_iff)
  from assms(1) have "wf_qmk ?t" by (rule wf_qmk_enter_all)
  with 1 2 e w show ?thesis by (simp add: ready_def all_keycodes_regenerate)
qed

lemma deserialize_registered:
  assumes "wf_qmk s" and "qmk_id_to_keycode s i \<noteq> None"
  shows "deserialize env s (PyStr i) r = resolve env s i"
proof -
  from assms(2) obtain d where d: "qmk_id_to_keycode s i = Some d" by auto
  with assms(1) have "qmk_id d = i" by (simp add: wf_qmk_def)
  with d show ?thesis by (simp add: deserialize_def)
qed

lemma resolve_upd [simp]:
  "resolve env (s\<lparr>KEYCODES := l\<rparr>) = resolve env s"
  "resolve env (s\<lparr>KEYCODES_MAP := m\<rparr>) = resolve env s"
  "resolve env (s\<lparr>RAWCODES_MAP := w\<rparr>) = resolve env s"
  by (simp_all add: resolve_def kc_table_def fun_eq_iff)

lemma recreate_keycodes_generation:
  assumes r: "ready env cfg t" and ok: "recreate_keycodes env t = (Inr (), s)"
  shows "generation env cfg s"
proof -
  let ?ks = "all_keycodes env t"
  let ?t0 = "t\<lparr>KEYCODES := ?ks, KEYCODES_MAP := Map.empty, RAWCODES_MAP := Map.empty\<rparr>"
  from ok have p: "populate env ?ks ?t0 = (Inr (), s)" by (simp add: recreate_keycodes_eq)
  from populate_Inr[OF p]
  have des: "\<forall>k\<in>set ?ks. \<exists>c. deserialize env t (PyStr (qmk_id k)) False = Inr c" by simp
  then have "\<forall>k\<in>set ?ks. \<exists>c. deserialize env ?t0 (PyStr (qmk_id k)) False = Inr c" by simp
  from populate_ok[OF this] p
  have s: "s = ?t0\<lparr>KEYCODES_MAP := KEYCODES_MAP ?t0 ++ map_of (rev (map (\<lambda>k. (strip_kc (qmk_id k), k)) ?ks)),
                   RAWCODES_MAP := RAWCODES_MAP ?t0 ++ map_of (rev (map (\<lambda>k. (raw_value env ?t0 k, k)) ?ks))\<rparr>"
    by simp
  have s1: "KEYCODES s = ?ks" by (subst s) simp
  have s2: "KEYCODES_MAP s = map_of (rev (map (\<lambda>k. (strip_kc (qmk_id k), k)) ?ks))" by (subst s) simp
  have s3: "RAWCODES_MAP s = map_of (rev (map (\<lambda>k. (raw_value env t k, k)) ?ks))" by (subst s) simp
  have s4: "raw_value env s = raw_value env t" by (subst s) simp
  have s5: "resolve env s = resolve env t" by (subst s) simp
  have s6: "all_keycodes env s = ?ks" by (subst s) simp
  have s7: "ready env cfg s" by (subst s) (simp add: r)
  have res: "resolve env t (qmk_id k) = Inr (raw_value env t k)" if "k \<in> set ?ks" for k
  proof -
    from r that obtain a where a: "a \<in> set (registry_args cfg)" "k = mk_keycode env a"
      by (auto simp: ready_def)
    with r have "qmk_id_to_keycode t (qmk_id k) \<noteq> None"
      by (auto simp: ready_def list_all_iff entered_def)
    with r have d: "deserialize env t (PyStr (qmk_id k)) False = resolve env t (qmk_id k)"
      by (intro deserialize_registered) (simp_all add: ready_def)
    from des that obtain c where c: "deserialize env t (PyStr (qmk_id k)) False = Inr c" by blast
    then have "raw_value env t k = c" by (simp add: raw_value_def)
    moreover have "resolve env t (qmk_id k) = Inr c" using d c by metis
    ultimately show ?thesis by simp
  qed
  show ?thesis
    unfolding generation_def
    by (simp add: s1 s2 s3 s4 s5 s6 s7 list_all_iff res)
qed

lemma generation_ready_parts:
  "generation env cfg s \<Longrightarrow> wf_qmk s \<and> list_all (entered s) static_args"
  by (simp add: generation_def ready_def)

lemma reachable_generation: "reachable env s \<Longrightarrow> \<exists>cfg. generation env cfg s"
proof (induction rule: reachable.induct)
  case (imported s)
  then have "recreate_keycodes env (enter_all env static_args initial_state) = (Inr (), s)"
    by (simp add: module_init_eq)
  from recreate_keycodes_generation[OF ready_imported this] show ?case by blast
next
  case (rebuilt s kb s')
  then obtain cfg where "generation env cfg s" by blast
  then have "ready env (Some kb) (regenerate env kb s)"
    using generation_ready_parts ready_regenerate by blast
  moreover from rebuilt have "recreate_keycodes env (regenerate env kb s) = (Inr (), s')"
    by (simp add: recreate_keyboard_keycodes_eq)
  ultimately show ?case using recreate_keycodes_generation by blast
next
  case (recreated s s')
  then obtain cfg where "generation env cfg s" by blast
  then have "ready env cfg s" by (simp add: generation_def)
  with recreated show ?case using recreate_keycodes_generation by blast
qed

subsection \<open>Facts about the ids of the registry\<close>

lemma static_args_eq: "static_args = static15_args @ KEYCODES_HIDDEN_args"
  by (simp add: static_args_def static15_args_def)

lemma modifiers_masked:
  "map a_qmk_id (filter a_masked KEYCODES_MODIFIERS_args) = map (\<lambda>k. k @ ''(kc)'') modifier_keys"
  by (simp add: KEYCODES_MODIFIERS_args_def K_def modifier_keys_def)

lemma others_plain:
  "list_all (\<lambda>a. \<not> a_masked a)
     (KEYCODES_SPECIAL_args @ KEYCODES_BASIC_NUMPAD_args @ KEYCODES_BASIC_NAV_args @
      KEYCODES_BASIC_args @ KEYCODES_SHIFTED_args @ KEYCODES_ISO_args @ KEYCODES_ISO_KR_args @
      KEYCODES_BOOT_args @ KEYCODES_QUANTUM_args @
      KEYCODES_BACKLIGHT_args @ KEYCODES_MEDIA_args @ KEYCODES_MACRO_BASE_args @
      KEYCODES_MIDI_BASIC_args @ KEYCODES_MIDI_ADVANCED_args)"
  by (simp add: static_defs K_def)

lemma static_plain_no_k:
  "list_all (\<lambda>a. if a_masked a then True else CHR ''k'' \<notin> set (a_qmk_id a)) static15_args"
  unfolding static15_args_def
  by (simp add: static_defs K_def)

lemma static_plain_not_modifier:
  "list_all (\<lambda>a. if a_masked a then True else a_qmk_id a \<notin> set modifier_keys) static15_args"
  unfolding static15_args_def
  by (simp add: static_defs K_def modifier_keys_def)

lemma static_not_lt:
  "list_all (\<lambda>a. take 2 (a_qmk_id a) \<noteq> ''LT'') static15_args"
  unfolding static15_args_def
  by (simp add: static_defs K_def)

lemma modifier_keys_facts:
  "list_all (\<lambda>i. \<not> dyn_plain_shape i \<and> CHR ''('' \<notin> set i \<and> CHR ''k'' \<notin> set i \<and> take 2 i \<noteq> ''LT'')
     modifier_keys"
  by (simp add: modifier_keys_def dyn_plain_shape_def)

lemma modifier_keys_distinct: "distinct modifier_keys"
  by (simp add: modifier_keys_def)

lemma str_nat_char: "c \<in> set (str_nat n) \<Longrightarrow> c \<in> set ''0123456789''"
  using str_nat_digits by blast

lemma format_02_char: "c \<in> set (format_02 n) \<Longrightarrow> c \<in> set ''0123456789''"
  by (auto simp: format_02_def dest: str_nat_char split: if_splits)

lemma str_nat_Cons: "\<exists>d r. str_nat n = d # r \<and> d \<in> set ''0123456789''"
proof (cases "str_nat n")
  case Nil
  then show ?thesis using str_nat_nonempty by blast
next
  case (Cons d r)
  then have "d \<in> set (str_nat n)" by simp
  with Cons show ?thesis using str_nat_char by blast
qed

lemma dyn_plain_mask_args:
  assumes "CHR ''k'' \<notin> set l"
  shows "list_all dyn_plain (mask_args n l d)"
proof -
  have "dyn_plain (K (l @ ''('' @ str_nat x @ '')'') (l @ ''('' @ str_nat x @ '')'') (Some d) False None None None)"
    for x
    using assms str_nat_char[of "CHR ''k''" x]
    by (auto simp: dyn_plain_def dyn_plain_shape_def K_def)
  then show ?thesis by (simp add: mask_args_def list_all_iff)
qed

lemma dyn_plain_fn_args: "list_all dyn_plain fn_args"
  by (simp add: fn_args_def dyn_plain_def dyn_plain_shape_def K_def)

lemma dyn_plain_macro_args: "list_all dyn_plain (macro_args n)"
proof -
  have "dyn_plain (K (''M'' @ str_nat x) (''M'' @ str_nat x) None False None None None)" for x
  proof -
    obtain d r where "str_nat x = d # r" "d \<in> set ''0123456789''" using str_nat_Cons by blast
    then show ?thesis
      using str_nat_char[of "CHR ''k''" x] by (auto simp: dyn_plain_def dyn_plain_shape_def K_def)
  qed
  then show ?thesis by (simp add: macro_args_def list_all_iff)
qed

lemma dyn_plain_td: "dyn_plain (K (''TD('' @ str_nat x @ '')'') l t False None None None)"
  using str_nat_char[of "CHR ''k''" x] by (auto simp: dyn_plain_def dyn_plain_shape_def K_def)

lemma dyn_plain_tap_dance_args: "list_all dyn_plain (tap_dance_args n)"
  using dyn_plain_td by (simp add: tap_dance_args_def list_all_iff)

lemma dyn_plain_hidden: "list_all dyn_plain KEYCODES_HIDDEN_args"
  using dyn_plain_td by (simp add: KEYCODES_HIDDEN_args_def list_all_iff)

lemma dyn_plain_user: "dyn_plain (K (''USER'' @ format_02 x) l t False None None al)"
  using format_02_char[of "CHR ''k''" x] by (auto simp: dyn_plain_def dyn_plain_shape_def K_def)

lemma dyn_plain_user_args: "list_all dyn_plain user_args"
  using dyn_plain_user by (simp add: user_args_def list_all_iff)

lemma dyn_plain_custom_user_args: "list_all dyn_plain (custom_user_args c)"
  using dyn_plain_user by (auto simp: custom_user_args_def list_all_iff)

lemma dyn_plain_user_list_args: "list_all dyn_plain (user_list_args kb)"
  by (simp add: user_list_args_def dyn_plain_user_args dyn_plain_custom_user_args split: option.splits)

lemma lt_args_eq: "lt_args n = map lt_arg [0..<nat (min n 16)]"
  by (simp add: lt_args_def lt_arg_def)

lemma layer_args_cases:
  "a \<in> set (layer_args n) \<Longrightarrow> dyn_plain a \<or> (\<exists>x. x < nat (min n 16) \<and> a = lt_arg x)"
proof -
  assume a: "a \<in> set (layer_args n)"
  have m: "list_all dyn_plain (mask_args n l d)" if "l \<in> {''MO'', ''DF'', ''TG'', ''TT'', ''OSL'', ''TO''}" for l d
    using that by (intro dyn_plain_mask_args) auto
  from a consider "a \<in> set fn_args"
    | l d where "l \<in> {''MO'', ''DF'', ''TG'', ''TT'', ''OSL'', ''TO''}" "a \<in> set (mask_args n l d)"
    | "a \<in> set (lt_args n)"
    by (auto simp: layer_args_def split: if_splits)
  then show ?thesis
  proof cases
    case 1
    then show ?thesis using dyn_plain_fn_args by (auto simp: list_all_iff)
  next
    case 2
    then show ?thesis using m by (auto simp: list_all_iff)
  next
    case 3
    then show ?thesis by (auto simp: lt_args_eq)
  qed
qed

lemma static15_subset: "set static15_args \<subseteq> set static_args"
  by (auto simp: static_args_eq)

lemma registry_cases:
  assumes "a \<in> set (registry_args cfg)"
  shows "a \<in> set static15_args \<or> dyn_plain a \<or> (\<exists>x. a = lt_arg x)"
proof -
  from assms have "a \<in> set static15_args \<or> a \<in> set KEYCODES_HIDDEN_args \<or>
      (\<exists>kb. a \<in> set (layer_args (layers kb)) \<or> a \<in> set (tap_dance_args (tap_dance_count kb)) \<or>
            a \<in> set (macro_args (macro_count kb)) \<or> a \<in> set (user_list_args kb))"
    by (auto simp: registry_args_def static15_args_def midi_args_def split: option.splits if_splits)
  moreover have "dyn_plain a" if "a \<in> set KEYCODES_HIDDEN_args"
    using that dyn_plain_hidden by (auto simp: list_all_iff)
  moreover have "dyn_plain a" if "a \<in> set (tap_dance_args n)" for n
    using that dyn_plain_tap_dance_args by (auto simp: list_all_iff)
  moreover have "dyn_plain a" if "a \<in> set (macro_args n)" for n
    using that dyn_plain_macro_args by (auto simp: list_all_iff)
  moreover have "dyn_plain a" if "a \<in> set (user_list_args kb)" for kb
    using that dyn_plain_user_list_args by (auto simp: list_all_iff)
  moreover have "dyn_plain a \<or> (\<exists>x. a = lt_arg x)" if "a \<in> set (layer_args n)" for n
    using that layer_args_cases by blast
  ultimately show ?thesis by blast
qed

text \<open>The four kinds of constructor call of a registry, with the key each is filed under.\<close>

lemma strip_dyn_plain: "dyn_plain a \<Longrightarrow> strip_kc (a_qmk_id a) = a_qmk_id a"
  by (rule replace_absent[of "CHR ''k''"]) (simp_all add: dyn_plain_def)

lemma lt_arg_fields:
  "a_qmk_id (lt_arg x) = ''LT'' @ str_nat x @ ''(kc)''" "a_masked (lt_arg x)"
  by (simp_all add: lt_arg_def K_def)

lemma strip_lt: "strip_kc (a_qmk_id (lt_arg x)) = ''LT'' @ str_nat x"
proof -
  have "CHR ''('' \<notin> set (''LT'' @ str_nat x)" using str_nat_char[of "CHR ''(''" x] by auto
  from replace_kc_suffix[OF this] show ?thesis by (simp add: lt_arg_fields)
qed

lemma static_plain:
  assumes "a \<in> set static15_args" "\<not> a_masked a"
  shows "CHR ''k'' \<notin> set (a_qmk_id a)" "strip_kc (a_qmk_id a) = a_qmk_id a"
    "a_qmk_id a \<notin> set modifier_keys" "take 2 (a_qmk_id a) \<noteq> ''LT''"
proof -
  from assms static_plain_no_k show k: "CHR ''k'' \<notin> set (a_qmk_id a)"
    by (auto simp: list_all_iff)
  then show "strip_kc (a_qmk_id a) = a_qmk_id a"
    by (intro replace_absent[of "CHR ''k''"]) simp_all
  from assms static_plain_not_modifier show "a_qmk_id a \<notin> set modifier_keys"
    by (auto simp: list_all_iff)
  from assms static_not_lt show "take 2 (a_qmk_id a) \<noteq> ''LT''"
    by (auto simp: list_all_iff)
qed

lemma static_masked_in_modifiers:
  assumes "a \<in> set static15_args" "a_masked a"
  shows "a \<in> set (filter a_masked KEYCODES_MODIFIERS_args)"
  using assms others_plain by (auto simp: static15_args_def list_all_iff)

lemma static_masked:
  assumes "a \<in> set static15_args" "a_masked a"
  shows "\<exists>k\<in>set modifier_keys. a_qmk_id a = k @ ''(kc)'' \<and> strip_kc (a_qmk_id a) = k"
proof -
  from assms have "a_qmk_id a \<in> set (map a_qmk_id (filter a_masked KEYCODES_MODIFIERS_args))"
    using static_masked_in_modifiers by (simp only: set_map) blast
  then obtain k where k: "k \<in> set modifier_keys" "a_qmk_id a = k @ ''(kc)''"
    by (auto simp: modifiers_masked)
  with modifier_keys_facts have "CHR ''('' \<notin> set k" by (auto simp: list_all_iff)
  from replace_kc_suffix[OF this] k show ?thesis by auto
qed

lemma modifier_key_facts:
  assumes "k \<in> set modifier_keys"
  shows "\<not> dyn_plain_shape k" "CHR ''('' \<notin> set k" "CHR ''k'' \<notin> set k" "take 2 k \<noteq> ''LT''"
  using assms modifier_keys_facts by (auto simp: list_all_iff)

lemma modifiers_inj:
  assumes "a \<in> set (filter a_masked KEYCODES_MODIFIERS_args)"
    and "b \<in> set (filter a_masked KEYCODES_MODIFIERS_args)" and "a_qmk_id a = a_qmk_id b"
  shows "a = b"
proof -
  have "inj_on (\<lambda>k. k @ ''(kc)'') (set modifier_keys)" by (simp add: inj_on_def)
  then have "distinct (map (\<lambda>k. k @ ''(kc)'') modifier_keys)"
    using modifier_keys_distinct by (simp add: distinct_map)
  then have "distinct (map a_qmk_id (filter a_masked KEYCODES_MODIFIERS_args))"
    by (simp only: modifiers_masked)
  then have "inj_on a_qmk_id (set (filter a_masked KEYCODES_MODIFIERS_args))"
    by (simp only: distinct_map)
  with assms show ?thesis by (meson inj_onD)
qed

lemma lt_key_not_dyn_shape: "\<not> dyn_plain_shape (''LT'' @ str_nat x)"
  using str_nat_char[of "CHR ''(''" x] by (auto simp: dyn_plain_shape_def)

text \<open>No key contains the letter \<open>k\<close>; the key of a descriptor that is not masked is its
  id; the id of a masked one is its key followed by \<open>(kc)\<close>, and the key has no bracket.\<close>

lemma key_no_k:
  assumes "a \<in> set (registry_args cfg)"
  shows "CHR ''k'' \<notin> set (strip_kc (a_qmk_id a))"
proof -
  from registry_cases[OF assms] consider "a \<in> set static15_args" "\<not> a_masked a"
    | "a \<in> set static15_args" "a_masked a" | "dyn_plain a" | x where "a = lt_arg x"
    by blast
  then show ?thesis
  proof cases
    case 1
    then show ?thesis using static_plain by simp
  next
    case 2
    then show ?thesis using static_masked modifier_key_facts by fastforce
  next
    case 3
    then show ?thesis by (simp add: strip_dyn_plain) (simp add: dyn_plain_def)
  next
    case 4
    then have "strip_kc (a_qmk_id a) = ''LT'' @ str_nat x" by (simp add: strip_lt)
    then show ?thesis using str_nat_char[of "CHR ''k''" x] by auto
  qed
qed

lemma key_plain:
  assumes "a \<in> set (registry_args cfg)" "\<not> a_masked a"
  shows "strip_kc (a_qmk_id a) = a_qmk_id a"
proof -
  from registry_cases[OF assms(1)] assms(2) consider "a \<in> set static15_args" | "dyn_plain a"
    by (auto simp: lt_arg_fields(2))
  then show ?thesis using assms(2) static_plain strip_dyn_plain by cases auto
qed

lemma key_masked:
  assumes "a \<in> set (registry_args cfg)" "a_masked a"
  shows "a_qmk_id a = strip_kc (a_qmk_id a) @ ''(kc)'' \<and> CHR ''('' \<notin> set (strip_kc (a_qmk_id a))"
proof -
  from registry_cases[OF assms(1)] assms(2) consider "a \<in> set static15_args" | x where "a = lt_arg x"
    by (auto simp: dyn_plain_def)
  then show ?thesis
  proof cases
    case 1
    with assms(2) show ?thesis using static_masked modifier_key_facts by fastforce
  next
    case 2
    then have k: "strip_kc (a_qmk_id a) = ''LT'' @ str_nat x" by (simp add: strip_lt)
    from 2 have "a_qmk_id a = (''LT'' @ str_nat x) @ ''(kc)''" by (simp add: lt_arg_fields)
    with k show ?thesis using str_nat_char[of "CHR ''(''" x] by auto
  qed
qed

lemma key_masked_unique:
  assumes a: "a \<in> set (registry_args cfg)" "a_masked a"
    and b: "b \<in> set (registry_args cfg)" and eq: "strip_kc (a_qmk_id b) = strip_kc (a_qmk_id a)"
  shows "b = a"
proof -
  from registry_cases[OF b] consider
      (sp) "b \<in> set static15_args" "\<not> a_masked b"
    | (sm) "b \<in> set static15_args" "a_masked b"
    | (dp) "dyn_plain b" | (lt) y where "b = lt_arg y"
    by blast
  note bcases = this
  from registry_cases[OF a(1)] a(2) consider (A) "a \<in> set static15_args" | (B) x where "a = lt_arg x"
    by (auto simp: dyn_plain_def)
  then show ?thesis
  proof cases
    case A
    with a(2) obtain k where k: "k \<in> set modifier_keys" "a_qmk_id a = k @ ''(kc)''"
        "strip_kc (a_qmk_id a) = k"
      using static_masked by blast
    from bcases show ?thesis
    proof cases
      case sp
      with eq k show ?thesis using static_plain(2,3) by metis
    next
      case sm
      then obtain k' where k': "k' \<in> set modifier_keys" "a_qmk_id b = k' @ ''(kc)''"
          "strip_kc (a_qmk_id b) = k'"
        using static_masked by blast
      with k eq have "a_qmk_id b = a_qmk_id a" by simp
      with A a(2) sm show ?thesis using modifiers_inj static_masked_in_modifiers by blast
    next
      case dp
      with eq k have "dyn_plain_shape k" by (simp add: strip_dyn_plain) (simp add: dyn_plain_def)
      with k(1) show ?thesis using modifier_key_facts(1) by blast
    next
      case lt
      with eq k have "k = ''LT'' @ str_nat y" by (simp add: strip_lt)
      with k(1) show ?thesis using modifier_key_facts(4) by fastforce
    qed
  next
    case B
    then have ka: "strip_kc (a_qmk_id a) = ''LT'' @ str_nat x" by (simp add: strip_lt)
    from bcases show ?thesis
    proof cases
      case sp
      with eq ka have "a_qmk_id b = ''LT'' @ str_nat x" using static_plain(2) by metis
      then have "take 2 (a_qmk_id b) = ''LT''" by simp
      with sp show ?thesis using static_plain(4) by blast
    next
      case sm
      then obtain k' where k': "k' \<in> set modifier_keys" "strip_kc (a_qmk_id b) = k'"
        using static_masked by blast
      with eq ka have "take 2 k' = ''LT''" by simp
      with k'(1) show ?thesis using modifier_key_facts(4) by blast
    next
      case dp
      with eq ka have "dyn_plain_shape (''LT'' @ str_nat x)"
        by (simp add: strip_dyn_plain) (simp add: dyn_plain_def)
      then show ?thesis using lt_key_not_dyn_shape by blast
    next
      case lt
      with eq ka have "str_nat y = str_nat x" by (simp add: strip_lt)
      then have "y = x" by (rule str_nat_inj)
      with lt B show ?thesis by simp
    qed
  qed
qed

subsection \<open>Reading the two dictionaries of a generation\<close>

lemma map_of_rev_mem:
  assumes "x \<in> f ` set ks"
  shows "\<exists>k\<in>set ks. map_of (rev (map (\<lambda>k. (f k, k)) ks)) x = Some k \<and> f k = x"
proof -
  from assms have "x \<in> fst ` set (rev (map (\<lambda>k. (f k, k)) ks))" by force
  then obtain k where k: "map_of (rev (map (\<lambda>k. (f k, k)) ks)) x = Some k"
    by (metis map_of_eq_None_iff not_Some_eq)
  then have "(x, k) \<in> set (rev (map (\<lambda>k. (f k, k)) ks))" by (rule map_of_SomeD)
  then have "k \<in> set ks \<and> f k = x" by auto
  with k show ?thesis by blast
qed


lemma map_of_rev_dom: "dom (map_of (rev (map (\<lambda>k. (f k, k)) ks))) = f ` set ks"
  by (force simp: dom_map_of_conv_image_fst)

lemma generation_keycodes:
  "generation env cfg s \<Longrightarrow> KEYCODES s = map (mk_keycode env) (registry_args cfg)"
  by (simp add: generation_def ready_def)

lemma generation_entered:
  "generation env cfg s \<Longrightarrow> a \<in> set (registry_args cfg) \<Longrightarrow> entered s a"
  by (simp add: generation_def ready_def list_all_iff)

lemma generation_map:
  "generation env cfg s \<Longrightarrow>
     KEYCODES_MAP s = map_of (rev (map (\<lambda>k. (strip_kc (qmk_id k), k)) (KEYCODES s)))"
  by (simp add: generation_def)




text \<open>What a rebuild leaves in the fields it does not file descriptors in.\<close>

lemma rebuild_snd:
  "\<exists>m w. snd (recreate_keyboard_keycodes env kb s) =
     (regenerate env kb s)\<lparr>KEYCODES := all_keycodes env (regenerate env kb s),
        KEYCODES_MAP := m, RAWCODES_MAP := w\<rparr>"
  using recreate_keycodes_frame[of env "regenerate env kb s"]
  by (simp add: recreate_keyboard_keycodes_eq)

lemma rebuild_fields:
  "masked_keycodes (snd (recreate_keyboard_keycodes env kb s)) = M_of (dyn_args kb) (masked_keycodes s)"
  "KEYCODES_USER (snd (recreate_keyboard_keycodes env kb s)) = map (mk_keycode env) (user_list_args kb)"
  "KEYCODES (snd (recreate_keyboard_keycodes env kb s)) = map (mk_keycode env) (registry_args (Some kb))"
  "protocol (snd (recreate_keyboard_keycodes env kb s)) = vial_protocol kb"
proof -
  obtain m w where e: "snd (recreate_keyboard_keycodes env kb s) =
     (regenerate env kb s)\<lparr>KEYCODES := all_keycodes env (regenerate env kb s),
        KEYCODES_MAP := m, RAWCODES_MAP := w\<rparr>"
    using rebuild_snd by blast
  show "masked_keycodes (snd (recreate_keyboard_keycodes env kb s)) = M_of (dyn_args kb) (masked_keycodes s)"
    by (subst e) (simp add: regenerate_def)
  show "KEYCODES_USER (snd (recreate_keyboard_keycodes env kb s)) = map (mk_keycode env) (user_list_args kb)"
    by (subst e) (simp add: regenerate_def)
  show "KEYCODES (snd (recreate_keyboard_keycodes env kb s)) = map (mk_keycode env) (registry_args (Some kb))"
    by (subst e) (simp add: all_keycodes_regenerate)
  show "protocol (snd (recreate_keyboard_keycodes env kb s)) = vial_protocol kb"
    by (subst e) (simp add: regenerate_def)
qed

subsection \<open>The sample states\<close>

lemma deserialize_total:
  assumes "\<forall>i. kc_table env s i \<noteq> None"
  shows "\<exists>c. deserialize env s v False = Inr c"
proof (cases v)
  case (PyInt i)
  then show ?thesis by (simp add: deserialize_def)
next
  case (PyStr t)
  show ?thesis
  proof (cases "qmk_id_to_keycode s t")
    case None
    with PyStr show ?thesis by (cases "anykc_decode env t") (simp_all add: deserialize_def)
  next
    case (Some k)
    from assms obtain c where "kc_table env s (qmk_id k) = Some c" by fastforce
    with PyStr Some show ?thesis by (simp add: deserialize_def resolve_def)
  qed
qed

lemma kc_table_upd [simp]:
  "kc_table env (s\<lparr>KEYCODES := l\<rparr>) = kc_table env s"
  "kc_table env (s\<lparr>KEYCODES_MAP := m\<rparr>) = kc_table env s"
  "kc_table env (s\<lparr>RAWCODES_MAP := w\<rparr>) = kc_table env s"
  by (simp_all add: kc_table_def)

lemma recreate_keycodes_total:
  assumes "\<forall>i. kc_table env t i \<noteq> None"
  shows "fst (recreate_keycodes env t) = Inr ()"
proof -
  let ?t0 = "t\<lparr>KEYCODES := all_keycodes env t, KEYCODES_MAP := Map.empty, RAWCODES_MAP := Map.empty\<rparr>"
  from assms have "\<forall>i. kc_table env ?t0 i \<noteq> None" by simp
  then have "\<forall>k\<in>set (all_keycodes env t). \<exists>c. deserialize env ?t0 (PyStr (qmk_id k)) False = Inr c"
    using deserialize_total by blast
  from populate_ok[OF this] show ?thesis by (simp add: recreate_keycodes_eq)
qed

lemma sample_table: "kc_table sample_env s i \<noteq> None"
  by (simp add: kc_table_def sample_env_def sample_kc_def)

lemma sample_import_ok: "module_init sample_env = (Inr (), sample_import)"
proof -
  have "fst (module_init sample_env) = Inr ()"
    by (simp add: module_init_eq recreate_keycodes_total sample_table)
  then show ?thesis by (simp add: sample_import_def prod_eq_iff)
qed

lemma sample_rebuild_ok:
  "recreate_keyboard_keycodes sample_env kb s = (Inr (), snd (recreate_keyboard_keycodes sample_env kb s))"
proof -
  have "fst (recreate_keyboard_keycodes sample_env kb s) = Inr ()"
    by (simp add: recreate_keyboard_keycodes_eq recreate_keycodes_total sample_table)
  then show ?thesis by (simp add: prod_eq_iff)
qed

lemma reachable_sample_import: "reachable sample_env sample_import"
  by (rule reachable.imported) (rule sample_import_ok)

lemma reachable_sample_rebuild:
  "reachable sample_env s \<Longrightarrow> reachable sample_env (snd (recreate_keyboard_keycodes sample_env kb s))"
  by (erule reachable.rebuilt) (rule sample_rebuild_ok)

lemma reachable_sample_state: "reachable sample_env sample_state"
  unfolding sample_state_def by (intro reachable_sample_rebuild reachable_sample_import)

lemma reachable_shrunk_state: "reachable sample_env shrunk_state"
  unfolding shrunk_state_def by (intro reachable_sample_rebuild reachable_sample_import)

lemma reachable_empty_custom_state: "reachable sample_env empty_custom_state"
  unfolding empty_custom_state_def by (intro reachable_sample_rebuild reachable_sample_import)

lemma generation_rebuild:
  assumes "reachable env s" and "recreate_keyboard_keycodes env kb s = (Inr (), s')"
  shows "generation env (Some kb) s'"
proof -
  from assms(1) obtain cfg where "generation env cfg s" using reachable_generation by blast
  then have "ready env (Some kb) (regenerate env kb s)"
    using generation_ready_parts ready_regenerate by blast
  moreover from assms(2) have "recreate_keycodes env (regenerate env kb s) = (Inr (), s')"
    by (simp add: recreate_keyboard_keycodes_eq)
  ultimately show ?thesis by (rule recreate_keycodes_generation)
qed

lemma generation_sample_state: "generation sample_env (Some sample_keyboard) sample_state"
  unfolding sample_state_def
  by (rule generation_rebuild[OF reachable_sample_import sample_rebuild_ok])


lemma masked_registry_cases:
  assumes "a \<in> set (registry_args cfg)" "a_masked a"
  shows "a \<in> set (filter a_masked KEYCODES_MODIFIERS_args) \<or>
         (\<exists>kb x. cfg = Some kb \<and> x < nat (min (layers kb) 16) \<and> a = lt_arg x)"
proof -
  have np: "\<not> dyn_plain a" using assms(2) by (simp add: dyn_plain_def)
  have h: "a \<notin> set KEYCODES_HIDDEN_args" using np dyn_plain_hidden by (auto simp: list_all_iff)
  have t: "a \<notin> set (tap_dance_args n)" for n
    using np dyn_plain_tap_dance_args by (auto simp: list_all_iff)
  have m: "a \<notin> set (macro_args n)" for n
    using np dyn_plain_macro_args by (auto simp: list_all_iff)
  have u: "a \<notin> set (user_list_args kb)" for kb
    using np dyn_plain_user_list_args by (auto simp: list_all_iff)
  have l: "\<exists>x. x < nat (min n 16) \<and> a = lt_arg x" if "a \<in> set (layer_args n)" for n
    using that np layer_args_cases by blast
  have s: "a \<in> set (filter a_masked KEYCODES_MODIFIERS_args)" if "a \<in> set static15_args"
    using that assms(2) by (rule static_masked_in_modifiers)
  from assms(1) have "a \<in> set static15_args \<or> a \<in> set KEYCODES_HIDDEN_args \<or>
      (\<exists>kb. cfg = Some kb \<and> (a \<in> set (layer_args (layers kb)) \<or> a \<in> set (tap_dance_args (tap_dance_count kb)) \<or>
            a \<in> set (macro_args (macro_count kb)) \<or> a \<in> set (user_list_args kb)))"
    by (auto simp: registry_args_def static15_args_def midi_args_def split: option.splits if_splits)
  with h t m u l s show ?thesis by blast
qed

lemma str_nat_small: "n < 10 \<Longrightarrow> str_nat n = [digit_char n]"
  by (subst str_nat.simps) simp

lemma str_nat_1 [simp]: "str_nat (Suc 0) = ''1''" "str_nat 1 = ''1''" "str_nat 0 = ''0''"
  by (simp_all add: str_nat_small digit_char_def)

text \<open>\<open>find\<close> on a key of the registry returns the descriptor filed last under it.\<close>

lemma find_keycode_key:
  assumes g: "generation env cfg s" and a: "a \<in> set (registry_args cfg)"
  shows "\<exists>b\<in>set (registry_args cfg).
           find_keycode s (strip_kc (a_qmk_id a)) = Some (mk_keycode env b) \<and>
           strip_kc (a_qmk_id b) = strip_kc (a_qmk_id a)"
proof -
  let ?f = "\<lambda>k. strip_kc (qmk_id k)"
  from a have "CHR ''k'' \<notin> set (strip_kc (a_qmk_id a))" by (rule key_no_k)
  then have nk: "strip_kc (a_qmk_id a) \<noteq> ''kc''" by auto
  from g a have "strip_kc (a_qmk_id a) \<in> ?f ` set (KEYCODES s)"
    by (force simp: generation_keycodes)
  from map_of_rev_mem[OF this] obtain k where k: "k \<in> set (KEYCODES s)"
      "map_of (rev (map (\<lambda>k. (?f k, k)) (KEYCODES s))) (strip_kc (a_qmk_id a)) = Some k"
      "?f k = strip_kc (a_qmk_id a)"
    by blast
  from g k(1) obtain b where b: "b \<in> set (registry_args cfg)" "k = mk_keycode env b"
    by (auto simp: generation_keycodes)
  from g k(2) nk have "find_keycode s (strip_kc (a_qmk_id a)) = Some k"
    by (simp add: find_keycode_def generation_map)
  with b k(3) show ?thesis by auto
qed

lemma same_key_same_id:
  assumes a: "a \<in> set (registry_args cfg)" and b: "b \<in> set (registry_args cfg)"
    and eq: "strip_kc (a_qmk_id b) = strip_kc (a_qmk_id a)"
  shows "a_qmk_id b = a_qmk_id a"
proof (cases "a_masked a")
  case True
  from a True b eq have "b = a" by (rule key_masked_unique)
  then show ?thesis by simp
next
  case na: False
  show ?thesis
  proof (cases "a_masked b")
    case True
    from b True a eq[symmetric] have "a = b" by (rule key_masked_unique)
    then show ?thesis by simp
  next
    case False
    with na a b eq show ?thesis by (simp add: key_plain)
  qed
qed

lemma find_keycode_no_key:
  assumes g: "generation env cfg s" and "i \<noteq> ''kc''"
    and "\<And>a. a \<in> set (registry_args cfg) \<Longrightarrow> strip_kc (a_qmk_id a) \<noteq> i"
  shows "find_keycode s i = None"
proof -
  have "i \<notin> (\<lambda>k. strip_kc (qmk_id k)) ` set (KEYCODES s)"
  proof
    assume "i \<in> (\<lambda>k. strip_kc (qmk_id k)) ` set (KEYCODES s)"
    then obtain a where "a \<in> set (registry_args cfg)" "strip_kc (a_qmk_id a) = i"
      using g by (auto simp: generation_keycodes)
    with assms(3) show False by blast
  qed
  moreover from g have "KEYCODES_MAP s = map_of (rev (map (\<lambda>k. (strip_kc (qmk_id k), k)) (KEYCODES s)))"
    by (rule generation_map)
  then have "dom (KEYCODES_MAP s) = (\<lambda>k. strip_kc (qmk_id k)) ` set (KEYCODES s)"
    by (simp only: map_of_rev_dom)
  ultimately have "i \<notin> dom (KEYCODES_MAP s)" by simp
  with assms(2) show ?thesis by (auto simp: find_keycode_def)
qed

lemma hidden_mem: "n < 256 \<Longrightarrow>
  K (''TD('' @ str_nat n @ '')'') (''TD('' @ str_nat n @ '')'') None False None None None
    \<in> set (registry_args cfg)"
  by (simp add: registry_args_def KEYCODES_HIDDEN_args_def)

subsection \<open>The class dictionaries in reachable states\<close>

lemma recreate_class_fields:
  "masked_keycodes (snd (recreate_keycodes env s)) = masked_keycodes s"
  "qmk_id_to_keycode (snd (recreate_keycodes env s)) = qmk_id_to_keycode s"
proof -
  from recreate_keycodes_frame[of env s] obtain m w where
    "snd (recreate_keycodes env s) = s\<lparr>KEYCODES := all_keycodes env s, KEYCODES_MAP := m, RAWCODES_MAP := w\<rparr>"
    by blast
  then show "masked_keycodes (snd (recreate_keycodes env s)) = masked_keycodes s"
    and "qmk_id_to_keycode (snd (recreate_keycodes env s)) = qmk_id_to_keycode s"
    by simp_all
qed

lemma import_class_fields:
  "masked_keycodes (snd (module_init env)) = M_of static_args {}"
  "qmk_id_to_keycode (snd (module_init env)) = Q_of env static_args Map.empty"
  by (simp_all add: module_init_eq recreate_class_fields initial_state_def)

lemma rebuild_class_fields:
  "qmk_id_to_keycode (snd (recreate_keyboard_keycodes env kb s)) =
     Q_of env (dyn_args kb) (qmk_id_to_keycode s)"
  by (simp add: recreate_keyboard_keycodes_eq recreate_class_fields regenerate_def)

lemma hidden_plain: "a \<in> set KEYCODES_HIDDEN_args \<Longrightarrow> dyn_plain a"
  using dyn_plain_hidden by (simp add: list_all_iff)

lemma static_masked_keys:
  "(\<lambda>a. strip_kc (a_qmk_id a)) ` {a \<in> set static_args. a_masked a} = set modifier_keys"
proof (intro equalityI subsetI)
  fix x assume "x \<in> (\<lambda>a. strip_kc (a_qmk_id a)) ` {a \<in> set static_args. a_masked a}"
  then obtain a where a: "a \<in> set static_args" "a_masked a" "x = strip_kc (a_qmk_id a)" by blast
  from a(1,2) have "a \<in> set static15_args"
    using hidden_plain[of a] by (auto simp: static_args_eq dyn_plain_def)
  from static_masked[OF this a(2)] a(3) show "x \<in> set modifier_keys" by auto
next
  fix k assume k: "k \<in> set modifier_keys"
  then have "k @ ''(kc)'' \<in> set (map a_qmk_id (filter a_masked KEYCODES_MODIFIERS_args))"
    by (simp only: modifiers_masked set_map) blast
  then obtain a where a: "a \<in> set KEYCODES_MODIFIERS_args" "a_masked a" "a_qmk_id a = k @ ''(kc)''"
    by auto
  from a(1) have "a \<in> set static_args" by (simp add: static_args_eq static15_args_def)
  moreover from k a(3) have "strip_kc (a_qmk_id a) = k"
    using replace_kc_suffix modifier_key_facts(2) by simp
  ultimately show "k \<in> (\<lambda>a. strip_kc (a_qmk_id a)) ` {a \<in> set static_args. a_masked a}"
    using a(2) by force
qed

lemma dyn_args_cases:
  assumes "a \<in> set (dyn_args kb)"
  shows "dyn_plain a \<or> (\<exists>x. x < nat (min (layers kb) 16) \<and> a = lt_arg x)"
proof -
  from assms consider "a \<in> set (layer_args (layers kb))" | "a \<in> set (macro_args (macro_count kb))"
    | "a \<in> set (tap_dance_args (tap_dance_count kb))" | "a \<in> set (user_list_args kb)"
    by (auto simp: dyn_args_def)
  then show ?thesis
  proof cases
    case 1 then show ?thesis using layer_args_cases by blast
  next
    case 2 then show ?thesis using dyn_plain_macro_args by (simp add: list_all_iff)
  next
    case 3 then show ?thesis using dyn_plain_tap_dance_args by (simp add: list_all_iff)
  next
    case 4 then show ?thesis using dyn_plain_user_list_args by (simp add: list_all_iff)
  qed
qed

lemma lt_arg_mem: "x < nat (min (layers kb) 16) \<Longrightarrow> lt_arg x \<in> set (dyn_args kb)"
  by (simp add: dyn_args_def layer_args_def lt_args_eq)

lemma dyn_masked_keys:
  "(\<lambda>a. strip_kc (a_qmk_id a)) ` {a \<in> set (dyn_args kb). a_masked a} =
     (\<lambda>x. ''LT'' @ str_nat x) ` {..<nat (min (layers kb) 16)}"
proof (intro equalityI subsetI)
  fix i assume "i \<in> (\<lambda>a. strip_kc (a_qmk_id a)) ` {a \<in> set (dyn_args kb). a_masked a}"
  then obtain a where a: "a \<in> set (dyn_args kb)" "a_masked a" "i = strip_kc (a_qmk_id a)" by blast
  from dyn_args_cases[OF a(1)] a(2) obtain x where "x < nat (min (layers kb) 16)" "a = lt_arg x"
    by (auto simp: dyn_plain_def)
  with a(3) show "i \<in> (\<lambda>x. ''LT'' @ str_nat x) ` {..<nat (min (layers kb) 16)}"
    by (simp add: strip_lt)
next
  fix i assume "i \<in> (\<lambda>x. ''LT'' @ str_nat x) ` {..<nat (min (layers kb) 16)}"
  then obtain x where x: "x < nat (min (layers kb) 16)" "i = ''LT'' @ str_nat x" by auto
  from x(1) have "lt_arg x \<in> set (dyn_args kb)" by (rule lt_arg_mem)
  moreover have "a_masked (lt_arg x)" by (rule lt_arg_fields)
  moreover from x(2) have "i = strip_kc (a_qmk_id (lt_arg x))" by (simp only: strip_lt)
  ultimately show "i \<in> (\<lambda>a. strip_kc (a_qmk_id a)) ` {a \<in> set (dyn_args kb). a_masked a}"
    by blast
qed

lemma reachable_masked_bounds:
  assumes "reachable env s"
  shows "set modifier_keys \<subseteq> masked_keycodes s \<and>
         masked_keycodes s \<subseteq> set modifier_keys \<union> (\<lambda>x. ''LT'' @ str_nat x) ` {..<16}"
  using assms
proof (induction rule: reachable.induct)
  case (imported s)
  have "masked_keycodes (snd (module_init env)) = {} \<union> set modifier_keys"
    by (simp only: import_class_fields M_of_eq static_masked_keys)
  moreover from imported have "snd (module_init env) = s" by simp
  ultimately have "masked_keycodes s = set modifier_keys" by simp
  then show ?case by simp
next
  case (rebuilt s kb s')
  have "masked_keycodes (snd (recreate_keyboard_keycodes env kb s)) =
      masked_keycodes s \<union> (\<lambda>x. ''LT'' @ str_nat x) ` {..<nat (min (layers kb) 16)}"
    by (simp only: rebuild_fields M_of_eq dyn_masked_keys)
  moreover from rebuilt.hyps(2) have "snd (recreate_keyboard_keycodes env kb s) = s'" by simp
  ultimately have eq: "masked_keycodes s' =
      masked_keycodes s \<union> (\<lambda>x. ''LT'' @ str_nat x) ` {..<nat (min (layers kb) 16)}" by simp
  have "{..<nat (min (layers kb) 16)} \<subseteq> {..<16::nat}" by auto
  then have up: "(\<lambda>x. ''LT'' @ str_nat x) ` {..<nat (min (layers kb) 16)} \<subseteq>
      (\<lambda>x. ''LT'' @ str_nat x) ` {..<16}" by (rule image_mono)
  from rebuilt.IH have "set modifier_keys \<subseteq> masked_keycodes s" by (rule conjunct1)
  then have 1: "set modifier_keys \<subseteq> masked_keycodes s'"
    unfolding eq by (rule le_supI1)
  from rebuilt.IH have "masked_keycodes s \<subseteq>
      set modifier_keys \<union> (\<lambda>x. ''LT'' @ str_nat x) ` {..<16}" by (rule conjunct2)
  moreover from up have "(\<lambda>x. ''LT'' @ str_nat x) ` {..<nat (min (layers kb) 16)} \<subseteq>
      set modifier_keys \<union> (\<lambda>x. ''LT'' @ str_nat x) ` {..<16}" by (rule le_supI2)
  ultimately have 2: "masked_keycodes s' \<subseteq>
      set modifier_keys \<union> (\<lambda>x. ''LT'' @ str_nat x) ` {..<16}"
    unfolding eq by (rule Un_least)
  from 1 2 show ?case ..
next
  case (recreated s s')
  then have "snd (recreate_keycodes env s) = s'" by simp
  then have "masked_keycodes s' = masked_keycodes s" using recreate_class_fields(1)[of env s] by simp
  with recreated.IH show ?case by simp
qed

subsection \<open>The masked prefixes are those of the descriptors constructed so far\<close>

lemma ran_upd_keyed:
  assumes "\<forall>i d. m i = Some d \<longrightarrow> f d = i"
  shows "ran (m(i \<mapsto> k)) = insert k (ran m - (case m i of None \<Rightarrow> {} | Some d \<Rightarrow> {d}))"
proof -
  have "ran (m(i \<mapsto> k)) = insert k (ran (m(i := None)))"
    using ran_map_upd[of "m(i := None)" i k] by simp
  moreover have "ran (m(i := None)) = ran m - (case m i of None \<Rightarrow> {} | Some d \<Rightarrow> {d})"
  proof (intro equalityI subsetI)
    fix d assume "d \<in> ran (m(i := None))"
    then obtain j where j: "j \<noteq> i" "m j = Some d" by (auto simp: ran_def split: if_splits)
    with assms have "f d = j" by blast
    with j assms have "m i \<noteq> Some d" by auto
    with j show "d \<in> ran m - (case m i of None \<Rightarrow> {} | Some d \<Rightarrow> {d})"
      by (auto simp: ran_def split: option.splits)
  next
    fix d assume d: "d \<in> ran m - (case m i of None \<Rightarrow> {} | Some d \<Rightarrow> {d})"
    then obtain j where j: "m j = Some d" by (auto simp: ran_def)
    with d have "j \<noteq> i" by (auto split: option.splits)
    with j show "d \<in> ran (m(i := None))" by (auto simp: ran_def)
  qed
  ultimately show ?thesis by simp
qed

lemma masked_image_insert:
  "(\<lambda>d. strip_kc (qmk_id d)) ` {d \<in> insert (mk_keycode env a) X. masked d} =
     (if a_masked a
      then insert (strip_kc (a_qmk_id a)) ((\<lambda>d. strip_kc (qmk_id d)) ` {d \<in> X. masked d})
      else (\<lambda>d. strip_kc (qmk_id d)) ` {d \<in> X. masked d})"
proof -
  have "{d \<in> insert k X. masked d} =
      (if masked k then insert k {d \<in> X. masked d} else {d \<in> X. masked d})" for k
    by auto
  then show ?thesis by simp
qed

lemma image_minus_one:
  "insert (f d0) (f ` {d \<in> X - {d0}. P d}) = insert (f d0) (f ` {d \<in> X. P d})"
  by auto

lemma masked_step:
  assumes wf: "\<forall>i d. m i = Some d \<longrightarrow> qmk_id d = i \<and> (masked d \<longleftrightarrow> CHR ''k'' \<in> set i)"
    and a: "a_masked a \<longleftrightarrow> CHR ''k'' \<in> set (a_qmk_id a)"
    and S: "S = (\<lambda>d. strip_kc (qmk_id d)) ` {d \<in> ran m. masked d}"
  shows "(if a_masked a then insert (strip_kc (a_qmk_id a)) S else S) =
           (\<lambda>d. strip_kc (qmk_id d)) ` {d \<in> ran (m(a_qmk_id a \<mapsto> mk_keycode env a)). masked d}"
proof -
  let ?i = "a_qmk_id a" and ?k = "mk_keycode env a"
  let ?f = "\<lambda>d. strip_kc (qmk_id d)"
  from wf have "\<forall>i d. m i = Some d \<longrightarrow> qmk_id d = i" by blast
  then have r: "ran (m(?i \<mapsto> ?k)) = insert ?k (ran m - (case m ?i of None \<Rightarrow> {} | Some d \<Rightarrow> {d}))"
    by (rule ran_upd_keyed)
  show ?thesis
  proof (cases "m ?i")
    case None
    with r have "ran (m(?i \<mapsto> ?k)) = insert ?k (ran m)" by simp
    then show ?thesis by (simp only: masked_image_insert S)
  next
    case (Some d0)
    with wf have d0: "qmk_id d0 = ?i" "masked d0 \<longleftrightarrow> CHR ''k'' \<in> set ?i" by blast+
    from Some r have r': "ran (m(?i \<mapsto> ?k)) = insert ?k (ran m - {d0})" by simp
    show ?thesis
    proof (cases "a_masked a")
      case True
      have "insert (?f d0) (?f ` {d \<in> ran m - {d0}. masked d}) =
            insert (?f d0) (?f ` {d \<in> ran m. masked d})"
        by (rule image_minus_one)
      with d0(1) have "insert (strip_kc ?i) (?f ` {d \<in> ran m - {d0}. masked d}) =
            insert (strip_kc ?i) (?f ` {d \<in> ran m. masked d})" by simp
      with True show ?thesis by (simp only: r' S masked_image_insert if_True)
    next
      case False
      with a d0 have "\<not> masked d0" by simp
      then have "{d \<in> ran m - {d0}. masked d} = {d \<in> ran m. masked d}" by auto
      with False show ?thesis by (simp only: r' S masked_image_insert if_False)
    qed
  qed
qed

lemma masked_fold:
  assumes "\<forall>a\<in>set as. a_masked a \<longleftrightarrow> CHR ''k'' \<in> set (a_qmk_id a)"
    and "\<forall>i d. m i = Some d \<longrightarrow> qmk_id d = i \<and> (masked d \<longleftrightarrow> CHR ''k'' \<in> set i)"
    and "S = (\<lambda>d. strip_kc (qmk_id d)) ` {d \<in> ran m. masked d}"
  shows "(\<forall>i d. Q_of env as m i = Some d \<longrightarrow> qmk_id d = i \<and> (masked d \<longleftrightarrow> CHR ''k'' \<in> set i)) \<and>
         M_of as S = (\<lambda>d. strip_kc (qmk_id d)) ` {d \<in> ran (Q_of env as m). masked d}"
  using assms
proof (induction as arbitrary: m S)
  case Nil
  then show ?case by simp
next
  case (Cons a as)
  let ?m = "m(a_qmk_id a \<mapsto> mk_keycode env a)"
  let ?S = "if a_masked a then insert (strip_kc (a_qmk_id a)) S else S"
  from Cons.prems(1) have a: "a_masked a \<longleftrightarrow> CHR ''k'' \<in> set (a_qmk_id a)" by simp
  have 1: "\<forall>a\<in>set as. a_masked a \<longleftrightarrow> CHR ''k'' \<in> set (a_qmk_id a)" using Cons.prems(1) by simp
  have 2: "\<forall>i d. ?m i = Some d \<longrightarrow> qmk_id d = i \<and> (masked d \<longleftrightarrow> CHR ''k'' \<in> set i)"
    using Cons.prems(2) a by auto
  have 3: "?S = (\<lambda>d. strip_kc (qmk_id d)) ` {d \<in> ran ?m. masked d}"
    using Cons.prems(2) a Cons.prems(3) by (rule masked_step)
  from Cons.IH[OF 1 2 3] show ?case unfolding Q_of_Cons M_of_Cons .
qed

lemma flag_of_id:
  assumes "a \<in> set (registry_args cfg)"
  shows "a_masked a \<longleftrightarrow> CHR ''k'' \<in> set (a_qmk_id a)"
proof (cases "a_masked a")
  case True
  with assms have "\<exists>p. a_qmk_id a = p @ ''(kc)''" using key_masked by blast
  then obtain p where "a_qmk_id a = p @ ''(kc)''" ..
  then have "CHR ''k'' \<in> set (a_qmk_id a)" by simp
  with True show ?thesis by simp
next
  case False
  with assms have "strip_kc (a_qmk_id a) = a_qmk_id a" by (rule key_plain)
  with key_no_k[OF assms] have "CHR ''k'' \<notin> set (a_qmk_id a)" by simp
  with False show ?thesis by simp
qed

lemma registry_all:
  "midi kb = Some ''advanced'' \<Longrightarrow> set (registry_args (Some kb)) = set static_args \<union> set (dyn_args kb)"
  by (auto simp: registry_args_def static_args_def dyn_args_def midi_args_def)

lemma dyn_args_midi [simp]: "dyn_args (kb\<lparr>midi := l\<rparr>) = dyn_args kb"
  by (simp add: dyn_args_def user_list_args_def)

lemma flag_of_id_static: "a \<in> set static_args \<Longrightarrow> a_masked a \<longleftrightarrow> CHR ''k'' \<in> set (a_qmk_id a)"
  using registry_args_subset[of None] flag_of_id[of a "Some (undefined\<lparr>midi := Some ''advanced''\<rparr>)"]
    registry_all[of "undefined\<lparr>midi := Some ''advanced''\<rparr>"] by auto

lemma flag_of_id_dyn: "a \<in> set (dyn_args kb) \<Longrightarrow> a_masked a \<longleftrightarrow> CHR ''k'' \<in> set (a_qmk_id a)"
  using flag_of_id[of a "Some (kb\<lparr>midi := Some ''advanced''\<rparr>)"]
    registry_all[of "kb\<lparr>midi := Some ''advanced''\<rparr>"] by auto

lemma reachable_masked_exact:
  assumes "reachable env s"
  shows "(\<forall>i d. qmk_id_to_keycode s i = Some d \<longrightarrow> qmk_id d = i \<and> (masked d \<longleftrightarrow> CHR ''k'' \<in> set i)) \<and>
         masked_keycodes s = (\<lambda>d. strip_kc (qmk_id d)) ` {d \<in> ran (qmk_id_to_keycode s). masked d}"
  using assms
proof (induction rule: reachable.induct)
  case (imported s)
  then have s: "s = snd (module_init env)" by simp
  have "(\<forall>i d. Q_of env static_args Map.empty i = Some d \<longrightarrow> qmk_id d = i \<and> (masked d \<longleftrightarrow> CHR ''k'' \<in> set i)) \<and>
        M_of static_args {} = (\<lambda>d. strip_kc (qmk_id d)) ` {d \<in> ran (Q_of env static_args Map.empty). masked d}"
    by (rule masked_fold) (simp_all add: flag_of_id_static)
  then show ?case unfolding s import_class_fields .
next
  case (rebuilt s kb s')
  then have s': "s' = snd (recreate_keyboard_keycodes env kb s)" by simp
  from rebuilt.IH have
    "(\<forall>i d. Q_of env (dyn_args kb) (qmk_id_to_keycode s) i = Some d \<longrightarrow>
        qmk_id d = i \<and> (masked d \<longleftrightarrow> CHR ''k'' \<in> set i)) \<and>
     M_of (dyn_args kb) (masked_keycodes s) = (\<lambda>d. strip_kc (qmk_id d)) `
       {d \<in> ran (Q_of env (dyn_args kb) (qmk_id_to_keycode s)). masked d}"
    by (intro masked_fold) (simp_all add: flag_of_id_dyn)
  then show ?case unfolding s' rebuild_fields rebuild_class_fields .
next
  case (recreated s s')
  then have s': "s' = snd (recreate_keycodes env s)" by simp
  from recreated.IH show ?case unfolding s' recreate_class_fields .
qed

subsection \<open>Ids that were never constructed\<close>

lemma never_constructed:
  assumes "list_all (\<lambda>a. a_qmk_id a \<noteq> t) static15_args"
    and "\<not> dyn_plain_shape t" and "take 2 t \<noteq> ''LT''"
  shows "t \<notin> a_qmk_id ` set static_args" and "t \<notin> a_qmk_id ` set (dyn_args kb)"
proof -
  have lt: "a_qmk_id (lt_arg x) \<noteq> t" for x using assms(3) by (auto simp: lt_arg_fields)
  have pl: "dyn_plain a \<Longrightarrow> a_qmk_id a \<noteq> t" for a using assms(2) by (auto simp: dyn_plain_def)
  show "t \<notin> a_qmk_id ` set static_args"
    using assms(1) pl hidden_plain by (auto simp: static_args_eq list_all_iff)
  show "t \<notin> a_qmk_id ` set (dyn_args kb)"
    using dyn_args_cases[of _ kb] pl lt by blast
qed

lemma sample_qmk:
  "qmk_id_to_keycode sample_state =
     Q_of sample_env (dyn_args sample_keyboard) (Q_of sample_env static_args Map.empty)"
  by (simp add: sample_state_def sample_import_def rebuild_class_fields import_class_fields)

lemma sample_never_constructed:
  assumes "list_all (\<lambda>a. a_qmk_id a \<noteq> t) static15_args"
    and "\<not> dyn_plain_shape t" and "take 2 t \<noteq> ''LT''"
  shows "qmk_id_to_keycode sample_state t = None"
  using never_constructed[OF assms] by (simp add: sample_qmk Q_of_None)

lemma registered_constructed:
  assumes "reachable env s" and "k \<in> set (KEYCODES s)"
  shows "qmk_id_to_keycode s (qmk_id k) \<noteq> None"
proof -
  from assms(1) obtain cfg where g: "generation env cfg s" using reachable_generation by blast
  with assms(2) obtain a where a: "a \<in> set (registry_args cfg)" "k = mk_keycode env a"
    by (auto simp: generation_keycodes)
  with g have "entered s a" using generation_entered by blast
  with a show ?thesis by (simp add: entered_def)
qed

lemma reachable_wf: "reachable env s \<Longrightarrow> wf_qmk s"
  using reachable_generation generation_ready_parts by blast

subsection \<open>Ids that are constructed but not registered\<close>

lemma registry_no_midi:
  assumes "midi kb = None" and "a \<in> set (registry_args (Some kb))"
  shows "a \<in> set (KEYCODES_SPECIAL_args @ KEYCODES_BASIC_NUMPAD_args @ KEYCODES_BASIC_NAV_args @
           KEYCODES_BASIC_args @ KEYCODES_SHIFTED_args @ KEYCODES_ISO_args @ KEYCODES_ISO_KR_args @
           KEYCODES_BOOT_args @ KEYCODES_MODIFIERS_args @ KEYCODES_QUANTUM_args @
           KEYCODES_BACKLIGHT_args @ KEYCODES_MEDIA_args @ KEYCODES_MACRO_BASE_args) \<or>
         a \<in> set KEYCODES_HIDDEN_args \<or> a \<in> set (dyn_args kb)"
  using assms by (auto simp: registry_args_def dyn_args_def midi_args_def)

lemma not_registered:
  assumes g: "generation env (Some kb) s" and m: "midi kb = None"
    and st: "list_all (\<lambda>a. a_qmk_id a \<noteq> t)
          (KEYCODES_SPECIAL_args @ KEYCODES_BASIC_NUMPAD_args @ KEYCODES_BASIC_NAV_args @
           KEYCODES_BASIC_args @ KEYCODES_SHIFTED_args @ KEYCODES_ISO_args @ KEYCODES_ISO_KR_args @
           KEYCODES_BOOT_args @ KEYCODES_MODIFIERS_args @ KEYCODES_QUANTUM_args @
           KEYCODES_BACKLIGHT_args @ KEYCODES_MEDIA_args @ KEYCODES_MACRO_BASE_args)"
    and sh: "\<not> dyn_plain_shape t" "take 2 t \<noteq> ''LT''" "t \<notin> set modifier_keys" "t \<noteq> ''kc''"
  shows "t \<notin> qmk_id ` set (KEYCODES s)" and "find_keycode s t = None"
proof -
  have id: "a_qmk_id a \<noteq> t" if a: "a \<in> set (registry_args (Some kb))" for a
  proof -
    from registry_no_midi[OF m a] show ?thesis
    proof (elim disjE)
      assume "a \<in> set (KEYCODES_SPECIAL_args @ KEYCODES_BASIC_NUMPAD_args @ KEYCODES_BASIC_NAV_args @
           KEYCODES_BASIC_args @ KEYCODES_SHIFTED_args @ KEYCODES_ISO_args @ KEYCODES_ISO_KR_args @
           KEYCODES_BOOT_args @ KEYCODES_MODIFIERS_args @ KEYCODES_QUANTUM_args @
           KEYCODES_BACKLIGHT_args @ KEYCODES_MEDIA_args @ KEYCODES_MACRO_BASE_args)"
      with st show ?thesis unfolding list_all_iff by blast
    next
      assume "a \<in> set KEYCODES_HIDDEN_args"
      then have "dyn_plain a" by (rule hidden_plain)
      with sh(1) show ?thesis by (auto simp: dyn_plain_def)
    next
      assume "a \<in> set (dyn_args kb)"
      from dyn_args_cases[OF this] show ?thesis
      proof
        assume "dyn_plain a"
        with sh(1) show ?thesis by (auto simp: dyn_plain_def)
      next
        assume "\<exists>x. x < nat (min (layers kb) 16) \<and> a = lt_arg x"
        with sh(2) show ?thesis by (auto simp: lt_arg_fields)
      qed
    qed
  qed
  from g have ks: "KEYCODES s = map (mk_keycode env) (registry_args (Some kb))"
    by (rule generation_keycodes)
  show "t \<notin> qmk_id ` set (KEYCODES s)"
  proof
    assume "t \<in> qmk_id ` set (KEYCODES s)"
    then obtain a where "a \<in> set (registry_args (Some kb))" "a_qmk_id a = t"
      by (auto simp: ks)
    with id show False by blast
  qed
  show "find_keycode s t = None"
  proof (rule find_keycode_no_key[OF g sh(4)])
    fix a assume a: "a \<in> set (registry_args (Some kb))"
    show "strip_kc (a_qmk_id a) \<noteq> t"
    proof (cases "a_masked a")
      case False
      with a have "strip_kc (a_qmk_id a) = a_qmk_id a" by (rule key_plain)
      with id[OF a] show ?thesis by simp
    next
      case True
      from masked_registry_cases[OF a True] show ?thesis
      proof
        assume "a \<in> set (filter a_masked KEYCODES_MODIFIERS_args)"
        then have "a \<in> set static15_args" by (simp add: static15_args_def)
        from static_masked[OF this True] sh(3) show ?thesis by auto
      next
        assume "\<exists>kb' x. Some kb = Some kb' \<and> x < nat (min (layers kb') 16) \<and> a = lt_arg x"
        then obtain x where "a = lt_arg x" by blast
        with sh(2) show ?thesis by (auto simp: strip_lt)
      qed
    qed
  qed
qed

lemma MI_C_static:
  "list_all (\<lambda>a. a_qmk_id a \<noteq> ''MI_C'')
          (KEYCODES_SPECIAL_args @ KEYCODES_BASIC_NUMPAD_args @ KEYCODES_BASIC_NAV_args @
           KEYCODES_BASIC_args @ KEYCODES_SHIFTED_args @ KEYCODES_ISO_args @ KEYCODES_ISO_KR_args @
           KEYCODES_BOOT_args @ KEYCODES_MODIFIERS_args @ KEYCODES_QUANTUM_args @
           KEYCODES_BACKLIGHT_args @ KEYCODES_MEDIA_args @ KEYCODES_MACRO_BASE_args)"
  by (simp add: static_defs K_def)

lemma MI_C_constructed: "''MI_C'' \<in> a_qmk_id ` set static_args"
proof -
  have "list_ex (\<lambda>a. a_qmk_id a = ''MI_C'') KEYCODES_MIDI_BASIC_args"
    by (simp add: KEYCODES_MIDI_BASIC_args_def K_def)
  then obtain a where a: "a \<in> set KEYCODES_MIDI_BASIC_args" "a_qmk_id a = ''MI_C''"
    unfolding list_ex_iff by blast
  from a(1) have "a \<in> set static_args" by (simp add: static_args_def)
  with a(2) show ?thesis by force
qed

lemma sample_constructed:
  "t \<in> a_qmk_id ` set static_args \<Longrightarrow> qmk_id_to_keycode sample_state t \<noteq> None"
  by (simp add: sample_qmk Q_of_None)

lemma sample_tables [simp]:
  "kc_table sample_env s = sample_kc" "masked_table sample_env s = {0x0200}"
  by (simp_all add: kc_table_def masked_table_def sample_env_def)

lemma sample_resolve: "resolve sample_env s i = Inr (the (sample_kc i))"
  by (simp add: resolve_def sample_kc_def)

lemma sample_deserialize:
  assumes "t \<in> a_qmk_id ` set static_args"
  shows "deserialize sample_env sample_state (PyStr t) r = Inr (the (sample_kc t))"
proof -
  have "wf_qmk sample_state" using reachable_sample_state by (rule reachable_wf)
  moreover from assms have "qmk_id_to_keycode sample_state t \<noteq> None" by (rule sample_constructed)
  ultimately have "deserialize sample_env sample_state (PyStr t) r = resolve sample_env sample_state t"
    by (rule deserialize_registered)
  then show ?thesis by (simp only: sample_resolve)
qed

lemma sample_fallback: "anykc_decode sample_env t = Inl (DecodeError t)"
  by (simp add: sample_env_def)

lemma sample_midi: "midi sample_keyboard = None"
  by (simp add: sample_keyboard_def)

lemma KC_unknown_static: "list_all (\<lambda>a. a_qmk_id a \<noteq> ''KC_??'') static15_args"
  unfolding static15_args_def by (simp add: static_defs K_def)

lemma KC_A_constructed: "''KC_A'' \<in> a_qmk_id ` set static_args"
proof -
  have "list_ex (\<lambda>a. a_qmk_id a = ''KC_A'') KEYCODES_BASIC_args"
    by (simp add: KEYCODES_BASIC_args_def K_def)
  then obtain a where a: "a \<in> set KEYCODES_BASIC_args" "a_qmk_id a = ''KC_A''"
    unfolding list_ex_iff by blast
  from a(1) have "a \<in> set static_args" by (simp add: static_args_def)
  with a(2) show ?thesis by force
qed

subsection \<open>The composite raw value, and the raw table of the sample state\<close>



lemma sample_resolve_ids [simp]:
  "resolve sample_env s ''LSFT(kc)'' = Inr 0x0200" "resolve sample_env s ''KC_NO'' = Inr 0"
  "resolve sample_env s ''RESET'' = Inr 0x5C00" "resolve sample_env s ''KC_A'' = Inr 4"
  by (simp_all add: resolve_def sample_kc_def)















subsection \<open>Lookups in the two maps of a generation\<close>





subsection \<open>The round trip in the sample state\<close>















text \<open>
  Claim C3, as amended. A string that is not a key of \<open>Keycode.qmk_id_to_keycode\<close> and that
  the expression fallback fails to parse deserializes to \<open>0\<close> when \<open>reraise\<close> is false, and
  the fallback's error is propagated unchanged when \<open>reraise\<close> is true; an integer argument
  is returned unchanged. The dictionary is never cleared: in a reachable state its keys are
  the ids of all descriptors constructed since the import, among them the id of every
  descriptor of \<open>KEYCODES\<close>, and for a string that is such a key \<open>deserialize\<close> returns
  \<open>resolve\<close> of that string, whatever \<open>reraise\<close> is and without consulting the fallback.
\<close>

theorem deserialize_unrecognized:
  "(qmk_id_to_keycode s t = None \<and> anykc_decode env t = Inl e \<longrightarrow>
      deserialize env s (PyStr t) False = Inr 0 \<and> deserialize env s (PyStr t) True = Inl e) \<and>
   (reachable env s \<longrightarrow>
      (qmk_id_to_keycode s t \<noteq> None \<longrightarrow> deserialize env s (PyStr t) r = resolve env s t) \<and>
      qmk_id ` set (KEYCODES s) \<subseteq> dom (qmk_id_to_keycode s)) \<and>
   deserialize env s (PyInt n) r = Inr n"
proof (intro conjI impI)
  assume "qmk_id_to_keycode s t = None \<and> anykc_decode env t = Inl e"
  then show "deserialize env s (PyStr t) False = Inr 0" and "deserialize env s (PyStr t) True = Inl e"
    by (simp_all add: deserialize_def)
next
  assume "reachable env s" and "qmk_id_to_keycode s t \<noteq> None"
  then show "deserialize env s (PyStr t) r = resolve env s t"
    using reachable_wf deserialize_registered by blast
next
  assume "reachable env s"
  then show "qmk_id ` set (KEYCODES s) \<subseteq> dom (qmk_id_to_keycode s)"
    using registered_constructed by (auto simp: dom_def)
next
  show "deserialize env s (PyInt n) r = Inr n" by (simp add: deserialize_def)
qed

theorem deserialize_unrecognized_witness:
  "qmk_id_to_keycode sample_state ''KC_??'' = None \<and>
   anykc_decode sample_env ''KC_??'' = Inl (DecodeError ''KC_??'') \<and>
   deserialize sample_env sample_state (PyStr ''KC_??'') False = Inr 0 \<and>
   deserialize sample_env sample_state (PyStr ''KC_??'') True = Inl (DecodeError ''KC_??'') \<and>
   reachable sample_env sample_state \<and>
   qmk_id_to_keycode sample_state ''KC_A'' \<noteq> None \<and>
   deserialize sample_env sample_state (PyStr ''KC_A'') True = Inr 4 \<and>
   qmk_id ` set (KEYCODES sample_state) \<subseteq> dom (qmk_id_to_keycode sample_state) \<and>
   deserialize sample_env sample_state (PyInt 42) True = Inr 42"
proof -
  have 1: "qmk_id_to_keycode sample_state ''KC_??'' = None"
    by (rule sample_never_constructed[OF KC_unknown_static]) (simp_all add: dyn_plain_shape_def)
  have 2: "anykc_decode sample_env ''KC_??'' = Inl (DecodeError ''KC_??'')" by (rule sample_fallback)
  have 3: "qmk_id_to_keycode sample_state ''KC_A'' \<noteq> None"
    using KC_A_constructed by (rule sample_constructed)
  have 4: "resolve sample_env sample_state ''KC_A'' = Inr 4"
    by (simp add: sample_resolve sample_kc_def)
  from 1 2 3 4 reachable_sample_state
    deserialize_unrecognized[of sample_state "''KC_??''" sample_env "DecodeError ''KC_??''" True 42]
    deserialize_unrecognized[of sample_state "''KC_A''" sample_env "DecodeError ''KC_A''" True 42]
  show ?thesis by simp
qed

text \<open>
  The claim as stated fails when ``registered'' is read as membership of the registry.
  After the import and a rebuild for a keyboard without MIDI support, \<open>MI_C\<close> is the id of
  no descriptor of \<open>KEYCODES\<close>, \<open>find\<close> does not know it and the sample fallback rejects it,
  but the descriptor constructed at import is still in \<open>Keycode.qmk_id_to_keycode\<close>:
  \<open>deserialize\<close> returns the table's value for it and raises nothing, for either value of
  \<open>reraise\<close>.
\<close>

theorem deserialize_stale_id_counterexample:
  "reachable sample_env sample_state \<and>
   ''MI_C'' \<notin> qmk_id ` set (KEYCODES sample_state) \<and>
   find_keycode sample_state ''MI_C'' = None \<and>
   anykc_decode sample_env ''MI_C'' = Inl (DecodeError ''MI_C'') \<and>
   deserialize sample_env sample_state (PyStr ''MI_C'') False = Inr 0x7FFF \<and>
   deserialize sample_env sample_state (PyStr ''MI_C'') True = Inr 0x7FFF"
proof (intro conjI)
  show "reachable sample_env sample_state" by (rule reachable_sample_state)
  show "''MI_C'' \<notin> qmk_id ` set (KEYCODES sample_state)"
    by (rule not_registered(1)[OF generation_sample_state sample_midi MI_C_static])
       (simp_all add: dyn_plain_shape_def modifier_keys_def)
  show "find_keycode sample_state ''MI_C'' = None"
    by (rule not_registered(2)[OF generation_sample_state sample_midi MI_C_static])
       (simp_all add: dyn_plain_shape_def modifier_keys_def)
  show "anykc_decode sample_env ''MI_C'' = Inl (DecodeError ''MI_C'')" by (rule sample_fallback)
  show "deserialize sample_env sample_state (PyStr ''MI_C'') False = Inr 0x7FFF"
    by (simp add: sample_deserialize[OF MI_C_constructed] sample_kc_def)
  show "deserialize sample_env sample_state (PyStr ''MI_C'') True = Inr 0x7FFF"
    by (simp add: sample_deserialize[OF MI_C_constructed] sample_kc_def)
qed

text \<open>
  Claim C4. Regeneration is idempotent: from any state, running
  \<open>recreate_keyboard_keycodes\<close> a second time with the same capability snapshot ends as
  the first run did (it returns or raises alike) and leaves the same key set of
  \<open>KEYCODES_MAP\<close> and the same list \<open>KEYCODES\<close> (in fact the same state); and no run
  raises the duplicate-alias error \<open>Misconfigured\<close>.
\<close>

theorem regeneration_idempotent:
  "dom (KEYCODES_MAP (snd (recreate_keyboard_keycodes env kb (snd (recreate_keyboard_keycodes env kb s))))) =
     dom (KEYCODES_MAP (snd (recreate_keyboard_keycodes env kb s))) \<and>
   KEYCODES (snd (recreate_keyboard_keycodes env kb (snd (recreate_keyboard_keycodes env kb s)))) =
     KEYCODES (snd (recreate_keyboard_keycodes env kb s)) \<and>
   recreate_keyboard_keycodes env kb (snd (recreate_keyboard_keycodes env kb s)) =
     recreate_keyboard_keycodes env kb s \<and>
   fst (recreate_keyboard_keycodes env kb s) \<noteq> Inl (Misconfigured a)"
proof -
  have "fst (recreate_keyboard_keycodes env kb s) \<noteq> Inl (Misconfigured a)"
  proof
    assume "fst (recreate_keyboard_keycodes env kb s) = Inl (Misconfigured a)"
    then have "recreate_keyboard_keycodes env kb s =
        (Inl (Misconfigured a), snd (recreate_keyboard_keycodes env kb s))"
      by (metis prod.collapse)
    from rebuild_error[OF this] show False by simp
  qed
  then show ?thesis by (simp add: rebuild_twice)
qed

text \<open>
  Claim C5, as amended. In every reachable state the set \<open>Keycode.masked_keycodes\<close>
  is exactly the set of the suffix-stripped ids of the masked descriptors held by
  \<open>Keycode.qmk_id_to_keycode\<close>, the dictionary of all descriptors constructed since the
  import, which is never cleared. It therefore contains the suffix-stripped id of every
  masked descriptor of \<open>KEYCODES\<close>, and it lies between the 35 prefixes of the masked
  descriptors of \<open>KEYCODES_MODIFIERS\<close> and those together with \<open>LT0\<close>, ..., \<open>LT15\<close>. (The set
  is only ever added to, so it can hold prefixes of descriptors that a later rebuild has
  dropped from \<open>KEYCODES\<close>: see the counterexample to the claimed equality below.)
\<close>

theorem masked_keycodes_exact:
  assumes "reachable env s"
  shows "masked_keycodes s =
           (\<lambda>d. strip_kc (qmk_id d)) ` {d \<in> ran (qmk_id_to_keycode s). masked d} \<and>
         (\<lambda>k. strip_kc (qmk_id k)) ` {k \<in> set (KEYCODES s). masked k} \<subseteq> masked_keycodes s \<and>
         set modifier_keys \<subseteq> masked_keycodes s \<and>
         masked_keycodes s \<subseteq> set modifier_keys \<union> (\<lambda>x. ''LT'' @ str_nat x) ` {..<16}"
proof (intro conjI)
  from reachable_masked_exact[OF assms]
  show "masked_keycodes s = (\<lambda>d. strip_kc (qmk_id d)) ` {d \<in> ran (qmk_id_to_keycode s). masked d}"
    by (rule conjunct2)
  show "(\<lambda>k. strip_kc (qmk_id k)) ` {k \<in> set (KEYCODES s). masked k} \<subseteq> masked_keycodes s"
  proof
    fix x assume "x \<in> (\<lambda>k. strip_kc (qmk_id k)) ` {k \<in> set (KEYCODES s). masked k}"
    then obtain k where k: "k \<in> set (KEYCODES s)" "masked k" "x = strip_kc (qmk_id k)" by blast
    from assms obtain cfg where g: "generation env cfg s" using reachable_generation by blast
    with k obtain a where a: "a \<in> set (registry_args cfg)" "k = mk_keycode env a"
      by (auto simp: generation_keycodes)
    with g have "entered s a" using generation_entered by blast
    with a k show "x \<in> masked_keycodes s" by (simp add: entered_def)
  qed
  from reachable_masked_bounds[OF assms]
  show "set modifier_keys \<subseteq> masked_keycodes s" by (rule conjunct1)
  from reachable_masked_bounds[OF assms]
  show "masked_keycodes s \<subseteq> set modifier_keys \<union> (\<lambda>x. ''LT'' @ str_nat x) ` {..<16}"
    by (rule conjunct2)
qed

theorem masked_keycodes_exact_witness:
  "masked_keycodes sample_state =
     (\<lambda>d. strip_kc (qmk_id d)) ` {d \<in> ran (qmk_id_to_keycode sample_state). masked d} \<and>
   (\<lambda>k. strip_kc (qmk_id k)) ` {k \<in> set (KEYCODES sample_state). masked k}
     \<subseteq> masked_keycodes sample_state \<and>
   set modifier_keys \<subseteq> masked_keycodes sample_state \<and>
   masked_keycodes sample_state \<subseteq> set modifier_keys \<union> (\<lambda>x. ''LT'' @ str_nat x) ` {..<16}"
  using masked_keycodes_exact[OF reachable_sample_state] .

text \<open>
  The claim as stated fails: after a rebuild for two layers and then one for a single
  layer, \<open>LT1\<close> is still a masked prefix, but no masked descriptor of the registry has
  that stripped id.
\<close>

theorem masked_keycodes_stale_counterexample:
  "reachable sample_env shrunk_state \<and>
   ''LT1'' \<in> masked_keycodes shrunk_state \<and>
   ''LT1'' \<notin> (\<lambda>k. strip_kc (qmk_id k)) ` {k \<in> set (KEYCODES shrunk_state). masked k}"
proof (intro conjI)
  show "reachable sample_env shrunk_state" by (rule reachable_shrunk_state)
  have k1: "strip_kc (a_qmk_id (lt_arg 1)) = ''LT1''" by (simp add: strip_lt)
  have "lt_arg 1 \<in> set (dyn_args (sample_keyboard\<lparr>layers := 2\<rparr>))"
    by (simp add: dyn_args_def layer_args_def lt_args_eq)
  moreover have "a_masked (lt_arg 1)" by (simp add: lt_arg_fields)
  ultimately have "strip_kc (a_qmk_id (lt_arg 1)) \<in> M_of (dyn_args (sample_keyboard\<lparr>layers := 2\<rparr>)) S" for S
    by (simp only: M_of_eq) blast
  then show "''LT1'' \<in> masked_keycodes shrunk_state"
    by (simp only: k1 shrunk_state_def rebuild_fields M_of_eq) blast
  show "''LT1'' \<notin> (\<lambda>k. strip_kc (qmk_id k)) ` {k \<in> set (KEYCODES shrunk_state). masked k}"
  proof
    assume "''LT1'' \<in> (\<lambda>k. strip_kc (qmk_id k)) ` {k \<in> set (KEYCODES shrunk_state). masked k}"
    then obtain a where a: "a \<in> set (registry_args (Some (sample_keyboard\<lparr>layers := 1\<rparr>)))"
        "a_masked a" "strip_kc (a_qmk_id a) = ''LT1''"
      by (auto simp: shrunk_state_def rebuild_fields)
    from masked_registry_cases[OF a(1,2)] show False
    proof
      assume "a \<in> set (filter a_masked KEYCODES_MODIFIERS_args)"
      then have "a_qmk_id a \<in> set (map a_qmk_id (filter a_masked KEYCODES_MODIFIERS_args))"
        by (simp only: set_map) blast
      then obtain k where k: "k \<in> set modifier_keys" "a_qmk_id a = k @ ''(kc)''"
        by (auto simp: modifiers_masked)
      then have "strip_kc (a_qmk_id a) = k"
        using replace_kc_suffix modifier_key_facts(2) by simp
      with a(3) k(1) show False using modifier_key_facts(4)[of "''LT1''"] by simp
    next
      assume "\<exists>kb x. Some (sample_keyboard\<lparr>layers := 1\<rparr>) = Some kb \<and> x < nat (min (layers kb) 16) \<and> a = lt_arg x"
      then have "a = lt_arg 0" by auto
      with a(3) have "''LT'' @ str_nat 0 = ''LT1''" by (simp add: strip_lt)
      then show False by simp
    qed
  qed
qed






lemma user_args_ids:
  "map a_qmk_id user_args =
     [''USER00'', ''USER01'', ''USER02'', ''USER03'', ''USER04'', ''USER05'', ''USER06'', ''USER07'',
      ''USER08'', ''USER09'', ''USER10'', ''USER11'', ''USER12'', ''USER13'', ''USER14'', ''USER15'']"
  by code_simp

text \<open>
  Claim C7, as amended. The rebuild generates one user descriptor per entry of the custom
  keycode list, with the entry's short name, title and name (\<open>custom_user_args\<close>), when
  the keyboard supplies a list that is not empty; when the list is absent or empty it
  generates the fixed generic set of 16 descriptors \<open>USER00\<close> .. \<open>USER15\<close>.
\<close>

theorem user_keycodes_generated:
  "KEYCODES_USER (snd (recreate_keyboard_keycodes env kb s)) =
     map (mk_keycode env)
       (case custom_keycodes kb of
          None \<Rightarrow> user_args
        | Some custom \<Rightarrow> if custom = [] then user_args else custom_user_args custom) \<and>
   length (custom_user_args custom') = length custom' \<and>
   map qmk_id (map (mk_keycode env) user_args) =
     [''USER00'', ''USER01'', ''USER02'', ''USER03'', ''USER04'', ''USER05'', ''USER06'', ''USER07'',
      ''USER08'', ''USER09'', ''USER10'', ''USER11'', ''USER12'', ''USER13'', ''USER14'', ''USER15'']"
proof (intro conjI)
  show "KEYCODES_USER (snd (recreate_keyboard_keycodes env kb s)) =
     map (mk_keycode env)
       (case custom_keycodes kb of
          None \<Rightarrow> user_args
        | Some custom \<Rightarrow> if custom = [] then user_args else custom_user_args custom)"
    by (simp add: rebuild_fields user_list_args_def split: option.splits)
  show "length (custom_user_args custom') = length custom'"
    by (simp add: custom_user_args_def)
  have "map qmk_id (map (mk_keycode env) user_args) = map a_qmk_id user_args"
    by (simp add: comp_def)
  then show "map qmk_id (map (mk_keycode env) user_args) =
     [''USER00'', ''USER01'', ''USER02'', ''USER03'', ''USER04'', ''USER05'', ''USER06'', ''USER07'',
      ''USER08'', ''USER09'', ''USER10'', ''USER11'', ''USER12'', ''USER13'', ''USER14'', ''USER15'']"
    by (simp only: user_args_ids)
qed

text \<open>
  The claim as stated fails: for a keyboard that supplies an empty list of custom keycodes
  the rebuild does not leave zero user descriptors but the 16 generic ones.
\<close>

theorem empty_custom_list_counterexample:
  "custom_keycodes (sample_keyboard\<lparr>custom_keycodes := Some []\<rparr>) = Some [] \<and>
   reachable sample_env empty_custom_state \<and>
   map qmk_id (KEYCODES_USER empty_custom_state) =
     [''USER00'', ''USER01'', ''USER02'', ''USER03'', ''USER04'', ''USER05'', ''USER06'', ''USER07'',
      ''USER08'', ''USER09'', ''USER10'', ''USER11'', ''USER12'', ''USER13'', ''USER14'', ''USER15'']"
proof -
  have "KEYCODES_USER empty_custom_state = map (mk_keycode sample_env) user_args"
    by (simp add: empty_custom_state_def rebuild_fields user_list_args_def)
  then have "map qmk_id (KEYCODES_USER empty_custom_state) = map a_qmk_id user_args"
    by (simp add: comp_def)
  then show ?thesis
    by (simp only: user_args_ids reachable_empty_custom_state) simp
qed




text \<open>
  Claim C9. \<open>KEYCODES_MAP\<close> is keyed on the ids with the suffix \<open>(kc)\<close> stripped: in every
  reachable state, every masked descriptor \<open>d\<close> of \<open>KEYCODES\<close> has an id of the form
  \<open>OUTER(kc)\<close>, \<open>find("OUTER")\<close> returns \<open>d\<close> while \<open>find("OUTER(kc)")\<close> returns nothing, and
  \<open>find_outer_keycode\<close> on a composite \<open>OUTER(INNER)\<close>, which looks up the stripped key
  \<open>OUTER\<close>, returns \<open>d\<close>, whatever the text \<open>INNER\<close> is.
\<close>

theorem masked_filed_under_stripped_id:
  assumes "reachable env s" and "d \<in> set (KEYCODES s)" and "masked d"
  shows "\<exists>outer. qmk_id d = outer @ ''(kc)'' \<and>
           find_keycode s outer = Some d \<and>
           find_keycode s (outer @ ''(kc)'') = None \<and>
           (\<forall>inner. find_outer_keycode s (outer @ ''('' @ inner @ '')'') = Some d)"
proof -
  from assms(1) obtain cfg where g: "generation env cfg s" using reachable_generation by blast
  with assms(2) obtain a where a: "a \<in> set (registry_args cfg)" "d = mk_keycode env a"
    by (auto simp: generation_keycodes)
  with assms(3) have m: "a_masked a" by simp
  define outer where "outer = strip_kc (a_qmk_id a)"
  from key_masked[OF a(1) m] have form: "a_qmk_id a = outer @ ''(kc)''"
      and np: "CHR ''('' \<notin> set outer"
    unfolding outer_def by blast+
  have key: "strip_kc (a_qmk_id a) = outer" by (simp only: outer_def)
  from form a(2) have id: "qmk_id d = outer @ ''(kc)''" by simp
  from key_no_k[OF a(1)] key have nk: "CHR ''k'' \<notin> set outer" by simp
  \<comment> \<open>the stripped key leads to \<open>d\<close>\<close>
  from find_keycode_key[OF g a(1)] obtain b where b: "b \<in> set (registry_args cfg)"
      "find_keycode s (strip_kc (a_qmk_id a)) = Some (mk_keycode env b)"
      "strip_kc (a_qmk_id b) = strip_kc (a_qmk_id a)"
    by blast
  from a(1) m b(1,3) have "b = a" by (rule key_masked_unique)
  with b(2) key a(2) have 1: "find_keycode s outer = Some d" by simp
  \<comment> \<open>the full id is no key\<close>
  have "strip_kc (a_qmk_id c) \<noteq> outer @ ''(kc)''" if "c \<in> set (registry_args cfg)" for c
    using key_no_k[OF that] by auto
  then have 2: "find_keycode s (outer @ ''(kc)'') = None"
    by (intro find_keycode_no_key[OF g]) auto
  \<comment> \<open>a composite is cut at its first bracket\<close>
  from g a(1) have "entered s a" by (rule generation_entered)
  with m key have pre: "outer \<in> masked_keycodes s" by (simp add: entered_def)
  have 3: "find_outer_keycode s (outer @ ''('' @ inner @ '')'') = Some d" for inner
  proof -
    have f: "str_find (outer @ ''('' @ inner @ '')'') ''('' = int (length outer)"
      using np by (rule str_find_paren)
    have sl: "slice (outer @ ''('' @ inner @ '')'') 0 (int (length outer)) = outer"
      by (rule slice_prefix)
    from f sl pre have "is_mask s (outer @ ''('' @ inner @ '')'')"
      by (simp only: is_mask_def contains_def) simp
    with f sl have "find_outer_keycode s (outer @ ''('' @ inner @ '')'') = find_keycode s outer"
      by (simp only: find_outer_keycode_def if_True)
    with 1 show ?thesis by simp
  qed
  from id 1 2 3 show ?thesis by blast
qed

theorem masked_filed_under_stripped_id_witness:
  "mk_keycode sample_env (K ''LSFT(kc)'' ''LSft\<newline>(kc)'' None True None None None)
     \<in> set (KEYCODES sample_state) \<and>
   find_keycode sample_state ''LSFT'' =
     Some (mk_keycode sample_env (K ''LSFT(kc)'' ''LSft\<newline>(kc)'' None True None None None)) \<and>
   find_keycode sample_state ''LSFT(kc)'' = None \<and>
   find_outer_keycode sample_state ''LSFT(KC_A)'' =
     Some (mk_keycode sample_env (K ''LSFT(kc)'' ''LSft\<newline>(kc)'' None True None None None))"
proof -
  let ?a = "K ''LSFT(kc)'' ''LSft\<newline>(kc)'' None True None None None"
  let ?d = "mk_keycode sample_env ?a"
  have "?a \<in> set KEYCODES_MODIFIERS_args" by (simp add: KEYCODES_MODIFIERS_args_def)
  then have "?a \<in> set (registry_args (Some sample_keyboard))" by (simp add: registry_args_def)
  then have d: "?d \<in> set (KEYCODES sample_state)"
    using generation_keycodes[OF generation_sample_state] by simp
  have m: "masked ?d" by (simp add: K_def)
  have i: "qmk_id ?d = ''LSFT'' @ ''(kc)''" by (simp add: K_def)
  from masked_filed_under_stripped_id[OF reachable_sample_state d m]
  obtain outer where o: "qmk_id ?d = outer @ ''(kc)''" "find_keycode sample_state outer = Some ?d"
      "find_keycode sample_state (outer @ ''(kc)'') = None"
      "\<forall>inner. find_outer_keycode sample_state (outer @ ''('' @ inner @ '')'') = Some ?d"
    by blast
  from o(1) have "outer = ''LSFT''" unfolding i by (simp only: append_same_eq)
  with o(2,3) o(4)[rule_format, of "''KC_A''"] d show ?thesis by simp
qed

text \<open>
  Claim C10. In every reachable state (after the import and after every rebuild that
  returned), and whatever the tap-dance count of the snapshot, \<open>find("TD(n)")\<close> returns
  a descriptor with id \<open>TD(n)\<close>, for every \<open>n\<close> from 0 to 255.
\<close>

theorem hidden_tap_dance_present:
  assumes "reachable env s" and "n < 256"
  shows "\<exists>d. find_keycode s (''TD('' @ str_nat n @ '')'') = Some d \<and>
             qmk_id d = ''TD('' @ str_nat n @ '')''"
proof -
  let ?a = "K (''TD('' @ str_nat n @ '')'') (''TD('' @ str_nat n @ '')'') None False None None None"
  from assms(1) obtain cfg where g: "generation env cfg s" using reachable_generation by blast
  from assms(2) have a: "?a \<in> set (registry_args cfg)" by (rule hidden_mem)
  have id: "a_qmk_id ?a = ''TD('' @ str_nat n @ '')''" and nm: "\<not> a_masked ?a"
    by (simp_all add: K_def)
  from a nm have key: "strip_kc (a_qmk_id ?a) = a_qmk_id ?a" by (rule key_plain)
  from find_keycode_key[OF g a] obtain b where b: "b \<in> set (registry_args cfg)"
      "find_keycode s (strip_kc (a_qmk_id ?a)) = Some (mk_keycode env b)"
      "strip_kc (a_qmk_id b) = strip_kc (a_qmk_id ?a)"
    by blast
  from a b(1,3) have "a_qmk_id b = a_qmk_id ?a" by (rule same_key_same_id)
  with b(2) key id show ?thesis by simp
qed

theorem hidden_tap_dance_present_witness:
  "tap_dance_count sample_keyboard = 0 \<and>
   (\<exists>d. find_keycode sample_state ''TD(1)'' = Some d \<and> qmk_id d = ''TD(1)'')"
  using hidden_tap_dance_present[OF reachable_sample_state, of 1]
  by (simp add: sample_keyboard_def)

end
